(* ===== verification/Prelude.thy ===== *)
theory Prelude
  imports Main "HOL-Library.Word"
begin

text \<open>
  Shared vocabulary of the development: the machine types of the Rust code, its
  saturating arithmetic on \<open>i64\<close>, strings as byte sequences, the rendering of numbers
  in \<open>format!\<close>, and a small calculus for fallible operations on a mutable state.

  A Rust \<open>Result<T, E>\<close> is the sum \<open>'e + 'a\<close> (\<open>Inl\<close> the error). A method with
  \<open>&mut self\<close> that returns a \<open>Result\<close> is a function from the state to the result
  and the state it leaves: an early return with \<open>?\<close> keeps the updates made so far, so
  the state is returned beside errors too.
\<close>

section \<open>Collections of facts\<close>

named_theorems op_simps \<open>evaluation of fallible operations on a state\<close>
named_theorems i64_simps \<open>signed and unsigned readings of 64-bit arithmetic\<close>
named_theorems keeps_intros \<open>rules for properties every outcome of an operation keeps\<close>

section \<open>Machine types\<close>

type_synonym i64 = "64 word"
type_synonym u64 = "64 word"
type_synonym u8 = "8 word"
type_synonym bytes = "u8 list"

text \<open>\<open>i64\<close> and \<open>u64\<close> are the same words read differently: \<open>sint\<close> for the first,
  \<open>uint\<close> for the second. A cast \<open>as i64\<close> of a \<open>u64\<close> is the identity.\<close>

abbreviation i64_min :: int where "i64_min \<equiv> - 9223372036854775808"
abbreviation i64_max :: int where "i64_max \<equiv> 9223372036854775807"

definition clamp_i64 :: "int \<Rightarrow> i64" where
  "clamp_i64 x = word_of_int (max i64_min (min i64_max x))"

definition saturating_add :: "i64 \<Rightarrow> i64 \<Rightarrow> i64" where
  "saturating_add a b = clamp_i64 (sint a + sint b)"

definition saturating_sub :: "i64 \<Rightarrow> i64 \<Rightarrow> i64" where
  "saturating_sub a b = clamp_i64 (sint a - sint b)"

definition saturating_mul :: "i64 \<Rightarrow> i64 \<Rightarrow> i64" where
  "saturating_mul a b = clamp_i64 (sint a * sint b)"

definition abs_diff :: "i64 \<Rightarrow> i64 \<Rightarrow> u64" where
  "abs_diff a b = (if sint a < sint b then b - a else a - b)"

definition unsigned_abs :: "i64 \<Rightarrow> u64" where
  "unsigned_abs a = (if sint a < 0 then - a else a)"

lemma sint_i64_bounds: "i64_min \<le> sint (a :: i64)" "sint (a :: i64) \<le> i64_max"
  using sint_ge [of a] sint_lt [of a] by simp_all

lemma sint_word_of_int_i64:
  assumes "i64_min \<le> x" "x \<le> i64_max"
  shows "sint (word_of_int x :: i64) = x"
proof -
  have "- (2 ^ 63) \<le> x" "x < 2 ^ 63" using assms by simp_all
  then show ?thesis by (simp add: signed_of_int signed_take_bit_int_eq_self)
qed

lemma sint_clamp_i64 [i64_simps]: "sint (clamp_i64 x) = max i64_min (min i64_max x)"
  unfolding clamp_i64_def by (rule sint_word_of_int_i64) auto

lemma sint_saturating_add [i64_simps]:
  "sint (saturating_add a b) = max i64_min (min i64_max (sint a + sint b))"
  by (simp only: saturating_add_def sint_clamp_i64)

lemma sint_saturating_sub [i64_simps]:
  "sint (saturating_sub a b) = max i64_min (min i64_max (sint a - sint b))"
  by (simp only: saturating_sub_def sint_clamp_i64)

lemma sint_saturating_mul [i64_simps]:
  "sint (saturating_mul a b) = max i64_min (min i64_max (sint a * sint b))"
  by (simp only: saturating_mul_def sint_clamp_i64)

lemma uint_word_of_int_u64:
  assumes "0 \<le> x" "x < 18446744073709551616"
  shows "uint (word_of_int x :: u64) = x"
  using assms by (simp add: unsigned_of_int take_bit_int_eq_self)

lemma uint_i64_diff:
  assumes "sint a \<le> sint (b :: i64)"
  shows "uint (b - a) = sint b - sint a"
proof -
  have eq: "b - a = word_of_int (sint b - sint a)"
    by (simp flip: wi_hom_sub)
  have "0 \<le> sint b - sint a" "sint b - sint a < 18446744073709551616"
    using assms sint_i64_bounds [of a] sint_i64_bounds [of b] by linarith+
  then have "uint (word_of_int (sint b - sint a) :: u64) = sint b - sint a"
    by (rule uint_word_of_int_u64)
  then show ?thesis by (simp only: eq)
qed

lemma uint_abs_diff [i64_simps]: "uint (abs_diff a b) = \<bar>sint a - sint b\<bar>"
  using uint_i64_diff [of a b] uint_i64_diff [of b a] by (auto simp: abs_diff_def)

lemma uint_unsigned_abs [i64_simps]: "uint (unsigned_abs a) = \<bar>sint a\<bar>"
  using uint_i64_diff [of a 0] uint_i64_diff [of 0 a] by (auto simp: unsigned_abs_def)

section \<open>Strings\<close>

text \<open>A Rust \<open>String\<close> is its UTF-8 bytes, held as a \<open>string\<close> of 8-bit characters.\<close>

definition as_bytes :: "string \<Rightarrow> bytes" where
  "as_bytes s = map of_char s"

definition bytes_string :: "bytes \<Rightarrow> string" where
  "bytes_string bs = map (\<lambda>b. char_of (unat b)) bs"

lemma char_of_unat_of_char [simp]: "char_of (unat (of_char c :: u8)) = c"
proof -
  have "unat (of_char c :: u8) = of_char c"
    by (simp add: of_char_def unat_word_ariths)
  then show ?thesis by simp
qed

lemma bytes_string_as_bytes [simp]: "bytes_string (as_bytes s) = s"
  by (simp add: bytes_string_def as_bytes_def comp_def)

lemma as_bytes_inject [simp]: "as_bytes s = as_bytes t \<longleftrightarrow> s = t"
  by (metis bytes_string_as_bytes)

lemma length_as_bytes [simp]: "length (as_bytes s) = length s"
  by (simp add: as_bytes_def)

lemma as_bytes_append [simp]: "as_bytes (s @ t) = as_bytes s @ as_bytes t"
  by (simp add: as_bytes_def)

text \<open>\<open>String::from_utf8\<close>: the byte sequences that are well-formed UTF-8 (shortest form,
  no surrogates, nothing beyond U+10FFFF).\<close>

definition utf8_cont :: "nat \<Rightarrow> bool" where
  "utf8_cont b \<longleftrightarrow> 128 \<le> b \<and> b \<le> 191"

fun utf8_valid :: "nat list \<Rightarrow> bool" where
  "utf8_valid [] = True"
| "utf8_valid (a # bs) =
     (if a < 128 then utf8_valid bs
      else if 194 \<le> a \<and> a \<le> 223 then
        (case bs of b # cs \<Rightarrow> utf8_cont b \<and> utf8_valid cs | [] \<Rightarrow> False)
      else if 224 \<le> a \<and> a \<le> 239 then
        (case bs of b # c # ds \<Rightarrow>
             utf8_cont b \<and> utf8_cont c \<and> (a = 224 \<longrightarrow> 160 \<le> b) \<and> (a = 237 \<longrightarrow> b \<le> 159) \<and> utf8_valid ds
         | _ \<Rightarrow> False)
      else if 240 \<le> a \<and> a \<le> 244 then
        (case bs of b # c # d # es \<Rightarrow>
             utf8_cont b \<and> utf8_cont c \<and> utf8_cont d \<and> (a = 240 \<longrightarrow> 144 \<le> b) \<and> (a = 244 \<longrightarrow> b \<le> 143)
               \<and> utf8_valid es
         | _ \<Rightarrow> False)
      else False)"

definition from_utf8 :: "bytes \<Rightarrow> string option" where
  "from_utf8 bs = (if utf8_valid (map unat bs) then Some (bytes_string bs) else None)"

text \<open>The type invariant of \<open>String\<close>: its bytes are well-formed UTF-8.\<close>

definition is_utf8 :: "string \<Rightarrow> bool" where
  "is_utf8 s \<longleftrightarrow> utf8_valid (map unat (as_bytes s))"

lemma from_utf8_as_bytes [simp]: "is_utf8 s \<Longrightarrow> from_utf8 (as_bytes s) = Some s"
  by (simp add: from_utf8_def is_utf8_def)

lemma utf8_valid_ascii: "list_all (\<lambda>b. b < 128) bs \<Longrightarrow> utf8_valid bs"
  by (induction bs) auto

text \<open>Decimal rendering of an unsigned number, as \<open>Display\<close> for \<open>u64\<close> writes it.\<close>

definition digit_char :: "nat \<Rightarrow> char" where
  "digit_char n = char_of (48 + n)"

fun show_nat :: "nat \<Rightarrow> string" where
  "show_nat n = (if n < 10 then [digit_char n] else show_nat (n div 10) @ [digit_char (n mod 10)])"

declare show_nat.simps [simp del]

definition show_u64 :: "u64 \<Rightarrow> string" where
  "show_u64 w = show_nat (unat w)"

section \<open>Options and results\<close>

definition ok_or :: "'e \<Rightarrow> 'a option \<Rightarrow> 'e + 'a" where
  "ok_or e x = (case x of None \<Rightarrow> Inl e | Some y \<Rightarrow> Inr y)"

definition then_some :: "bool \<Rightarrow> 'a \<Rightarrow> 'a option" where
  "then_some b x = (if b then Some x else None)"

definition map_err :: "('e \<Rightarrow> 'f) \<Rightarrow> 'e + 'a \<Rightarrow> 'f + 'a" where
  "map_err f r = (case r of Inl e \<Rightarrow> Inl (f e) | Inr x \<Rightarrow> Inr x)"

definition bind_result :: "'e + 'a \<Rightarrow> ('a \<Rightarrow> 'e + 'b) \<Rightarrow> 'e + 'b" where
  "bind_result r f = (case r of Inl e \<Rightarrow> Inl e | Inr x \<Rightarrow> f x)"

text \<open>\<open>iter().map(f).collect::<Result<Vec<_>, _>>()\<close>: the first error wins.\<close>

fun collect_results :: "('e + 'a) list \<Rightarrow> 'e + 'a list" where
  "collect_results [] = Inr []"
| "collect_results (Inl e # rs) = Inl e"
| "collect_results (Inr x # rs) = map_err id (bind_result (collect_results rs) (\<lambda>xs. Inr (x # xs)))"

lemma ok_or_eq [simp]:
  "ok_or e x = Inr y \<longleftrightarrow> x = Some y" "ok_or e x = Inl e' \<longleftrightarrow> x = None \<and> e' = e"
  "ok_or e None = Inl e" "ok_or e (Some y) = Inr y"
  by (auto simp: ok_or_def split: option.splits)

lemma then_some_eq [simp]:
  "then_some b x = Some y \<longleftrightarrow> b \<and> x = y" "then_some b x = None \<longleftrightarrow> \<not> b"
  "then_some True x = Some x" "then_some False x = None"
  by (auto simp: then_some_def)

lemma map_err_eq [simp]:
  "map_err f r = Inr y \<longleftrightarrow> r = Inr y" "map_err f r = Inl e \<longleftrightarrow> (\<exists>e'. r = Inl e' \<and> e = f e')"
  "map_err f (Inl e') = Inl (f e')" "map_err f (Inr y) = Inr y"
  by (auto simp: map_err_def split: sum.splits)

lemma bind_result_eq [simp]:
  "bind_result r f = Inr y \<longleftrightarrow> (\<exists>x. r = Inr x \<and> f x = Inr y)"
  "bind_result (Inl e) f = Inl e" "bind_result (Inr x) f = f x"
  by (auto simp: bind_result_def split: sum.splits)

lemma collect_results_Inr:
  "collect_results rs = Inr xs \<longleftrightarrow> rs = map Inr xs"
  by (induction rs arbitrary: xs rule: collect_results.induct) (auto simp: map_eq_Cons_conv Cons_eq_map_conv)

lemma collect_results_map_Inr:
  "collect_results (map f ys) = Inr xs \<longleftrightarrow> list_all2 (\<lambda>y x. f y = Inr x) ys xs"
  unfolding collect_results_Inr
  by (induction ys arbitrary: xs) (auto simp: list_all2_Cons1 Cons_eq_map_conv)

section \<open>Fallible operations on a state\<close>

type_synonym ('s, 'e, 'a) op = "'s \<Rightarrow> ('e + 'a) \<times> 's"

definition ret :: "'a \<Rightarrow> ('s, 'e, 'a) op" where
  "ret x s = (Inr x, s)"

definition fail :: "'e \<Rightarrow> ('s, 'e, 'a) op" where
  "fail e s = (Inl e, s)"

text \<open>Sequencing with \<open>?\<close>: an error leaves with the state reached so far.\<close>

definition and_then :: "('s, 'e, 'a) op \<Rightarrow> ('a \<Rightarrow> ('s, 'e, 'b) op) \<Rightarrow> ('s, 'e, 'b) op" where
  "and_then m f s = (case m s of (Inl e, t) \<Rightarrow> (Inl e, t) | (Inr x, t) \<Rightarrow> f x t)"

text \<open>A computation that only reads the state (or nothing at all), with \<open>?\<close>.\<close>

definition try_with :: "('s \<Rightarrow> 'e + 'a) \<Rightarrow> ('s, 'e, 'a) op" where
  "try_with f s = (f s, s)"

definition update_state :: "('s \<Rightarrow> 's) \<Rightarrow> ('s, 'e, unit) op" where
  "update_state f s = (Inr (), f s)"

text \<open>An operation on one field of the state, its error converted by \<open>From\<close>.\<close>

definition on_field ::
  "('s \<Rightarrow> 'c) \<Rightarrow> ('c \<Rightarrow> 's \<Rightarrow> 's) \<Rightarrow> ('e \<Rightarrow> 'f) \<Rightarrow> ('c, 'e, 'a) op \<Rightarrow> ('s, 'f, 'a) op" where
  "on_field get put conv m s = (case m (get s) of (r, c) \<Rightarrow> (map_err conv r, put c s))"

lemma ret_Inr [op_simps]: "ret x s = (Inr y, t) \<longleftrightarrow> y = x \<and> t = s"
  by (auto simp: ret_def)

lemma fail_Inr [op_simps]: "\<not> fail e s = (Inr y, t)"
  by (simp add: fail_def)

lemma and_then_Inr [op_simps]:
  "and_then m f s = (Inr y, u) \<longleftrightarrow> (\<exists>x t. m s = (Inr x, t) \<and> f x t = (Inr y, u))"
  by (auto simp: and_then_def split: prod.splits sum.splits)

lemma and_then_Inl:
  "and_then m f s = (Inl e, u) \<longleftrightarrow>
     m s = (Inl e, u) \<or> (\<exists>x t. m s = (Inr x, t) \<and> f x t = (Inl e, u))"
  by (auto simp: and_then_def split: prod.splits sum.splits)

lemma try_with_Inr [op_simps]: "try_with f s = (Inr y, t) \<longleftrightarrow> f s = Inr y \<and> t = s"
  by (auto simp: try_with_def)

lemma update_state_Inr [op_simps]: "update_state f s = (Inr y, t) \<longleftrightarrow> t = f s"
  by (auto simp: update_state_def)

lemma on_field_Inr [op_simps]:
  "on_field get put conv m s = (Inr y, t) \<longleftrightarrow> (\<exists>c. m (get s) = (Inr y, c) \<and> t = put c s)"
  by (auto simp: on_field_def split: prod.splits)

subsection \<open>Properties every outcome keeps\<close>

text \<open>\<open>keeps P m\<close>: from a state with \<open>P\<close>, \<open>m\<close> ends in a state with \<open>P\<close>, whether it
  returns or fails.\<close>

definition keeps :: "('s \<Rightarrow> bool) \<Rightarrow> ('s, 'e, 'a) op \<Rightarrow> bool" where
  "keeps P m \<longleftrightarrow> (\<forall>s. P s \<longrightarrow> P (snd (m s)))"

lemma keepsD: "keeps P m \<Longrightarrow> P s \<Longrightarrow> m s = (r, t) \<Longrightarrow> P t"
  by (metis keeps_def snd_conv)

lemma keeps_ret [keeps_intros]: "keeps P (ret x)"
  by (simp add: keeps_def ret_def)

lemma keeps_fail [keeps_intros]: "keeps P (fail e)"
  by (simp add: keeps_def fail_def)

lemma keeps_and_then [keeps_intros]:
  "keeps P m \<Longrightarrow> (\<And>x. keeps P (f x)) \<Longrightarrow> keeps P (and_then m f)"
  by (auto simp: keeps_def and_then_def split: prod.splits sum.splits)

lemma keeps_try_with [keeps_intros]: "keeps P (try_with f)"
  by (simp add: keeps_def try_with_def)

lemma keeps_update_state: "(\<And>s. P s \<Longrightarrow> P (f s)) \<Longrightarrow> keeps P (update_state f)"
  by (simp add: keeps_def update_state_def)

lemma keeps_on_field: "(\<And>s c. P s \<Longrightarrow> P (put c s)) \<Longrightarrow> keeps P (on_field get put conv m)"
  by (simp add: keeps_def on_field_def split: prod.splits)

subsection \<open>Postconditions of successful and failed runs\<close>

definition triple ::
  "('s \<Rightarrow> bool) \<Rightarrow> ('s, 'e, 'a) op \<Rightarrow> ('a \<Rightarrow> 's \<Rightarrow> bool) \<Rightarrow> ('e \<Rightarrow> 's \<Rightarrow> bool) \<Rightarrow> bool" where
  "triple P m Q E \<longleftrightarrow>
     (\<forall>s. P s \<longrightarrow> (case m s of (Inl e, t) \<Rightarrow> E e t | (Inr x, t) \<Rightarrow> Q x t))"

lemma tripleD_Inr: "triple P m Q E \<Longrightarrow> P s \<Longrightarrow> m s = (Inr x, t) \<Longrightarrow> Q x t"
  by (fastforce simp: triple_def)

lemma tripleD_Inl: "triple P m Q E \<Longrightarrow> P s \<Longrightarrow> m s = (Inl e, t) \<Longrightarrow> E e t"
  by (fastforce simp: triple_def)

lemma triple_and_then:
  "triple P m R E \<Longrightarrow> (\<And>x. triple (R x) (f x) Q E) \<Longrightarrow> triple P (and_then m f) Q E"
  by (fastforce simp: triple_def and_then_def split: prod.splits sum.splits)

lemma triple_try_with:
  "(\<And>s x. P s \<Longrightarrow> f s = Inr x \<Longrightarrow> Q x s) \<Longrightarrow> (\<And>s e. P s \<Longrightarrow> f s = Inl e \<Longrightarrow> E e s)
     \<Longrightarrow> triple P (try_with f) Q E"
  by (auto simp: triple_def try_with_def split: sum.splits)

lemma triple_update_state:
  "(\<And>s. P s \<Longrightarrow> Q () (f s)) \<Longrightarrow> triple P (update_state f) Q E"
  by (auto simp: triple_def update_state_def)

subsection \<open>Sequences of operations\<close>

text \<open>One operation per input, in order, the state threaded through; the results are
  collected, errors included.\<close>

fun run_all :: "('k \<Rightarrow> ('s, 'e, 'a) op) \<Rightarrow> 'k list \<Rightarrow> 's \<Rightarrow> ('e + 'a) list \<times> 's" where
  "run_all f [] s = ([], s)"
| "run_all f (k # ks) s =
     (case f k s of (r, t) \<Rightarrow> (case run_all f ks t of (rs, u) \<Rightarrow> (r # rs, u)))"

text \<open>The inputs whose operation succeeded.\<close>

fun accepted :: "'k list \<Rightarrow> ('e + 'a) list \<Rightarrow> 'k list" where
  "accepted (k # ks) (Inr _ # rs) = k # accepted ks rs"
| "accepted (k # ks) (Inl _ # rs) = accepted ks rs"
| "accepted _ _ = []"

lemma map_filter_split:
  "List.map_filter f xs = ys @ y # zs \<Longrightarrow> \<exists>as x bs. xs = as @ x # bs \<and> f x = Some y \<and> List.map_filter f as = ys"
proof (induction xs arbitrary: ys)
  case (Cons x xs)
  show ?case
  proof (cases "f x")
    case None
    with Cons.prems Cons.IH [of ys] obtain as x' bs where "xs = as @ x' # bs" "f x' = Some y" "List.map_filter f as = ys"
      by (auto simp: map_filter_simps)
    with None show ?thesis by (intro exI [of _ "x # as"]) (auto simp: map_filter_simps)
  next
    case (Some z)
    show ?thesis
    proof (cases ys)
      case Nil
      with Some Cons.prems show ?thesis by (intro exI [of _ "[]"]) (auto simp: map_filter_simps)
    next
      case (Cons w ws)
      with Some Cons.prems Cons.IH [of ws] obtain as x' bs where
          "xs = as @ x' # bs" "f x' = Some y" "List.map_filter f as = ws" "w = z"
        by (auto simp: map_filter_simps)
      with Some Cons show ?thesis by (intro exI [of _ "x # as"]) (auto simp: map_filter_simps)
    qed
  qed
qed (simp add: map_filter_simps)

lemma run_all_append:
  "run_all f (xs @ ys) s =
     (case run_all f xs s of (rs, t) \<Rightarrow> (case run_all f ys t of (qs, u) \<Rightarrow> (rs @ qs, u)))"
  by (induction f xs s rule: run_all.induct) (auto split: prod.splits)

lemma length_run_all: "length (fst (run_all f ks s)) = length ks"
  by (induction f ks s rule: run_all.induct) (auto split: prod.splits)

lemma run_all_nth:
  "j < length ks \<Longrightarrow> fst (run_all f ks s) ! j = fst (f (ks ! j) (snd (run_all f (take j ks) s)))"
proof (induction ks arbitrary: s j)
  case (Cons k ks)
  then show ?case by (cases j) (simp_all add: case_prod_beta)
qed simp

lemma accepted_nth:
  "length rs = length ks \<Longrightarrow> j < length ks \<Longrightarrow> rs ! j = Inr x \<Longrightarrow> ks ! j \<in> set (accepted ks rs)"
proof (induction ks rs arbitrary: j rule: accepted.induct)
  case (1 k ks y rs)
  then show ?case by (cases j) auto
next
  case (2 k ks e rs)
  then show ?case by (cases j) auto
qed auto

text \<open>A machine: operations that all keep an invariant keep it over any sequence.\<close>

locale machine =
  fixes step :: "'k \<Rightarrow> ('s, 'e, 'a) op" and inv :: "'s \<Rightarrow> bool"
  assumes step_keeps: "keeps inv (step k)"
begin

lemma inv_step: "inv s \<Longrightarrow> inv (snd (step k s))"
  using step_keeps by (simp add: keeps_def)

lemma inv_run: "inv s \<Longrightarrow> inv (snd (run_all step ks s))"
proof (induction ks arbitrary: s)
  case Nil
  then show ?case by simp
next
  case (Cons k ks)
  then have "inv (snd (run_all step ks (snd (step k s))))"
    by (intro Cons.IH inv_step)
  then show ?case by (auto split: prod.splits)
qed

end

text \<open>Operations that present a token: success needs it unused and uses it up, and nothing used
  becomes unused, whatever else fails.\<close>

locale one_time =
  fixes step :: "'c \<Rightarrow> ('s, 'e, 'a) op" and token :: "'c \<Rightarrow> 'k option" and used :: "'s \<Rightarrow> 'k set"
  assumes step_fresh: "step c s = (Inr x, t) \<Longrightarrow> \<exists>k. token c = Some k \<and> k \<notin> used s \<and> k \<in> used t"
    and step_keeps_used: "used s \<subseteq> used (snd (step c s))"
begin

lemma tokens_once:
  assumes "run_all step cs s = (rs, t)"
  shows "distinct (map token (accepted cs rs)) \<and> (\<forall>c \<in> set (accepted cs rs). \<exists>k. token c = Some k \<and> k \<notin> used s)"
  using assms
proof (induction cs arbitrary: s rs)
  case Nil
  then show ?case by simp
next
  case (Cons c cs)
  obtain r u where st: "step c s = (r, u)" by fastforce
  obtain qs where run: "run_all step cs u = (qs, t)" and rs: "rs = r # qs"
    using Cons.prems st by (auto split: prod.splits)
  have mono: "used s \<subseteq> used u" using step_keeps_used [of s c] by (simp add: st)
  note IH = Cons.IH [OF run]
  have older: "\<forall>c \<in> set (accepted cs qs). \<exists>k. token c = Some k \<and> k \<notin> used s" using IH mono by blast
  show ?case
  proof (cases r)
    case (Inl e)
    with IH older show ?thesis by (fastforce simp: rs)
  next
    case (Inr x)
    with step_fresh st obtain k where k: "token c = Some k" "k \<notin> used s" "k \<in> used u" by blast
    with IH have "token c \<notin> token ` set (accepted cs qs)" by force
    with IH older k show ?thesis by (auto simp: rs Inr)
  qed
qed

lemma positions_once:
  assumes "run_all step ks s = (rs, t)" "i < j" "j < length ks" "rs ! i = Inr x" "rs ! j = Inr y"
  shows "token (ks ! i) \<noteq> token (ks ! j)"
proof -
  let ?u = "snd (run_all step (take i ks) s)"
  have rs: "rs = fst (run_all step ks s)" using assms(1) by simp
  have i: "i < length ks" using assms(2,3) by simp
  obtain r v where st: "step (ks ! i) ?u = (r, v)" by fastforce
  have split: "run_all step ks s = run_all step (take i ks @ ks ! i # drop (Suc i) ks) s"
    by (simp only: id_take_nth_drop [OF i, symmetric])
  obtain qs w where rest: "run_all step (drop (Suc i) ks) v = (qs, w)" by fastforce
  have "fst (run_all step ks s) = fst (run_all step (take i ks) s) @ r # qs"
    unfolding split run_all_append by (simp add: st rest split: prod.splits) (metis snd_conv prod.inject st rest)
  then have "rs ! i = r" "rs ! j = qs ! (j - Suc i)"
    using length_run_all [of step "take i ks" s] i assms(2) by (simp_all add: rs nth_append nth_Cons')
  then have r: "r = Inr x" and q: "qs ! (j - Suc i) = Inr y" using assms(4,5) by simp_all
  obtain k where k: "token (ks ! i) = Some k" "k \<in> used v" using step_fresh st r by blast
  have "length qs = length (drop (Suc i) ks)" using length_run_all [of step "drop (Suc i) ks" v] rest by simp
  from accepted_nth [OF this _ q] have "ks ! j \<in> set (accepted (drop (Suc i) ks) qs)" using assms(2,3) by simp
  with tokens_once [OF rest] k show ?thesis by auto
qed

lemma used_token_fails: "token c = Some k \<Longrightarrow> k \<in> used s \<Longrightarrow> \<exists>e. fst (step c s) = Inl e"
  using step_fresh by (cases "step c s"; cases "fst (step c s)") force+

lemma used_stays: "used s \<subseteq> used (snd (run_all step cs s))"
proof (induction cs arbitrary: s)
  case (Cons c cs)
  have "used s \<subseteq> used (snd (run_all step cs (snd (step c s))))"
    using step_keeps_used Cons.IH by (rule subset_trans)
  then show ?case by (simp add: case_prod_beta)
qed simp

lemma used_token_fails_later:
  assumes "token c = Some k" "k \<in> used s"
  shows "\<exists>e. fst (step c (snd (run_all step cs s))) = Inl e"
  using used_token_fails [OF assms(1)] used_stays [of s cs] assms(2) by blast

end

text \<open>Operations that are given the token itself: success uses exactly it, failure uses nothing.\<close>

locale single_use =
  fixes use :: "'k \<Rightarrow> ('s, 'e, unit) op" and used :: "'s \<Rightarrow> 'k set"
  assumes use_ok: "use k s = (Inr (), t) \<Longrightarrow> k \<notin> used s \<and> used t = insert k (used s)"
    and use_err: "use k s = (Inl e, t) \<Longrightarrow> used t = used s"
begin

sublocale tokens: one_time use Some used
proof
  fix k s x t
  assume "use k s = (Inr x, t)"
  then show "\<exists>k'. Some k = Some k' \<and> k' \<notin> used s \<and> k' \<in> used t" using use_ok by simp
next
  fix s k
  show "used s \<subseteq> used (snd (use k s))"
    using use_ok [of k s] use_err [of k s] by (cases "use k s"; cases "fst (use k s)") auto
qed

lemma used_after_run: "used (snd (run_all use ks s)) = used s \<union> set (accepted ks (fst (run_all use ks s)))"
proof (induction ks arbitrary: s)
  case Nil
  then show ?case by simp
next
  case (Cons k ks)
  have "used (snd (use k s)) = (case fst (use k s) of Inl _ \<Rightarrow> used s | Inr _ \<Rightarrow> insert k (used s))"
    using use_ok [of k s] use_err [of k s] by (cases "use k s"; cases "fst (use k s)") auto
  with Cons.IH [of "snd (use k s)"] show ?case by (auto split: prod.splits sum.splits)
qed

lemma at_most_once:
  assumes "run_all use ks s = (rs, t)"
  shows "distinct (accepted ks rs) \<and> set (accepted ks rs) \<inter> used s = {}
           \<and> used t = used s \<union> set (accepted ks rs)"
  using tokens.tokens_once [OF assms] used_after_run [of ks s] assms by (auto simp: distinct_map)

lemma used_twice_fails: "use k s = (Inr (), t) \<Longrightarrow> used t \<subseteq> used u \<Longrightarrow> \<exists>e. fst (use k u) = Inl e"
  using use_ok by (intro tokens.used_token_fails [OF refl]) blast

end

section \<open>Searching lists\<close>

lemma find_Some_props:
  "List.find P xs = Some x \<Longrightarrow> x \<in> set xs \<and> P x"
  by (metis (mono_tags, lifting) find_Some_iff nth_mem)

lemma find_distinct_key:
  "distinct (map k xs) \<Longrightarrow> x \<in> set xs \<Longrightarrow> List.find (\<lambda>y. k y = k x) xs = Some x"
  by (induction xs) (auto simp: image_iff)

end
