(* ===== verification/Docking.thy ===== *)
theory Docking
  imports Prelude "HOL-Library.Sublist"
begin

text \<open>
  The protected state machine of \<open>state_machine.rs\<close>: the docking states and events, the
  authorization facts a transition may need, and the pure reducer that either advances
  one stage or says why it does not.
\<close>

section \<open>States, events, authorization\<close>

datatype docking_state = Hold | Approach | FinalApproach | SoftCapture | HardDock | Aborted

datatype docking_event =
  BeginApproach | EnterFinalApproach | EngageSoftCapture | EngageHardDock | Abort

record authorization_context =
  identity_verified :: bool
  session_authorized :: bool
  docking_authorized :: bool

definition default_authorization :: authorization_context where
  "default_authorization =
     \<lparr>identity_verified = False, session_authorized = False, docking_authorized = False\<rparr>"

datatype transition_error =
  InvalidTransition | IdentityRequired | SessionRequired | DockingAuthorizationRequired

fun transition_error_display :: "transition_error \<Rightarrow> string" where
  "transition_error_display InvalidTransition = ''event is invalid from the current docking state''"
| "transition_error_display IdentityRequired = ''verified identity is required for final approach''"
| "transition_error_display SessionRequired = ''authorized session is required for soft capture''"
| "transition_error_display DockingAuthorizationRequired =
     ''docking authorization is required for hard dock''"

section \<open>The reducer\<close>

definition reduce ::
  "docking_state \<Rightarrow> docking_event \<Rightarrow> authorization_context \<Rightarrow> transition_error + docking_state" where
  "reduce state event authorization =
     (if event = Abort then Inr Aborted
      else case (state, event) of
        (Hold, BeginApproach) \<Rightarrow> Inr Approach
      | (Approach, EnterFinalApproach) \<Rightarrow>
          ok_or IdentityRequired (then_some (identity_verified authorization) FinalApproach)
      | (FinalApproach, EngageSoftCapture) \<Rightarrow>
          ok_or SessionRequired (then_some (session_authorized authorization) SoftCapture)
      | (SoftCapture, EngageHardDock) \<Rightarrow>
          ok_or DockingAuthorizationRequired (then_some (docking_authorized authorization) HardDock)
      | _ \<Rightarrow> Inl InvalidTransition)"

text \<open>A run of the reducer over events with the authorization facts of each moment; an
  error leaves the state as it was.\<close>

fun reduce_run ::
  "docking_state \<Rightarrow> (docking_event \<times> authorization_context) list \<Rightarrow> docking_state" where
  "reduce_run state [] = state"
| "reduce_run state ((event, authorization) # rest) =
     (case reduce state event authorization of
        Inl _ \<Rightarrow> reduce_run state rest
      | Inr state' \<Rightarrow> reduce_run state' rest)"

section \<open>What a transition needs\<close>

text \<open>The abstract contract: the stages are numbered, an event other than \<open>Abort\<close> moves
  one stage on, and the stage entered names the fact it needs.\<close>

fun stage_index :: "docking_state \<Rightarrow> nat" where
  "stage_index Hold = 0"
| "stage_index Approach = 1"
| "stage_index FinalApproach = 2"
| "stage_index SoftCapture = 3"
| "stage_index HardDock = 4"
| "stage_index Aborted = 5"

fun entry_fact :: "docking_state \<Rightarrow> authorization_context \<Rightarrow> bool" where
  "entry_fact FinalApproach a = identity_verified a"
| "entry_fact SoftCapture a = session_authorized a"
| "entry_fact HardDock a = docking_authorized a"
| "entry_fact _ a = True"

fun entering_event :: "docking_state \<Rightarrow> docking_event option" where
  "entering_event Hold = None"
| "entering_event Approach = Some BeginApproach"
| "entering_event FinalApproach = Some EnterFinalApproach"
| "entering_event SoftCapture = Some EngageSoftCapture"
| "entering_event HardDock = Some EngageHardDock"
| "entering_event Aborted = Some Abort"

lemma stage_index_inj: "stage_index s = stage_index t \<Longrightarrow> s = t"
  by (cases s; cases t) auto

lemma reduce_Abort [simp]: "reduce state Abort a = Inr Aborted"
  by (simp add: reduce_def)

lemma reduce_Inr_cases:
  assumes "reduce s e a = Inr t" "e \<noteq> Abort"
  shows "stage_index t = Suc (stage_index s) \<and> t \<noteq> Aborted \<and> entering_event t = Some e \<and> entry_fact t a"
  using assms by (cases s; cases e) (auto simp: reduce_def)

lemma reduce_nonabort_bound: "reduce s e a = Inr t \<Longrightarrow> e \<noteq> Abort \<Longrightarrow> stage_index t \<le> 4"
  by (cases s; cases e) (auto simp: reduce_def)

lemma reduce_from_Aborted: "e \<noteq> Abort \<Longrightarrow> reduce Aborted e a = Inl InvalidTransition"
  by (cases e) (auto simp: reduce_def)

lemma reduce_run_append: "reduce_run s (xs @ ys) = reduce_run (reduce_run s xs) ys"
  by (induction s xs rule: reduce_run.induct) (auto split: sum.splits)

lemma reduce_run_Aborted: "reduce_run Aborted xs = Aborted"
  by (induction xs) (auto simp: reduce_def split: docking_event.splits sum.splits)

text \<open>C35. The reducer enters a stage exactly when the event is the one that leads to it
  from the stage before and the fact the stage needs is present, or the event is \<open>Abort\<close>
  and the result is \<open>Aborted\<close>; no other transition succeeds.\<close>

theorem reduce_Inr_iff:
  "reduce s e a = Inr t \<longleftrightarrow>
     (e = Abort \<and> t = Aborted)
     \<or> (e \<noteq> Abort \<and> t \<noteq> Aborted \<and> stage_index t = Suc (stage_index s)
         \<and> entering_event t = Some e \<and> entry_fact t a)"
  by (cases s; cases e; cases t) (auto simp: reduce_def)

text \<open>Which error a refused transition reports: a missing fact is named only when the
  event is the right one for the state; everything else is an invalid transition.\<close>

lemma reduce_error:
  "reduce s e a = Inl err \<longleftrightarrow>
     e \<noteq> Abort \<and>
     (if s = Approach \<and> e = EnterFinalApproach then \<not> identity_verified a \<and> err = IdentityRequired
      else if s = FinalApproach \<and> e = EngageSoftCapture then \<not> session_authorized a \<and> err = SessionRequired
      else if s = SoftCapture \<and> e = EngageHardDock
        then \<not> docking_authorized a \<and> err = DockingAuthorizationRequired
      else \<not> (s = Hold \<and> e = BeginApproach) \<and> err = InvalidTransition)"
  by (cases s; cases e) (auto simp: reduce_def)

section \<open>Runs\<close>

text \<open>The facts a run has presented on the way to a stage, in order.\<close>

lemma reduce_run_visits:
  assumes "reduce_run Hold xs = s" "s \<noteq> Aborted" "s \<noteq> Hold"
  shows "\<exists>ys e a zs t. xs = ys @ (e, a) # zs \<and> reduce_run Hold ys = t \<and> stage_index s = Suc (stage_index t)
           \<and> entering_event s = Some e \<and> entry_fact s a \<and> t \<noteq> Aborted"
  using assms
proof (induction xs rule: rev_induct)
  case Nil
  then show ?case by simp
next
  case (snoc x xs)
  obtain e a where x: "x = (e, a)" by fastforce
  let ?t = "reduce_run Hold xs"
  have run: "(case reduce ?t e a of Inl _ \<Rightarrow> ?t | Inr u \<Rightarrow> u) = s"
    using snoc.prems(1) by (simp add: x reduce_run_append split: sum.splits)
  show ?case
  proof (cases "reduce ?t e a")
    case (Inl err)
    with run snoc.prems snoc.IH obtain ys e' a' zs t where
      "xs = ys @ (e', a') # zs" "reduce_run Hold ys = t" "stage_index s = Suc (stage_index t)"
      "entering_event s = Some e'" "entry_fact s a'" "t \<noteq> Aborted"
      by auto
    then show ?thesis by (intro exI [of _ ys] exI [of _ e'] exI [of _ a'] exI [of _ "zs @ [x]"]) auto
  next
    case (Inr u)
    with run have u: "u = s" by simp
    with Inr snoc.prems(2) have "e \<noteq> Abort" by (auto simp: reduce_Inr_iff)
    with Inr u have "stage_index s = Suc (stage_index ?t)" "entering_event s = Some e" "entry_fact s a"
      using reduce_Inr_cases by blast+
    moreover have "?t \<noteq> Aborted" using \<open>e \<noteq> Abort\<close> Inr by (auto simp: reduce_from_Aborted)
    ultimately show ?thesis
      by (intro exI [of _ xs] exI [of _ e] exI [of _ a] exI [of _ "[]"]) (simp add: x)
  qed
qed

text \<open>No run of the reducer, whatever its events and facts, reaches \<open>HardDock\<close> from
  \<open>Hold\<close> without having presented, in this order, the four stage events with a verified
  identity for final approach, an authorized session for soft capture and a docking
  authorization for hard dock.\<close>

lemma hard_dock_requires_every_stage:
  assumes "reduce_run Hold xs = HardDock"
  shows "\<exists>a b c d. subseq [(BeginApproach, a), (EnterFinalApproach, b), (EngageSoftCapture, c),
                          (EngageHardDock, d)] xs
           \<and> identity_verified b \<and> session_authorized c \<and> docking_authorized d"
proof -
  obtain ys3 d zs3 where 3: "xs = ys3 @ (EngageHardDock, d) # zs3"
      "reduce_run Hold ys3 = SoftCapture" "docking_authorized d"
    using reduce_run_visits [OF assms] stage_index_inj [of _ SoftCapture] by fastforce
  obtain ys2 c zs2 where 2: "ys3 = ys2 @ (EngageSoftCapture, c) # zs2"
      "reduce_run Hold ys2 = FinalApproach" "session_authorized c"
    using reduce_run_visits [OF 3(2)] stage_index_inj [of _ FinalApproach] by fastforce
  obtain ys1 b zs1 where 1: "ys2 = ys1 @ (EnterFinalApproach, b) # zs1"
      "reduce_run Hold ys1 = Approach" "identity_verified b"
    using reduce_run_visits [OF 2(2)] stage_index_inj [of _ Approach] by fastforce
  obtain ys0 a zs0 where 0: "ys1 = ys0 @ (BeginApproach, a) # zs0"
    using reduce_run_visits [OF 1(2)] by fastforce
  have "subseq ([] @ (BeginApproach, a) # [] @ (EnterFinalApproach, b) # [] @ (EngageSoftCapture, c)
                # [] @ [(EngageHardDock, d)])
          (ys0 @ (BeginApproach, a) # zs0 @ (EnterFinalApproach, b) # zs1 @ (EngageSoftCapture, c)
                # zs2 @ (EngageHardDock, d) # zs3)"
    by (intro list_emb_append_mono list_emb_Cons2) auto
  then show ?thesis using 3 2 1 0 by auto
qed

text \<open>The authorized sequence of the source's own test.\<close>

lemma hard_dock_requires_every_stage_witness:
  "let full = \<lparr>identity_verified = True, session_authorized = True, docking_authorized = True\<rparr>;
       xs = [(BeginApproach, full), (EnterFinalApproach, full), (EngageSoftCapture, full),
             (EngageHardDock, full)]
   in reduce_run Hold xs = HardDock
      \<and> (\<exists>a b c d. subseq [(BeginApproach, a), (EnterFinalApproach, b), (EngageSoftCapture, c),
                              (EngageHardDock, d)] xs
             \<and> identity_verified b \<and> session_authorized c \<and> docking_authorized d)"
proof -
  let ?full = "\<lparr>identity_verified = True, session_authorized = True, docking_authorized = True\<rparr>"
  let ?xs = "[(BeginApproach, ?full), (EnterFinalApproach, ?full), (EngageSoftCapture, ?full),
             (EngageHardDock, ?full)]"
  have run: "reduce_run Hold ?xs = HardDock"
    by (simp add: reduce_def)
  show ?thesis using run hard_dock_requires_every_stage [OF run] by (simp only: Let_def simp_thms)
qed

end
