(* ===== verification/Claims.thy ===== *)
theory Claims
  imports Prelude
begin

text \<open>
  The data of \<open>protocol.rs\<close>: message types, authorized stages, the claims carried by
  protocol messages and credentials, key identities, trust stores and the protocol
  errors with their messages. Field names carry a prefix per struct (\<open>pc_\<close> for
  \<open>ProtocolClaims\<close>, \<open>cc_\<close> for \<open>CredentialClaims\<close>, \<open>ik_\<close> for \<open>IdentityKey\<close>).
\<close>

section \<open>Message types and stages\<close>

datatype message_type = AccessRequest | SessionOffer | SessionProof | AuthorizationGrant

datatype authorized_stage =
  StageHold | StageApproach | StageFinalApproach | StageSoftCapture | StageHardDock

text \<open>\<open>AuthorizedStage\<close> derives \<open>Ord\<close>: the declaration order of its variants.\<close>

fun stage_rank :: "authorized_stage \<Rightarrow> nat" where
  "stage_rank StageHold = 0"
| "stage_rank StageApproach = 1"
| "stage_rank StageFinalApproach = 2"
| "stage_rank StageSoftCapture = 3"
| "stage_rank StageHardDock = 4"

lemma stage_rank_inject [simp]: "stage_rank a = stage_rank b \<longleftrightarrow> a = b"
  by (cases a; cases b) auto

instantiation authorized_stage :: linorder
begin

definition less_eq_authorized_stage :: "authorized_stage \<Rightarrow> authorized_stage \<Rightarrow> bool" where
  "less_eq_authorized_stage a b \<longleftrightarrow> stage_rank a \<le> stage_rank b"

definition less_authorized_stage :: "authorized_stage \<Rightarrow> authorized_stage \<Rightarrow> bool" where
  "less_authorized_stage a b \<longleftrightarrow> stage_rank a < stage_rank b"

instance
  by standard (auto simp: less_eq_authorized_stage_def less_authorized_stage_def)

end

text \<open>The serialized name (\<open>rename_all = "snake_case"\<close>) and the \<open>Debug\<close> name.\<close>

fun stage_serde_name :: "authorized_stage \<Rightarrow> string" where
  "stage_serde_name StageHold = ''hold''"
| "stage_serde_name StageApproach = ''approach''"
| "stage_serde_name StageFinalApproach = ''final_approach''"
| "stage_serde_name StageSoftCapture = ''soft_capture''"
| "stage_serde_name StageHardDock = ''hard_dock''"

fun stage_debug_name :: "authorized_stage \<Rightarrow> string" where
  "stage_debug_name StageHold = ''Hold''"
| "stage_debug_name StageApproach = ''Approach''"
| "stage_debug_name StageFinalApproach = ''FinalApproach''"
| "stage_debug_name StageSoftCapture = ''SoftCapture''"
| "stage_debug_name StageHardDock = ''HardDock''"

lemma stage_serde_name_inject [simp]: "stage_serde_name a = stage_serde_name b \<longleftrightarrow> a = b"
  by (cases a; cases b) auto

section \<open>Claims\<close>

record protocol_claims =
  pc_message_type :: message_type
  pc_issuer :: string
  pc_recipient :: string
  pc_issued_at_s :: i64
  pc_nonce :: bytes
  pc_session_id :: "string option"
  pc_authorized_stage :: "authorized_stage option"
  pc_challenge_nonce :: "bytes option"
  pc_credentials :: "bytes list"
  pc_grant_id :: "string option"
  pc_expires_at_s :: "i64 option"
  pc_protocol_profile_id :: "string option"
  pc_protocol_profile_version :: "u64 option"
  pc_rule_id :: "string option"
  pc_authorization_policy_bundle_id :: "string option"
  pc_authorization_policy_bundle_version :: "u64 option"
  pc_authorization_policy_sha256 :: "string option"

record credential_claims =
  cc_issuer :: string
  cc_subject :: string
  cc_profile_id :: string
  cc_credential_type :: string
  cc_schema_id :: string
  cc_issuer_group :: string
  cc_issued_at_s :: i64
  cc_expires_at_s :: i64
  cc_status_checked_at_s :: i64

section \<open>Keys and trust\<close>

text \<open>An Ed25519 verifying key is its 32-byte encoding. A \<open>PayloadSigner\<close> is what its
  \<open>sign\<close> method returns for a payload: a signature or an error message.\<close>

type_synonym verifying_key = bytes
type_synonym payload_signer = "bytes \<Rightarrow> string + bytes"

record identity_key =
  ik_key_id :: string
  ik_verifying_key :: verifying_key
  ik_signer :: payload_signer

definition from_signer :: "string \<Rightarrow> verifying_key \<Rightarrow> payload_signer \<Rightarrow> identity_key" where
  "from_signer key_id verifying_key signer =
     \<lparr>ik_key_id = key_id, ik_verifying_key = verifying_key, ik_signer = signer\<rparr>"

text \<open>\<open>TrustStore\<close> is a hash map from key identifiers; inserting replaces.\<close>

type_synonym trust_store = "string \<rightharpoonup> verifying_key"

definition trust_store_default :: trust_store where
  "trust_store_default = Map.empty"

definition trust_store_insert :: "string \<Rightarrow> verifying_key \<Rightarrow> trust_store \<Rightarrow> trust_store" where
  "trust_store_insert key_id key store = store(key_id \<mapsto> key)"

section \<open>Errors\<close>

datatype protocol_error =
    InvalidEnvelope | InvalidAlgorithm | UntrustedSigner | InvalidSignature | InvalidClaims
  | IssuerMismatch | RecipientMismatch | Stale | WeakNonce | Replay | SubjectMismatch
  | CredentialExpired | SigningFailed string | PersistentState string

fun protocol_error_display :: "protocol_error \<Rightarrow> string" where
  "protocol_error_display InvalidEnvelope = ''invalid COSE_Sign1 envelope''"
| "protocol_error_display InvalidAlgorithm = ''only EdDSA is accepted''"
| "protocol_error_display UntrustedSigner = ''unknown or malformed key identifier''"
| "protocol_error_display InvalidSignature = ''signature verification failed''"
| "protocol_error_display InvalidClaims = ''invalid CBOR claims''"
| "protocol_error_display IssuerMismatch = ''protected key identifier and claim issuer differ''"
| "protocol_error_display RecipientMismatch = ''message recipient does not match local identity''"
| "protocol_error_display Stale = ''message is outside the freshness window''"
| "protocol_error_display WeakNonce = ''nonce must contain at least 128 bits''"
| "protocol_error_display Replay = ''nonce has already been consumed''"
| "protocol_error_display SubjectMismatch = ''credential subject does not match the expected holder''"
| "protocol_error_display CredentialExpired = ''credential is not currently valid''"
| "protocol_error_display (SigningFailed e) = ''signing operation failed: '' @ e"
| "protocol_error_display (PersistentState e) = ''persistent replay state failed: '' @ e"

record verified_envelope =
  ve_signer :: string
  ve_claims :: protocol_claims

definition min_nonce_bytes :: nat where
  "min_nonce_bytes = 16"

end
