(* ===== verification/Crates.thy ===== *)
theory Crates
  imports Claims
begin

text \<open>
  The third-party crates the code calls, as one record of functions that every definition
  using them takes as an argument: \<open>hex\<close>, \<open>ciborium\<close>, \<open>coset\<close>, \<open>ed25519-dalek\<close>, \<open>chrono\<close>,
  \<open>sha2\<close>, \<open>getrandom\<close> and \<open>cedar-policy\<close>. Nothing is assumed of them in a definition. The
  predicates below state the documented behaviour that single theorems rely on, each
  theorem naming the one it needs.

  A parsed Cedar policy set is a value of the type parameter \<open>'p\<close>.
\<close>

section \<open>Values the crates exchange with the code\<close>

text \<open>The parts of a \<open>coset::CoseSign1\<close> the code reads or writes; \<open>cose_rest\<close> stands for
  everything else a parsed message holds (other headers, the original header bytes).\<close>

datatype cose_algorithm = EdDSA | OtherAlgorithm int

record cose_sign1 =
  cose_alg :: "cose_algorithm option"
  cose_key_id :: bytes
  cose_payload :: "bytes option"
  cose_signature :: bytes
  cose_rest :: bytes

text \<open>JSON values of the Cedar context, entity identifiers, requests and responses.\<close>

datatype json_value = JBool bool | JInt i64

type_synonym json_object = "(string \<times> json_value) list"

record entity_uid =
  entity_type :: string
  entity_id :: string

record cedar_request =
  rq_principal :: entity_uid
  rq_action :: entity_uid
  rq_resource :: entity_uid
  rq_context :: json_object

datatype cedar_decision = Allow | Deny

record cedar_response =
  rs_decision :: cedar_decision
  rs_errors :: "string list"
  rs_diagnostics_debug :: string

section \<open>The crates\<close>

record 'p crates =
  hex_encode :: "bytes \<Rightarrow> string"
  hex_decode :: "string \<Rightarrow> string + bytes"
  cbor_write_protocol :: "protocol_claims \<Rightarrow> bytes option"
  cbor_read_protocol :: "bytes \<Rightarrow> protocol_claims option"
  cbor_write_credential :: "credential_claims \<Rightarrow> bytes option"
  cbor_read_credential :: "bytes \<Rightarrow> credential_claims option"
  cose_tbs :: "cose_sign1 \<Rightarrow> bytes \<Rightarrow> bytes"
  cose_to_tagged_vec :: "cose_sign1 \<Rightarrow> bytes option"
  cose_from_tagged_slice :: "bytes \<Rightarrow> cose_sign1 option"
  ed25519_public :: "bytes \<Rightarrow> verifying_key"
  ed25519_sign :: "bytes \<Rightarrow> bytes \<Rightarrow> bytes"
  ed25519_verify_strict :: "verifying_key \<Rightarrow> bytes \<Rightarrow> bytes \<Rightarrow> bool"
  verifying_key_from_bytes :: "bytes \<Rightarrow> string + verifying_key"
  parse_rfc3339 :: "string \<Rightarrow> i64 option"
  sha256 :: "bytes \<Rightarrow> bytes"
  os_random :: "nat \<Rightarrow> string + bytes"
  policy_set_from_str :: "string \<Rightarrow> string + 'p"
  policy_set_is_empty :: "'p \<Rightarrow> bool"
  entity_uid_parse :: "string \<Rightarrow> string + entity_uid"
  context_from_json_value :: "json_object \<Rightarrow> string + json_object"
  request_new :: "entity_uid \<Rightarrow> entity_uid \<Rightarrow> entity_uid \<Rightarrow> json_object \<Rightarrow> string + cedar_request"
  is_authorized :: "cedar_request \<Rightarrow> 'p \<Rightarrow> cedar_response"
  overflow_checks :: bool

text \<open>Arguments: \<open>cose_tbs m aad\<close> is the \<open>Sig_structure\<close> to be signed for the external data
  \<open>aad\<close>; \<open>ed25519_verify_strict key message signature\<close> includes \<open>Signature::from_slice\<close>;
  \<open>os_random n\<close> is what the operating system delivers at the \<open>n\<close>-th call;
  \<open>parse_rfc3339\<close> includes \<open>timestamp()\<close>. The last field is no crate but the build profile:
  whether integer overflow panics (a debug build) or wraps (the release build of the
  repository's Dockerfile).\<close>

section \<open>Documented behaviour\<close>

definition hex_alphabet :: "string" where
  "hex_alphabet = ''0123456789abcdef''"

text \<open>\<open>hex::encode\<close> writes lower-case digits, and \<open>hex::decode\<close> reads them back.\<close>

definition hex_ok :: "'p crates \<Rightarrow> bool" where
  "hex_ok K \<longleftrightarrow>
     (\<forall>bs. hex_decode K (hex_encode K bs) = Inr bs \<and> set (hex_encode K bs) \<subseteq> set hex_alphabet)"

text \<open>CBOR serialization of the claims can be read back.\<close>

definition cbor_ok :: "'p crates \<Rightarrow> bool" where
  "cbor_ok K \<longleftrightarrow>
     (\<forall>c. \<exists>bs. cbor_write_protocol K c = Some bs \<and> cbor_read_protocol K bs = Some c)
     \<and> (\<forall>c. \<exists>bs. cbor_write_credential K c = Some bs \<and> cbor_read_credential K bs = Some c)"

text \<open>A message the builder made is encoded and parsed back, and the bytes to be signed do
  not depend on the signature (RFC 9052, section 4.4).\<close>

definition cose_ok :: "'p crates \<Rightarrow> bool" where
  "cose_ok K \<longleftrightarrow>
     (\<forall>m. cose_rest m = [] \<longrightarrow>
        (\<exists>bs. cose_to_tagged_vec K m = Some bs \<and> cose_from_tagged_slice K bs = Some m))
     \<and> (\<forall>m aad s. cose_tbs K (m\<lparr>cose_signature := s\<rparr>) aad = cose_tbs K m aad)"

lemma cbor_protocol_read:
  "cbor_ok K \<Longrightarrow> cbor_write_protocol K c = Some bs \<Longrightarrow> cbor_read_protocol K bs = Some c"
  unfolding cbor_ok_def by (metis option.inject)

lemma cbor_credential_read:
  "cbor_ok K \<Longrightarrow> cbor_write_credential K c = Some bs \<Longrightarrow> cbor_read_credential K bs = Some c"
  unfolding cbor_ok_def by (metis option.inject)

lemma cbor_total:
  "cbor_ok K \<Longrightarrow> \<exists>bs. cbor_write_protocol K c = Some bs"
  "cbor_ok K \<Longrightarrow> \<exists>bs. cbor_write_credential K d = Some bs"
  unfolding cbor_ok_def by metis+

lemma cose_read:
  "cose_ok K \<Longrightarrow> cose_rest m = [] \<Longrightarrow> cose_to_tagged_vec K m = Some bs \<Longrightarrow> cose_from_tagged_slice K bs = Some m"
  unfolding cose_ok_def by (metis option.inject)

lemma cose_total: "cose_ok K \<Longrightarrow> cose_rest m = [] \<Longrightarrow> \<exists>bs. cose_to_tagged_vec K m = Some bs"
  unfolding cose_ok_def by metis

lemma cose_tbs_signature: "cose_ok K \<Longrightarrow> cose_tbs K (m\<lparr>cose_signature := s\<rparr>) aad = cose_tbs K m aad"
  unfolding cose_ok_def by blast

text \<open>A signature made with a seed verifies under the seed's public key.\<close>

definition ed25519_ok :: "'p crates \<Rightarrow> bool" where
  "ed25519_ok K \<longleftrightarrow>
     (\<forall>seed msg. length seed = 32 \<longrightarrow>
        ed25519_verify_strict K (ed25519_public K seed) msg (ed25519_sign K seed msg))"

text \<open>Keys have 32 bytes and are accepted by \<open>VerifyingKey::from_bytes\<close>. Strict verification takes
  only the canonical scalar at the end of a signature: with another last byte it fails.\<close>

definition ed25519_keys :: "'p crates \<Rightarrow> bool" where
  "ed25519_keys K \<longleftrightarrow>
     (\<forall>seed. length seed = 32 \<longrightarrow>
        length (ed25519_public K seed) = 32
        \<and> verifying_key_from_bytes K (ed25519_public K seed) = Inr (ed25519_public K seed))"

definition ed25519_strict :: "'p crates \<Rightarrow> bool" where
  "ed25519_strict K \<longleftrightarrow>
     (\<forall>seed msg. length seed = 32 \<longrightarrow>
        ed25519_sign K seed msg \<noteq> []
        \<and> (\<forall>b. b \<noteq> last (ed25519_sign K seed msg) \<longrightarrow>
              \<not> ed25519_verify_strict K (ed25519_public K seed) msg (butlast (ed25519_sign K seed msg) @ [b])))"

text \<open>The signature is the last element of a \<open>COSE_Sign1\<close> array (RFC 9052, section 4.2), so its last
  byte is the last byte of the encoding.\<close>

definition cose_signature_last :: "'p crates \<Rightarrow> bool" where
  "cose_signature_last K \<longleftrightarrow>
     (\<forall>m bs. cose_rest m = [] \<longrightarrow> cose_signature m \<noteq> [] \<longrightarrow> cose_to_tagged_vec K m = Some bs \<longrightarrow>
        bs \<noteq> [] \<and> last bs = last (cose_signature m)
        \<and> (\<forall>b. cose_from_tagged_slice K (butlast bs @ [b])
              = Some (m\<lparr>cose_signature := butlast (cose_signature m) @ [b]\<rparr>)))"

text \<open>\<open>hex::decode\<close> takes only an even number of digits, in either case.\<close>

definition hex_strict :: "'p crates \<Rightarrow> bool" where
  "hex_strict K \<longleftrightarrow>
     (\<forall>s bs. hex_decode K s = Inr bs \<longrightarrow> even (length s) \<and> set s \<subseteq> set (hex_alphabet @ ''ABCDEF''))"

text \<open>Each byte becomes two digits, so the encoding of a concatenation is the concatenation.\<close>

definition hex_bytewise :: "'p crates \<Rightarrow> bool" where
  "hex_bytewise K \<longleftrightarrow>
     (\<forall>a b. hex_encode K (a @ b) = hex_encode K a @ hex_encode K b) \<and> (\<forall>a. length (hex_encode K a) = 2 * length a)"

text \<open>Distinct byte strings have distinct encodings, since decoding tells them apart.\<close>

lemma hex_decode_encode [simp]: "hex_ok K \<Longrightarrow> hex_decode K (hex_encode K bs) = Inr bs"
  by (simp add: hex_ok_def)

lemma hex_encode_inject: "hex_ok K \<Longrightarrow> hex_encode K a = hex_encode K b \<longleftrightarrow> a = b"
  by (metis hex_decode_encode sum.inject(2))

lemma hex_encode_alphabet: "hex_ok K \<Longrightarrow> set (hex_encode K bs) \<subseteq> set hex_alphabet"
  by (simp add: hex_ok_def)

end
