(* ===== verification/Replay.thy ===== *)
theory Replay
  imports Crates
begin

text \<open>
  Replay protection (\<open>ReplayCache\<close>, \<open>ReplayStateBackend\<close> and \<open>FileReplayStateBackend\<close> of
  \<open>protocol.rs\<close>): the in-memory set of consumed identifiers, the optional durable backend,
  and the append-only journal file behind \<open>ReplayCache::persistent\<close>.

  A backend is a trait object: its two methods and its own state of type \<open>'b\<close>. The journal
  file is modelled with its bytes and with what the operating system does to each append,
  so that a failing or partial write is an input of the theorems.
\<close>

section \<open>Backends and the cache\<close>

record 'b replay_backend =
  be_load :: "('b, string, bytes list) op"
  be_append_and_sync :: "bytes \<Rightarrow> ('b, string, unit) op"

record 'b replay_cache =
  rc_consumed :: "bytes set"
  rc_backend :: "('b replay_backend \<times> 'b) option"

definition replay_default :: "'b replay_cache" where
  "replay_default = \<lparr>rc_consumed = {}, rc_backend = None\<rparr>"

definition with_backend :: "'b replay_backend \<Rightarrow> 'b \<Rightarrow> protocol_error + 'b replay_cache" where
  "with_backend ops b =
     (case be_load ops b of
        (Inl e, b') \<Rightarrow> Inl (PersistentState e)
      | (Inr loaded, b') \<Rightarrow> Inr \<lparr>rc_consumed = set loaded, rc_backend = Some (ops, b')\<rparr>)"

definition consume :: "bytes \<Rightarrow> ('b replay_cache, protocol_error, unit) op" where
  "consume nonce c =
     (if nonce \<in> rc_consumed c then (Inl Replay, c)
      else case rc_backend c of
        None \<Rightarrow> (Inr (), c\<lparr>rc_consumed := insert nonce (rc_consumed c)\<rparr>)
      | Some (ops, b) \<Rightarrow>
          (case be_append_and_sync ops nonce b of
             (Inl e, b') \<Rightarrow> (Inl (PersistentState e), c\<lparr>rc_backend := Some (ops, b')\<rparr>)
           | (Inr _, b') \<Rightarrow>
               (Inr (), c\<lparr>rc_consumed := insert nonce (rc_consumed c), rc_backend := Some (ops, b')\<rparr>)))"

definition reset_ephemeral :: "'b replay_cache \<Rightarrow> 'b replay_cache" where
  "reset_ephemeral c =
     (case rc_backend c of None \<Rightarrow> c\<lparr>rc_consumed := {}\<rparr> | Some _ \<Rightarrow> c)"

lemma consume_Inr:
  "consume n c = (Inr (), d) \<Longrightarrow> n \<notin> rc_consumed c \<and> rc_consumed d = insert n (rc_consumed c)"
  by (auto simp: consume_def split: if_splits option.splits prod.splits sum.splits)

lemma consume_Inl: "consume n c = (Inl e, d) \<Longrightarrow> rc_consumed d = rc_consumed c"
  by (auto simp: consume_def split: if_splits option.splits prod.splits sum.splits)

interpretation cache: single_use consume rc_consumed
  by unfold_locales (blast dest: consume_Inr consume_Inl)+

text \<open>C25. However often and in whatever order identifiers are presented to a cache, and
  whatever its backend answers, each is accepted at most once, none that was consumed
  before is accepted, and the cache ends up holding exactly the old and the accepted ones.\<close>

theorem consume_at_most_once:
  fixes c :: "'b replay_cache"
  shows "distinct (accepted ns (fst (run_all consume ns c)))
     \<and> set (accepted ns (fst (run_all consume ns c))) \<inter> rc_consumed c = {}
     \<and> rc_consumed (snd (run_all consume ns c))
           = rc_consumed c \<union> set (accepted ns (fst (run_all consume ns c)))"
  by (rule cache.at_most_once [OF prod.collapse [symmetric]])

text \<open>The result of \<open>consume\<close> on every path: a known identifier is a replay and changes
  nothing, a failing durable commit is an error and the identifier stays unconsumed, and
  only a commit that succeeded (or the absence of a backend) accepts it.\<close>

lemma consume_cases:
  "(fst (consume n c) =
     (if n \<in> rc_consumed c then Inl Replay
      else case rc_backend c of
        None \<Rightarrow> Inr ()
      | Some (ops, b) \<Rightarrow> map_err PersistentState (fst (be_append_and_sync ops n b))))
   \<and> (n \<in> rc_consumed (snd (consume n c)) \<longleftrightarrow> n \<in> rc_consumed c \<or> fst (consume n c) = Inr ())
   \<and> rc_consumed (snd (consume n c)) \<subseteq> insert n (rc_consumed c)"
  by (auto simp: consume_def split: option.splits prod.splits sum.splits)

section \<open>The journal file\<close>

datatype append_outcome =
    AppendOk
  | OpenFails string
  | WriteFails nat string
  | SyncFails string

text \<open>The contents (\<open>None\<close>: no file yet), how many appends were made, what the operating
  system does to the \<open>n\<close>-th append (\<open>WriteFails k\<close>: only \<open>k\<close> bytes reach the file), and
  the error of reading the file, if any.\<close>

record journal_file =
  jf_contents :: "bytes option"
  jf_appends :: nat
  jf_append_outcome :: "nat \<Rightarrow> append_outcome"
  jf_read_error :: "string option"

text \<open>\<open>BufRead::lines\<close>: lines end with a newline, a carriage return before it is dropped,
  and a last line without newline counts.\<close>

fun push_byte :: "u8 \<Rightarrow> bytes list \<Rightarrow> bytes list" where
  "push_byte b [] = [[b]]"
| "push_byte b (l # ls) = (b # l) # ls"

fun split_lines :: "bytes \<Rightarrow> bytes list" where
  "split_lines [] = []"
| "split_lines (b # bs) =
     (if b = 10 then [] # split_lines bs
      else if b = 13 \<and> (case bs of c # _ \<Rightarrow> c = 10 | [] \<Rightarrow> False) then [] # split_lines (tl bs)
      else push_byte b (split_lines bs))"

definition decode_line :: "'p crates \<Rightarrow> bytes \<Rightarrow> string + bytes" where
  "decode_line K line =
     bind_result (ok_or ''stream did not contain valid UTF-8'' (from_utf8 line)) (hex_decode K)"

definition journal_load :: "'p crates \<Rightarrow> (journal_file, string, bytes list) op" where
  "journal_load K f =
     (case jf_contents f of
        None \<Rightarrow> (Inr [], f)
      | Some bs \<Rightarrow>
          (case jf_read_error f of
             Some e \<Rightarrow> (Inl e, f)
           | None \<Rightarrow> (collect_results (map (decode_line K) (split_lines bs)), f)))"

definition journal_line :: "'p crates \<Rightarrow> bytes \<Rightarrow> bytes" where
  "journal_line K v = as_bytes (hex_encode K v) @ [10]"

definition journal_bytes :: "journal_file \<Rightarrow> bytes" where
  "journal_bytes f = (case jf_contents f of None \<Rightarrow> [] | Some bs \<Rightarrow> bs)"

definition journal_append :: "'p crates \<Rightarrow> bytes \<Rightarrow> (journal_file, string, unit) op" where
  "journal_append K v f =
     (let line = journal_line K v;
          old = journal_bytes f;
          g = f\<lparr>jf_appends := Suc (jf_appends f)\<rparr>
      in case jf_append_outcome f (jf_appends f) of
           AppendOk \<Rightarrow> (Inr (), g\<lparr>jf_contents := Some (old @ line)\<rparr>)
         | OpenFails e \<Rightarrow> (Inl e, g)
         | WriteFails k e \<Rightarrow> (Inl e, g\<lparr>jf_contents := Some (old @ take k line)\<rparr>)
         | SyncFails e \<Rightarrow> (Inl e, g\<lparr>jf_contents := Some (old @ line)\<rparr>))"

definition journal_backend :: "'p crates \<Rightarrow> journal_file replay_backend" where
  "journal_backend K = \<lparr>be_load = journal_load K, be_append_and_sync = journal_append K\<rparr>"

text \<open>\<open>ReplayCache::persistent\<close>; \<open>dir_error\<close> is the error of creating the parent
  directory, if that fails.\<close>

definition persistent ::
  "'p crates \<Rightarrow> string option \<Rightarrow> journal_file \<Rightarrow> protocol_error + journal_file replay_cache" where
  "persistent K dir_error f =
     (case dir_error of
        Some e \<Rightarrow> Inl (PersistentState e)
      | None \<Rightarrow> with_backend (journal_backend K) f)"

end
