(* ===== verification/DebugStr.thy ===== *)
theory DebugStr
  imports Prelude
begin

text \<open>
  The rendering of a string by \<open>{:?}\<close> in \<open>format!\<close>, which \<open>cedar.rs\<close> uses to quote entity
  identifiers: quotes, backslashes, NUL, tab, carriage return and newline are escaped with
  a backslash, other control characters as \<open>\u{..}\<close> in lower-case hexadecimal, everything
  else is copied. (Non-ASCII characters are copied byte by byte; the few that Rust escapes
  as unprintable are not told apart.) A decoder reads the quoted form back.
\<close>

abbreviation backslash :: char where "backslash \<equiv> CHR 0x5C"
abbreviation double_quote :: char where "double_quote \<equiv> CHR 0x22"

definition hex_digit :: "nat \<Rightarrow> char" where
  "hex_digit n = (if n < 10 then char_of (48 + n) else char_of (87 + n))"

definition show_hex :: "nat \<Rightarrow> string" where
  "show_hex n = (if n < 16 then [hex_digit n] else [hex_digit (n div 16), hex_digit (n mod 16)])"

definition simple_escape :: "char \<Rightarrow> char option" where
  "simple_escape c =
     (if c = CHR 0x00 then Some (CHR ''0'') else if c = CHR 0x09 then Some (CHR ''t'')
      else if c = CHR 0x0D then Some (CHR ''r'') else if c = CHR 0x0A then Some (CHR ''n'')
      else if c = backslash then Some backslash else if c = double_quote then Some double_quote
      else None)"

definition is_control :: "char \<Rightarrow> bool" where
  "is_control c \<longleftrightarrow> (of_char c :: nat) < 32 \<or> (of_char c :: nat) = 127"

definition debug_char :: "char \<Rightarrow> string" where
  "debug_char c =
     (case simple_escape c of
        Some e \<Rightarrow> [backslash, e]
      | None \<Rightarrow>
          if is_control c then [backslash, CHR ''u'', CHR ''{''] @ show_hex (of_char c) @ [CHR ''}'']
          else [c])"

definition debug_str :: "string \<Rightarrow> string" where
  "debug_str s = [double_quote] @ concat (map debug_char s) @ [double_quote]"

section \<open>Reading a quoted string back\<close>

definition hex_value :: "char \<Rightarrow> nat" where
  "hex_value c = (let n = of_char c in if n < 58 then n - 48 else n - 87)"

definition read_hex :: "string \<Rightarrow> nat" where
  "read_hex s = fold (\<lambda>c n. 16 * n + hex_value c) s 0"

definition simple_unescape :: "char \<Rightarrow> char option" where
  "simple_unescape e =
     (if e = CHR ''0'' then Some (CHR 0x00) else if e = CHR ''t'' then Some (CHR 0x09)
      else if e = CHR ''r'' then Some (CHR 0x0D) else if e = CHR ''n'' then Some (CHR 0x0A)
      else if e = backslash then Some backslash else if e = double_quote then Some double_quote
      else None)"

fun undebug :: "string \<Rightarrow> string option" where
  "undebug [] = None"
| "undebug (c # cs) =
     (if c = double_quote then (if cs = [] then Some [] else None)
      else if c = backslash then
        (case cs of
           [] \<Rightarrow> None
         | e # es \<Rightarrow>
             if e = CHR ''u'' then
               (let h = takeWhile (\<lambda>d. d \<noteq> CHR ''}'') (tl es)
                in map_option (Cons (char_of (read_hex h))) (undebug (drop (Suc (Suc (length h))) es)))
             else (case simple_unescape e of
                     None \<Rightarrow> None
                   | Some d \<Rightarrow> map_option (Cons d) (undebug es)))
      else map_option (Cons c) (undebug cs))"

lemma simple_escape_props:
  assumes "simple_escape c = Some e"
  shows "simple_unescape e = Some c \<and> e \<noteq> CHR ''u''"
  using assms by (auto simp: simple_escape_def simple_unescape_def split: if_splits)

lemma show_hex_table:
  "\<forall>n \<in> set [0..<128]. read_hex (show_hex n) = n \<and> CHR ''}'' \<notin> set (show_hex n)"
  by code_simp

lemma show_hex_props:
  "n < 128 \<Longrightarrow> read_hex (show_hex n) = n" "n < 128 \<Longrightarrow> CHR ''}'' \<notin> set (show_hex n)"
  using show_hex_table by auto

lemma takeWhile_until: "x \<notin> set xs \<Longrightarrow> takeWhile (\<lambda>d. d \<noteq> x) (xs @ x # ys) = xs"
  by (simp add: takeWhile_append2 [of xs] takeWhile_tail) (induction xs; auto)

lemma undebug_debug_char: "undebug (debug_char c @ r) = map_option (Cons c) (undebug r)"
proof (cases "simple_escape c")
  case (Some e)
  then show ?thesis using simple_escape_props by (simp add: debug_char_def)
next
  case None
  show ?thesis
  proof (cases "is_control c")
    case True
    then have n: "(of_char c :: nat) < 128" by (auto simp: is_control_def)
    have "takeWhile (\<lambda>d. d \<noteq> CHR ''}'') (show_hex (of_char c) @ CHR ''}'' # r) = show_hex (of_char c)"
      by (rule takeWhile_until) (rule show_hex_props(2) [OF n])
    then show ?thesis using None True show_hex_props(1) [OF n]
      by (simp add: debug_char_def Let_def)
  next
    case False
    with None show ?thesis by (auto simp: debug_char_def simple_escape_def split: if_splits)
  qed
qed

lemma undebug_debug_str: "undebug (concat (map debug_char s) @ [double_quote]) = Some s"
  by (induction s) (simp_all add: undebug_debug_char)

text \<open>Quoting loses nothing: the quoted form of an identifier, quotes and control characters
  in it included, reads back as that identifier, so two different identifiers never have the
  same quoted form and the closing quote is never an escaped one.\<close>

lemma debug_str_roundtrip:
  "undebug (tl (debug_str s)) = Some s \<and> hd (debug_str s) = double_quote
     \<and> (debug_str s = debug_str t \<longleftrightarrow> s = t)"
proof -
  have read: "undebug (tl (debug_str s)) = Some s" for s
    using undebug_debug_str by (simp add: debug_str_def)
  then have "debug_str s = debug_str t \<longleftrightarrow> s = t" by (metis option.inject)
  with read show ?thesis by (simp add: debug_str_def)
qed

end
