(* ===== verification/Permits.thy ===== *)
theory Permits
  imports Crates DebugStr
begin

text \<open>
  The authorization policy \<open>examples/authorization/policies/commercial-docking.cedar\<close> of the
  repository, and what the Cedar documentation says about evaluating the part of the language
  it is written in: \<open>permit\<close> policies whose scope fixes the action and may fix the principal's
  type and the resource, and whose \<open>when\<close> clause is a conjunction of context attributes and upper
  limits. A policy whose clause reads a missing attribute or one of the wrong type errs and
  does not apply; a request is allowed when some permit applies and none forbids it.
\<close>

section \<open>Permits\<close>

datatype cedar_condition = Attribute string | AtMost string i64

record cedar_permit =
  pm_id :: string
  pm_principal_type :: "string option"
  pm_action :: entity_uid
  pm_resource :: "entity_uid option"
  pm_when :: "cedar_condition list"

text \<open>\<open>None\<close> is an evaluation error.\<close>

fun condition_value :: "json_object \<Rightarrow> cedar_condition \<Rightarrow> bool option" where
  "condition_value ctx (Attribute a) =
     (case map_of ctx a of Some (JBool b) \<Rightarrow> Some b | _ \<Rightarrow> None)"
| "condition_value ctx (AtMost a n) =
     (case map_of ctx a of Some (JInt i) \<Rightarrow> Some (sint i \<le> sint n) | _ \<Rightarrow> None)"

text \<open>\<open>&&\<close> evaluates from the left and stops at the first false operand.\<close>

fun when_value :: "json_object \<Rightarrow> cedar_condition list \<Rightarrow> bool option" where
  "when_value ctx [] = Some True"
| "when_value ctx (c # cs) =
     (case condition_value ctx c of
        None \<Rightarrow> None | Some False \<Rightarrow> Some False | Some True \<Rightarrow> when_value ctx cs)"

fun scope_allows :: "'a option \<Rightarrow> 'a \<Rightarrow> bool" where
  "scope_allows None x = True"
| "scope_allows (Some y) x = (x = y)"

definition permit_value :: "cedar_permit \<Rightarrow> cedar_request \<Rightarrow> bool option" where
  "permit_value p rq =
     (if scope_allows (pm_principal_type p) (entity_type (rq_principal rq)) \<and> rq_action rq = pm_action p
         \<and> scope_allows (pm_resource p) (rq_resource rq)
      then when_value (rq_context rq) (pm_when p) else Some False)"

definition permitted :: "cedar_permit list \<Rightarrow> cedar_request \<Rightarrow> bool" where
  "permitted ps rq \<longleftrightarrow> (\<exists>p \<in> set ps. permit_value p rq = Some True)"

section \<open>Documented behaviour of the Cedar crate\<close>

text \<open>The parsed policy set \<open>P\<close> is the list of permits \<open>ps\<close>.\<close>

definition policy_means :: "'p crates \<Rightarrow> 'p \<Rightarrow> cedar_permit list \<Rightarrow> bool" where
  "policy_means K P ps \<longleftrightarrow>
     (\<forall>rq. (rs_decision (is_authorized K rq P) = Allow \<longleftrightarrow> permitted ps rq)
         \<and> (rs_errors (is_authorized K rq P) = [] \<longleftrightarrow> (\<forall>p \<in> set ps. permit_value p rq \<noteq> None)))"

text \<open>An entity identifier in quotes, written as \<open>{:?}\<close> writes an ASCII string, is parsed to
  that string; contexts of booleans and integers with distinct keys are accepted and so are
  requests without a schema.\<close>

definition is_ascii :: "string \<Rightarrow> bool" where
  "is_ascii s \<longleftrightarrow> list_all (\<lambda>c. (of_char c :: nat) < 128) s"

definition cedar_ok :: "'p crates \<Rightarrow> bool" where
  "cedar_ok K \<longleftrightarrow>
     (\<forall>ty \<in> {''Vehicle'', ''Action'', ''Station''}. \<forall>s. is_ascii s \<longrightarrow>
        entity_uid_parse K (ty @ ''::'' @ debug_str s) = Inr \<lparr>entity_type = ty, entity_id = s\<rparr>)
     \<and> (\<forall>obj. distinct (map fst obj) \<longrightarrow> context_from_json_value K obj = Inr obj)
     \<and> (\<forall>p a r c. request_new K p a r c
            = Inr \<lparr>rq_principal = p, rq_action = a, rq_resource = r, rq_context = c\<rparr>)"

lemma when_value_True:
  "when_value ctx cs = Some True \<longleftrightarrow> list_all (\<lambda>c. condition_value ctx c = Some True) cs"
  by (induction cs) (auto split: option.splits bool.splits)

lemma when_value_defined:
  "list_all (\<lambda>c. condition_value ctx c \<noteq> None) cs \<Longrightarrow> when_value ctx cs \<noteq> None"
  by (induction cs) (auto split: option.splits bool.splits)

lemma permit_value_True:
  "permit_value p rq = Some True \<longleftrightarrow>
     scope_allows (pm_principal_type p) (entity_type (rq_principal rq)) \<and> rq_action rq = pm_action p
     \<and> scope_allows (pm_resource p) (rq_resource rq)
     \<and> list_all (\<lambda>c. condition_value (rq_context rq) c = Some True) (pm_when p)"
  by (auto simp: permit_value_def when_value_True)

section \<open>The commercial docking policy\<close>

definition docking_permit :: "string \<Rightarrow> string \<Rightarrow> cedar_condition list \<Rightarrow> cedar_permit" where
  "docking_permit name action conditions =
     \<lparr>pm_id = name, pm_principal_type = Some ''Vehicle'',
      pm_action = \<lparr>entity_type = ''Action'', entity_id = action\<rparr>,
      pm_resource = Some \<lparr>entity_type = ''Station'', entity_id = ''waystation-1''\<rparr>,
      pm_when = conditions\<rparr>"

definition commercial_docking :: "cedar_permit list" where
  "commercial_docking =
     [docking_permit ''authorize-commercial-session'' ''authorize_session''
        [Attribute ''registered_vehicle'', Attribute ''docking_certified'', Attribute ''holder_proof_valid''],
      docking_permit ''enter-approach'' ''enter_approach''
        [Attribute ''registered_vehicle'', Attribute ''holder_proof_valid'', Attribute ''readiness_fresh'',
         Attribute ''initial_hold_confirmed'', Attribute ''retreat_available'',
         AtMost ''closing_rate_mmps'' 600],
      docking_permit ''enter-final-approach'' ''enter_final_approach''
        [Attribute ''registered_vehicle'', Attribute ''docking_certified'', Attribute ''holder_proof_valid'',
         Attribute ''session_authorized'', Attribute ''readiness_fresh'',
         Attribute ''relative_navigation_valid'', Attribute ''approach_corridor_clear'',
         Attribute ''closing_rate_within_limit'', AtMost ''closing_rate_mmps'' 200, AtMost ''range_mm'' 1120],
      docking_permit ''engage-soft-capture'' ''engage_soft_capture''
        [Attribute ''docking_certified'', Attribute ''holder_proof_valid'', Attribute ''session_authorized'',
         Attribute ''readiness_fresh'', Attribute ''alignment_within_limit'', Attribute ''capture_system_ready'',
         AtMost ''closing_rate_mmps'' 100, AtMost ''range_mm'' 320],
      docking_permit ''engage-hard-dock'' ''engage_hard_dock''
        [Attribute ''docking_certified'', Attribute ''holder_proof_valid'', Attribute ''session_authorized'',
         Attribute ''readiness_fresh'', Attribute ''soft_capture_confirmed'', Attribute ''latches_ready'',
         Attribute ''relative_motion_stable'', AtMost ''closing_rate_mmps'' 50, AtMost ''range_mm'' 40]]"

section \<open>The policy of the unit tests\<close>

text \<open>\<open>POLICY\<close> of the tests in \<open>cedar.rs\<close>, its text and its meaning: two permits for any principal
  and any resource.\<close>

definition test_policy_text :: string where
  "test_policy_text = concat (map (\<lambda>line. CHR 0x0A # ''        '' @ line)
     [''permit(principal, action == Action::\"authorize_session\", resource)'',
      ''when { context.registered_vehicle && context.docking_certified && context.holder_proof_valid };'',
      ''permit(principal, action == Action::\"enter_approach\", resource)'',
      ''when { context.registered_vehicle && context.readiness_fresh && context.initial_hold_confirmed && context.closing_rate_mmps <= 600 };''])
     @ CHR 0x0A # ''    ''"

definition test_policy :: "cedar_permit list" where
  "test_policy =
     [\<lparr>pm_id = ''policy0'', pm_principal_type = None,
       pm_action = \<lparr>entity_type = ''Action'', entity_id = ''authorize_session''\<rparr>, pm_resource = None,
       pm_when = [Attribute ''registered_vehicle'', Attribute ''docking_certified'', Attribute ''holder_proof_valid'']\<rparr>,
      \<lparr>pm_id = ''policy1'', pm_principal_type = None,
       pm_action = \<lparr>entity_type = ''Action'', entity_id = ''enter_approach''\<rparr>, pm_resource = None,
       pm_when = [Attribute ''registered_vehicle'', Attribute ''readiness_fresh'',
                  Attribute ''initial_hold_confirmed'', AtMost ''closing_rate_mmps'' 600]\<rparr>]"

end
