(* ===== verification/Conforming.thy ===== *)
theory Conforming
  imports Permits
begin

text \<open>
  One instance of the crates that has all the documented behaviour stated in theory
  \<open>Crates\<close>: a length-prefixed serialization of the claims, a hexadecimal codec, and a
  signature scheme that is no cryptography but satisfies the verification law. It shows
  that the hypotheses of the theorems can hold together, and the witnesses run the model
  on it. No theorem about the code depends on it.
\<close>

section \<open>Numbers, byte strings, lists\<close>

fun enc_nat :: "nat \<Rightarrow> bytes" where
  "enc_nat n = (if n < 128 then [of_nat n] else of_nat (128 + n mod 128) # enc_nat (n div 128))"

fun dec_nat :: "bytes \<Rightarrow> (nat \<times> bytes) option" where
  "dec_nat [] = None"
| "dec_nat (b # bs) =
     (if unat b < 128 then Some (unat b, bs)
      else case dec_nat bs of None \<Rightarrow> None | Some (n, r) \<Rightarrow> Some (128 * n + (unat b - 128), r))"

declare enc_nat.simps [simp del]

lemma unat_of_nat_byte: "n < 256 \<Longrightarrow> unat (of_nat n :: u8) = n"
  by (simp add: unat_of_nat)

lemma dec_enc_nat [simp]: "dec_nat (enc_nat n @ r) = Some (n, r)"
proof (induction n rule: enc_nat.induct)
  case (1 n)
  show ?case
  proof (cases "n < 128")
    case True
    then show ?thesis by (subst enc_nat.simps) (simp add: unat_of_nat_byte)
  next
    case False
    have "unat (of_nat (128 + n mod 128) :: u8) = 128 + n mod 128"
      by (rule unat_of_nat_byte) simp
    moreover have "128 * (n div 128) + n mod 128 = n" by simp
    ultimately show ?thesis using 1 False by (subst enc_nat.simps) simp
  qed
qed

definition enc_bytes :: "bytes \<Rightarrow> bytes" where
  "enc_bytes bs = enc_nat (length bs) @ bs"

definition dec_bytes :: "bytes \<Rightarrow> (bytes \<times> bytes) option" where
  "dec_bytes bs = map_option (\<lambda>(n, r). (take n r, drop n r)) (dec_nat bs)"

definition enc_string :: "string \<Rightarrow> bytes" where
  "enc_string s = enc_bytes (as_bytes s)"

definition dec_string :: "bytes \<Rightarrow> (string \<times> bytes) option" where
  "dec_string bs = map_option (\<lambda>(s, r). (bytes_string s, r)) (dec_bytes bs)"

definition enc_word :: "u64 \<Rightarrow> bytes" where
  "enc_word w = enc_nat (unat w)"

definition dec_word :: "bytes \<Rightarrow> (u64 \<times> bytes) option" where
  "dec_word bs = map_option (\<lambda>(n, r). (of_nat n, r)) (dec_nat bs)"

fun enc_option :: "('a \<Rightarrow> bytes) \<Rightarrow> 'a option \<Rightarrow> bytes" where
  "enc_option e None = [0]"
| "enc_option e (Some x) = 1 # e x"

fun dec_option :: "(bytes \<Rightarrow> ('a \<times> bytes) option) \<Rightarrow> bytes \<Rightarrow> ('a option \<times> bytes) option" where
  "dec_option d [] = None"
| "dec_option d (b # bs) =
     (if b = 0 then Some (None, bs) else map_option (\<lambda>(x, r). (Some x, r)) (d bs))"

fun dec_times :: "(bytes \<Rightarrow> ('a \<times> bytes) option) \<Rightarrow> nat \<Rightarrow> bytes \<Rightarrow> ('a list \<times> bytes) option" where
  "dec_times d 0 bs = Some ([], bs)"
| "dec_times d (Suc n) bs =
     (case d bs of None \<Rightarrow> None
      | Some (x, r) \<Rightarrow> map_option (\<lambda>(xs, q). (x # xs, q)) (dec_times d n r))"

definition enc_list :: "('a \<Rightarrow> bytes) \<Rightarrow> 'a list \<Rightarrow> bytes" where
  "enc_list e xs = enc_nat (length xs) @ concat (map e xs)"

definition dec_list :: "(bytes \<Rightarrow> ('a \<times> bytes) option) \<Rightarrow> bytes \<Rightarrow> ('a list \<times> bytes) option" where
  "dec_list d bs = (case dec_nat bs of None \<Rightarrow> None | Some (n, r) \<Rightarrow> dec_times d n r)"

lemma dec_enc_bytes [simp]: "dec_bytes (enc_bytes bs @ r) = Some (bs, r)"
  by (simp add: dec_bytes_def enc_bytes_def)

lemma dec_enc_string [simp]: "dec_string (enc_string s @ r) = Some (s, r)"
  by (simp add: dec_string_def enc_string_def)

lemma dec_enc_word [simp]: "dec_word (enc_word w @ r) = Some (w, r)"
  by (simp add: dec_word_def enc_word_def)

lemma dec_enc_option:
  "(\<And>x r. d (e x @ r) = Some (x, r)) \<Longrightarrow> dec_option d (enc_option e y @ r) = Some (y, r)"
  by (cases y) auto

lemma dec_enc_times:
  "(\<And>x r. d (e x @ r) = Some (x, r)) \<Longrightarrow>
     dec_times d (length xs) (concat (map e xs) @ r) = Some (xs, r)"
  by (induction xs) auto

lemma dec_enc_list:
  "(\<And>x r. d (e x @ r) = Some (x, r)) \<Longrightarrow> dec_list d (enc_list e xs @ r) = Some (xs, r)"
  by (simp add: dec_list_def enc_list_def dec_enc_times)

lemmas dec_enc_more [simp] =
  dec_enc_option [of dec_bytes enc_bytes, OF dec_enc_bytes]
  dec_enc_option [of dec_string enc_string, OF dec_enc_string]
  dec_enc_option [of dec_word enc_word, OF dec_enc_word]
  dec_enc_list [of dec_bytes enc_bytes, OF dec_enc_bytes]

section \<open>Claims\<close>

fun enc_message_type :: "message_type \<Rightarrow> bytes" where
  "enc_message_type AccessRequest = [0]"
| "enc_message_type SessionOffer = [1]"
| "enc_message_type SessionProof = [2]"
| "enc_message_type AuthorizationGrant = [3]"

fun dec_message_type :: "bytes \<Rightarrow> (message_type \<times> bytes) option" where
  "dec_message_type [] = None"
| "dec_message_type (b # bs) =
     Some (if b = 0 then AccessRequest else if b = 1 then SessionOffer
           else if b = 2 then SessionProof else AuthorizationGrant, bs)"

fun enc_stage :: "authorized_stage \<Rightarrow> bytes" where
  "enc_stage s = [of_nat (stage_rank s)]"

fun dec_stage :: "bytes \<Rightarrow> (authorized_stage \<times> bytes) option" where
  "dec_stage [] = None"
| "dec_stage (b # bs) =
     Some (if b = 0 then StageHold else if b = 1 then StageApproach else if b = 2 then StageFinalApproach
           else if b = 3 then StageSoftCapture else StageHardDock, bs)"

lemma dec_enc_message_type [simp]: "dec_message_type (enc_message_type t @ r) = Some (t, r)"
  by (cases t) auto

lemma dec_enc_stage [simp]: "dec_stage (enc_stage s @ r) = Some (s, r)"
  by (cases s) auto

lemmas dec_enc_stage_option [simp] = dec_enc_option [of dec_stage enc_stage, OF dec_enc_stage]

definition enc_protocol :: "protocol_claims \<Rightarrow> bytes" where
  "enc_protocol c =
     enc_message_type (pc_message_type c) @ enc_string (pc_issuer c) @ enc_string (pc_recipient c)
     @ enc_word (pc_issued_at_s c) @ enc_bytes (pc_nonce c) @ enc_option enc_string (pc_session_id c)
     @ enc_option enc_stage (pc_authorized_stage c) @ enc_option enc_bytes (pc_challenge_nonce c)
     @ enc_list enc_bytes (pc_credentials c) @ enc_option enc_string (pc_grant_id c)
     @ enc_option enc_word (pc_expires_at_s c) @ enc_option enc_string (pc_protocol_profile_id c)
     @ enc_option enc_word (pc_protocol_profile_version c) @ enc_option enc_string (pc_rule_id c)
     @ enc_option enc_string (pc_authorization_policy_bundle_id c)
     @ enc_option enc_word (pc_authorization_policy_bundle_version c)
     @ enc_option enc_string (pc_authorization_policy_sha256 c) @ []"

definition next_field :: "(bytes \<Rightarrow> ('a \<times> bytes) option) \<Rightarrow> bytes \<Rightarrow> ('a \<Rightarrow> bytes \<Rightarrow> 'b option) \<Rightarrow> 'b option" where
  "next_field d bs f = (case d bs of None \<Rightarrow> None | Some (x, r) \<Rightarrow> f x r)"

lemma next_field_Some [simp]: "d bs = Some (x, r) \<Longrightarrow> next_field d bs f = f x r"
  by (simp add: next_field_def)

definition dec_protocol :: "bytes \<Rightarrow> protocol_claims option" where
  "dec_protocol b0 =
     next_field dec_message_type b0 (\<lambda>mt b1. next_field dec_string b1 (\<lambda>issuer b2.
     next_field dec_string b2 (\<lambda>recipient b3. next_field dec_word b3 (\<lambda>issued b4.
     next_field dec_bytes b4 (\<lambda>nonce b5. next_field (dec_option dec_string) b5 (\<lambda>session b6.
     next_field (dec_option dec_stage) b6 (\<lambda>stage b7. next_field (dec_option dec_bytes) b7 (\<lambda>challenge b8.
     next_field (dec_list dec_bytes) b8 (\<lambda>creds b9. next_field (dec_option dec_string) b9 (\<lambda>grant b10.
     next_field (dec_option dec_word) b10 (\<lambda>expires b11. next_field (dec_option dec_string) b11 (\<lambda>pid b12.
     next_field (dec_option dec_word) b12 (\<lambda>pver b13. next_field (dec_option dec_string) b13 (\<lambda>rule b14.
     next_field (dec_option dec_string) b14 (\<lambda>bid b15. next_field (dec_option dec_word) b15 (\<lambda>bver b16.
     next_field (dec_option dec_string) b16 (\<lambda>sha b17.
       Some \<lparr>pc_message_type = mt, pc_issuer = issuer, pc_recipient = recipient, pc_issued_at_s = issued,
             pc_nonce = nonce, pc_session_id = session, pc_authorized_stage = stage,
             pc_challenge_nonce = challenge, pc_credentials = creds, pc_grant_id = grant,
             pc_expires_at_s = expires, pc_protocol_profile_id = pid, pc_protocol_profile_version = pver,
             pc_rule_id = rule, pc_authorization_policy_bundle_id = bid,
             pc_authorization_policy_bundle_version = bver,
             pc_authorization_policy_sha256 = sha\<rparr>)))))))))))))))))"

lemma dec_enc_protocol [simp]: "dec_protocol (enc_protocol c) = Some c"
  by (simp add: dec_protocol_def enc_protocol_def del: append_Nil2 enc_stage.simps)

definition enc_credential :: "credential_claims \<Rightarrow> bytes" where
  "enc_credential c =
     enc_string (cc_issuer c) @ enc_string (cc_subject c) @ enc_string (cc_profile_id c)
     @ enc_string (cc_credential_type c) @ enc_string (cc_schema_id c) @ enc_string (cc_issuer_group c)
     @ enc_word (cc_issued_at_s c) @ enc_word (cc_expires_at_s c) @ enc_word (cc_status_checked_at_s c) @ []"

definition dec_credential :: "bytes \<Rightarrow> credential_claims option" where
  "dec_credential b0 =
     next_field dec_string b0 (\<lambda>issuer b1. next_field dec_string b1 (\<lambda>subject b2.
     next_field dec_string b2 (\<lambda>profile b3. next_field dec_string b3 (\<lambda>ctype b4.
     next_field dec_string b4 (\<lambda>schema b5. next_field dec_string b5 (\<lambda>group b6.
     next_field dec_word b6 (\<lambda>issued b7. next_field dec_word b7 (\<lambda>expires b8.
     next_field dec_word b8 (\<lambda>status b9.
       Some \<lparr>cc_issuer = issuer, cc_subject = subject, cc_profile_id = profile, cc_credential_type = ctype,
             cc_schema_id = schema, cc_issuer_group = group, cc_issued_at_s = issued,
             cc_expires_at_s = expires, cc_status_checked_at_s = status\<rparr>)))))))))"

lemma dec_enc_credential [simp]: "dec_credential (enc_credential c) = Some c"
  by (simp add: dec_credential_def enc_credential_def del: append_Nil2)

section \<open>COSE messages\<close>

fun enc_alg :: "cose_algorithm \<Rightarrow> bytes" where
  "enc_alg EdDSA = [0]"
| "enc_alg (OtherAlgorithm i) = (if i < 0 then 1 else 2) # enc_nat (nat \<bar>i\<bar>)"

fun dec_alg :: "bytes \<Rightarrow> (cose_algorithm \<times> bytes) option" where
  "dec_alg [] = None"
| "dec_alg (b # bs) =
     (if b = 0 then Some (EdDSA, bs)
      else map_option (\<lambda>(n, r). (OtherAlgorithm (if b = 1 then - int n else int n), r)) (dec_nat bs))"

lemma dec_enc_alg [simp]: "dec_alg (enc_alg a @ r) = Some (a, r)"
  by (cases a) auto

lemmas dec_enc_alg_option [simp] = dec_enc_option [of dec_alg enc_alg, OF dec_enc_alg]

definition enc_cose :: "cose_sign1 \<Rightarrow> bytes" where
  "enc_cose m =
     enc_option enc_alg (cose_alg m) @ enc_bytes (cose_key_id m) @ enc_option enc_bytes (cose_payload m)
     @ enc_bytes (cose_rest m) @ enc_bytes (cose_signature m) @ []"

definition dec_cose :: "bytes \<Rightarrow> cose_sign1 option" where
  "dec_cose b0 =
     next_field (dec_option dec_alg) b0 (\<lambda>alg b1. next_field dec_bytes b1 (\<lambda>key b2.
     next_field (dec_option dec_bytes) b2 (\<lambda>payload b3. next_field dec_bytes b3 (\<lambda>rest b4.
     next_field dec_bytes b4 (\<lambda>sig b5.
       Some \<lparr>cose_alg = alg, cose_key_id = key, cose_payload = payload, cose_signature = sig,
             cose_rest = rest\<rparr>)))))"

lemma dec_enc_cose [simp]: "dec_cose (enc_cose m) = Some m"
  by (simp add: dec_cose_def enc_cose_def del: append_Nil2)

section \<open>Hexadecimal\<close>

definition nibble_char :: "nat \<Rightarrow> char" where
  "nibble_char n = hex_alphabet ! n"

definition char_nibble :: "char \<Rightarrow> nat option" where
  "char_nibble c = map_of (zip hex_alphabet [0..<16]) c"

definition hex_enc :: "bytes \<Rightarrow> string" where
  "hex_enc bs = concat (map (\<lambda>b. [nibble_char (unat b div 16), nibble_char (unat b mod 16)]) bs)"

fun hex_dec :: "string \<Rightarrow> string + bytes" where
  "hex_dec [] = Inr []"
| "hex_dec [c] = Inl ''Odd number of digits''"
| "hex_dec (c # d # cs) =
     (case (char_nibble c, char_nibble d) of
        (Some h, Some l) \<Rightarrow> bind_result (hex_dec cs) (\<lambda>bs. Inr (of_nat (16 * h + l) # bs))
      | _ \<Rightarrow> Inl ''Invalid character'')"

lemma char_nibble_char: "n < 16 \<Longrightarrow> char_nibble (nibble_char n) = Some n"
proof -
  assume "n < 16"
  then have "n \<in> set [0..<16]" by simp
  then show ?thesis by (auto simp: upt_rec char_nibble_def nibble_char_def hex_alphabet_def)
qed

lemma unat_byte_less: "unat (b :: u8) < 256"
  using unsigned_less [of b] by simp

lemma hex_dec_enc: "hex_dec (hex_enc bs) = Inr bs"
proof (induction bs)
  case Nil
  then show ?case by (simp add: hex_enc_def)
next
  case (Cons b bs)
  have "unat b div 16 < 16" using unat_byte_less [of b] by simp
  moreover have "of_nat (16 * (unat b div 16) + unat b mod 16) = b" by simp
  ultimately show ?case using Cons by (simp add: hex_enc_def char_nibble_char)
qed

lemma hex_enc_alphabet: "set (hex_enc bs) \<subseteq> set hex_alphabet"
proof -
  have "nibble_char n \<in> set hex_alphabet" if "n < 16" for n
    unfolding nibble_char_def by (rule nth_mem) (use that in \<open>simp add: hex_alphabet_def\<close>)
  then show ?thesis
    using unat_byte_less by (auto simp: hex_enc_def less_mult_imp_div_less)
qed

section \<open>The instance\<close>

text \<open>A policy set is a list of permits; the only source texts it can parse are the name of the
  commercial policy and the policy of the tests, anything else is the empty set. Entity identifiers are read by undoing
  the quoting.\<close>

definition parse_entity :: "string \<Rightarrow> string + entity_uid" where
  "parse_entity s =
     (case undebug (drop 3 (dropWhile (\<lambda>c. c \<noteq> CHR '':'') s)) of
        None \<Rightarrow> Inl ''unexpected token''
      | Some i \<Rightarrow> Inr \<lparr>entity_type = takeWhile (\<lambda>c. c \<noteq> CHR '':'') s, entity_id = i\<rparr>)"

definition evaluate_permits :: "cedar_request \<Rightarrow> cedar_permit list \<Rightarrow> cedar_response" where
  "evaluate_permits rq ps =
     \<lparr>rs_decision = (if list_ex (\<lambda>p. permit_value p rq = Some True) ps then Allow else Deny),
      rs_errors = map pm_id (filter (\<lambda>p. permit_value p rq = None) ps),
      rs_diagnostics_debug = concat (map pm_id (filter (\<lambda>p. permit_value p rq = Some True) ps))\<rparr>"

definition conforming :: "cedar_permit list crates" where
  "conforming =
     \<lparr>hex_encode = hex_enc, hex_decode = hex_dec,
      cbor_write_protocol = Some \<circ> enc_protocol, cbor_read_protocol = dec_protocol,
      cbor_write_credential = Some \<circ> enc_credential, cbor_read_credential = dec_credential,
      cose_tbs = (\<lambda>m aad. enc_cose (m\<lparr>cose_signature := []\<rparr>) @ aad),
      cose_to_tagged_vec = Some \<circ> enc_cose, cose_from_tagged_slice = dec_cose,
      ed25519_public = id, ed25519_sign = (\<lambda>seed msg. seed),
      ed25519_verify_strict = (\<lambda>key msg sig. sig = key),
      verifying_key_from_bytes = Inr,
      parse_rfc3339 = (\<lambda>s. if s = ''2026-01-01T00:00:00Z'' then Some 1767225600
                           else if s = ''2027-01-01T00:00:00Z'' then Some 1798761600
                           else if s = ''2026-08-28T06:54:00Z'' then Some 1787900040 else None),
      sha256 = (\<lambda>bs. take 32 bs), os_random = (\<lambda>n. Inr (replicate 32 (of_nat n))),
      policy_set_from_str = (\<lambda>s. Inr (if s = ''commercial-docking.cedar'' then commercial_docking
                                    else if s = test_policy_text then test_policy else [])),
      policy_set_is_empty = (\<lambda>ps. case ps of [] \<Rightarrow> True | _ \<Rightarrow> False),
      entity_uid_parse = parse_entity, context_from_json_value = Inr,
      request_new = (\<lambda>p a r c. Inr \<lparr>rq_principal = p, rq_action = a, rq_resource = r, rq_context = c\<rparr>),
      is_authorized = evaluate_permits,
      overflow_checks = False\<rparr>"

lemma conforming_simps [simp]:
  "hex_encode conforming = hex_enc" "hex_decode conforming = hex_dec"
  "ed25519_public conforming = id" "ed25519_sign conforming = (\<lambda>seed msg. seed)"
  "ed25519_verify_strict conforming = (\<lambda>key msg sig. sig = key)"
  "verifying_key_from_bytes conforming = Inr" "overflow_checks conforming = False"
  "os_random conforming n = Inr (replicate 32 (of_nat n))"
  "parse_rfc3339 conforming ''2026-01-01T00:00:00Z'' = Some 1767225600"
  "parse_rfc3339 conforming ''2027-01-01T00:00:00Z'' = Some 1798761600"
  "parse_rfc3339 conforming ''2026-08-28T06:54:00Z'' = Some 1787900040"
  by (simp_all add: conforming_def)

lemma conforming_hex: "hex_ok conforming"
  by (simp add: hex_ok_def conforming_def hex_dec_enc hex_enc_alphabet)

lemma conforming_hex_bytewise: "hex_bytewise conforming"
proof -
  have "length (hex_enc bs) = 2 * length bs" for bs by (induction bs) (simp_all add: hex_enc_def)
  then show ?thesis by (simp add: hex_bytewise_def conforming_def) (simp add: hex_enc_def)
qed

lemma conforming_cbor: "cbor_ok conforming"
  by (simp add: cbor_ok_def conforming_def)

lemma conforming_cose: "cose_ok conforming"
  by (simp add: cose_ok_def conforming_def)

lemma conforming_ed25519: "ed25519_ok conforming"
  by (simp add: ed25519_ok_def conforming_def)

lemma parse_entity_debug:
  "CHR '':'' \<notin> set ty \<Longrightarrow> parse_entity (ty @ ''::'' @ debug_str s) = Inr \<lparr>entity_type = ty, entity_id = s\<rparr>"
  by (simp add: parse_entity_def debug_str_def takeWhile_until undebug_debug_str dropWhile_append3 dropWhile_append)

lemma conforming_cedar: "cedar_ok conforming"
proof -
  have "entity_uid_parse conforming = parse_entity" by (simp add: conforming_def)
  then show ?thesis
    using parse_entity_debug [of "''Vehicle''"] parse_entity_debug [of "''Action''"]
      parse_entity_debug [of "''Station''"]
    by (simp add: cedar_ok_def) (simp add: conforming_def)
qed

lemma conforming_policy: "policy_means conforming ps ps"
  by (auto simp: policy_means_def conforming_def evaluate_permits_def permitted_def list_ex_iff filter_empty_conv)

lemma conforming_keys: "ed25519_keys conforming"
  by (simp add: ed25519_keys_def)

lemma conforming_strict: "ed25519_strict conforming"
proof -
  have "butlast seed @ [b] = seed \<Longrightarrow> b = last seed" if "length seed = 32" for seed :: bytes and b
    using that by (metis last_snoc)
  then show ?thesis by (auto simp: ed25519_strict_def)
qed

lemma enc_nat_nonempty: "enc_nat n \<noteq> []"
  by (subst enc_nat.simps) simp

lemma conforming_signature_last: "cose_signature_last conforming"
proof -
  have "butlast (enc_cose m) @ [b] = enc_cose (m\<lparr>cose_signature := butlast (cose_signature m) @ [b]\<rparr>)"
      "last (enc_cose m) = last (cose_signature m)" "enc_cose m \<noteq> []" if "cose_signature m \<noteq> []" for m b
    using that by (simp_all add: enc_cose_def enc_bytes_def butlast_append enc_nat_nonempty)
  then show ?thesis by (simp add: cose_signature_last_def) (simp add: conforming_def)
qed

lemma char_nibble_alphabet: "char_nibble c = Some n \<Longrightarrow> c \<in> set hex_alphabet"
  by (auto simp: char_nibble_def dest!: map_of_SomeD set_zip_leftD)

lemma hex_dec_digits: "hex_dec s = Inr bs \<Longrightarrow> even (length s) \<and> set s \<subseteq> set hex_alphabet"
  by (induction s arbitrary: bs rule: hex_dec.induct)
     (auto split: option.splits dest: char_nibble_alphabet, blast+)

lemma conforming_hex_strict: "hex_strict conforming"
  using hex_dec_digits by (fastforce simp: hex_strict_def)

lemmas conforming_laws =
  conforming_cedar conforming_policy conforming_keys conforming_strict conforming_signature_last conforming_hex_strict
  conforming_hex conforming_hex_bytewise conforming_cbor conforming_cose conforming_ed25519

end
