(* ===== verification/Journal.thy ===== *)
theory Journal
  imports Replay Conforming
begin

text \<open>
  What the durable replay journal promises. The interface \<open>replay_store\<close> states the laws a
  \<open>ReplayStateBackend\<close> is documented to have ("durably commit an identifier before
  returning success"), the cache's guarantee across a restart is proved from them once, and
  the journal file is shown to provide them as long as a write is not torn. The last
  section shows what a torn write does.
\<close>

section \<open>Lines of a journal\<close>

lemma split_lines_newline: "split_lines (l @ 10 # r) = split_lines (l @ [10]) @ split_lines r"
proof (induction l rule: split_lines.induct)
  case 1
  then show ?case by simp
next
  case (2 b bs)
  show ?case
  proof (cases "b = 10")
    case True
    with 2 show ?thesis by simp
  next
    case b: False
    show ?thesis
    proof (cases "bs = []")
      case True
      with b show ?thesis by (cases "split_lines r") auto
    next
      case False
      then obtain c cs where bs: "bs = c # cs" by (cases bs) auto
      have ne: "split_lines (bs @ [10]) \<noteq> []" by (simp add: bs) (metis push_byte.elims list.distinct(1))
      then show ?thesis using 2 b by (cases "split_lines (bs @ [10])") (auto simp: bs)
    qed
  qed
qed

text \<open>A complete journal is empty or ends with a newline.\<close>

definition complete_journal :: "bytes \<Rightarrow> bool" where
  "complete_journal bs \<longleftrightarrow> bs = [] \<or> last bs = 10"

lemma split_lines_append:
  assumes "complete_journal bs"
  shows "split_lines (bs @ cs) = split_lines bs @ split_lines cs"
proof (cases "bs = []")
  case False
  with assms obtain l where "bs = l @ [10]" by (metis append_butlast_last_id complete_journal_def)
  then show ?thesis using split_lines_newline [of l cs] by simp
qed simp

lemma split_lines_plain:
  "10 \<notin> set l \<Longrightarrow> 13 \<notin> set l \<Longrightarrow> split_lines (l @ [10]) = [l]"
  by (induction l) (auto split: list.splits)

lemma hex_alphabet_bytes:
  "set s \<subseteq> set hex_alphabet \<Longrightarrow> \<forall>b \<in> set (as_bytes s). b \<noteq> 10 \<and> b \<noteq> 13 \<and> unat b < 128"
  by (induction s) (auto simp: as_bytes_def hex_alphabet_def)

lemma hex_alphabet_utf8:
  assumes "set s \<subseteq> set hex_alphabet"
  shows "is_utf8 s"
  unfolding is_utf8_def
  by (rule utf8_valid_ascii) (use hex_alphabet_bytes [OF assms] in \<open>auto simp: list_all_iff\<close>)

lemma split_journal_line: "hex_ok K \<Longrightarrow> split_lines (journal_line K v) = [as_bytes (hex_encode K v)]"
  unfolding journal_line_def
  by (rule split_lines_plain) (use hex_alphabet_bytes [OF hex_encode_alphabet] in blast)+

lemma decode_journal_line: "hex_ok K \<Longrightarrow> decode_line K (as_bytes (hex_encode K v)) = Inr v"
  by (simp add: decode_line_def hex_alphabet_utf8 hex_encode_alphabet)

lemma complete_journal_append: "complete_journal (bs @ journal_line K v)"
  by (simp add: complete_journal_def journal_line_def)

section \<open>The entries of a journal\<close>

definition journal_entries :: "'p crates \<Rightarrow> bytes \<Rightarrow> string + bytes list" where
  "journal_entries K bs = collect_results (map (decode_line K) (split_lines bs))"

lemma journal_entries_Nil: "journal_entries K [] = Inr []"
  by (simp add: journal_entries_def)

lemma journal_entries_append:
  assumes "complete_journal bs" "journal_entries K bs = Inr xs" "journal_entries K cs = Inr ys"
  shows "journal_entries K (bs @ cs) = Inr (xs @ ys)"
  using assms by (auto simp: journal_entries_def collect_results_Inr split_lines_append)

lemma journal_entries_line: "hex_ok K \<Longrightarrow> journal_entries K (journal_line K v) = Inr [v]"
  by (simp add: journal_entries_def split_journal_line decode_journal_line collect_results_Inr)

lemma journal_roundtrip_lemma:
  assumes "hex_ok K" "complete_journal bs" "journal_entries K bs = Inr xs"
  shows "complete_journal (bs @ journal_line K v)
     \<and> journal_entries K (bs @ journal_line K v) = Inr (xs @ [v])"
  using assms journal_entries_append journal_entries_line complete_journal_append by blast

text \<open>Loading and appending, in terms of the entries.\<close>

lemma journal_load_entries:
  "jf_read_error f = None \<Longrightarrow> journal_load K f = (journal_entries K (journal_bytes f), f)"
  by (simp add: journal_load_def journal_bytes_def journal_entries_Nil split: option.splits)
     (simp add: journal_entries_def)

lemma journal_append_result:
  "jf_append_outcome f (jf_appends f) = AppendOk \<Longrightarrow>
     journal_append K v f = (Inr (), f\<lparr>jf_appends := Suc (jf_appends f),
        jf_contents := Some (journal_bytes f @ journal_line K v)\<rparr>)"
  "jf_append_outcome f (jf_appends f) = WriteFails k e \<Longrightarrow>
     journal_append K v f = (Inl e, f\<lparr>jf_appends := Suc (jf_appends f),
        jf_contents := Some (journal_bytes f @ take k (journal_line K v))\<rparr>)"
  by (simp_all add: journal_append_def)

text \<open>C27. The journal round-trips: appending identifiers to a complete journal that loads as \<open>xs\<close>,
  with writes that succeed, gives a complete journal that loads as \<open>xs\<close> followed by the appended
  ones, in their order.\<close>

theorem journal_roundtrip:
  assumes "hex_ok K" "complete_journal (journal_bytes f)" "jf_read_error f = None"
    and "journal_load K f = (Inr xs, f)" "\<forall>n. jf_append_outcome f n = AppendOk"
  shows "\<exists>g. run_all (journal_append K) vs f = (map (\<lambda>_. Inr ()) vs, g)
     \<and> journal_load K g = (Inr (xs @ vs), g) \<and> complete_journal (journal_bytes g)"
  using assms(2-5)
proof (induction vs arbitrary: f xs)
  case Nil
  then show ?case by simp
next
  case (Cons v vs)
  let ?f = "f\<lparr>jf_appends := Suc (jf_appends f), jf_contents := Some (journal_bytes f @ journal_line K v)\<rparr>"
  have f: "journal_append K v f = (Inr (), ?f)" by (rule journal_append_result(1)) (simp add: Cons.prems(4))
  have entries: "journal_entries K (journal_bytes f) = Inr xs"
    using Cons.prems(3) by (simp add: journal_load_entries [OF Cons.prems(2)])
  have bytes: "journal_bytes ?f = journal_bytes f @ journal_line K v" by (simp add: journal_bytes_def)
  have "journal_load K ?f = (Inr (xs @ [v]), ?f)"
    using journal_roundtrip_lemma [OF assms(1) Cons.prems(1) entries] Cons.prems(2)
    by (simp add: journal_load_entries bytes)
  then have "\<exists>g. run_all (journal_append K) vs ?f = (map (\<lambda>_. Inr ()) vs, g)
      \<and> journal_load K g = (Inr ((xs @ [v]) @ vs), g) \<and> complete_journal (journal_bytes g)"
    using Cons.prems complete_journal_append by (intro Cons.IH) (simp_all add: bytes)
  then show ?case by (auto simp: f)
qed

section \<open>The contract of a backend and what the cache makes of it\<close>

locale replay_store =
  fixes load :: "('b, string, bytes list) op"
    and append :: "bytes \<Rightarrow> ('b, string, unit) op"
    and stored :: "'b \<Rightarrow> bytes set"
    and invar :: "'b \<Rightarrow> bool"
  assumes load_stored: "invar b \<Longrightarrow> load b = (Inr xs, d) \<Longrightarrow> set xs = stored b \<and> stored d = stored b \<and> invar d"
    and append_ok: "invar b \<Longrightarrow> append v b = (Inr (), d) \<Longrightarrow> stored d = insert v (stored b) \<and> invar d"
    and append_err: "invar b \<Longrightarrow> append v b = (Inl e, d) \<Longrightarrow> stored b \<subseteq> stored d \<and> invar d"
begin

text \<open>The cache never holds an identifier the store has not got.\<close>

definition coherent :: "'b replay_cache \<Rightarrow> bool" where
  "coherent c \<longleftrightarrow>
     (\<exists>b. rc_backend c = Some (\<lparr>be_load = load, be_append_and_sync = append\<rparr>, b) \<and> invar b
        \<and> rc_consumed c \<subseteq> stored b)"

lemma with_backend_coherent:
  "invar b \<Longrightarrow> with_backend \<lparr>be_load = load, be_append_and_sync = append\<rparr> b = Inr c
     \<Longrightarrow> coherent c \<and> rc_consumed c = stored b"
  using load_stored [of b] by (auto simp: with_backend_def coherent_def split: prod.splits sum.splits)

lemma consume_coherent: "keeps coherent (consume v)"
proof (unfold keeps_def, intro allI impI)
  fix c
  assume "coherent c"
  then obtain b where b: "rc_backend c = Some (\<lparr>be_load = load, be_append_and_sync = append\<rparr>, b)"
      "invar b" "rc_consumed c \<subseteq> stored b"
    by (auto simp: coherent_def)
  obtain r d where app: "append v b = (r, d)" by fastforce
  have "stored b \<subseteq> stored d \<and> invar d \<and> (r = Inr () \<longrightarrow> v \<in> stored d)"
    using app append_ok [OF b(2)] append_err [OF b(2)] by (cases r) auto
  then show "coherent (snd (consume v c))"
    using b app by (cases r) (auto simp: consume_def coherent_def)
qed

sublocale cache_machine: machine consume coherent
  by unfold_locales (rule consume_coherent)

text \<open>What a restarted cache knows.\<close>

lemma restart_knows:
  assumes "coherent c" "rc_backend c = Some (ops, b)" "with_backend ops b = Inr d" "v \<in> rc_consumed c"
  shows "fst (consume v d) = Inl Replay"
proof -
  have "ops = \<lparr>be_load = load, be_append_and_sync = append\<rparr>" "invar b" "v \<in> stored b"
    using assms(1,2,4) by (auto simp: coherent_def)
  with assms(3) with_backend_coherent have "v \<in> rc_consumed d" by blast
  then show ?thesis by (simp add: consume_def)
qed

end

section \<open>The journal file provides the contract\<close>

text \<open>No write stops part-way. Appends may still fail to open, write or sync.\<close>

definition atomic_appends :: "journal_file \<Rightarrow> bool" where
  "atomic_appends f \<longleftrightarrow> (\<forall>n k e. jf_append_outcome f n = WriteFails k e \<longrightarrow> k = 0)"

definition journal_stored :: "'p crates \<Rightarrow> journal_file \<Rightarrow> bytes set" where
  "journal_stored K f = (case journal_entries K (journal_bytes f) of Inl e \<Rightarrow> {} | Inr xs \<Rightarrow> set xs)"

definition journal_ok :: "'p crates \<Rightarrow> journal_file \<Rightarrow> bool" where
  "journal_ok K f \<longleftrightarrow>
     hex_ok K \<and> atomic_appends f \<and> complete_journal (journal_bytes f)
     \<and> (\<exists>xs. journal_entries K (journal_bytes f) = Inr xs)"

lemma journal_load_stored:
  "journal_ok K f \<Longrightarrow> journal_load K f = (Inr xs, g) \<Longrightarrow>
     set xs = journal_stored K f \<and> journal_stored K g = journal_stored K f \<and> journal_ok K g"
  by (auto simp: journal_load_def journal_stored_def journal_bytes_def journal_entries_Nil
      journal_entries_def [symmetric] split: option.splits)

lemma journal_append_grows:
  assumes "journal_ok K f" "jf_contents g = Some (journal_bytes f @ journal_line K v)"
    "jf_append_outcome g = jf_append_outcome f"
  shows "journal_stored K g = insert v (journal_stored K f) \<and> journal_ok K g"
proof -
  obtain xs where "journal_entries K (journal_bytes f) = Inr xs"
    using assms(1) by (auto simp: journal_ok_def)
  then show ?thesis
    using assms journal_roundtrip_lemma [of K "journal_bytes f" xs v]
    by (auto simp: journal_ok_def journal_stored_def journal_bytes_def atomic_appends_def)
qed

lemma journal_append_same:
  "journal_ok K f \<Longrightarrow> journal_bytes g = journal_bytes f \<Longrightarrow> jf_append_outcome g = jf_append_outcome f
     \<Longrightarrow> journal_stored K g = journal_stored K f \<and> journal_ok K g"
  by (simp add: journal_ok_def journal_stored_def atomic_appends_def)

lemma journal_append_effect:
  assumes "journal_ok K f" "journal_append K v f = (r, g)"
  shows "jf_append_outcome g = jf_append_outcome f
     \<and> (jf_contents g = Some (journal_bytes f @ journal_line K v)
        \<or> r \<noteq> Inr () \<and> journal_bytes g = journal_bytes f)"
proof (cases "jf_append_outcome f (jf_appends f)")
  case (WriteFails k e)
  with assms(1) have "k = 0" by (auto simp: journal_ok_def atomic_appends_def)
  with WriteFails assms(2) show ?thesis
    by (auto simp: journal_append_def Let_def journal_bytes_def)
qed (use assms(2) in \<open>auto simp: journal_append_def Let_def journal_bytes_def\<close>)

interpretation journal: replay_store "journal_load K" "journal_append K" "journal_stored K" "journal_ok K"
  for K
proof unfold_locales
  show "set xs = journal_stored K b \<and> journal_stored K d = journal_stored K b \<and> journal_ok K d"
    if "journal_ok K b" "journal_load K b = (Inr xs, d)" for b xs d
    using that by (rule journal_load_stored)
  show "journal_stored K d = insert v (journal_stored K b) \<and> journal_ok K d"
    if "journal_ok K b" "journal_append K v b = (Inr (), d)" for b v d
    using that journal_append_effect journal_append_grows by blast
  show "journal_stored K b \<subseteq> journal_stored K d \<and> journal_ok K d"
    if "journal_ok K b" "journal_append K v b = (Inl e, d)" for b v e d
    using that journal_append_effect [OF that] journal_append_grows [of K b d v] journal_append_same [of K b d]
    by blast
qed

section \<open>Guarantees of a persistent cache\<close>

text \<open>Commit before accept: when a persistent cache accepts an identifier, its record is
  already at the end of the journal file, whatever faults earlier writes met.\<close>

lemma accepted_is_durable:
  assumes "rc_backend c = Some (journal_backend K, f)" "consume v c = (Inr (), d)"
  shows "\<exists>g. rc_backend d = Some (journal_backend K, g)
           \<and> jf_contents g = Some (journal_bytes f @ journal_line K v)"
  using assms
  by (auto simp: consume_def journal_backend_def journal_append_def Let_def
      split: if_splits prod.splits append_outcome.splits sum.splits)

definition fresh_journal :: journal_file where
  "fresh_journal =
     \<lparr>jf_contents = None, jf_appends = 0, jf_append_outcome = (\<lambda>_. AppendOk), jf_read_error = None\<rparr>"

theorem journal_roundtrip_witness:
  "\<exists>g. run_all (journal_append conforming) [[1, 255], [7]] fresh_journal = ([Inr (), Inr ()], g)
     \<and> journal_load conforming g = (Inr [[1, 255], [7]], g)"
proof -
  have "complete_journal (journal_bytes fresh_journal)" "jf_read_error fresh_journal = None"
      "journal_load conforming fresh_journal = (Inr [], fresh_journal)"
      "\<forall>n. jf_append_outcome fresh_journal n = AppendOk"
    by (simp_all add: fresh_journal_def journal_bytes_def complete_journal_def journal_load_def)
  from journal_roundtrip [OF conforming_hex this, of "[[1, 255], [7]]"] show ?thesis by auto
qed

definition fresh_cache :: "journal_file replay_cache" where
  "fresh_cache = \<lparr>rc_consumed = {}, rc_backend = Some (journal_backend conforming, fresh_journal)\<rparr>"

lemma persistent_fresh: "persistent K None fresh_journal = Inr \<lparr>rc_consumed = {}, rc_backend = Some (journal_backend K, fresh_journal)\<rparr>"
  by (simp add: persistent_def with_backend_def journal_backend_def journal_load_def fresh_journal_def)

lemma consume_fresh:
  "consume v fresh_cache =
     (Inr (), \<lparr>rc_consumed = {v}, rc_backend = Some (journal_backend conforming,
        fresh_journal\<lparr>jf_contents := Some (journal_line conforming v), jf_appends := 1\<rparr>)\<rparr>)"
  by (simp add: consume_def fresh_cache_def journal_backend_def journal_append_def journal_bytes_def
      fresh_journal_def)

lemma accepted_is_durable_witness:
  "\<exists>g. rc_backend (snd (consume [1, 2] fresh_cache)) = Some (journal_backend conforming, g)
        \<and> jf_contents g = Some (journal_bytes fresh_journal @ journal_line conforming [1, 2])"
  by (rule accepted_is_durable [of fresh_cache conforming fresh_journal "[1, 2]"])
     (simp_all add: consume_fresh, simp add: fresh_cache_def)

lemma journal_backend_eq:
  "journal_backend K = \<lparr>be_load = journal_load K, be_append_and_sync = journal_append K\<rparr>"
  by (fact journal_backend_def)

lemma run_keeps_read_error:
  "rc_backend c = Some (journal_backend K, f) \<Longrightarrow> jf_read_error f = None \<Longrightarrow>
   \<exists>g. rc_backend (snd (run_all consume ns c)) = Some (journal_backend K, g) \<and> jf_read_error g = None"
proof (induction ns arbitrary: c f)
  case Nil
  then show ?case by simp
next
  case (Cons n ns)
  have "\<exists>g. rc_backend (snd (consume n c)) = Some (journal_backend K, g) \<and> jf_read_error g = None"
    using Cons.prems
    by (auto simp: consume_def journal_backend_def journal_append_def Let_def
        split: prod.splits append_outcome.splits sum.splits)
  then obtain g where "rc_backend (snd (consume n c)) = Some (journal_backend K, g)" "jf_read_error g = None"
    by blast
  from Cons.IH [OF this] show ?case by (auto split: prod.splits)
qed

abbreviation journal_coherent :: "'p crates \<Rightarrow> journal_file replay_cache \<Rightarrow> bool" where
  "journal_coherent K \<equiv>
     replay_store.coherent (journal_load K) (journal_append K) (journal_stored K) (journal_ok K)"

lemma persistent_coherent:
  "journal_ok K f \<Longrightarrow> persistent K None f = Inr c \<Longrightarrow>
     journal_coherent K c \<and> rc_consumed c = journal_stored K f
     \<and> (\<exists>g. rc_backend c = Some (journal_backend K, g) \<and> jf_read_error g = jf_read_error f)"
  using journal.with_backend_coherent [where K = K and b = f and c = c]
  by (auto simp: persistent_def journal_backend_def with_backend_def journal_load_def
      split: option.splits sum.splits prod.splits)

lemma persistent_readable:
  "journal_ok K f \<Longrightarrow> jf_read_error f = None \<Longrightarrow> \<exists>c. persistent K None f = Inr c"
  by (auto simp: persistent_def journal_backend_def with_backend_def journal_load_def journal_ok_def
      journal_entries_def journal_bytes_def split: option.splits)

text \<open>C26. Replay protection survives restarts: after any sequence of attempts on a persistent
  cache, with appends failing to open, write or sync at will but never torn, reopening the
  journal succeeds and the new cache rejects everything that was ever consumed.\<close>

theorem restart_remembers:
  assumes "journal_ok K f" "jf_read_error f = None" "persistent K None f = Inr c"
    and "run_all consume ns c = (rs, d)"
  shows "\<exists>g d'. rc_backend d = Some (journal_backend K, g) \<and> persistent K None g = Inr d'
           \<and> (\<forall>v \<in> rc_consumed c \<union> set (accepted ns rs). fst (consume v d') = Inl Replay)"
proof -
  note c = persistent_coherent [OF assms(1,3)]
  have d: "journal_coherent K d"
    using journal.cache_machine.inv_run [where K = K and s = c and ks = ns] c assms(4) by simp
  obtain g where g: "rc_backend d = Some (journal_backend K, g)" "jf_read_error g = None"
    using run_keeps_read_error [of c K _ ns] c assms(2,4) by fastforce
  have "journal_ok K g" using d g(1) by (auto simp: journal.coherent_def journal_backend_def)
  then obtain d' where d': "persistent K None g = Inr d'"
    using persistent_readable g(2) by blast
  have "fst (consume v d') = Inl Replay" if "v \<in> rc_consumed c \<union> set (accepted ns rs)" for v
    using journal.restart_knows [OF d, where v = v and d = d'] g(1) d' that cache.at_most_once [OF assms(4)]
    by (simp add: persistent_def)
  with g(1) d' show ?thesis by blast
qed

lemma fresh_journal_ok: "journal_ok conforming fresh_journal"
  by (simp add: journal_ok_def conforming_hex atomic_appends_def fresh_journal_def journal_bytes_def
      complete_journal_def journal_entries_Nil)

theorem restart_remembers_witness:
  "\<exists>g d'. rc_backend (snd (run_all consume [[1, 2], [1, 2]] fresh_cache)) = Some (journal_backend conforming, g)
        \<and> persistent conforming None g = Inr d' \<and> fst (consume [1, 2] d') = Inl Replay"
proof -
  have open_ok: "persistent conforming None fresh_journal = Inr fresh_cache"
    by (simp add: persistent_fresh fresh_cache_def)
  obtain rs d where run: "run_all consume [[1, 2], [1, 2]] fresh_cache = (rs, d)" by fastforce
  have "[1, 2] \<in> set (accepted [[1, 2], [1, 2]] rs)"
    using run by (auto simp: consume_fresh split: prod.splits)
  moreover have "jf_read_error fresh_journal = None" by (simp add: fresh_journal_def)
  ultimately show ?thesis
    using restart_remembers [OF fresh_journal_ok _ open_ok run] run by auto
qed

section \<open>A torn write\<close>

text \<open>One more line of digits, whether or not they are an encoding.\<close>

lemma journal_entries_digits:
  assumes "hex_ok K" "complete_journal bs" "journal_entries K bs = Inr xs" "set s \<subseteq> set hex_alphabet"
  shows "journal_entries K (bs @ as_bytes s @ [10]) = (case hex_decode K s of Inl m \<Rightarrow> Inl m | Inr v \<Rightarrow> Inr (xs @ [v]))"
proof -
  have "split_lines (as_bytes s @ [10]) = [as_bytes s]"
    by (rule split_lines_plain) (use hex_alphabet_bytes [OF assms(4)] in blast)+
  moreover have "decode_line K (as_bytes s) = hex_decode K s"
    by (simp add: decode_line_def hex_alphabet_utf8 [OF assms(4)])
  moreover have "collect_results (map Inr xs @ [r]) = (case r of Inl m \<Rightarrow> Inl m | Inr v \<Rightarrow> Inr (xs @ [v]))" for r :: "string + bytes"
    by (induction xs) (cases r; simp)+
  ultimately show ?thesis
    using assms(3) by (simp add: journal_entries_def split_lines_append [OF assms(2)] collect_results_Inr)
qed

lemma torn_digits:
  assumes "hex_bytewise K" "k \<le> 2 * length a" "even k"
  shows "take k (hex_encode K a) = hex_encode K (take (k div 2) a)"
proof -
  have "hex_encode K a = hex_encode K (take (k div 2) a) @ hex_encode K (drop (k div 2) a)"
    using assms(1) unfolding hex_bytewise_def by (metis append_take_drop_id)
  moreover have "length (hex_encode K (take (k div 2) a)) = k"
    using assms by (auto simp: hex_bytewise_def)
  ultimately show ?thesis by simp
qed

text \<open>What a journal holds after a torn line for \<open>a\<close> and a line for \<open>b\<close>.\<close>

definition entries_after_tear :: "bytes list \<Rightarrow> nat \<Rightarrow> bytes \<Rightarrow> bytes \<Rightarrow> bytes list option" where
  "entries_after_tear xs k a b =
     (if 2 * length a < k then Some (xs @ [a, b])
      else if even k then Some (xs @ [take (k div 2) a @ b])
      else None)"

lemma journal_entries_torn:
  assumes "hex_ok K" "hex_strict K" "hex_bytewise K" "complete_journal bs" "journal_entries K bs = Inr xs"
  shows "case entries_after_tear xs k a b of
      Some ys \<Rightarrow> journal_entries K (bs @ take k (journal_line K a) @ journal_line K b) = Inr ys
    | None \<Rightarrow> \<exists>m. journal_entries K (bs @ take k (journal_line K a) @ journal_line K b) = Inl m"
proof (cases "2 * length a < k")
  case True
  then have "take k (journal_line K a) = journal_line K a"
    using assms(3) by (simp add: journal_line_def hex_bytewise_def)
  with True show ?thesis
    using journal_roundtrip_lemma [OF assms(1,4,5), of a] journal_roundtrip_lemma [OF assms(1), of "bs @ journal_line K a" "xs @ [a]" b]
    by (simp add: entries_after_tear_def)
next
  case False
  let ?s = "take k (hex_encode K a) @ hex_encode K b"
  have torn: "take k (journal_line K a) @ journal_line K b = as_bytes ?s @ [10]"
    using assms(3) False by (simp add: journal_line_def hex_bytewise_def as_bytes_def take_map)
  have "set ?s \<subseteq> set hex_alphabet"
    using hex_encode_alphabet [OF assms(1)] set_take_subset by (metis Un_least dual_order.trans set_append)
  note entries = journal_entries_digits [OF assms(1,4,5) this]
  show ?thesis
  proof (cases "even k")
    case True
    have "?s = hex_encode K (take (k div 2) a @ b)"
      using torn_digits [OF assms(3) _ True, of a] False assms(3) by (simp add: hex_bytewise_def)
    then have "hex_decode K ?s = Inr (take (k div 2) a @ b)" using assms(1) by simp
    then show ?thesis unfolding torn entries using True False by (simp add: entries_after_tear_def)
  next
    case odd: False
    have "odd (length ?s)" using assms(3) odd False by (simp add: hex_bytewise_def)
    then obtain m where "hex_decode K ?s = Inl m"
      using assms(2) unfolding hex_strict_def by (cases "hex_decode K ?s") blast+
    then show ?thesis unfolding torn entries using odd False by (simp add: entries_after_tear_def)
  qed
qed


text \<open>C28. What the journal holds after a torn write. If an append for \<open>a\<close> fails after \<open>k\<close> bytes of its
  line, the error is reported; the next append, for \<open>b\<close>, succeeds and \<open>b\<close> is accepted, but it goes
  on in the same line. When the journal is reopened: if the whole line of \<open>a\<close> had been written,
  both are known. If the tear was between the two digits of a byte, the journal is unreadable and
  the cache does not open. Otherwise the bytes of \<open>a\<close> that were written and \<open>b\<close> are read as one
  identifier, and unless nothing of \<open>a\<close> was written, \<open>b\<close> is forgotten although it was accepted.\<close>

theorem torn_write_forgets_next:
  assumes "hex_ok K" "hex_strict K" "hex_bytewise K"
    and "complete_journal (journal_bytes f)" "jf_read_error f = None" "journal_load K f = (Inr xs, f)"
    and "jf_append_outcome f (jf_appends f) = WriteFails k e"
    and "jf_append_outcome f (Suc (jf_appends f)) = AppendOk"
    and "rc_backend c = Some (journal_backend K, f)" "a \<notin> rc_consumed c" "b \<notin> rc_consumed c"
  shows "\<exists>c1 c2 g. consume a c = (Inl (PersistentState e), c1) \<and> consume b c1 = (Inr (), c2)
     \<and> rc_backend c2 = Some (journal_backend K, g)
     \<and> (if 2 * length a < k
        then \<exists>d. persistent K None g = Inr d \<and> rc_consumed d = insert a (insert b (set xs))
        else if even k
        then \<exists>d. persistent K None g = Inr d \<and> rc_consumed d = insert (take (k div 2) a @ b) (set xs)
           \<and> (b \<in> rc_consumed d \<longleftrightarrow> k = 0 \<or> b \<in> set xs)
        else \<exists>m. persistent K None g = Inl (PersistentState m))"
proof -
  let ?torn = "take k (journal_line K a)"
  let ?f1 = "f\<lparr>jf_appends := Suc (jf_appends f), jf_contents := Some (journal_bytes f @ ?torn)\<rparr>"
  let ?g = "?f1\<lparr>jf_appends := Suc (Suc (jf_appends f)),
     jf_contents := Some (journal_bytes f @ ?torn @ journal_line K b)\<rparr>"
  let ?c1 = "c\<lparr>rc_backend := Some (journal_backend K, ?f1)\<rparr>"
  let ?c2 = "c\<lparr>rc_consumed := insert b (rc_consumed c), rc_backend := Some (journal_backend K, ?g)\<rparr>"
  have "consume a c = (Inl (PersistentState e), ?c1)"
    using assms(9,10) by (simp add: consume_def journal_backend_def journal_append_result(2) [OF assms(7)])
  moreover have "consume b ?c1 = (Inr (), ?c2)"
    using assms(8,11) by (simp add: consume_def journal_backend_def journal_append_result(1) journal_bytes_def)
  moreover have "persistent K None ?g = (case journal_entries K (journal_bytes f @ ?torn @ journal_line K b) of
      Inl m \<Rightarrow> Inl (PersistentState m)
    | Inr ys \<Rightarrow> Inr \<lparr>rc_consumed = set ys, rc_backend = Some (journal_backend K, ?g)\<rparr>)"
    using assms(5) by (simp add: persistent_def with_backend_def journal_backend_def journal_load_entries
        journal_bytes_def split: sum.splits)
  moreover have "journal_entries K (journal_bytes f) = Inr xs"
    using assms(6) by (simp add: journal_load_entries [OF assms(5)])
  note journal_entries_torn [OF assms(1-4) this, of k a b]
  moreover have "take (k div 2) a @ b = b \<longleftrightarrow> k = 0" if "even k" "\<not> 2 * length a < k"
    using that by (cases a) auto
  ultimately show ?thesis
    by (intro exI [of _ ?c1] exI [of _ ?c2] exI [of _ ?g])
       (auto simp: entries_after_tear_def split: if_splits)
qed

text \<open>A disk that is full after \<open>k\<close> bytes of the first line, for a moment.\<close>

definition torn_journal :: "nat \<Rightarrow> journal_file" where
  "torn_journal k = fresh_journal\<lparr>jf_append_outcome := (\<lambda>n. if n = 0 then WriteFails k ''disk full'' else AppendOk)\<rparr>"

definition torn_cache :: "nat \<Rightarrow> journal_file replay_cache" where
  "torn_cache k = \<lparr>rc_consumed = {}, rc_backend = Some (journal_backend conforming, torn_journal k)\<rparr>"

theorem torn_write_forgets_next_witness:
  "(\<exists>c1 c2 g d. consume [1, 2] (torn_cache 2) = (Inl (PersistentState ''disk full''), c1) \<and> consume [9] c1 = (Inr (), c2)
       \<and> rc_backend c2 = Some (journal_backend conforming, g) \<and> persistent conforming None g = Inr d
       \<and> rc_consumed d = {[1, 9]})
   \<and> (\<exists>c1 c2 g m. consume [1, 2] (torn_cache 1) = (Inl (PersistentState ''disk full''), c1) \<and> consume [9] c1 = (Inr (), c2)
       \<and> rc_backend c2 = Some (journal_backend conforming, g)
       \<and> persistent conforming None g = Inl (PersistentState m))"
proof -
  have f: "complete_journal (journal_bytes (torn_journal k))" "jf_read_error (torn_journal k) = None"
      "journal_load conforming (torn_journal k) = (Inr [], torn_journal k)"
      "jf_append_outcome (torn_journal k) (jf_appends (torn_journal k)) = WriteFails k ''disk full''"
      "jf_append_outcome (torn_journal k) (Suc (jf_appends (torn_journal k))) = AppendOk"
      "rc_backend (torn_cache k) = Some (journal_backend conforming, torn_journal k)"
      "[1, 2] \<notin> rc_consumed (torn_cache k)" "[9] \<notin> rc_consumed (torn_cache k)" for k
    by (simp_all add: torn_journal_def torn_cache_def fresh_journal_def journal_bytes_def complete_journal_def journal_load_def)
  note torn = torn_write_forgets_next [OF conforming_hex conforming_hex_strict conforming_hex_bytewise f]
  from torn [of 2] torn [of 1] show ?thesis by simp blast
qed
end
