(* ===== verification/Envelope.thy ===== *)
theory Envelope
  imports Replay Conforming
begin

text \<open>
  Signed messages (\<open>protocol.rs\<close>): signing a payload into a COSE envelope, verifying one
  against a trust store, the protocol envelope with its issuer, recipient, freshness, nonce
  and replay checks, and the credential with its issuer, subject and validity checks.
\<close>

section \<open>Signing and verifying payloads\<close>

definition access_credential_aad :: bytes where
  "access_credential_aad = as_bytes ''access-credential-v1''"

definition docking_identity_aad :: bytes where
  "docking_identity_aad = as_bytes ''docking-identity-v1''"

definition sign_payload ::
  "'p crates \<Rightarrow> bytes \<Rightarrow> identity_key \<Rightarrow> bytes \<Rightarrow> protocol_error + bytes" where
  "sign_payload K payload identity external_aad =
     (let message = \<lparr>cose_alg = Some EdDSA, cose_key_id = as_bytes (ik_key_id identity),
                     cose_payload = Some payload, cose_signature = [], cose_rest = []\<rparr>
      in bind_result (map_err SigningFailed (ik_signer identity (cose_tbs K message external_aad)))
           (\<lambda>signature. ok_or InvalidEnvelope (cose_to_tagged_vec K (message\<lparr>cose_signature := signature\<rparr>))))"

definition verify_signed_payload ::
  "'p crates \<Rightarrow> bytes \<Rightarrow> trust_store \<Rightarrow> bytes \<Rightarrow> protocol_error + (string \<times> bytes)" where
  "verify_signed_payload K encoded trust_store external_aad =
     (case cose_from_tagged_slice K encoded of
        None \<Rightarrow> Inl InvalidEnvelope
      | Some message \<Rightarrow>
          if cose_alg message \<noteq> Some EdDSA then Inl InvalidAlgorithm
          else case from_utf8 (cose_key_id message) of
            None \<Rightarrow> Inl UntrustedSigner
          | Some signer \<Rightarrow>
              (case trust_store signer of
                 None \<Rightarrow> Inl UntrustedSigner
               | Some verifying_key \<Rightarrow>
                   if \<not> ed25519_verify_strict K verifying_key (cose_tbs K message external_aad)
                          (cose_signature message)
                   then Inl InvalidSignature
                   else map_err id (bind_result (ok_or InvalidClaims (cose_payload message))
                          (\<lambda>payload. Inr (signer, payload)))))"

section \<open>Credentials\<close>

definition issue_credential ::
  "'p crates \<Rightarrow> credential_claims \<Rightarrow> identity_key \<Rightarrow> protocol_error + bytes" where
  "issue_credential K claims issuer =
     (if cc_issuer claims \<noteq> ik_key_id issuer then Inl IssuerMismatch
      else bind_result (ok_or InvalidClaims (cbor_write_credential K claims))
             (\<lambda>payload. sign_payload K payload issuer access_credential_aad))"

definition verify_credential ::
  "'p crates \<Rightarrow> bytes \<Rightarrow> trust_store \<Rightarrow> string \<Rightarrow> i64 \<Rightarrow> protocol_error + credential_claims" where
  "verify_credential K encoded trust_store expected_subject now_s =
     bind_result (verify_signed_payload K encoded trust_store access_credential_aad)
       (\<lambda>(signer, payload).
          bind_result (ok_or InvalidClaims (cbor_read_credential K payload))
            (\<lambda>claims.
               if cc_issuer claims \<noteq> signer then Inl IssuerMismatch
               else if cc_subject claims \<noteq> expected_subject then Inl SubjectMismatch
               else if sint now_s < sint (cc_issued_at_s claims) \<or> sint now_s > sint (cc_expires_at_s claims)
                 then Inl CredentialExpired
               else Inr claims))"

section \<open>Protocol envelopes\<close>

definition sign_envelope ::
  "'p crates \<Rightarrow> protocol_claims \<Rightarrow> identity_key \<Rightarrow> protocol_error + bytes" where
  "sign_envelope K claims identity =
     (if pc_issuer claims \<noteq> ik_key_id identity then Inl IssuerMismatch
      else bind_result (ok_or InvalidClaims (cbor_write_protocol K claims))
             (\<lambda>payload. sign_payload K payload identity docking_identity_aad))"

text \<open>The checks of \<open>verify_envelope\<close> before the replay cache is touched.\<close>

definition check_envelope ::
  "'p crates \<Rightarrow> bytes \<Rightarrow> trust_store \<Rightarrow> string \<Rightarrow> i64 \<Rightarrow> i64 \<Rightarrow> protocol_error + verified_envelope" where
  "check_envelope K encoded trust_store expected_recipient now_s max_clock_skew_s =
     bind_result (verify_signed_payload K encoded trust_store docking_identity_aad)
       (\<lambda>(signer, payload).
          bind_result (ok_or InvalidClaims (cbor_read_protocol K payload))
            (\<lambda>claims.
               if pc_issuer claims \<noteq> signer then Inl IssuerMismatch
               else if pc_recipient claims \<noteq> expected_recipient then Inl RecipientMismatch
               else if abs_diff now_s (pc_issued_at_s claims) > unsigned_abs max_clock_skew_s then Inl Stale
               else if length (pc_nonce claims) < min_nonce_bytes then Inl WeakNonce
               else Inr \<lparr>ve_signer = signer, ve_claims = claims\<rparr>))"

definition verify_envelope ::
  "'p crates \<Rightarrow> bytes \<Rightarrow> trust_store \<Rightarrow> string \<Rightarrow> i64 \<Rightarrow> i64
     \<Rightarrow> ('b replay_cache, protocol_error, verified_envelope) op" where
  "verify_envelope K encoded trust_store expected_recipient now_s max_clock_skew_s =
     and_then (try_with (\<lambda>_. check_envelope K encoded trust_store expected_recipient now_s max_clock_skew_s))
       (\<lambda>verified. and_then (consume (pc_nonce (ve_claims verified))) (\<lambda>_. ret verified))"

definition max_clock_skew_s :: i64 where
  "max_clock_skew_s = 30"

text \<open>\<open>exchange\<close> of \<open>session.rs\<close>: sign on one side, verify on the other.\<close>

definition exchange ::
  "'p crates \<Rightarrow> protocol_claims \<Rightarrow> identity_key \<Rightarrow> trust_store \<Rightarrow> string \<Rightarrow> i64
     \<Rightarrow> ('b replay_cache, protocol_error, verified_envelope) op" where
  "exchange K claims signer trust recipient now_s =
     and_then (try_with (\<lambda>_. sign_envelope K claims signer))
       (\<lambda>encoded. verify_envelope K encoded trust recipient now_s max_clock_skew_s)"

section \<open>What verification establishes\<close>

lemma verify_signed_payload_Inr:
  "verify_signed_payload K encoded trust aad = Inr (signer, payload) \<longleftrightarrow>
     (\<exists>m key. cose_from_tagged_slice K encoded = Some m \<and> cose_alg m = Some EdDSA
        \<and> from_utf8 (cose_key_id m) = Some signer \<and> trust signer = Some key
        \<and> ed25519_verify_strict K key (cose_tbs K m aad) (cose_signature m)
        \<and> cose_payload m = Some payload)"
  by (auto simp: verify_signed_payload_def split: option.splits)

text \<open>The envelope conditions in one predicate: authentic under a trusted key, decoded,
  issued by its signer, addressed to the recipient, fresh and with a long enough nonce.\<close>

definition authentic_envelope ::
  "'p crates \<Rightarrow> bytes \<Rightarrow> trust_store \<Rightarrow> string \<Rightarrow> i64 \<Rightarrow> i64 \<Rightarrow> verified_envelope \<Rightarrow> bool" where
  "authentic_envelope K encoded trust recipient now_s skew v \<longleftrightarrow>
     (\<exists>m key payload. cose_from_tagged_slice K encoded = Some m \<and> cose_alg m = Some EdDSA
        \<and> from_utf8 (cose_key_id m) = Some (ve_signer v) \<and> trust (ve_signer v) = Some key
        \<and> ed25519_verify_strict K key (cose_tbs K m docking_identity_aad) (cose_signature m)
        \<and> cose_payload m = Some payload \<and> cbor_read_protocol K payload = Some (ve_claims v))
     \<and> pc_issuer (ve_claims v) = ve_signer v
     \<and> pc_recipient (ve_claims v) = recipient
     \<and> \<bar>sint now_s - sint (pc_issued_at_s (ve_claims v))\<bar> \<le> \<bar>sint skew\<bar>
     \<and> 16 \<le> length (pc_nonce (ve_claims v))"

lemma check_envelope_Inr:
  "check_envelope K encoded trust recipient now_s skew = Inr v \<longleftrightarrow>
     authentic_envelope K encoded trust recipient now_s skew v"
  by (cases v)
     (auto simp: check_envelope_def authentic_envelope_def verify_signed_payload_Inr min_nonce_bytes_def
        word_less_def i64_simps not_less split: if_splits)

lemma verify_envelope_Inr:
  "verify_envelope K encoded trust recipient now_s skew c = (Inr v, d) \<longleftrightarrow>
     authentic_envelope K encoded trust recipient now_s skew v \<and> consume (pc_nonce (ve_claims v)) c = (Inr (), d)"
  by (auto simp: verify_envelope_def op_simps check_envelope_Inr)

lemma exchange_Inr:
  "exchange K claims signer trust recipient now_s c = (Inr v, d) \<longleftrightarrow>
     (\<exists>encoded. sign_envelope K claims signer = Inr encoded
        \<and> verify_envelope K encoded trust recipient now_s max_clock_skew_s c = (Inr v, d))"
  by (auto simp: exchange_def op_simps)

text \<open>An envelope is accepted exactly when it parses, is signed with EdDSA by a key of the
  trust store over the protocol's external data, its issuer is the signer and its recipient
  the verifier, its time is within the skew, its nonce has 128 bits and the replay cache
  accepts the nonce; the cache then holds the nonce.\<close>

lemma verify_envelope_sound:
  "(\<exists>d. verify_envelope K encoded trust recipient now_s skew c = (Inr v, d)) \<longleftrightarrow>
     authentic_envelope K encoded trust recipient now_s skew v
     \<and> fst (consume (pc_nonce (ve_claims v)) c) = Inr ()"
  by (auto simp: verify_envelope_Inr) (metis prod.collapse)

lemma verify_envelope_consumed:
  assumes "verify_envelope K encoded trust recipient now_s skew c = (Inr v, d)"
  shows "pc_nonce (ve_claims v) \<notin> rc_consumed c
     \<and> rc_consumed d = insert (pc_nonce (ve_claims v)) (rc_consumed c)"
  using assms consume_Inr by (auto simp: verify_envelope_Inr)

lemma verify_envelope_failed:
  assumes "verify_envelope K encoded trust recipient now_s skew c = (Inl e, d)"
  shows "rc_consumed d = rc_consumed c"
  using assms
  by (fastforce simp: verify_envelope_def and_then_Inl op_simps try_with_def ret_def dest: consume_Inl)

lemma verify_envelope_same_claims:
  assumes "verify_envelope K encoded trust recipient now_s skew c = (Inr v, d)"
    and "verify_envelope K encoded trust' recipient' now_s' skew' c' = (Inr v', d')"
  shows "ve_claims v' = ve_claims v"
  using assms by (auto simp: verify_envelope_Inr authentic_envelope_def)

text \<open>A message is accepted at most once: after an envelope was accepted, a cache that
  still holds its nonce refuses the same bytes as a replay, and refuses them in one way or
  another whatever trust store, recipient, clock or skew they are presented with.\<close>

lemma verify_envelope_replay:
  assumes "verify_envelope K encoded trust recipient now_s skew c = (Inr v, d)"
    and "rc_consumed d \<subseteq> rc_consumed c'"
  shows "fst (verify_envelope K encoded trust recipient now_s skew c') = Inl Replay
     \<and> (\<forall>trust' recipient' now' skew'. \<exists>e.
          fst (verify_envelope K encoded trust' recipient' now' skew' c') = Inl e)"
proof
  have auth: "check_envelope K encoded trust recipient now_s skew = Inr v"
    and seen: "pc_nonce (ve_claims v) \<in> rc_consumed c'"
    using assms verify_envelope_consumed [OF assms(1)] by (auto simp: verify_envelope_Inr check_envelope_Inr)
  then show "fst (verify_envelope K encoded trust recipient now_s skew c') = Inl Replay"
    by (simp add: verify_envelope_def and_then_def try_with_def consume_def)
  show "\<forall>trust' recipient' now' skew'. \<exists>e.
          fst (verify_envelope K encoded trust' recipient' now' skew' c') = Inl e"
  proof (intro allI)
    fix trust' recipient' now' skew'
    obtain r d' where r: "verify_envelope K encoded trust' recipient' now' skew' c' = (r, d')"
      by fastforce
    show "\<exists>e. fst (verify_envelope K encoded trust' recipient' now' skew' c') = Inl e"
    proof (cases r)
      case (Inr v')
      with r have "pc_nonce (ve_claims v') \<notin> rc_consumed c'"
        using verify_envelope_consumed by blast
      with seen show ?thesis using verify_envelope_same_claims [OF assms(1)] r Inr by metis
    qed (use r in simp)
  qed
qed

section \<open>Honest signers\<close>

definition local_payload_signer :: "'p crates \<Rightarrow> bytes \<Rightarrow> payload_signer" where
  "local_payload_signer K seed payload = Inr (ed25519_sign K seed payload)"

definition from_seed :: "'p crates \<Rightarrow> string \<Rightarrow> bytes \<Rightarrow> identity_key" where
  "from_seed K key_id seed =
     \<lparr>ik_key_id = key_id, ik_verifying_key = ed25519_public K seed, ik_signer = local_payload_signer K seed\<rparr>"

text \<open>The contract of a \<open>PayloadSigner\<close> behind an identity: what it signs verifies under the
  identity's key.\<close>

definition honest_signer :: "'p crates \<Rightarrow> identity_key \<Rightarrow> bool" where
  "honest_signer K identity \<longleftrightarrow>
     is_utf8 (ik_key_id identity)
     \<and> (\<forall>payload signature. ik_signer identity payload = Inr signature \<longrightarrow>
          ed25519_verify_strict K (ik_verifying_key identity) payload signature)"

lemma from_seed_honest:
  "ed25519_ok K \<Longrightarrow> length seed = 32 \<Longrightarrow> is_utf8 key_id \<Longrightarrow> honest_signer K (from_seed K key_id seed)"
  by (simp add: honest_signer_def from_seed_def local_payload_signer_def ed25519_ok_def)

lemma sign_payload_verifies:
  assumes "cose_ok K" "honest_signer K identity"
    and "sign_payload K payload identity aad = Inr encoded"
    and "trust (ik_key_id identity) = Some (ik_verifying_key identity)"
  shows "verify_signed_payload K encoded trust aad = Inr (ik_key_id identity, payload)"
proof -
  let ?m = "\<lparr>cose_alg = Some EdDSA, cose_key_id = as_bytes (ik_key_id identity),
             cose_payload = Some payload, cose_signature = [], cose_rest = []\<rparr>"
  obtain signature where sig: "ik_signer identity (cose_tbs K ?m aad) = Inr signature"
    and enc: "cose_to_tagged_vec K (?m\<lparr>cose_signature := signature\<rparr>) = Some encoded"
    using assms(3) by (auto simp: sign_payload_def Let_def)
  have "cose_from_tagged_slice K encoded = Some (?m\<lparr>cose_signature := signature\<rparr>)"
    by (rule cose_read [OF assms(1) _ enc]) simp
  moreover have "cose_tbs K (?m\<lparr>cose_signature := signature\<rparr>) aad = cose_tbs K ?m aad"
    by (rule cose_tbs_signature [OF assms(1)])
  ultimately show ?thesis
    using assms(2,4) sig by (simp add: verify_signed_payload_Inr honest_signer_def)
qed

lemma sign_payload_total:
  assumes "cose_ok K" "ik_signer identity = local_payload_signer K seed"
  shows "\<exists>encoded. sign_payload K payload identity aad = Inr encoded"
  using assms(2) cose_total [OF assms(1)]
  by (simp add: sign_payload_def Let_def local_payload_signer_def)

lemma sign_envelope_Inr:
  "sign_envelope K claims identity = Inr encoded \<longleftrightarrow>
     pc_issuer claims = ik_key_id identity
     \<and> (\<exists>payload. cbor_write_protocol K claims = Some payload
          \<and> sign_payload K payload identity docking_identity_aad = Inr encoded)"
  by (auto simp: sign_envelope_def)

lemma sign_envelope_authentic:
  assumes "cbor_ok K" "cose_ok K" "honest_signer K identity"
    and "sign_envelope K claims identity = Inr encoded"
    and "trust (ik_key_id identity) = Some (ik_verifying_key identity)"
    and "\<bar>sint now_s - sint (pc_issued_at_s claims)\<bar> \<le> \<bar>sint skew\<bar>" "16 \<le> length (pc_nonce claims)"
  shows "authentic_envelope K encoded trust (pc_recipient claims) now_s skew
           \<lparr>ve_signer = ik_key_id identity, ve_claims = claims\<rparr>"
proof -
  obtain payload where p: "cbor_write_protocol K claims = Some payload"
      "sign_payload K payload identity docking_identity_aad = Inr encoded"
    and issuer: "pc_issuer claims = ik_key_id identity"
    using assms(4) by (auto simp: sign_envelope_Inr)
  have "cbor_read_protocol K payload = Some claims"
    by (rule cbor_protocol_read [OF assms(1) p(1)])
  then show ?thesis
    using sign_payload_verifies [where trust = trust, OF assms(2,3) p(2) assms(5)] issuer assms(6,7)
    by (auto simp: authentic_envelope_def verify_signed_payload_Inr)
qed

text \<open>C22. Round trip of a protocol message: what an honest signer signs, a verifier that trusts
  its key accepts with exactly the claims signed, provided it is addressed to the verifier,
  fresh, has a 128-bit nonce and was not seen before.\<close>

theorem sign_verify_envelope_roundtrip:
  assumes "cbor_ok K" "cose_ok K" "honest_signer K identity"
    and "sign_envelope K claims identity = Inr encoded"
    and "trust (ik_key_id identity) = Some (ik_verifying_key identity)"
    and "\<bar>sint now_s - sint (pc_issued_at_s claims)\<bar> \<le> \<bar>sint skew\<bar>" "16 \<le> length (pc_nonce claims)"
    and "consume (pc_nonce claims) c = (Inr (), d)"
  shows "verify_envelope K encoded trust (pc_recipient claims) now_s skew c
           = (Inr \<lparr>ve_signer = ik_key_id identity, ve_claims = claims\<rparr>, d)"
  unfolding verify_envelope_Inr
  using sign_envelope_authentic [where trust = trust, OF assms(1-5), of now_s skew] assms(6-8) by simp

text \<open>The sample message of the source's tests.\<close>

definition sample_claims :: protocol_claims where
  "sample_claims =
     \<lparr>pc_message_type = AccessRequest, pc_issuer = ''chaser-1'', pc_recipient = ''target-1'',
      pc_issued_at_s = 1000, pc_nonce = as_bytes ''0123456789abcdef'', pc_session_id = None,
      pc_authorized_stage = None, pc_challenge_nonce = None, pc_credentials = [], pc_grant_id = None,
      pc_expires_at_s = None, pc_protocol_profile_id = None, pc_protocol_profile_version = None,
      pc_rule_id = None, pc_authorization_policy_bundle_id = None,
      pc_authorization_policy_bundle_version = None, pc_authorization_policy_sha256 = None\<rparr>"

definition sample_identity :: identity_key where
  "sample_identity = from_seed conforming ''chaser-1'' (replicate 32 7)"

definition sample_trust :: trust_store where
  "sample_trust = trust_store_insert ''chaser-1'' (replicate 32 7) trust_store_default"

lemma is_utf8_code: "is_utf8 s \<longleftrightarrow> utf8_valid (map of_char s)"
proof -
  have "unat (of_char c :: u8) = of_char c" for c
    by (simp add: of_char_def unat_word_ariths)
  then show ?thesis by (simp add: is_utf8_def as_bytes_def comp_def)
qed

lemma sample_identity_facts:
  "ik_key_id sample_identity = ''chaser-1''" "ik_verifying_key sample_identity = replicate 32 7"
  "honest_signer conforming sample_identity"
  "sample_trust (ik_key_id sample_identity) = Some (ik_verifying_key sample_identity)"
proof -
  show "ik_key_id sample_identity = ''chaser-1''" "ik_verifying_key sample_identity = replicate 32 7"
    by (simp_all add: sample_identity_def from_seed_def)
  then show "sample_trust (ik_key_id sample_identity) = Some (ik_verifying_key sample_identity)"
    by (simp add: sample_trust_def trust_store_insert_def)
  show "honest_signer conforming sample_identity"
    unfolding sample_identity_def by (rule from_seed_honest [OF conforming_ed25519]) (simp_all add: is_utf8_code)
qed

lemma sample_signed:
  obtains encoded where "sign_envelope conforming sample_claims sample_identity = Inr encoded"
proof -
  obtain payload where "cbor_write_protocol conforming sample_claims = Some payload"
    using cbor_total(1) [OF conforming_cbor] by blast
  moreover obtain encoded where "sign_payload conforming payload sample_identity docking_identity_aad = Inr encoded"
    using sign_payload_total [OF conforming_cose, of sample_identity "replicate 32 7"]
    by (auto simp: sample_identity_def from_seed_def)
  ultimately show thesis
    using that by (simp add: sign_envelope_Inr sample_identity_facts) (simp add: sample_claims_def)
qed

theorem sign_verify_envelope_roundtrip_witness:
  "\<exists>encoded. sign_envelope conforming sample_claims sample_identity = Inr encoded
     \<and> verify_envelope conforming encoded sample_trust ''target-1'' 1000 30 (replay_default :: unit replay_cache)
         = (Inr \<lparr>ve_signer = ''chaser-1'', ve_claims = sample_claims\<rparr>,
            \<lparr>rc_consumed = {pc_nonce sample_claims}, rc_backend = None\<rparr>)"
proof -
  obtain encoded where enc: "sign_envelope conforming sample_claims sample_identity = Inr encoded"
    by (rule sample_signed)
  have fields: "pc_recipient sample_claims = ''target-1''" "length (pc_nonce sample_claims) = 16"
      "\<bar>sint (1000 :: i64) - sint (pc_issued_at_s sample_claims)\<bar> \<le> \<bar>sint (30 :: i64)\<bar>"
    by (simp_all add: sample_claims_def)
  have "consume (pc_nonce sample_claims) (replay_default :: unit replay_cache)
          = (Inr (), \<lparr>rc_consumed = {pc_nonce sample_claims}, rc_backend = None\<rparr>)"
    by (simp add: consume_def replay_default_def)
  from sign_verify_envelope_roundtrip [where trust = sample_trust, OF conforming_cbor conforming_cose sample_identity_facts(3) enc
      sample_identity_facts(4) fields(3) _ this] enc fields(2)
  show ?thesis by (simp add: fields(1) sample_identity_facts(1))
qed

lemma verify_envelope_replay_witness:
  "\<exists>encoded v d. verify_envelope conforming encoded sample_trust ''target-1'' 1000 30 replay_default
         = (Inr v, d :: unit replay_cache)
     \<and> fst (verify_envelope conforming encoded sample_trust ''target-1'' 1000 30 d) = Inl Replay"
proof -
  obtain encoded where enc: "sign_envelope conforming sample_claims sample_identity = Inr encoded"
    by (rule sample_signed)
  have "authentic_envelope conforming encoded sample_trust (pc_recipient sample_claims) 1000 30
          \<lparr>ve_signer = ik_key_id sample_identity, ve_claims = sample_claims\<rparr>"
    by (rule sign_envelope_authentic [where trust = sample_trust, OF conforming_cbor conforming_cose sample_identity_facts(3) enc
          sample_identity_facts(4)]) (simp_all add: sample_claims_def)
  moreover obtain d where "consume (pc_nonce sample_claims) (replay_default :: unit replay_cache) = (Inr (), d)"
    by (simp add: consume_def replay_default_def)
  ultimately have ok: "verify_envelope conforming encoded sample_trust ''target-1'' 1000 30 replay_default
      = (Inr \<lparr>ve_signer = ik_key_id sample_identity, ve_claims = sample_claims\<rparr>, d)"
    by (simp add: verify_envelope_Inr) (simp add: sample_claims_def)
  show ?thesis using ok verify_envelope_replay [OF ok, of d] by auto
qed

section \<open>Credentials\<close>

text \<open>A credential is accepted exactly when it parses, is signed with EdDSA by a key of the
  trust store over the credential's own external data, decodes, names its signer as issuer
  and the expected holder as subject, and the time lies in its validity interval.\<close>

lemma verify_credential_sound:
  "verify_credential K encoded trust subject now_s = Inr claims \<longleftrightarrow>
     (\<exists>m key payload. cose_from_tagged_slice K encoded = Some m \<and> cose_alg m = Some EdDSA
        \<and> from_utf8 (cose_key_id m) = Some (cc_issuer claims) \<and> trust (cc_issuer claims) = Some key
        \<and> ed25519_verify_strict K key (cose_tbs K m access_credential_aad) (cose_signature m)
        \<and> cose_payload m = Some payload \<and> cbor_read_credential K payload = Some claims)
     \<and> cc_subject claims = subject
     \<and> sint (cc_issued_at_s claims) \<le> sint now_s \<and> sint now_s \<le> sint (cc_expires_at_s claims)"
  by (rule iffI)
     (auto simp: verify_credential_def verify_signed_payload_Inr not_less split: if_splits
        intro!: exI [where x = claims])

lemma verify_issued_credential:
  assumes "cbor_ok K" "cose_ok K" "honest_signer K issuer"
    and "issue_credential K claims issuer = Inr encoded"
    and "trust (ik_key_id issuer) = Some (ik_verifying_key issuer)"
  shows "verify_credential K encoded trust subject now_s =
           (if cc_subject claims \<noteq> subject then Inl SubjectMismatch
            else if sint now_s < sint (cc_issued_at_s claims) \<or> sint now_s > sint (cc_expires_at_s claims)
              then Inl CredentialExpired
            else Inr claims)"
proof -
  obtain payload where p: "cbor_write_credential K claims = Some payload"
      "sign_payload K payload issuer access_credential_aad = Inr encoded"
    and issuer: "cc_issuer claims = ik_key_id issuer"
    using assms(4) by (auto simp: issue_credential_def split: if_splits)
  show ?thesis
    using sign_payload_verifies [where trust = trust, OF assms(2,3) p(2) assms(5)]
      cbor_credential_read [OF assms(1) p(1)] issuer
    by (simp add: verify_credential_def)
qed

text \<open>C24. What a verifier that trusts the issuer makes of a credential the issuer signed: bound to
  another holder it is refused for its subject, outside its validity interval as expired, and
  otherwise the issued claims come back unchanged.\<close>

theorem issue_verify_credential_roundtrip:
  assumes "cbor_ok K" "cose_ok K" "honest_signer K issuer"
    and "issue_credential K claims issuer = Inr encoded"
    and "trust (ik_key_id issuer) = Some (ik_verifying_key issuer)"
  shows "verify_credential K encoded trust subject now_s =
           (if cc_subject claims \<noteq> subject then Inl SubjectMismatch
            else if sint now_s < sint (cc_issued_at_s claims) \<or> sint now_s > sint (cc_expires_at_s claims)
              then Inl CredentialExpired
            else Inr claims)"
  by (rule verify_issued_credential [where trust = trust, OF assms])

lemma issue_credential_total:
  assumes "cbor_ok K" "cose_ok K" "ik_signer issuer = local_payload_signer K seed"
    and "cc_issuer claims = ik_key_id issuer"
  shows "\<exists>encoded. issue_credential K claims issuer = Inr encoded"
  using cbor_total(2) [OF assms(1), of claims] sign_payload_total [OF assms(2,3)] assms(4)
  by (auto simp: issue_credential_def)

definition sample_credential :: credential_claims where
  "sample_credential =
     \<lparr>cc_issuer = ''chaser-1'', cc_subject = ''chaser-2'', cc_profile_id = ''registered-vehicle-v1'',
      cc_credential_type = ''vehicle_registration'', cc_schema_id = ''space:vehicle-registration:v1'',
      cc_issuer_group = ''recognized-registrars'', cc_issued_at_s = 900, cc_expires_at_s = 1100,
      cc_status_checked_at_s = 990\<rparr>"

theorem issue_verify_credential_roundtrip_witness:
  "\<exists>encoded. issue_credential conforming sample_credential sample_identity = Inr encoded
     \<and> verify_credential conforming encoded sample_trust ''chaser-2'' 1000 = Inr sample_credential
     \<and> verify_credential conforming encoded sample_trust ''other-holder'' 1000 = Inl SubjectMismatch
     \<and> verify_credential conforming encoded sample_trust ''chaser-2'' 1101 = Inl CredentialExpired"
proof -
  obtain encoded where enc: "issue_credential conforming sample_credential sample_identity = Inr encoded"
    using issue_credential_total [OF conforming_cbor conforming_cose, of sample_identity "replicate 32 7" sample_credential]
    by (auto simp: sample_identity_def from_seed_def sample_credential_def)
  have result: "verify_credential conforming encoded sample_trust subject now_s =
           (if cc_subject sample_credential \<noteq> subject then Inl SubjectMismatch
            else if sint now_s < sint (cc_issued_at_s sample_credential)
                    \<or> sint now_s > sint (cc_expires_at_s sample_credential)
              then Inl CredentialExpired
            else Inr sample_credential)" for subject now_s
    by (rule issue_verify_credential_roundtrip [where trust = sample_trust, OF conforming_cbor conforming_cose
          sample_identity_facts(3) enc sample_identity_facts(4)])
  have fields: "cc_subject sample_credential = ''chaser-2''" "sint (cc_issued_at_s sample_credential) = 900"
      "sint (cc_expires_at_s sample_credential) = 1100"
    by (simp_all add: sample_credential_def)
  show ?thesis using enc by (simp add: result fields)
qed

end
