(* ===== verification/Float64.thy ===== *)
theory Float64
  imports Complex_Main Prelude
begin

text \<open>
  The floating-point step of \<open>cedar.rs\<close>: \<open>(value * 1000.0).ceil() as i64\<close> on an \<open>f64\<close>.
  An \<open>f64\<close> is NaN, an infinity, or a finite number \<open>m * 2 ^ e\<close> with a mantissa below
  \<open>2 ^ 53\<close>; multiplication rounds to nearest, ties to even; the cast saturates and maps NaN
  to 0. The sign of a zero plays no role in this step and is not kept.
\<close>

section \<open>Values\<close>

datatype f64 = NaN | Infinity bool | Finite int int

text \<open>\<open>Infinity True\<close> is the negative one. The numbers that are \<open>f64\<close> values:\<close>

fun f64_wf :: "f64 \<Rightarrow> bool" where
  "f64_wf (Finite m e) \<longleftrightarrow> \<bar>m\<bar> < 2 ^ 53 \<and> -1074 \<le> e \<and> e \<le> 971"
| "f64_wf _ = True"

fun f64_value :: "f64 \<Rightarrow> real" where
  "f64_value (Finite m e) = real_of_int m * 2 powi e"
| "f64_value _ = 0"

section \<open>Multiplication by 1000.0, ceiling, cast\<close>

fun bit_length :: "nat \<Rightarrow> nat" where
  "bit_length n = (if n = 0 then 0 else Suc (bit_length (n div 2)))"

declare bit_length.simps [simp del]

lemma bit_length_numeral [simp]:
  "bit_length 0 = 0" "bit_length (Suc 0) = Suc 0"
  "bit_length (numeral (num.Bit0 k)) = Suc (bit_length (numeral k))"
  "bit_length (numeral (num.Bit1 k)) = Suc (bit_length (numeral k))"
  by (subst bit_length.simps; simp add: bit_length.simps [of 0])+

text \<open>\<open>n / 2 ^ k\<close> rounded to the nearest integer, ties to even.\<close>

definition round_half_even :: "nat \<Rightarrow> nat \<Rightarrow> nat" where
  "round_half_even n k =
     (let q = n div 2 ^ k; r = n mod 2 ^ k
      in if 2 * r > 2 ^ k \<or> (2 * r = 2 ^ k \<and> odd q) then q + 1 else q)"

definition f64_round :: "int \<Rightarrow> int \<Rightarrow> f64" where
  "f64_round m e =
     (let n = nat \<bar>m\<bar>; k = bit_length n - 53; q = round_half_even n k
      in if int (bit_length q) + (e + int k) > 1024 then Infinity (m < 0)
         else Finite (sgn m * int q) (e + int k))"

definition f64_times_1000 :: "f64 \<Rightarrow> f64" where
  "f64_times_1000 x = (case x of Finite m e \<Rightarrow> f64_round (m * 1000) e | _ \<Rightarrow> x)"

definition f64_ceil :: "f64 \<Rightarrow> f64" where
  "f64_ceil x =
     (case x of
        Finite m e \<Rightarrow> if 0 \<le> e then x else Finite (- ((- m) div 2 ^ nat (- e))) 0
      | _ \<Rightarrow> x)"

definition f64_as_i64 :: "f64 \<Rightarrow> i64" where
  "f64_as_i64 x =
     (case x of
        NaN \<Rightarrow> 0
      | Infinity neg \<Rightarrow> clamp_i64 (if neg then i64_min else i64_max)
      | Finite m e \<Rightarrow>
          clamp_i64 (if 0 \<le> e then m * 2 ^ nat e else sgn m * (\<bar>m\<bar> div 2 ^ nat (- e))))"

text \<open>Thousandths, rounded up: millimetres from metres.\<close>

definition f64_milli_ceil :: "f64 \<Rightarrow> i64" where
  "f64_milli_ceil x = f64_as_i64 (f64_ceil (f64_times_1000 x))"

section \<open>Rounding\<close>

lemma bit_length_bounds: "n > 0 \<Longrightarrow> 2 ^ (bit_length n - 1) \<le> n \<and> n < 2 ^ bit_length n"
proof (induction n rule: bit_length.induct)
  case (1 n)
  show ?case
  proof (cases "n div 2 = 0")
    case True
    with 1 show ?thesis by (subst (1 2) bit_length.simps) (simp add: bit_length.simps)
  next
    case False
    with 1 have IH: "2 ^ (bit_length (n div 2) - 1) \<le> n div 2" "n div 2 < 2 ^ bit_length (n div 2)"
      by auto
    have "bit_length (n div 2) > 0" using False by (subst bit_length.simps) simp
    then have "(2::nat) ^ bit_length (n div 2) = 2 * 2 ^ (bit_length (n div 2) - 1)"
      by (cases "bit_length (n div 2)") auto
    with IH have "2 ^ bit_length (n div 2) \<le> n" "n < 2 * 2 ^ bit_length (n div 2)" by linarith+
    moreover have "bit_length n = Suc (bit_length (n div 2))"
      using 1(2) by (subst bit_length.simps) simp
    ultimately show ?thesis by simp
  qed
qed

lemma round_half_even_error:
  "2 * n \<le> 2 * (round_half_even n k * 2 ^ k) + 2 ^ k
     \<and> 2 * (round_half_even n k * 2 ^ k) \<le> 2 * n + 2 ^ k"
proof -
  define p q r where pqr: "p = (2::nat) ^ k" "q = n div p" "r = n mod p"
  have n: "n = q * p + r" unfolding pqr by (rule div_mult_mod_eq [symmetric])
  have r: "r < p" by (simp add: pqr)
  have "round_half_even n k = (if 2 * r > p \<or> (2 * r = p \<and> odd q) then q + 1 else q)"
    by (simp add: round_half_even_def pqr Let_def)
  moreover have "(q + 1) * p = q * p + p" by simp
  ultimately show ?thesis
    using n r unfolding pqr(1) [symmetric] by (auto simp del: mult_Suc_right)
qed

lemma round_half_even_ge: "n div 2 ^ k \<le> round_half_even n k"
  by (simp add: round_half_even_def Let_def)

lemma round_half_even_0 [simp]: "round_half_even n 0 = n"
  by (simp add: round_half_even_def)

text \<open>When digits are dropped, at least 53 significant ones stay.\<close>

lemma round_half_even_large:
  assumes "bit_length n = 53 + k" "k > 0"
  shows "2 ^ 52 \<le> round_half_even n k"
proof -
  have "n > 0" using assms by (subst (asm) bit_length.simps) (auto split: if_splits)
  then have "2 ^ (52 + k) \<le> n" using bit_length_bounds [of n] assms(1) by simp
  then have "2 ^ 52 * 2 ^ k \<le> n" by (simp only: power_add)
  then have "2 ^ 52 \<le> n div 2 ^ k" by (simp only: less_eq_div_iff_mult_less_eq zero_less_power pos2)
  then show ?thesis using round_half_even_ge [of n k] by linarith
qed

lemma f64_ceil_as_i64:
  "f64_as_i64 (f64_ceil (Finite m e)) = clamp_i64 \<lceil>f64_value (Finite m e)\<rceil>"
proof (cases "0 \<le> e")
  case True
  then have "f64_value (Finite m e) = of_int (m * 2 ^ nat e)"
    by (simp add: power_int_def)
  then show ?thesis using True by (simp add: f64_ceil_def f64_as_i64_def del: of_int_mult of_int_power)
next
  case False
  then have "f64_value (Finite m e) = of_int m / of_int (2 ^ nat (- e))"
    by (simp add: power_int_def field_simps)
  then have "\<lceil>f64_value (Finite m e)\<rceil> = - ((- m) div 2 ^ nat (- e))"
    by (metis ceiling_divide_eq_div)
  moreover have "sgn z * \<bar>z\<bar> = z" for z :: int by (rule mult_sgn_abs)
  ultimately show ?thesis using False by (simp add: f64_ceil_def f64_as_i64_def)
qed

lemma powi_add_nat: "(2 :: real) powi (e + int k) = 2 powi e * 2 ^ k"
  by (simp add: power_int_add)

lemma round_half_even_le:
  assumes "n \<le> c * 2 ^ k"
  shows "round_half_even n k \<le> c"
proof -
  have "n div 2 ^ k \<le> c" using div_le_mono [OF assms, of "2 ^ k"] by simp
  show ?thesis
  proof (cases "n div 2 ^ k = c")
    case True
    moreover have "n = n div 2 ^ k * 2 ^ k + n mod 2 ^ k" by (rule div_mult_mod_eq [symmetric])
    ultimately have "n mod 2 ^ k = 0" using assms by simp
    with True show ?thesis by (simp add: round_half_even_def Let_def)
  next
    case False
    with \<open>n div 2 ^ k \<le> c\<close> show ?thesis by (simp add: round_half_even_def Let_def)
  qed
qed

lemma bit_length_le: "n < 2 ^ k \<Longrightarrow> bit_length n \<le> k"
proof (cases "n = 0")
  case False
  assume "n < 2 ^ k"
  with bit_length_bounds [of n] False have "(2::nat) ^ (bit_length n - 1) < 2 ^ k" by linarith
  then show ?thesis by simp
qed (simp add: bit_length.simps)

text \<open>The rounded product of a positive mantissa: a value, and how far it is from the exact one.\<close>

lemma f64_round_value:
  assumes "0 < m" "f64_round m e = Finite m' e'" "f64_value (Finite m' e') \<le> N" "0 \<le> N"
  shows "f64_value (Finite m e) \<le> N * (1 + 1 / 2 ^ 53)"
proof -
  define n where "n = nat m"
  define k where "k = bit_length n - 53"
  define q where "q = round_half_even n k"
  have m': "m' = int q" "e' = e + int k"
    using assms(1,2) by (auto simp: f64_round_def Let_def n_def k_def q_def split: if_splits)
  have n: "real_of_int m = real n" using assms(1) by (simp add: n_def)
  have le: "real q * (2 powi e * 2 ^ k) \<le> N" using assms(3) m' by (simp add: powi_add_nat)
  show ?thesis
  proof (cases "k = 0")
    case True
    then have "q = n" by (simp add: q_def)
    with True le n have "f64_value (Finite m e) \<le> N" by simp
    with assms(4) show ?thesis by (simp add: algebra_simps)
  next
    case False
    then have "bit_length n = 53 + k" by (simp add: k_def)
    then have "2 ^ 52 \<le> q" unfolding q_def using False by (intro round_half_even_large) auto
    then have "real (2 ^ 52) \<le> real q" by (rule of_nat_mono)
    then have q: "2 ^ 52 \<le> real q" by (simp only: of_nat_power of_nat_numeral)
    define u where "u = (2 :: real) powi e * 2 ^ k"
    have u: "0 < u" by (simp add: u_def)
    have "2 ^ 52 * u \<le> real q * u" by (rule mult_right_mono [OF q]) (use u in simp)
    also have "\<dots> \<le> N" using le by (simp add: u_def)
    finally have "u / 2 \<le> N / 2 ^ 53" by simp
    have "2 * n \<le> 2 * (q * 2 ^ k) + 2 ^ k" unfolding q_def using round_half_even_error by blast
    then have "real (2 * n) \<le> real (2 * (q * 2 ^ k) + 2 ^ k)" by (rule of_nat_mono)
    then have "real n \<le> real q * 2 ^ k + 2 ^ k / 2" by simp
    then have "real n * 2 powi e \<le> (real q * 2 ^ k + 2 ^ k / 2) * 2 powi e"
      by (rule mult_right_mono) simp
    also have "\<dots> = real q * u + u / 2" by (simp add: u_def algebra_simps)
    also have "\<dots> \<le> N + N / 2 ^ 53" using le \<open>u / 2 \<le> N / 2 ^ 53\<close> by (simp add: u_def)
    finally show ?thesis by (simp add: n algebra_simps)
  qed
qed

text \<open>An integer below \<open>2 ^ 53\<close> is an \<open>f64\<close>, so rounding does not pass it.\<close>

lemma powi_less_cancel: "(2 :: real) powi a < 2 powi b \<Longrightarrow> a < b"
  by (meson not_le one_le_numeral power_int_increasing)

lemma f64_round_below:
  assumes "0 < m" "f64_value (Finite m e) \<le> real_of_int N" "N < 2 ^ 53"
  shows "\<exists>m' e'. f64_round m e = Finite m' e' \<and> f64_value (Finite m' e') \<le> real_of_int N"
proof -
  define n where "n = nat m"
  define k where "k = bit_length n - 53"
  define q where "q = round_half_even n k"
  define c where "c = nat N"
  have n: "real_of_int m = real n" "0 < n" using assms(1) by (simp_all add: n_def)
  have le: "real n * 2 powi e \<le> real_of_int N" using assms(2) n by simp
  have "0 < real n * 2 powi e" using n by simp
  with le have N: "0 < N" by linarith
  have c: "real_of_int N = real c" using N by (simp add: c_def)
  have c53: "c < 2 ^ 53" using assms(3) by (simp add: c_def)
  have below: "real n * 2 powi e < 2 ^ 53" using le c c53 by simp
  have "real q * 2 powi (e + int k) \<le> real c \<and> int (bit_length q) + (e + int k) \<le> 1024"
  proof (cases "k = 0")
    case True
    then have bits: "bit_length n \<le> 53" "q = n" by (simp_all add: k_def q_def)
    have "(2 :: real) powi e \<le> real n * 2 powi e" using n(2) by simp
    from le_less_trans [OF this below] have "(2 :: real) powi e < 2 powi 53" by simp
    then have "e < 53" by (rule powi_less_cancel)
    with bits le c True show ?thesis by simp
  next
    case False
    then have "bit_length n = 53 + k" by (simp add: k_def)
    with bit_length_bounds [OF n(2)] have "2 ^ (52 + k) \<le> n" by simp
    then have "(2 :: real) ^ (52 + k) \<le> real n" by (metis of_nat_le_iff of_nat_numeral of_nat_power)
    then have "(2 :: real) ^ (52 + k) * 2 powi e \<le> real n * 2 powi e" by (rule mult_right_mono) simp
    from le_less_trans [OF this below] have "(2 :: real) powi (int (52 + k) + e) < 2 powi 53"
      by (simp add: power_int_add power_add)
    then have "int (52 + k) + e < 53" by (rule powi_less_cancel)
    then have "e + int k \<le> 0" by simp
    define j where "j = nat (- (e + int k))"
    have e: "e = - int (j + k)" using \<open>e + int k \<le> 0\<close> by (simp add: j_def)
    have "(2 :: real) powi e = 1 / 2 ^ (j + k)"
      unfolding e power_int_minus power_int_of_nat by (rule inverse_eq_divide)
    then have "real n \<le> real c * 2 ^ (j + k)" using le c by (simp add: divide_le_eq)
    then have "n \<le> c * 2 ^ j * 2 ^ k" by (metis (no_types, opaque_lifting) mult.assoc of_nat_le_iff of_nat_mult of_nat_numeral of_nat_power power_add)
    then have q: "q \<le> c * 2 ^ j" unfolding q_def by (rule round_half_even_le)
    also have "\<dots> < 2 ^ 53 * 2 ^ j" using c53 by simp
    finally have "q < 2 ^ (53 + j)" by (simp only: power_add)
    then have "bit_length q \<le> 53 + j" by (rule bit_length_le)
    moreover have "real q \<le> real c * 2 ^ j" using q by (metis of_nat_le_iff of_nat_mult of_nat_numeral of_nat_power)
    then have "real q * 2 powi (e + int k) \<le> real c" by (simp add: e power_int_minus field_simps)
    ultimately show ?thesis using e by simp
  qed
  then have q: "real q * 2 powi (e + int k) \<le> real c" "\<not> int (bit_length q) + (e + int k) > 1024" by auto
  have "f64_round m e = Finite (int q) (e + int k)"
    using q(2) assms(1) by (simp only: f64_round_def Let_def n_def [symmetric] abs_of_pos k_def [symmetric] q_def [symmetric]
        if_False sgn_pos mult_1)
  with q(1) c show ?thesis by simp
qed

lemma f64_value_scale: "f64_value (Finite (m * 1000) e) = 1000 * f64_value (Finite m e)"
  by simp

lemma sint_milli_ceil:
  "sint (f64_milli_ceil (Finite m e)) = (case f64_round (m * 1000) e of
      Finite m' e' \<Rightarrow> max i64_min (min i64_max \<lceil>f64_value (Finite m' e')\<rceil>)
    | Infinity neg \<Rightarrow> (if neg then i64_min else i64_max) | NaN \<Rightarrow> 0)"
  by (simp add: f64_milli_ceil_def f64_times_1000_def f64_ceil_as_i64 sint_clamp_i64 del: f64_value.simps split: f64.splits)
     (simp add: f64_ceil_def f64_as_i64_def i64_simps)


lemma f64_round_nonpos:
  "m \<le> 0 \<Longrightarrow> e \<le> 1024 \<Longrightarrow>
     case f64_round m e of Finite m' e' \<Rightarrow> f64_value (Finite m' e') \<le> 0 | Infinity neg \<Rightarrow> neg | NaN \<Rightarrow> False"
  by (cases "m = 0") (auto simp: f64_round_def Let_def mult_nonpos_nonneg sgn_if)

lemma milli_ceil_bound:
  assumes "x \<noteq> NaN" "0 \<le> N" "N < 2 ^ 53"
  shows "sint (f64_milli_ceil x) \<le> N \<Longrightarrow>
          x = Infinity True \<or> (\<exists>m e. x = Finite m e) \<and> 1000 * f64_value x \<le> real_of_int N * (1 + 1 / 2 ^ 53)"
    and "x = Infinity True \<or> (\<exists>m e. x = Finite m e) \<and> 1000 * f64_value x \<le> real_of_int N \<Longrightarrow>
          f64_wf x \<Longrightarrow> sint (f64_milli_ceil x) \<le> N"
proof -
  have inf: "sint (f64_milli_ceil (Infinity b)) = (if b then i64_min else i64_max)" for b
    by (simp add: f64_milli_ceil_def f64_times_1000_def f64_ceil_def f64_as_i64_def i64_simps)
  have N: "N < i64_max" "i64_min \<le> N" using assms by simp_all
  have fin: "(sint (f64_milli_ceil (Finite m e)) \<le> N \<longrightarrow> 1000 * f64_value (Finite m e) \<le> real_of_int N * (1 + 1 / 2 ^ 53))
      \<and> (1000 * f64_value (Finite m e) \<le> real_of_int N \<longrightarrow> e \<le> 971 \<longrightarrow> sint (f64_milli_ceil (Finite m e)) \<le> N)" for m e
  proof (cases "0 < m")
    case True
    then have m: "0 < m * 1000" by simp
    have "1000 * f64_value (Finite m e) \<le> real_of_int N * (1 + 1 / 2 ^ 53)"
      if "sint (f64_milli_ceil (Finite m e)) \<le> N"
    proof (cases "f64_round (m * 1000) e")
      case r: (Finite m' e')
      with that N have "\<lceil>f64_value (Finite m' e')\<rceil> \<le> N"
        by (simp add: sint_milli_ceil del: f64_value.simps)
      then have "f64_value (Finite m' e') \<le> real_of_int N" by (simp only: ceiling_le_iff)
      from f64_round_value [OF m r this] assms(2) show ?thesis
        by (simp only: f64_value_scale of_int_0_le_iff)
    qed (use that N m in \<open>auto simp: sint_milli_ceil f64_round_def Let_def split: if_splits\<close>)
    moreover have "sint (f64_milli_ceil (Finite m e)) \<le> N" if le: "1000 * f64_value (Finite m e) \<le> real_of_int N"
    proof -
      obtain m' e' where "f64_round (m * 1000) e = Finite m' e'" "f64_value (Finite m' e') \<le> real_of_int N"
        using f64_round_below [OF m, of e N] le assms(3) by (simp only: f64_value_scale) blast
      then have "f64_round (m * 1000) e = Finite m' e'" "\<lceil>f64_value (Finite m' e')\<rceil> \<le> N"
        by (simp_all only: ceiling_le_iff)
      with N show ?thesis by (simp add: sint_milli_ceil del: f64_value.simps)
    qed
    ultimately show ?thesis by blast
  next
    case False
    then have "f64_value (Finite m e) \<le> 0" by (simp add: mult_nonpos_nonneg)
    moreover have "0 \<le> real_of_int N * (1 + 1 / 2 ^ 53)" using assms(2) by simp
    moreover have "sint (f64_milli_ceil (Finite m e)) \<le> N" if "e \<le> 971"
      using f64_round_nonpos [of "m * 1000" e] that False assms(2) N
      by (cases "f64_round (m * 1000) e"; simp add: sint_milli_ceil ceiling_le_iff del: f64_value.simps; linarith)
    ultimately show ?thesis by (simp del: f64_value.simps)
  qed
  show "x = Infinity True \<or> (\<exists>m e. x = Finite m e) \<and> 1000 * f64_value x \<le> real_of_int N * (1 + 1 / 2 ^ 53)"
    if "sint (f64_milli_ceil x) \<le> N"
    using that assms(1) fin inf N(1) by (cases x) (auto simp del: f64_value.simps split: if_splits)
  show "sint (f64_milli_ceil x) \<le> N"
    if "x = Infinity True \<or> (\<exists>m e. x = Finite m e) \<and> 1000 * f64_value x \<le> real_of_int N" "f64_wf x"
    using that assms(1) fin inf N(2) by (cases x) (auto simp del: f64_value.simps split: if_splits)
qed

text \<open>C34. A limit of \<open>N\<close> millimetres (or millimetres per second) on the converted value is a
  limit on the measurement itself, in both directions. Unless the value is NaN, a converted
  value of at most \<open>N\<close> means that the measurement is minus infinity or at most \<open>N\<close> thousandths,
  up to the rounding of the product, a part in \<open>2 ^ 53\<close>; and a measurement that is minus infinity
  or at most \<open>N\<close> thousandths is converted to at most \<open>N\<close>. The conversion rounds up: nothing that
  exceeds the limit by more than that part passes.\<close>

theorem milli_ceil_limits_measurement:
  assumes "f64_wf x" "x \<noteq> NaN" "0 \<le> N" "N < 2 ^ 53"
  shows "(sint (f64_milli_ceil x) \<le> N \<longrightarrow>
            x = Infinity True \<or> (\<exists>m e. x = Finite m e) \<and> 1000 * f64_value x \<le> real_of_int N * (1 + 1 / 2 ^ 53))
       \<and> (x = Infinity True \<or> (\<exists>m e. x = Finite m e) \<and> 1000 * f64_value x \<le> real_of_int N \<longrightarrow>
            sint (f64_milli_ceil x) \<le> N)"
  using milli_ceil_bound(1) [OF assms(2-4)] milli_ceil_bound(2) [OF assms(2-4) _ assms(1)] by blast

text \<open>The double nearest to 1.12, the range of the source's test for final approach, is
  converted to exactly 1120 millimetres, and 1.5 to at most 1500.\<close>

theorem milli_ceil_limits_measurement_witness:
  "f64_wf (Finite 5044031582654956 (-52))
     \<and> f64_milli_ceil (Finite 5044031582654956 (-52)) = 1120
     \<and> 1000 * f64_value (Finite 5044031582654956 (-52)) \<le> 1120 * (1 + 1 / 2 ^ 53)
     \<and> \<not> sint (f64_milli_ceil (Finite 5044031582654956 (-52))) \<le> 1119
     \<and> sint (f64_milli_ceil (Finite 3 (-1))) \<le> 1500"
proof -
  have conv: "f64_milli_ceil (Finite 5044031582654956 (-52)) = 1120"
    by (simp add: f64_milli_ceil_def f64_times_1000_def f64_round_def Let_def
        round_half_even_def f64_ceil_def f64_as_i64_def clamp_i64_def)
  have wf: "f64_wf (Finite 5044031582654956 (-52))" "f64_wf (Finite 3 (-1))" by simp_all
  have "1000 * f64_value (Finite 5044031582654956 (-52)) \<le> 1120 * (1 + 1 / 2 ^ 53)"
    using milli_ceil_limits_measurement [OF wf(1), of 1120] conv by simp
  moreover have "sint (f64_milli_ceil (Finite 3 (-1))) \<le> 1500"
    using milli_ceil_limits_measurement [OF wf(2), of 1500] by (simp add: power_int_minus)
  ultimately show ?thesis using conv wf by simp
qed

text \<open>NaN converts to 0, the smallest non-negative value, and so satisfies every upper limit
  that is not negative.\<close>

lemma milli_ceil_NaN: "f64_milli_ceil NaN = 0"
  by (simp add: f64_milli_ceil_def f64_times_1000_def f64_ceil_def f64_as_i64_def)

end
