(* ===== verification/Profile.thy ===== *)
theory Profile
  imports Conforming Float64
begin

text \<open>
  The protocol profile of \<open>protocol_profile.rs\<close>: the configured validity interval, trust
  bundle requirements, credential profiles and stage rules, and the evaluation that matches
  a requested transition against them. Prefixes: \<open>pp_\<close> \<open>ProtocolProfile\<close>, \<open>tb_\<close>
  \<open>TrustBundleRequirements\<close>, \<open>cp_\<close> \<open>CredentialProfile\<close>, \<open>sr_\<close> \<open>StageRuleProfile\<close>, \<open>rr_\<close>
  \<open>ReadinessRule\<close>, \<open>re_\<close> \<open>ReadinessEvidence\<close>, \<open>vc_\<close> \<open>VerifiedCredentialEvidence\<close>, \<open>rd_\<close>
  \<open>ProtocolRuleDecision\<close>.
\<close>

section \<open>Data\<close>

record trust_bundle_requirements =
  tb_bundle_id :: string
  tb_minimum_version :: u64
  tb_maximum_age_s :: i64

record credential_profile =
  cp_profile_id :: string
  cp_credential_type :: string
  cp_schema_id :: string
  cp_issuer_groups :: "string list"
  cp_maximum_status_age_s :: "i64 option"

record readiness_rule =
  rr_maximum_age_ms :: i64

record stage_rule_profile =
  sr_rule_id :: string
  sr_action :: string
  sr_from_stage :: string
  sr_to_stage :: string
  sr_holder_proof_required :: bool
  sr_required_session_status :: string
  sr_maximum_proof_age_s :: "i64 option"
  sr_readiness :: readiness_rule
  sr_entitlement_ttl_s :: u64

record protocol_profile =
  pp_schema_version :: string
  pp_profile_id :: string
  pp_profile_version :: u64
  pp_valid_from :: string
  pp_valid_until :: string
  pp_trust_bundle :: trust_bundle_requirements
  pp_credential_profiles :: "credential_profile list"
  pp_stage_rules :: "stage_rule_profile list"

record readiness_evidence =
  re_observed_at_ms :: i64
  re_range_m :: f64
  re_closing_rate_mps :: f64
  re_checks :: "string \<rightharpoonup> bool"

record verified_credential_evidence =
  vc_profile_id :: string
  vc_credential_type :: string
  vc_schema_id :: string
  vc_issuer_group :: string
  vc_status_checked_at_s :: i64

record protocol_rule_decision =
  rd_profile_id :: string
  rd_profile_version :: u64
  rd_rule_id :: string
  rd_entitlement_ttl_s :: u64

datatype protocol_profile_error =
    ProfileExpired | TrustBundleMismatch | NoMatchingRule | CredentialRequired
  | HolderProofRequired | ProfileSessionRequired | ReadinessStale | InvalidTimestamp

fun protocol_profile_error_display :: "protocol_profile_error \<Rightarrow> string" where
  "protocol_profile_error_display ProfileExpired = ''protocol profile is outside its validity interval''"
| "protocol_profile_error_display TrustBundleMismatch =
     ''configured trust bundle does not satisfy protocol profile''"
| "protocol_profile_error_display NoMatchingRule = ''no protocol rule matches this transition''"
| "protocol_profile_error_display CredentialRequired =
     ''required credential profile is missing or invalid''"
| "protocol_profile_error_display HolderProofRequired = ''fresh holder proof is required''"
| "protocol_profile_error_display ProfileSessionRequired = ''authorized session is required''"
| "protocol_profile_error_display ReadinessStale = ''readiness evidence is stale''"
| "protocol_profile_error_display InvalidTimestamp = ''protocol profile timestamp is invalid''"

section \<open>Validation\<close>

definition parse_timestamp :: "'p crates \<Rightarrow> string \<Rightarrow> protocol_profile_error + i64" where
  "parse_timestamp K value = ok_or InvalidTimestamp (parse_rfc3339 K value)"

definition validate_foundation ::
  "'p crates \<Rightarrow> protocol_profile \<Rightarrow> i64 \<Rightarrow> string \<Rightarrow> u64 \<Rightarrow> i64 \<Rightarrow> protocol_profile_error + unit" where
  "validate_foundation K profile now_s trust_bundle_id trust_bundle_version trust_bundle_issued_at_s =
     bind_result (parse_timestamp K (pp_valid_from profile)) (\<lambda>valid_from.
     bind_result (parse_timestamp K (pp_valid_until profile)) (\<lambda>valid_until.
       if sint now_s < sint valid_from \<or> sint now_s > sint valid_until then Inl ProfileExpired
       else if tb_bundle_id (pp_trust_bundle profile) \<noteq> trust_bundle_id
            \<or> trust_bundle_version < tb_minimum_version (pp_trust_bundle profile)
            \<or> sint (saturating_sub now_s trust_bundle_issued_at_s)
                > sint (tb_maximum_age_s (pp_trust_bundle profile))
         then Inl TrustBundleMismatch
       else Inr ()))"

definition credential_conforms ::
  "credential_profile \<Rightarrow> verified_credential_evidence \<Rightarrow> i64 \<Rightarrow> bool" where
  "credential_conforms profile credential now_s \<longleftrightarrow>
     \<not> (vc_credential_type credential \<noteq> cp_credential_type profile
        \<or> vc_schema_id credential \<noteq> cp_schema_id profile
        \<or> \<not> List.member (cp_issuer_groups profile) (vc_issuer_group credential)
        \<or> (case cp_maximum_status_age_s profile of
             None \<Rightarrow> False
           | Some maximum_age \<Rightarrow>
               sint (saturating_sub now_s (vc_status_checked_at_s credential)) > sint maximum_age))"

fun validate_credentials ::
  "protocol_profile \<Rightarrow> verified_credential_evidence list \<Rightarrow> i64 \<Rightarrow> protocol_profile_error + unit" where
  "validate_credentials profile [] now_s = Inr ()"
| "validate_credentials profile (credential # credentials) now_s =
     (case List.find (\<lambda>p. cp_profile_id p = vc_profile_id credential) (pp_credential_profiles profile) of
        None \<Rightarrow> Inl CredentialRequired
      | Some p \<Rightarrow>
          if \<not> credential_conforms p credential now_s then Inl CredentialRequired
          else validate_credentials profile credentials now_s)"

section \<open>Evaluation of a transition\<close>

definition evidence_age_ms :: "i64 \<Rightarrow> i64 \<Rightarrow> i64" where
  "evidence_age_ms now_s observed_at_ms = saturating_sub (saturating_mul now_s 1000) observed_at_ms"

definition matching_rule :: "protocol_profile \<Rightarrow> string \<Rightarrow> string \<Rightarrow> stage_rule_profile option" where
  "matching_rule profile from_stage to_stage =
     List.find (\<lambda>rule. sr_from_stage rule = from_stage \<and> sr_to_stage rule = to_stage)
       (pp_stage_rules profile)"

definition check_rule ::
  "stage_rule_profile \<Rightarrow> i64 \<Rightarrow> i64 option \<Rightarrow> bool \<Rightarrow> readiness_evidence \<Rightarrow> protocol_profile_error + unit" where
  "check_rule rule now_s holder_proof_at_s session_authorized readiness =
     (if sr_holder_proof_required rule
         \<and> (case holder_proof_at_s of
              None \<Rightarrow> True
            | Some proof_at \<Rightarrow>
                sint (saturating_sub now_s proof_at)
                  > sint (case sr_maximum_proof_age_s rule of None \<Rightarrow> 0 | Some a \<Rightarrow> a))
      then Inl HolderProofRequired
      else if sr_required_session_status rule = ''authorized'' \<and> \<not> session_authorized
        then Inl ProfileSessionRequired
      else if sint (evidence_age_ms now_s (re_observed_at_ms readiness))
                > sint (rr_maximum_age_ms (sr_readiness rule))
        then Inl ReadinessStale
      else Inr ())"

definition evaluate ::
  "'p crates \<Rightarrow> protocol_profile \<Rightarrow> string \<Rightarrow> string \<Rightarrow> i64 \<Rightarrow> string \<Rightarrow> u64 \<Rightarrow> i64
     \<Rightarrow> verified_credential_evidence list \<Rightarrow> i64 option \<Rightarrow> bool \<Rightarrow> readiness_evidence
     \<Rightarrow> protocol_profile_error + protocol_rule_decision" where
  "evaluate K profile from_stage to_stage now_s trust_bundle_id trust_bundle_version
            trust_bundle_issued_at_s credentials holder_proof_at_s session_authorized readiness =
     bind_result (validate_foundation K profile now_s trust_bundle_id trust_bundle_version
                    trust_bundle_issued_at_s) (\<lambda>_.
     bind_result (validate_credentials profile credentials now_s) (\<lambda>_.
     bind_result (ok_or NoMatchingRule (matching_rule profile from_stage to_stage)) (\<lambda>rule.
     bind_result (check_rule rule now_s holder_proof_at_s session_authorized readiness) (\<lambda>_.
       Inr \<lparr>rd_profile_id = pp_profile_id profile, rd_profile_version = pp_profile_version profile,
            rd_rule_id = sr_rule_id rule, rd_entitlement_ttl_s = sr_entitlement_ttl_s rule\<rparr>))))"

section \<open>What a granted evaluation means\<close>

lemma validate_credentials_Inr:
  "validate_credentials profile cs now_s = Inr () \<longleftrightarrow>
     (\<forall>c \<in> set cs. \<exists>p. List.find (\<lambda>p. cp_profile_id p = vc_profile_id c) (pp_credential_profiles profile) = Some p
        \<and> credential_conforms p c now_s)"
  by (induction cs) (auto split: option.splits)

lemma validate_credentials_error:
  "validate_credentials profile cs now_s = Inl e \<Longrightarrow> e = CredentialRequired"
  by (induction cs) (auto split: option.splits if_splits)


lemma check_rule_Inr:
  "check_rule rule now_s proof session readiness = Inr () \<longleftrightarrow>
     (sr_holder_proof_required rule \<longrightarrow>
        (\<exists>t. proof = Some t
           \<and> sint (saturating_sub now_s t) \<le> sint (case sr_maximum_proof_age_s rule of None \<Rightarrow> 0 | Some a \<Rightarrow> a)))
     \<and> (sr_required_session_status rule = ''authorized'' \<longrightarrow> session)
     \<and> sint (evidence_age_ms now_s (re_observed_at_ms readiness)) \<le> sint (rr_maximum_age_ms (sr_readiness rule))"
  by (auto simp: check_rule_def not_less split: if_splits option.splits)

lemma evaluate_Inr:
  "evaluate K profile from_stage to_stage now_s tb ver issued cs proof session readiness = Inr d \<longleftrightarrow>
     validate_foundation K profile now_s tb ver issued = Inr ()
     \<and> validate_credentials profile cs now_s = Inr ()
     \<and> (\<exists>rule. matching_rule profile from_stage to_stage = Some rule
          \<and> check_rule rule now_s proof session readiness = Inr ()
          \<and> d = \<lparr>rd_profile_id = pp_profile_id profile, rd_profile_version = pp_profile_version profile,
                 rd_rule_id = sr_rule_id rule, rd_entitlement_ttl_s = sr_entitlement_ttl_s rule\<rparr>)"
  by (auto simp: evaluate_def)


section \<open>The repository's profile\<close>

text \<open>\<open>config/access/access-protocol-profile.json\<close>.\<close>

definition stage_rule ::
  "string \<Rightarrow> string \<Rightarrow> string \<Rightarrow> string \<Rightarrow> string \<Rightarrow> i64 \<Rightarrow> i64 \<Rightarrow> u64 \<Rightarrow> stage_rule_profile" where
  "stage_rule rule_id action from_stage to_stage status proof_age evidence_age ttl =
     \<lparr>sr_rule_id = rule_id, sr_action = action, sr_from_stage = from_stage, sr_to_stage = to_stage,
      sr_holder_proof_required = True, sr_required_session_status = status,
      sr_maximum_proof_age_s = Some proof_age, sr_readiness = \<lparr>rr_maximum_age_ms = evidence_age\<rparr>,
      sr_entitlement_ttl_s = ttl\<rparr>"

definition repository_profile :: protocol_profile where
  "repository_profile =
     \<lparr>pp_schema_version = ''1.0'', pp_profile_id = ''access-docking-protocol-v1'', pp_profile_version = 1,
      pp_valid_from = ''2026-01-01T00:00:00Z'', pp_valid_until = ''2027-01-01T00:00:00Z'',
      pp_trust_bundle = \<lparr>tb_bundle_id = ''waystation-1-trust'', tb_minimum_version = 42,
                         tb_maximum_age_s = 604800\<rparr>,
      pp_credential_profiles =
        [\<lparr>cp_profile_id = ''registered-vehicle-v1'', cp_credential_type = ''VehicleRegistrationCredential'',
          cp_schema_id = ''space:vehicle-registration:v1'', cp_issuer_groups = [''recognized-registrars''],
          cp_maximum_status_age_s = Some 604800\<rparr>,
         \<lparr>cp_profile_id = ''idss-compatible-v1'', cp_credential_type = ''DockingCertificationCredential'',
          cp_schema_id = ''space:docking-certification:v1'',
          cp_issuer_groups = [''recognized-docking-authorities''], cp_maximum_status_age_s = Some 86400\<rparr>],
      pp_stage_rules =
        [stage_rule ''enter-approach'' ''enter_approach'' ''hold'' ''approach'' ''pending'' 60 1000 60,
         stage_rule ''enter-final-approach'' ''enter_final_approach'' ''approach'' ''final_approach''
           ''authorized'' 30 500 30,
         stage_rule ''engage-soft-capture'' ''engage_soft_capture'' ''final_approach'' ''soft_capture''
           ''authorized'' 30 250 15,
         stage_rule ''engage-hard-dock'' ''engage_hard_dock'' ''soft_capture'' ''hard_dock''
           ''authorized'' 15 100 10]\<rparr>"

text \<open>The credentials and evidence of the source's test.\<close>

definition test_credentials :: "verified_credential_evidence list" where
  "test_credentials =
     [\<lparr>vc_profile_id = ''registered-vehicle-v1'', vc_credential_type = ''VehicleRegistrationCredential'',
       vc_schema_id = ''space:vehicle-registration:v1'', vc_issuer_group = ''recognized-registrars'',
       vc_status_checked_at_s = 1787900000\<rparr>,
      \<lparr>vc_profile_id = ''idss-compatible-v1'', vc_credential_type = ''DockingCertificationCredential'',
       vc_schema_id = ''space:docking-certification:v1'', vc_issuer_group = ''recognized-docking-authorities'',
       vc_status_checked_at_s = 1787900000\<rparr>]"

definition test_readiness :: readiness_evidence where
  "test_readiness =
     \<lparr>re_observed_at_ms = 1787900100000, re_range_m = Finite 5044031582654956 (-52),
      re_closing_rate_mps = Finite 3242591731706757 (-54), re_checks = Map.empty\<rparr>"

lemma test_evaluation:
  "evaluate conforming repository_profile ''approach'' ''final_approach'' 1787900100 ''waystation-1-trust'' 42
     1787900040 test_credentials (Some 1787900099) True test_readiness
   = Inr \<lparr>rd_profile_id = ''access-docking-protocol-v1'', rd_profile_version = 1,
          rd_rule_id = ''enter-final-approach'', rd_entitlement_ttl_s = 30\<rparr>"
  by (simp add: evaluate_def validate_foundation_def parse_timestamp_def repository_profile_def
      test_credentials_def test_readiness_def credential_conforms_def matching_rule_def stage_rule_def
      check_rule_def evidence_age_ms_def saturating_sub_def saturating_mul_def clamp_i64_def)


section \<open>What the evaluation looks at\<close>

text \<open>Of the readiness evidence the profile reads the observation time and nothing else, and
  that time has no upper bound: a grant for some evidence is a grant, with the same decision,
  for any evidence dated as late or later, whatever its range, closing rate and checks.\<close>

lemma evaluate_accepts_later_evidence:
  assumes "evaluate K profile from_stage to_stage now_s tb ver issued cs proof session readiness = Inr d"
    and "sint (re_observed_at_ms readiness) \<le> sint (re_observed_at_ms readiness')"
  shows "evaluate K profile from_stage to_stage now_s tb ver issued cs proof session readiness' = Inr d"
proof -
  have "sint (evidence_age_ms now_s (re_observed_at_ms readiness'))
          \<le> sint (evidence_age_ms now_s (re_observed_at_ms readiness))"
    using assms(2) by (simp add: evidence_age_ms_def i64_simps)
  with assms(1) show ?thesis
    unfolding evaluate_Inr check_rule_Inr by (blast intro: order_trans)
qed

text \<open>Evidence dated at the largest \<open>i64\<close>, with no check passed and a range of NaN, is as fresh
  as the test's.\<close>

lemma evaluate_accepts_later_evidence_witness:
  "evaluate conforming repository_profile ''approach'' ''final_approach'' 1787900100 ''waystation-1-trust'' 42
     1787900040 test_credentials (Some 1787900099) True
     (test_readiness\<lparr>re_observed_at_ms := 9223372036854775807, re_range_m := NaN\<rparr>)
   = Inr \<lparr>rd_profile_id = ''access-docking-protocol-v1'', rd_profile_version = 1,
          rd_rule_id = ''enter-final-approach'', rd_entitlement_ttl_s = 30\<rparr>"
  by (rule evaluate_accepts_later_evidence [OF test_evaluation]) (simp add: test_readiness_def)

text \<open>The profile requires no credential: dropping any or all of the presented credentials
  never turns a grant into a refusal. Which credentials an action needs is left to the
  authorization policy.\<close>

lemma evaluate_needs_no_credential:
  assumes "evaluate K profile from_stage to_stage now_s tb ver issued cs proof session readiness = Inr d"
    and "set cs' \<subseteq> set cs"
  shows "evaluate K profile from_stage to_stage now_s tb ver issued cs' proof session readiness = Inr d"
  using assms unfolding evaluate_Inr validate_credentials_Inr by blast

lemma evaluate_needs_no_credential_witness:
  "evaluate conforming repository_profile ''approach'' ''final_approach'' 1787900100 ''waystation-1-trust'' 42
     1787900040 [] (Some 1787900099) True test_readiness
   = Inr \<lparr>rd_profile_id = ''access-docking-protocol-v1'', rd_profile_version = 1,
          rd_rule_id = ''enter-final-approach'', rd_entitlement_ttl_s = 30\<rparr>"
  by (rule evaluate_needs_no_credential [OF test_evaluation]) simp

text \<open>C30. The saturating arithmetic does not let stale evidence or a stale proof through: when the
  profile grants a transition at a time whose milliseconds fit an \<open>i64\<close>, the true age of the
  evidence is at most the rule's limit, and so is the true age of a required holder proof,
  limits below the largest \<open>i64\<close>.\<close>

theorem evaluate_true_ages:
  assumes "evaluate K profile from_stage to_stage now_s tb ver issued cs proof session readiness = Inr d"
    and "matching_rule profile from_stage to_stage = Some rule"
    and "\<bar>sint now_s\<bar> \<le> 9223372036854775" "sint (rr_maximum_age_ms (sr_readiness rule)) < i64_max"
  shows "1000 * sint now_s - sint (re_observed_at_ms readiness) \<le> sint (rr_maximum_age_ms (sr_readiness rule))
     \<and> (sr_holder_proof_required rule \<longrightarrow>
          (\<exists>t. proof = Some t
             \<and> (\<forall>limit. sr_maximum_proof_age_s rule = Some limit \<and> sint limit < i64_max
                  \<longrightarrow> sint now_s - sint t \<le> sint limit)))"
proof -
  have rule: "check_rule rule now_s proof session readiness = Inr ()"
    using assms(1,2) by (auto simp: evaluate_Inr)
  have "sint (saturating_mul now_s 1000) = 1000 * sint now_s"
    using assms(3) by (simp add: i64_simps)
  then have "1000 * sint now_s - sint (re_observed_at_ms readiness) \<le> sint (rr_maximum_age_ms (sr_readiness rule))"
    using rule assms(4) by (simp add: check_rule_Inr evidence_age_ms_def sint_saturating_sub) linarith
  moreover have "sint now_s - sint t \<le> sint limit"
    if "sint (saturating_sub now_s t) \<le> sint limit" "sint limit < i64_max" for t limit
    using that by (simp add: sint_saturating_sub) linarith
  ultimately show ?thesis using rule unfolding check_rule_Inr by force
qed

theorem evaluate_true_ages_witness:
  "1000 * sint (1787900100 :: i64) - sint (re_observed_at_ms test_readiness) \<le> 500"
proof -
  have rule: "matching_rule repository_profile ''approach'' ''final_approach''
      = Some (stage_rule ''enter-final-approach'' ''enter_final_approach'' ''approach'' ''final_approach''
               ''authorized'' 30 500 30)"
    by (simp add: matching_rule_def repository_profile_def stage_rule_def)
  show ?thesis
    using evaluate_true_ages [OF test_evaluation rule] by (simp add: stage_rule_def)
qed

end
