(* ===== verification/Cedar.thy ===== *)
theory Cedar
  imports Profile
begin

text \<open>
  The authorization policy engine of \<open>cedar.rs\<close>: loading a policy source with its digest,
  building the Cedar context from verified credentials and readiness evidence, and turning
  Cedar's response into a decision or an error. Prefixes: \<open>am_\<close> \<open>AccessPolicyMetadata\<close>,
  \<open>ad_\<close> \<open>AccessDecision\<close>, \<open>pe_\<close> \<open>CedarPolicyEngine\<close>. The method \<open>context\<close> is
  \<open>policy_context\<close> here.
\<close>

section \<open>Data\<close>

record access_policy_metadata =
  am_bundle_id :: string
  am_bundle_version :: u64
  am_policy_sha256 :: string

record access_decision =
  ad_gate :: string
  ad_decision :: string
  ad_diagnostics :: string
  ad_policy :: access_policy_metadata

datatype access_policy_error =
    InvalidPolicy string
  | InvalidRequest string
  | Denied string
  | Evaluation string string

fun access_policy_error_display :: "access_policy_error \<Rightarrow> string" where
  "access_policy_error_display (InvalidPolicy e) = ''ACCESS authorization policy set is invalid: '' @ e"
| "access_policy_error_display (InvalidRequest e) = ''ACCESS authorization request is invalid: '' @ e"
| "access_policy_error_display (Denied gate) =
     ''ACCESS authorization policy denied the request at gate '' @ gate"
| "access_policy_error_display (Evaluation gate detail) =
     ''ACCESS authorization evaluation failed at gate '' @ gate @ '': '' @ detail"

record 'p cedar_policy_engine =
  pe_policies :: 'p
  pe_metadata :: access_policy_metadata

definition from_source ::
  "'p crates \<Rightarrow> string \<Rightarrow> u64 \<Rightarrow> string \<Rightarrow> access_policy_error + 'p cedar_policy_engine" where
  "from_source K bundle_id bundle_version source =
     bind_result (map_err InvalidPolicy (policy_set_from_str K source)) (\<lambda>policies.
       if policy_set_is_empty K policies
       then Inl (InvalidPolicy ''policy set must contain at least one policy'')
       else Inr \<lparr>pe_policies = policies,
                 pe_metadata = \<lparr>am_bundle_id = bundle_id, am_bundle_version = bundle_version,
                   am_policy_sha256 = ''sha-256:'' @ hex_encode K (sha256 K (as_bytes source))\<rparr>\<rparr>)"

lemma from_source_metadata:
  "from_source K bundle version source = Inr engine \<Longrightarrow>
     pe_metadata engine = \<lparr>am_bundle_id = bundle, am_bundle_version = version,
       am_policy_sha256 = ''sha-256:'' @ hex_encode K (sha256 K (as_bytes source))\<rparr>"
  by (auto simp: from_source_def split: if_splits)

section \<open>The context\<close>

definition has_profile :: "verified_credential_evidence list \<Rightarrow> string \<Rightarrow> bool" where
  "has_profile credentials profile = list_ex (\<lambda>credential. vc_profile_id credential = profile) credentials"

definition check_flag :: "readiness_evidence option \<Rightarrow> string \<Rightarrow> bool" where
  "check_flag readiness name =
     (case Option.bind readiness (\<lambda>value. re_checks value name) of None \<Rightarrow> False | Some b \<Rightarrow> b)"

definition range_mm :: "readiness_evidence option \<Rightarrow> i64" where
  "range_mm readiness =
     (case readiness of None \<Rightarrow> clamp_i64 i64_max | Some value \<Rightarrow> f64_milli_ceil (re_range_m value))"

definition closing_rate_mmps :: "readiness_evidence option \<Rightarrow> i64" where
  "closing_rate_mmps readiness =
     (case readiness of None \<Rightarrow> clamp_i64 i64_max | Some value \<Rightarrow> f64_milli_ceil (re_closing_rate_mps value))"

definition policy_context ::
  "verified_credential_evidence list \<Rightarrow> bool \<Rightarrow> bool \<Rightarrow> readiness_evidence option \<Rightarrow> bool \<Rightarrow> json_object" where
  "policy_context credentials holder_proof_valid session_authorized readiness readiness_fresh =
     [(''registered_vehicle'', JBool (has_profile credentials ''registered-vehicle-v1'')),
      (''docking_certified'', JBool (has_profile credentials ''idss-compatible-v1'')),
      (''holder_proof_valid'', JBool holder_proof_valid),
      (''session_authorized'', JBool session_authorized),
      (''readiness_fresh'', JBool readiness_fresh),
      (''initial_hold_confirmed'', JBool (check_flag readiness ''initial_hold_confirmed'')),
      (''retreat_available'', JBool (check_flag readiness ''retreat_available'')),
      (''relative_navigation_valid'', JBool (check_flag readiness ''relative_navigation_valid'')),
      (''approach_corridor_clear'', JBool (check_flag readiness ''approach_corridor_clear'')),
      (''closing_rate_within_limit'', JBool (check_flag readiness ''closing_rate_within_limit'')),
      (''alignment_within_limit'', JBool (check_flag readiness ''alignment_within_limit'')),
      (''capture_system_ready'', JBool (check_flag readiness ''capture_system_ready'')),
      (''soft_capture_confirmed'', JBool (check_flag readiness ''soft_capture_confirmed'')),
      (''latches_ready'', JBool (check_flag readiness ''latches_ready'')),
      (''relative_motion_stable'', JBool (check_flag readiness ''relative_motion_stable'')),
      (''range_mm'', JInt (range_mm readiness)),
      (''closing_rate_mmps'', JInt (closing_rate_mmps readiness))]"

section \<open>Authorization\<close>

definition response_decision ::
  "'p crates \<Rightarrow> 'p cedar_policy_engine \<Rightarrow> string \<Rightarrow> cedar_request \<Rightarrow> access_policy_error + access_decision" where
  "response_decision K engine gate request =
     (let response = is_authorized K request (pe_policies engine);
          diagnostics = rs_diagnostics_debug response
      in if rs_errors response \<noteq> [] then Inl (Evaluation gate diagnostics)
         else if rs_decision response \<noteq> Allow then Inl (Denied gate)
         else Inr \<lparr>ad_gate = gate, ad_decision = ''allow'', ad_diagnostics = diagnostics,
                   ad_policy = pe_metadata engine\<rparr>)"

definition authorize ::
  "'p crates \<Rightarrow> 'p cedar_policy_engine \<Rightarrow> string \<Rightarrow> string \<Rightarrow> string \<Rightarrow> string \<Rightarrow> json_object
     \<Rightarrow> access_policy_error + access_decision" where
  "authorize K engine gate vehicle_id action station_id context_value =
     bind_result (map_err InvalidRequest (entity_uid_parse K (''Vehicle::'' @ debug_str vehicle_id))) (\<lambda>principal.
     bind_result (map_err InvalidRequest (entity_uid_parse K (''Action::'' @ debug_str action))) (\<lambda>action_uid.
     bind_result (map_err InvalidRequest (entity_uid_parse K (''Station::'' @ debug_str station_id))) (\<lambda>resource.
     bind_result (map_err InvalidRequest (context_from_json_value K context_value)) (\<lambda>ctx.
     bind_result (map_err InvalidRequest (request_new K principal action_uid resource ctx)) (\<lambda>request.
       response_decision K engine gate request)))))"

definition authorize_session ::
  "'p crates \<Rightarrow> 'p cedar_policy_engine \<Rightarrow> string \<Rightarrow> string \<Rightarrow> verified_credential_evidence list \<Rightarrow> bool
     \<Rightarrow> access_policy_error + access_decision" where
  "authorize_session K engine vehicle_id station_id credentials holder_proof_valid =
     authorize K engine ''initial_claims'' vehicle_id ''authorize_session'' station_id
       (policy_context credentials holder_proof_valid False None False)"

definition authorize_transition ::
  "'p crates \<Rightarrow> 'p cedar_policy_engine \<Rightarrow> string \<Rightarrow> string \<Rightarrow> string \<Rightarrow> verified_credential_evidence list
     \<Rightarrow> bool \<Rightarrow> bool \<Rightarrow> readiness_evidence \<Rightarrow> bool \<Rightarrow> access_policy_error + access_decision" where
  "authorize_transition K engine vehicle_id station_id action credentials holder_proof_valid
       session_authorized readiness readiness_fresh =
     authorize K engine ''stage_transition'' vehicle_id action station_id
       (policy_context credentials holder_proof_valid session_authorized (Some readiness) readiness_fresh)"

section \<open>Decisions fail closed\<close>

lemma response_decision_Inr:
  "response_decision K engine gate rq = Inr d \<longleftrightarrow>
     rs_errors (is_authorized K rq (pe_policies engine)) = []
     \<and> rs_decision (is_authorized K rq (pe_policies engine)) = Allow
     \<and> d = \<lparr>ad_gate = gate, ad_decision = ''allow'',
            ad_diagnostics = rs_diagnostics_debug (is_authorized K rq (pe_policies engine)),
            ad_policy = pe_metadata engine\<rparr>"
  by (auto simp: response_decision_def Let_def)

lemma authorize_Inr:
  "authorize K engine gate vehicle action station ctx_value = Inr d \<longleftrightarrow>
     (\<exists>p a r ctx rq. entity_uid_parse K (''Vehicle::'' @ debug_str vehicle) = Inr p
        \<and> entity_uid_parse K (''Action::'' @ debug_str action) = Inr a
        \<and> entity_uid_parse K (''Station::'' @ debug_str station) = Inr r
        \<and> context_from_json_value K ctx_value = Inr ctx \<and> request_new K p a r ctx = Inr rq
        \<and> response_decision K engine gate rq = Inr d)"
  by (auto simp: authorize_def simp del: append.simps)

text \<open>The crate builds a request from the five inputs, or refuses one of them: then the message is
  that of the first input it refuses, in the order of the code.\<close>

definition request_built ::
  "'p crates \<Rightarrow> string \<Rightarrow> string \<Rightarrow> string \<Rightarrow> json_object \<Rightarrow> cedar_request \<Rightarrow> bool" where
  "request_built K vehicle action station ctx_value rq \<longleftrightarrow>
     (\<exists>p a r ctx. entity_uid_parse K (''Vehicle::'' @ debug_str vehicle) = Inr p
        \<and> entity_uid_parse K (''Action::'' @ debug_str action) = Inr a
        \<and> entity_uid_parse K (''Station::'' @ debug_str station) = Inr r
        \<and> context_from_json_value K ctx_value = Inr ctx \<and> request_new K p a r ctx = Inr rq)"

definition request_refused ::
  "'p crates \<Rightarrow> string \<Rightarrow> string \<Rightarrow> string \<Rightarrow> json_object \<Rightarrow> string \<Rightarrow> bool" where
  "request_refused K vehicle action station ctx_value m \<longleftrightarrow>
     (case entity_uid_parse K (''Vehicle::'' @ debug_str vehicle) of Inl n \<Rightarrow> m = n | Inr p \<Rightarrow>
     (case entity_uid_parse K (''Action::'' @ debug_str action) of Inl n \<Rightarrow> m = n | Inr a \<Rightarrow>
     (case entity_uid_parse K (''Station::'' @ debug_str station) of Inl n \<Rightarrow> m = n | Inr r \<Rightarrow>
     (case context_from_json_value K ctx_value of Inl n \<Rightarrow> m = n | Inr ctx \<Rightarrow>
     (case request_new K p a r ctx of Inl n \<Rightarrow> m = n | Inr rq \<Rightarrow> False)))))"

lemma authorize_Inl:
  assumes "authorize K engine gate vehicle action station ctx_value = Inl e"
  shows "(\<exists>m. request_refused K vehicle action station ctx_value m \<and> e = InvalidRequest m)
       \<or> (\<exists>rq. request_built K vehicle action station ctx_value rq \<and> response_decision K engine gate rq = Inl e)"
  using assms
  by (auto simp: authorize_def request_refused_def request_built_def bind_result_def map_err_def
      simp del: append.simps split: sum.splits)

lemma response_decision_Inl:
  "response_decision K engine gate rq = Inl e \<longleftrightarrow>
     (if rs_errors (is_authorized K rq (pe_policies engine)) \<noteq> []
      then e = Evaluation gate (rs_diagnostics_debug (is_authorized K rq (pe_policies engine)))
      else rs_decision (is_authorized K rq (pe_policies engine)) \<noteq> Allow \<and> e = Denied gate)"
  by (auto simp: response_decision_def Let_def)

text \<open>The request Cedar decides, when the crate behaves as documented.\<close>

definition cedar_request_for :: "string \<Rightarrow> string \<Rightarrow> string \<Rightarrow> json_object \<Rightarrow> cedar_request" where
  "cedar_request_for vehicle action station ctx =
     \<lparr>rq_principal = \<lparr>entity_type = ''Vehicle'', entity_id = vehicle\<rparr>,
      rq_action = \<lparr>entity_type = ''Action'', entity_id = action\<rparr>,
      rq_resource = \<lparr>entity_type = ''Station'', entity_id = station\<rparr>, rq_context = ctx\<rparr>"

lemma authorize_documented:
  assumes "cedar_ok K" "is_ascii vehicle" "is_ascii action" "is_ascii station" "distinct (map fst ctx)"
  shows "authorize K engine gate vehicle action station ctx =
     response_decision K engine gate (cedar_request_for vehicle action station ctx)"
proof -
  have parse: "entity_uid_parse K (''Vehicle::'' @ debug_str vehicle) = Inr \<lparr>entity_type = ''Vehicle'', entity_id = vehicle\<rparr>"
      "entity_uid_parse K (''Action::'' @ debug_str action) = Inr \<lparr>entity_type = ''Action'', entity_id = action\<rparr>"
      "entity_uid_parse K (''Station::'' @ debug_str station) = Inr \<lparr>entity_type = ''Station'', entity_id = station\<rparr>"
    using assms(1-4) by (simp_all add: cedar_ok_def)
  have rest: "context_from_json_value K ctx = Inr ctx"
      "request_new K p a r c = Inr \<lparr>rq_principal = p, rq_action = a, rq_resource = r, rq_context = c\<rparr>" for p a r c
    using assms(1,5) by (simp_all add: cedar_ok_def)
  show ?thesis
    unfolding authorize_def parse rest map_err_eq bind_result_eq cedar_request_for_def by (rule refl)
qed

lemma policy_context_distinct: "distinct (map fst (policy_context cs proof session readiness fresh))"
  by (simp add: policy_context_def)


section \<open>The commercial policy\<close>

text \<open>The readiness checks the context passes on under their own name.\<close>

definition readiness_checks :: "string list" where
  "readiness_checks =
     [''initial_hold_confirmed'', ''retreat_available'', ''relative_navigation_valid'',
      ''approach_corridor_clear'', ''closing_rate_within_limit'', ''alignment_within_limit'',
      ''capture_system_ready'', ''soft_capture_confirmed'', ''latches_ready'', ''relative_motion_stable'']"

lemma context_attributes:
  "condition_value (policy_context cs proof session r fresh) (Attribute ''registered_vehicle'')
     = Some (has_profile cs ''registered-vehicle-v1'')"
  "condition_value (policy_context cs proof session r fresh) (Attribute ''docking_certified'')
     = Some (has_profile cs ''idss-compatible-v1'')"
  "condition_value (policy_context cs proof session r fresh) (Attribute ''holder_proof_valid'') = Some proof"
  "condition_value (policy_context cs proof session r fresh) (Attribute ''session_authorized'') = Some session"
  "condition_value (policy_context cs proof session r fresh) (Attribute ''readiness_fresh'') = Some fresh"
  "condition_value (policy_context cs proof session r fresh) (AtMost ''range_mm'' n)
     = Some (sint (range_mm r) \<le> sint n)"
  "condition_value (policy_context cs proof session r fresh) (AtMost ''closing_rate_mmps'' n)
     = Some (sint (closing_rate_mmps r) \<le> sint n)"
  by (simp_all add: policy_context_def)

lemma context_checks:
  "name \<in> set readiness_checks \<Longrightarrow>
     condition_value (policy_context cs proof session r fresh) (Attribute name) = Some (check_flag r name)"
  by (auto simp: policy_context_def readiness_checks_def)

lemmas context_simps = context_attributes context_checks

text \<open>The facts each action of the commercial policy needs.\<close>

definition commercial_conditions ::
  "string \<Rightarrow> verified_credential_evidence list \<Rightarrow> bool \<Rightarrow> bool \<Rightarrow> readiness_evidence option \<Rightarrow> bool \<Rightarrow> bool" where
  "commercial_conditions action cs proof session r fresh \<longleftrightarrow>
     (let registered = has_profile cs ''registered-vehicle-v1''; certified = has_profile cs ''idss-compatible-v1''
      in (action = ''authorize_session'' \<and> registered \<and> certified \<and> proof)
       \<or> (action = ''enter_approach'' \<and> registered \<and> proof \<and> fresh
            \<and> check_flag r ''initial_hold_confirmed'' \<and> check_flag r ''retreat_available''
            \<and> sint (closing_rate_mmps r) \<le> 600)
       \<or> (action = ''enter_final_approach'' \<and> registered \<and> certified \<and> proof \<and> session \<and> fresh
            \<and> check_flag r ''relative_navigation_valid'' \<and> check_flag r ''approach_corridor_clear''
            \<and> check_flag r ''closing_rate_within_limit''
            \<and> sint (closing_rate_mmps r) \<le> 200 \<and> sint (range_mm r) \<le> 1120)
       \<or> (action = ''engage_soft_capture'' \<and> certified \<and> proof \<and> session \<and> fresh
            \<and> check_flag r ''alignment_within_limit'' \<and> check_flag r ''capture_system_ready''
            \<and> sint (closing_rate_mmps r) \<le> 100 \<and> sint (range_mm r) \<le> 320)
       \<or> (action = ''engage_hard_dock'' \<and> certified \<and> proof \<and> session \<and> fresh
            \<and> check_flag r ''soft_capture_confirmed'' \<and> check_flag r ''latches_ready''
            \<and> check_flag r ''relative_motion_stable''
            \<and> sint (closing_rate_mmps r) \<le> 50 \<and> sint (range_mm r) \<le> 40))"

lemma permitted_commercial:
  "permitted commercial_docking (cedar_request_for vehicle action station (policy_context cs proof session r fresh))
     \<longleftrightarrow> station = ''waystation-1'' \<and> commercial_conditions action cs proof session r fresh"
  unfolding permitted_def commercial_docking_def permit_value_True docking_permit_def cedar_request_for_def
    commercial_conditions_def Let_def
  by (cases "station = ''waystation-1''")
     (simp_all add: context_simps readiness_checks_def del: condition_value.simps)

lemma permits_defined:
  "p \<in> set commercial_docking \<Longrightarrow>
     permit_value p (cedar_request_for vehicle action station (policy_context cs proof session r fresh)) \<noteq> None"
proof -
  assume p: "p \<in> set commercial_docking"
  have "list_all (\<lambda>p. list_all (\<lambda>c. condition_value (policy_context cs proof session r fresh) c \<noteq> None) (pm_when p))
          commercial_docking"
    by (simp add: commercial_docking_def docking_permit_def context_simps readiness_checks_def
        del: condition_value.simps)
  with p have "list_all (\<lambda>c. condition_value (policy_context cs proof session r fresh) c \<noteq> None) (pm_when p)"
    by (simp add: list_all_iff)
  then show ?thesis unfolding permit_value_def by (simp add: cedar_request_for_def when_value_defined del: not_None_eq)
qed

lemma commercial_response:
  assumes "policy_means K (pe_policies engine) commercial_docking"
  shows "response_decision K engine gate
            (cedar_request_for vehicle action station (policy_context cs proof session r fresh))
       = (if station = ''waystation-1'' \<and> commercial_conditions action cs proof session r fresh
          then Inr \<lparr>ad_gate = gate, ad_decision = ''allow'',
                    ad_diagnostics = rs_diagnostics_debug (is_authorized K (cedar_request_for vehicle action station
                        (policy_context cs proof session r fresh)) (pe_policies engine)),
                    ad_policy = pe_metadata engine\<rparr>
          else Inl (Denied gate))"
proof -
  let ?rq = "cedar_request_for vehicle action station (policy_context cs proof session r fresh)"
  have "rs_errors (is_authorized K ?rq (pe_policies engine)) = []"
    using assms permits_defined by (simp add: policy_means_def)
  moreover have "rs_decision (is_authorized K ?rq (pe_policies engine)) = Allow \<longleftrightarrow>
      station = ''waystation-1'' \<and> commercial_conditions action cs proof session r fresh"
    using assms permitted_commercial by (simp add: policy_means_def)
  ultimately show ?thesis by (simp add: response_decision_def Let_def)
qed

lemma commercial_conditions_mono:
  assumes "commercial_conditions action cs proof session r fresh"
    and "check_flag r' = check_flag r"
    and "\<And>n. 0 \<le> n \<Longrightarrow> sint (range_mm r) \<le> n \<Longrightarrow> sint (range_mm r') \<le> n"
    and "\<And>n. 0 \<le> n \<Longrightarrow> sint (closing_rate_mmps r) \<le> n \<Longrightarrow> sint (closing_rate_mmps r') \<le> n"
  shows "commercial_conditions action cs proof session r' fresh"
  using assms(1) unfolding commercial_conditions_def Let_def
  by (elim disjE conjE) (simp_all add: assms(2-4))

text \<open>A configured engine: the crate behaves as documented, the parsed policies are the
  commercial policy, and the names are ASCII.\<close>

definition commercial_setting ::
  "'p crates \<Rightarrow> 'p cedar_policy_engine \<Rightarrow> string \<Rightarrow> string \<Rightarrow> bool" where
  "commercial_setting K engine vehicle station \<longleftrightarrow>
     cedar_ok K \<and> policy_means K (pe_policies engine) commercial_docking \<and> is_ascii vehicle \<and> is_ascii station"

lemma commercial_authorize:
  assumes "commercial_setting K engine vehicle station" "is_ascii action"
  shows "(\<exists>d. authorize K engine gate vehicle action station (policy_context cs proof session r fresh) = Inr d)
            \<longleftrightarrow> station = ''waystation-1'' \<and> commercial_conditions action cs proof session r fresh"
    and "authorize K engine gate vehicle action station (policy_context cs proof session r fresh) = Inl e
            \<Longrightarrow> e = Denied gate"
  using assms
  by (auto simp: commercial_setting_def authorize_documented policy_context_distinct commercial_response
      split: if_splits)

definition sample_policy_engine :: "cedar_permit list cedar_policy_engine" where
  "sample_policy_engine =
     \<lparr>pe_policies = commercial_docking,
      pe_metadata = \<lparr>am_bundle_id = ''waystation-1-commercial-docking'', am_bundle_version = 1,
                     am_policy_sha256 = ''sha-256:00''\<rparr>\<rparr>"

lemma is_ascii_code [simp]:
  "is_ascii [] = True" "is_ascii (c # s) \<longleftrightarrow> (of_char c :: nat) < 128 \<and> is_ascii s"
  by (simp_all add: is_ascii_def)

lemma sample_setting: "commercial_setting conforming sample_policy_engine ''odyssey-7'' ''waystation-1''"
  by (simp add: commercial_setting_def conforming_cedar conforming_policy sample_policy_engine_def)

section \<open>What the engine decides\<close>

text \<open>C32. No decision without Cedar's: an allowed gate means the three identifiers, the context and
  the request were accepted by the crate, the evaluation of the configured policies had no
  error, and its decision was to allow; the decision returned names the gate and carries the
  digest of the configured policies. Every other outcome is one of three errors: the crate
  refused the first of these inputs that it cannot take, and the error is its message, without
  the gate; or it decided the request and reported errors, which are passed on with the gate,
  whatever it decided; or it decided without errors not to allow, and the error names the gate.\<close>

theorem authorize_fails_closed:
  "case authorize K engine gate vehicle action station ctx_value of
     Inr d \<Rightarrow>
       (\<exists>rq. request_built K vehicle action station ctx_value rq
          \<and> rs_errors (is_authorized K rq (pe_policies engine)) = []
          \<and> rs_decision (is_authorized K rq (pe_policies engine)) = Allow
          \<and> ad_diagnostics d = rs_diagnostics_debug (is_authorized K rq (pe_policies engine)))
       \<and> ad_gate d = gate \<and> ad_decision d = ''allow'' \<and> ad_policy d = pe_metadata engine
   | Inl e \<Rightarrow>
       (\<exists>m. request_refused K vehicle action station ctx_value m \<and> e = InvalidRequest m)
       \<or> (\<exists>rq. request_built K vehicle action station ctx_value rq
            \<and> (if rs_errors (is_authorized K rq (pe_policies engine)) \<noteq> []
               then e = Evaluation gate (rs_diagnostics_debug (is_authorized K rq (pe_policies engine)))
               else rs_decision (is_authorized K rq (pe_policies engine)) \<noteq> Allow \<and> e = Denied gate))"
proof (cases "authorize K engine gate vehicle action station ctx_value")
  case (Inl e)
  show ?thesis using authorize_Inl [OF Inl] unfolding Inl sum.case response_decision_Inl .
next
  case (Inr d)
  then obtain rq where "request_built K vehicle action station ctx_value rq"
    and "response_decision K engine gate rq = Inr d"
    unfolding authorize_Inr request_built_def by blast
  then show ?thesis unfolding Inr sum.case response_decision_Inr by auto
qed

text \<open>C31. Under the commercial docking policy a transition is allowed exactly for the repository's
  station and when the conditions of its action hold: the credentials it names, the holder
  proof, the authorized session and fresh readiness it asks for, its readiness checks, and its
  limits on the closing rate and range. Every other transition is denied, never an
  evaluation error: the context supplies every attribute the policy reads.\<close>

theorem commercial_transition:
  assumes "cedar_ok K" "policy_means K (pe_policies engine) commercial_docking"
    and "is_ascii vehicle" "is_ascii station" "is_ascii action"
  shows "((\<exists>d. authorize_transition K engine vehicle station action cs proof session r fresh = Inr d)
           \<longleftrightarrow> station = ''waystation-1'' \<and> commercial_conditions action cs proof session (Some r) fresh)
     \<and> (\<forall>e. authorize_transition K engine vehicle station action cs proof session r fresh = Inl e
            \<longrightarrow> e = Denied ''stage_transition'')"
  using commercial_authorize [of K engine vehicle station action] assms
  unfolding authorize_transition_def commercial_setting_def by blast

text \<open>The first gate: under the commercial docking policy a session is authorized exactly for
  the repository's station, a vehicle with both credentials and a valid holder proof.\<close>

lemma commercial_session:
  assumes "cedar_ok K" "policy_means K (pe_policies engine) commercial_docking"
    and "is_ascii vehicle" "is_ascii station"
  shows "(\<exists>d. authorize_session K engine vehicle station cs proof = Inr d) \<longleftrightarrow>
      station = ''waystation-1'' \<and> has_profile cs ''registered-vehicle-v1''
      \<and> has_profile cs ''idss-compatible-v1'' \<and> proof"
proof -
  have "commercial_setting K engine vehicle station" "is_ascii ''authorize_session''"
    using assms by (simp_all add: commercial_setting_def)
  from commercial_authorize(1) [OF this] show ?thesis
    unfolding authorize_session_def by (simp add: commercial_conditions_def)
qed

text \<open>What a hard-dock decision says about the physical measurements: under the commercial
  policy the measured range is below 41 millimetres and the closing rate below 51
  millimetres per second, measurements that are not numbers apart, and the latches, the soft
  capture and the stable motion are confirmed.\<close>

lemma hard_dock_decision_measurements:
  assumes "cedar_ok K" "policy_means K (pe_policies engine) commercial_docking"
    and "is_ascii vehicle" "is_ascii station"
    and "authorize_transition K engine vehicle station ''engage_hard_dock'' cs proof session r fresh = Inr d"
    and "re_range_m r = Finite m e" "re_closing_rate_mps r = Finite m' e'"
  shows "f64_value (re_range_m r) < 0.041 \<and> f64_value (re_closing_rate_mps r) < 0.051
     \<and> re_checks r ''soft_capture_confirmed'' = Some True \<and> re_checks r ''latches_ready'' = Some True
     \<and> re_checks r ''relative_motion_stable'' = Some True \<and> proof \<and> session \<and> fresh"
proof -
  have "commercial_setting K engine vehicle station" "is_ascii ''engage_hard_dock''"
    using assms by (simp_all add: commercial_setting_def)
  from commercial_authorize(1) [OF this] assms(5)
  have c: "commercial_conditions ''engage_hard_dock'' cs proof session (Some r) fresh"
    unfolding authorize_transition_def by blast
  then have limits: "sint (f64_milli_ceil (re_range_m r)) \<le> 40" "sint (f64_milli_ceil (re_closing_rate_mps r)) \<le> 50"
    by (simp_all add: commercial_conditions_def range_mm_def closing_rate_mmps_def)
  have "1000 * f64_value (re_range_m r) < 41" "1000 * f64_value (re_closing_rate_mps r) < 51"
    using milli_ceil_bound(1) [OF _ _ _ limits(1)] milli_ceil_bound(1) [OF _ _ _ limits(2)] assms(6,7) by simp_all
  then show ?thesis using c
    by (simp add: commercial_conditions_def check_flag_def split: option.splits)
qed

text \<open>C33. A measurement that is not a number passes every limit of the commercial policy: replacing
  the range, the closing rate or both by NaN never turns an allowed transition into a denied one.\<close>

theorem nan_measurements_pass:
  assumes "cedar_ok K" "policy_means K (pe_policies engine) commercial_docking"
    and "is_ascii vehicle" "is_ascii station" "is_ascii action"
    and "authorize_transition K engine vehicle station action cs proof session r fresh = Inr d"
    and "r' = r\<lparr>re_range_m := x, re_closing_rate_mps := y\<rparr>"
    and "x \<in> {re_range_m r, NaN}" "y \<in> {re_closing_rate_mps r, NaN}"
  shows "\<exists>d'. authorize_transition K engine vehicle station action cs proof session r' fresh = Inr d'"
proof -
  have s: "commercial_setting K engine vehicle station"
    using assms by (simp add: commercial_setting_def)
  from commercial_authorize(1) [OF s assms(5)] assms(6)
  have "station = ''waystation-1''" "commercial_conditions action cs proof session (Some r) fresh"
    unfolding authorize_transition_def by blast+
  moreover have "check_flag (Some r') = check_flag (Some r)"
    by (rule ext) (simp add: check_flag_def assms(7))
  moreover have "sint (range_mm (Some r)) \<le> n \<Longrightarrow> sint (range_mm (Some r')) \<le> n"
    "sint (closing_rate_mmps (Some r)) \<le> n \<Longrightarrow> sint (closing_rate_mmps (Some r')) \<le> n" if "0 \<le> n" for n
    using assms(7-9) that by (auto simp: range_mm_def closing_rate_mmps_def milli_ceil_NaN)
  ultimately have "commercial_conditions action cs proof session (Some r') fresh"
    by (simp add: commercial_conditions_mono)
  then show ?thesis
    using commercial_authorize(1) [OF s assms(5)] \<open>station = ''waystation-1''\<close>
    unfolding authorize_transition_def by blast
qed

section \<open>Witnesses\<close>

definition docked_readiness :: readiness_evidence where
  "docked_readiness =
     \<lparr>re_observed_at_ms = 1787900100000, re_range_m = Finite 5044031582654956 (-57),
      re_closing_rate_mps = Finite 0 0,
      re_checks = [''soft_capture_confirmed'' \<mapsto> True, ''latches_ready'' \<mapsto> True, ''relative_motion_stable'' \<mapsto> True]\<rparr>"

lemma docked_decision:
  "\<exists>d. authorize_transition conforming sample_policy_engine ''odyssey-7'' ''waystation-1'' ''engage_hard_dock''
     test_credentials True True docked_readiness True = Inr d"
proof -
  have "range_mm (Some docked_readiness) = 35" "closing_rate_mmps (Some docked_readiness) = 0"
    by (simp_all add: range_mm_def closing_rate_mmps_def docked_readiness_def f64_milli_ceil_def f64_times_1000_def
        f64_round_def Let_def round_half_even_def f64_ceil_def f64_as_i64_def clamp_i64_def)
  then have "commercial_conditions ''engage_hard_dock'' test_credentials True True (Some docked_readiness) True"
    by (simp add: commercial_conditions_def test_credentials_def has_profile_def check_flag_def)
      (simp add: docked_readiness_def)
  then show ?thesis
    using commercial_authorize(1) [OF sample_setting, of "''engage_hard_dock''"]
    unfolding authorize_transition_def by simp
qed

theorem commercial_transition_witness:
  "\<exists>d. authorize_transition conforming sample_policy_engine ''odyssey-7'' ''waystation-1'' ''engage_hard_dock''
     test_credentials True True docked_readiness True = Inr d"
  using commercial_transition [OF conforming_cedar, of sample_policy_engine "''odyssey-7''" "''waystation-1''"
      "''engage_hard_dock''" test_credentials True True docked_readiness True]
    docked_decision conforming_policy
  by (simp add: sample_policy_engine_def)

lemma commercial_session_witness:
  "(\<exists>d. authorize_session conforming sample_policy_engine ''odyssey-7'' ''waystation-1'' test_credentials True = Inr d)
   \<and> (\<nexists>d. authorize_session conforming sample_policy_engine ''odyssey-7'' ''waystation-1'' [] True = Inr d)"
proof -
  have pol: "policy_means conforming (pe_policies sample_policy_engine) commercial_docking"
    by (simp add: sample_policy_engine_def conforming_policy)
  have "(\<exists>d. authorize_session conforming sample_policy_engine ''odyssey-7'' ''waystation-1'' cs True = Inr d) \<longleftrightarrow>
      has_profile cs ''registered-vehicle-v1'' \<and> has_profile cs ''idss-compatible-v1''" for cs
    using commercial_session [OF conforming_cedar pol, of "''odyssey-7''" "''waystation-1''" cs True] by simp
  then show ?thesis by (simp add: test_credentials_def has_profile_def)
qed

lemma hard_dock_decision_measurements_witness:
  "f64_value (re_range_m docked_readiness) < 0.041 \<and> re_checks docked_readiness ''latches_ready'' = Some True"
proof -
  obtain d where d: "authorize_transition conforming sample_policy_engine ''odyssey-7'' ''waystation-1''
      ''engage_hard_dock'' test_credentials True True docked_readiness True = Inr d"
    using docked_decision by blast
  have pol: "policy_means conforming (pe_policies sample_policy_engine) commercial_docking"
    by (simp add: sample_policy_engine_def conforming_policy)
  have measured: "re_range_m docked_readiness = Finite 5044031582654956 (-57)"
      "re_closing_rate_mps docked_readiness = Finite 0 0"
    by (simp_all add: docked_readiness_def)
  from hard_dock_decision_measurements [OF conforming_cedar pol _ _ d measured] show ?thesis by simp
qed

theorem nan_measurements_pass_witness:
  "\<exists>d. authorize_transition conforming sample_policy_engine ''odyssey-7'' ''waystation-1'' ''engage_hard_dock''
     test_credentials True True (docked_readiness\<lparr>re_range_m := NaN, re_closing_rate_mps := NaN\<rparr>) True = Inr d"
proof -
  obtain d where d: "authorize_transition conforming sample_policy_engine ''odyssey-7'' ''waystation-1''
      ''engage_hard_dock'' test_credentials True True docked_readiness True = Inr d"
    using docked_decision by blast
  have pol: "policy_means conforming (pe_policies sample_policy_engine) commercial_docking"
    by (simp add: sample_policy_engine_def conforming_policy)
  show ?thesis by (rule nan_measurements_pass [OF conforming_cedar pol _ _ _ d refl]) simp_all
qed

section \<open>Loading a policy source\<close>

text \<open>An engine exists only for a source that parses to at least one policy, and its metadata
  binds it to that source: engines whose metadata carry the same digest string were loaded from
  sources with the same SHA-256 digest.\<close>

lemma policy_digest_binds_source:
  assumes "hex_ok K"
    and "from_source K bundle version source = Inr engine" "from_source K bundle' version' source' = Inr engine'"
    and "am_policy_sha256 (pe_metadata engine) = am_policy_sha256 (pe_metadata engine')"
  shows "sha256 K (as_bytes source) = sha256 K (as_bytes source')
     \<and> (\<exists>ps. policy_set_from_str K source = Inr ps \<and> \<not> policy_set_is_empty K ps \<and> pe_policies engine = ps)"
  using assms hex_encode_inject [OF assms(1)] by (auto simp: from_source_def split: if_splits)

lemma policy_digest_binds_source_witness:
  "\<exists>engine. from_source conforming ''bundle'' 1 ''commercial-docking.cedar'' = Inr engine
     \<and> pe_policies engine = commercial_docking \<and> commercial_docking \<noteq> []"
proof -
  have parsed: "policy_set_from_str conforming ''commercial-docking.cedar'' = Inr commercial_docking"
    "\<not> policy_set_is_empty conforming commercial_docking" "commercial_docking \<noteq> []"
    by (simp_all add: conforming_def commercial_docking_def)
  obtain engine where e: "from_source conforming ''bundle'' 1 ''commercial-docking.cedar'' = Inr engine"
    using parsed by (simp add: from_source_def)
  from policy_digest_binds_source [OF conforming_hex e e refl] e parsed show ?thesis by auto
qed

end
