(* ===== verification/Session.thy ===== *)
theory Session
  imports Envelope Cedar Docking Journal
begin

text \<open>
  The data of the ACCESS engine (\<open>session.rs\<close>): random sources, scenarios, events, outcomes,
  configuration, errors and the engine's state, with its constructor, its replay-state setters,
  \<open>reset\<close> and the helpers the three commands share. Prefixes: \<open>ev_\<close> \<open>AccessEvent\<close>, \<open>out_\<close>
  \<open>TransitionOutcome\<close>, \<open>so_\<close> \<open>SessionOutcome\<close>, \<open>ec_\<close> \<open>AccessEngineConfig\<close>, \<open>pn_\<close>
  \<open>PendingEntitlement\<close>, \<open>ae_\<close> \<open>AccessEngine\<close>.
\<close>

section \<open>Data\<close>

text \<open>A random source is what its \<open>n\<close>-th call delivers: an error, or the bytes it writes into
  the destination.\<close>

type_synonym random_source = "nat \<Rightarrow> string + bytes"

definition os_random_source :: "'p crates \<Rightarrow> random_source" where
  "os_random_source K = os_random K"

datatype access_scenario = Nominal | ExpiredCredential | CorridorViolation | LatchNotReady

record access_event =
  ev_code :: string
  ev_detail :: string
  ev_from :: "string option"
  ev_to :: "string option"
  ev_message_type :: "string option"

record transition_outcome =
  out_approved :: bool
  out_previous_state :: u8
  out_resulting_state :: u8
  out_reason :: string
  out_session_id :: "string option"
  out_protocol_profile_id :: "string option"
  out_protocol_profile_version :: "u64 option"
  out_rule_id :: "string option"
  out_grant_id :: "string option"
  out_entitlement_ttl_s :: "u64 option"
  out_grant_expires_at_s :: "i64 option"
  out_signed_grant_hex :: "string option"
  out_authorization_decision :: "access_decision option"
  out_events :: "access_event list"

record session_outcome =
  so_session_id :: string
  so_protocol_profile_id :: string
  so_protocol_profile_version :: u64
  so_authorization_decision :: access_decision
  so_events :: "access_event list"

record 'p access_engine_config =
  ec_protocol_profile :: protocol_profile
  ec_policy_engine :: "'p cedar_policy_engine"
  ec_trust_bundle_id :: string
  ec_trust_bundle_version :: u64
  ec_trust_bundle_issued_at_s :: i64

text \<open>\<open>OverflowPanic\<close> is no value of \<open>SessionError\<close> but the panic of a build with overflow
  checks, which no caller catches.\<close>

datatype session_error =
    ProtocolErr protocol_error
  | TransitionErr transition_error
  | SessionBinding
  | CredentialMissing
  | GrantMismatch
  | AuthorizationPolicyErr access_policy_error
  | ProtocolProfileErr protocol_profile_error
  | RandomSourceErr
  | OverflowPanic

fun session_error_display :: "session_error \<Rightarrow> string" where
  "session_error_display (ProtocolErr e) = ''protocol verification failed: '' @ protocol_error_display e"
| "session_error_display (TransitionErr e) = ''protected transition failed: '' @ transition_error_display e"
| "session_error_display SessionBinding = ''session challenge or identifier binding failed''"
| "session_error_display CredentialMissing = ''credential presentation is missing''"
| "session_error_display GrantMismatch = ''authorization grant does not match the requested stage''"
| "session_error_display (AuthorizationPolicyErr e) =
     ''ACCESS authorization policy evaluation failed: '' @ access_policy_error_display e"
| "session_error_display (ProtocolProfileErr e) =
     ''protocol policy validation failed: '' @ protocol_profile_error_display e"
| "session_error_display RandomSourceErr = ''operating-system random source failed''"
| "session_error_display OverflowPanic = ''attempt to add or subtract with overflow''"

record pending_entitlement =
  pn_requested_state :: u8
  pn_authorization_decision :: access_decision

record ('p, 'b) access_engine =
  ae_chaser :: identity_key
  ae_station :: identity_key
  ae_credential_issuer :: identity_key
  ae_station_peer_trust :: trust_store
  ae_chaser_peer_trust :: trust_store
  ae_credential_trust :: trust_store
  ae_gate_trust :: trust_store
  ae_station_replay :: "'b replay_cache"
  ae_chaser_replay :: "'b replay_cache"
  ae_gate_replay :: "'b replay_cache"
  ae_consumed_grants :: "'b replay_cache"
  ae_config :: "'p access_engine_config"
  ae_state :: docking_state
  ae_authorization :: authorization_context
  ae_session_id :: "string option"
  ae_verified_credentials :: "verified_credential_evidence list"
  ae_holder_proof_at_s :: "i64 option"
  ae_pending_entitlements :: "string \<rightharpoonup> pending_entitlement"
  ae_scenario :: access_scenario
  ae_random_source :: random_source
  ae_random_calls :: nat

text \<open>\<open>ae_random_calls\<close> counts the calls made to the random source, whose own state is not
  visible in the code.\<close>

section \<open>Construction and replay state\<close>

definition new_engine ::
  "'p crates \<Rightarrow> identity_key \<Rightarrow> identity_key \<Rightarrow> identity_key \<Rightarrow> trust_store \<Rightarrow> trust_store \<Rightarrow> trust_store
     \<Rightarrow> trust_store \<Rightarrow> 'p access_engine_config \<Rightarrow> ('p, 'b) access_engine" where
  "new_engine K chaser station credential_issuer station_peer_trust chaser_peer_trust credential_trust
       gate_trust config =
     \<lparr>ae_chaser = chaser, ae_station = station, ae_credential_issuer = credential_issuer,
      ae_station_peer_trust = station_peer_trust, ae_chaser_peer_trust = chaser_peer_trust,
      ae_credential_trust = credential_trust, ae_gate_trust = gate_trust,
      ae_station_replay = replay_default, ae_chaser_replay = replay_default,
      ae_gate_replay = replay_default, ae_consumed_grants = replay_default,
      ae_config = config, ae_state = Hold, ae_authorization = default_authorization,
      ae_session_id = None, ae_verified_credentials = [], ae_holder_proof_at_s = None,
      ae_pending_entitlements = Map.empty, ae_scenario = Nominal,
      ae_random_source = os_random_source K, ae_random_calls = 0\<rparr>"

definition with_random_source ::
  "random_source \<Rightarrow> ('p, 'b) access_engine \<Rightarrow> ('p, 'b) access_engine" where
  "with_random_source source s = s\<lparr>ae_random_source := source, ae_random_calls := 0\<rparr>"

definition set_replay_state ::
  "'b replay_cache \<Rightarrow> 'b replay_cache \<Rightarrow> 'b replay_cache \<Rightarrow> 'b replay_cache
     \<Rightarrow> ('p, 'b) access_engine \<Rightarrow> ('p, 'b) access_engine" where
  "set_replay_state station chaser gate grants s =
     s\<lparr>ae_station_replay := station, ae_chaser_replay := chaser, ae_gate_replay := gate,
       ae_consumed_grants := grants\<rparr>"

text \<open>\<open>disk\<close> gives, per file name in the state directory, the error of creating the directory (if
  any) and the journal file found there.\<close>

type_synonym state_directory = "string \<Rightarrow> string option \<times> journal_file"

definition open_cache ::
  "'p crates \<Rightarrow> state_directory \<Rightarrow> string \<Rightarrow> session_error + journal_file replay_cache" where
  "open_cache K disk name = map_err ProtocolErr (persistent K (fst (disk name)) (snd (disk name)))"

definition enable_persistent_state ::
  "'p crates \<Rightarrow> state_directory \<Rightarrow> (('q, journal_file) access_engine, session_error, unit) op" where
  "enable_persistent_state K disk =
     and_then (try_with (\<lambda>_. open_cache K disk ''station-nonces.log'')) (\<lambda>station.
     and_then (update_state (\<lambda>s. s\<lparr>ae_station_replay := station\<rparr>)) (\<lambda>_.
     and_then (try_with (\<lambda>_. open_cache K disk ''chaser-nonces.log'')) (\<lambda>chaser.
     and_then (update_state (\<lambda>s. s\<lparr>ae_chaser_replay := chaser\<rparr>)) (\<lambda>_.
     and_then (try_with (\<lambda>_. open_cache K disk ''gate-nonces.log'')) (\<lambda>gate.
     and_then (update_state (\<lambda>s. s\<lparr>ae_gate_replay := gate\<rparr>)) (\<lambda>_.
     and_then (try_with (\<lambda>_. open_cache K disk ''consumed-grants.log'')) (\<lambda>grants.
     update_state (\<lambda>s. s\<lparr>ae_consumed_grants := grants\<rparr>))))))))"

definition reset :: "('p, 'b) access_engine \<Rightarrow> ('p, 'b) access_engine" where
  "reset s =
     s\<lparr>ae_station_replay := reset_ephemeral (ae_station_replay s),
       ae_chaser_replay := reset_ephemeral (ae_chaser_replay s),
       ae_gate_replay := reset_ephemeral (ae_gate_replay s),
       ae_consumed_grants := reset_ephemeral (ae_consumed_grants s),
       ae_state := Hold, ae_authorization := default_authorization, ae_session_id := None,
       ae_verified_credentials := [], ae_holder_proof_at_s := None,
       ae_pending_entitlements := Map.empty\<rparr>"

section \<open>Shared helpers\<close>

text \<open>A 32-byte buffer of zeros, overwritten by what the source delivers.\<close>

definition random_nonce :: "(('p, 'b) access_engine, session_error, bytes) op" where
  "random_nonce s =
     (let t = s\<lparr>ae_random_calls := Suc (ae_random_calls s)\<rparr>
      in case ae_random_source s (ae_random_calls s) of
           Inl _ \<Rightarrow> (Inl RandomSourceErr, t)
         | Inr bs \<Rightarrow> (Inr (take 32 (bs @ replicate 32 0)), t))"

fun state_number :: "docking_state \<Rightarrow> u8" where
  "state_number Hold = 0"
| "state_number Approach = 1"
| "state_number FinalApproach = 2"
| "state_number SoftCapture = 3"
| "state_number HardDock = 4"
| "state_number Aborted = 5"

definition transition_for :: "docking_state \<Rightarrow> u8 \<Rightarrow> (docking_event \<times> authorized_stage) option" where
  "transition_for state requested =
     (if state = Hold \<and> requested = 1 then Some (BeginApproach, StageApproach)
      else if state = Approach \<and> requested = 2 then Some (EnterFinalApproach, StageFinalApproach)
      else if state = FinalApproach \<and> requested = 3 then Some (EngageSoftCapture, StageSoftCapture)
      else if state = SoftCapture \<and> requested = 4 then Some (EngageHardDock, StageHardDock)
      else None)"

definition transition_names :: "docking_state \<Rightarrow> u8 \<Rightarrow> (string \<times> string) option" where
  "transition_names state requested =
     (if state = Hold \<and> requested = 1 then Some (''hold'', ''approach'')
      else if state = Approach \<and> requested = 2 then Some (''approach'', ''final_approach'')
      else if state = FinalApproach \<and> requested = 3 then Some (''final_approach'', ''soft_capture'')
      else if state = SoftCapture \<and> requested = 4 then Some (''soft_capture'', ''hard_dock'')
      else None)"

definition event ::
  "string \<Rightarrow> string \<Rightarrow> string option \<Rightarrow> string option \<Rightarrow> string option \<Rightarrow> access_event" where
  "event code detail from_party to_party message_type =
     \<lparr>ev_code = code, ev_detail = detail, ev_from = from_party, ev_to = to_party,
      ev_message_type = message_type\<rparr>"

definition denied :: "u8 \<Rightarrow> string \<Rightarrow> string \<Rightarrow> transition_outcome" where
  "denied previous reason detail =
     \<lparr>out_approved = False, out_previous_state = previous, out_resulting_state = previous,
      out_reason = reason, out_session_id = None, out_protocol_profile_id = None,
      out_protocol_profile_version = None, out_rule_id = None, out_grant_id = None,
      out_entitlement_ttl_s = None, out_grant_expires_at_s = None, out_signed_grant_hex = None,
      out_authorization_decision = None, out_events = [event reason detail None None None]\<rparr>"

fun denial_reason :: "protocol_profile_error \<Rightarrow> string" where
  "denial_reason ProfileExpired = ''DENY_PROTOCOL_PROFILE_EXPIRED''"
| "denial_reason TrustBundleMismatch = ''DENY_TRUST_BUNDLE''"
| "denial_reason NoMatchingRule = ''DENY_NO_MATCHING_PROTOCOL_RULE''"
| "denial_reason CredentialRequired = ''DENY_CREDENTIAL_REQUIRED''"
| "denial_reason HolderProofRequired = ''DENY_HOLDER_PROOF''"
| "denial_reason ProfileSessionRequired = ''DENY_SESSION_NOT_AUTHORIZED''"
| "denial_reason ReadinessStale = ''DENY_READINESS_STALE''"
| "denial_reason InvalidTimestamp = ''DENY_PROTOCOL_PROFILE_INVALID''"

definition policy_denied :: "u8 \<Rightarrow> protocol_profile_error \<Rightarrow> transition_outcome" where
  "policy_denied previous error =
     denied previous (denial_reason error) (protocol_profile_error_display error)"

text \<open>\<open>i64\<close> addition and subtraction, checked or wrapping by build profile.\<close>

definition i64_checked :: "'p crates \<Rightarrow> int \<Rightarrow> session_error + i64" where
  "i64_checked K x =
     (if overflow_checks K \<and> \<not> (i64_min \<le> x \<and> x \<le> i64_max) then Inl OverflowPanic
      else Inr (word_of_int x))"

end
