(* ===== verification/Commands.thy ===== *)
theory Commands
  imports Session
begin

text \<open>
  The three commands of the ACCESS engine (\<open>session.rs\<close>): \<open>establish_session\<close>,
  \<open>request_transition\<close> and \<open>redeem_transition\<close>, each cut where its source has its stages. The
  offer-and-proof exchange is written twice in the source with the same text apart from the
  credentials presented; the definitions for it are shared here.
\<close>

section \<open>Messages\<close>

definition request_claims :: "string \<Rightarrow> string \<Rightarrow> i64 \<Rightarrow> bytes \<Rightarrow> protocol_claims" where
  "request_claims issuer recipient now_s nonce =
     \<lparr>pc_message_type = AccessRequest, pc_issuer = issuer, pc_recipient = recipient,
      pc_issued_at_s = now_s, pc_nonce = nonce, pc_session_id = None, pc_authorized_stage = None,
      pc_challenge_nonce = None, pc_credentials = [], pc_grant_id = None, pc_expires_at_s = None,
      pc_protocol_profile_id = None, pc_protocol_profile_version = None, pc_rule_id = None,
      pc_authorization_policy_bundle_id = None, pc_authorization_policy_bundle_version = None,
      pc_authorization_policy_sha256 = None\<rparr>"

definition offer_claims :: "string \<Rightarrow> string \<Rightarrow> i64 \<Rightarrow> bytes \<Rightarrow> string \<Rightarrow> bytes \<Rightarrow> protocol_claims" where
  "offer_claims issuer recipient now_s nonce session_id challenge =
     (request_claims issuer recipient now_s nonce)
       \<lparr>pc_message_type := SessionOffer, pc_session_id := Some session_id,
        pc_challenge_nonce := Some challenge\<rparr>"

definition proof_claims ::
  "string \<Rightarrow> string \<Rightarrow> i64 \<Rightarrow> bytes \<Rightarrow> string \<Rightarrow> bytes \<Rightarrow> bytes list \<Rightarrow> protocol_claims" where
  "proof_claims issuer recipient now_s nonce session_id challenge credentials =
     (request_claims issuer recipient now_s nonce)
       \<lparr>pc_message_type := SessionProof, pc_session_id := Some session_id,
        pc_challenge_nonce := Some challenge, pc_credentials := credentials\<rparr>"

definition grant_claims ::
  "string \<Rightarrow> string \<Rightarrow> i64 \<Rightarrow> bytes \<Rightarrow> string \<Rightarrow> authorized_stage \<Rightarrow> string \<Rightarrow> i64 \<Rightarrow> protocol_rule_decision
     \<Rightarrow> access_policy_metadata \<Rightarrow> protocol_claims" where
  "grant_claims issuer recipient now_s nonce session_id stage grant_id expires_at_s rule policy =
     (request_claims issuer recipient now_s nonce)
       \<lparr>pc_message_type := AuthorizationGrant, pc_session_id := Some session_id,
        pc_authorized_stage := Some stage, pc_grant_id := Some grant_id,
        pc_expires_at_s := Some expires_at_s, pc_protocol_profile_id := Some (rd_profile_id rule),
        pc_protocol_profile_version := Some (rd_profile_version rule),
        pc_rule_id := Some (rd_rule_id rule),
        pc_authorization_policy_bundle_id := Some (am_bundle_id policy),
        pc_authorization_policy_bundle_version := Some (am_bundle_version policy),
        pc_authorization_policy_sha256 := Some (am_policy_sha256 policy)\<rparr>"

section \<open>Exchanges with the replay caches of the engine\<close>

definition station_receives ::
  "'p crates \<Rightarrow> protocol_claims \<Rightarrow> i64 \<Rightarrow> (('p, 'b) access_engine, session_error, verified_envelope) op" where
  "station_receives K claims now_s s =
     on_field ae_station_replay (\<lambda>c t. t\<lparr>ae_station_replay := c\<rparr>) ProtocolErr
       (exchange K claims (ae_chaser s) (ae_station_peer_trust s) (ik_key_id (ae_station s)) now_s) s"

definition chaser_receives ::
  "'p crates \<Rightarrow> protocol_claims \<Rightarrow> i64 \<Rightarrow> (('p, 'b) access_engine, session_error, verified_envelope) op" where
  "chaser_receives K claims now_s s =
     on_field ae_chaser_replay (\<lambda>c t. t\<lparr>ae_chaser_replay := c\<rparr>) ProtocolErr
       (exchange K claims (ae_station s) (ae_chaser_peer_trust s) (ik_key_id (ae_chaser s)) now_s) s"

text \<open>The signed request that opens a session.\<close>

definition access_request ::
  "'p crates \<Rightarrow> i64 \<Rightarrow> (('p, 'b) access_engine, session_error, verified_envelope) op" where
  "access_request K now_s =
     and_then random_nonce (\<lambda>nonce s.
       station_receives K
         (request_claims (ik_key_id (ae_chaser s)) (ik_key_id (ae_station s)) now_s nonce) now_s s)"

text \<open>The station's offer with a fresh challenge, and the chaser's proof for it.\<close>

definition session_offer ::
  "'p crates \<Rightarrow> string \<Rightarrow> i64 \<Rightarrow> (('p, 'b) access_engine, session_error, bytes \<times> verified_envelope) op" where
  "session_offer K session_id now_s =
     and_then random_nonce (\<lambda>challenge.
     and_then random_nonce (\<lambda>nonce.
     and_then (\<lambda>s. chaser_receives K
         (offer_claims (ik_key_id (ae_station s)) (ik_key_id (ae_chaser s)) now_s nonce session_id challenge)
         now_s s) (\<lambda>offer.
     ret (challenge, offer))))"

definition session_proof ::
  "'p crates \<Rightarrow> string \<Rightarrow> bytes \<Rightarrow> bytes list \<Rightarrow> i64
     \<Rightarrow> (('p, 'b) access_engine, session_error, verified_envelope) op" where
  "session_proof K session_id challenge credentials now_s =
     and_then random_nonce (\<lambda>nonce s.
       station_receives K
         (proof_claims (ik_key_id (ae_chaser s)) (ik_key_id (ae_station s)) now_s nonce session_id challenge
            credentials) now_s s)"

definition check_binding ::
  "verified_envelope \<Rightarrow> verified_envelope \<Rightarrow> ('s, session_error, unit) op" where
  "check_binding proof offer =
     (if pc_session_id (ve_claims proof) \<noteq> pc_session_id (ve_claims offer)
         \<or> pc_challenge_nonce (ve_claims proof) \<noteq> pc_challenge_nonce (ve_claims offer)
      then fail SessionBinding else ret ())"

section \<open>Establishing a session\<close>

definition registration_claims ::
  "'p crates \<Rightarrow> string \<Rightarrow> string \<Rightarrow> i64 \<Rightarrow> access_scenario \<Rightarrow> session_error + credential_claims" where
  "registration_claims K issuer subject now_s scenario =
     bind_result (i64_checked K (sint now_s - 60)) (\<lambda>issued_at_s.
     bind_result (if scenario = ExpiredCredential then i64_checked K (sint now_s - 1)
                  else i64_checked K (sint now_s + 86400)) (\<lambda>expires_at_s.
       Inr \<lparr>cc_issuer = issuer, cc_subject = subject, cc_profile_id = ''registered-vehicle-v1'',
            cc_credential_type = ''VehicleRegistrationCredential'',
            cc_schema_id = ''space:vehicle-registration:v1'',
            cc_issuer_group = ''recognized-registrars'', cc_issued_at_s = issued_at_s,
            cc_expires_at_s = expires_at_s, cc_status_checked_at_s = now_s\<rparr>))"

definition certification_claims ::
  "'p crates \<Rightarrow> string \<Rightarrow> string \<Rightarrow> i64 \<Rightarrow> session_error + credential_claims" where
  "certification_claims K issuer subject now_s =
     bind_result (i64_checked K (sint now_s - 60)) (\<lambda>issued_at_s.
     bind_result (i64_checked K (sint now_s + 86400)) (\<lambda>expires_at_s.
       Inr \<lparr>cc_issuer = issuer, cc_subject = subject, cc_profile_id = ''idss-compatible-v1'',
            cc_credential_type = ''DockingCertificationCredential'',
            cc_schema_id = ''space:docking-certification:v1'',
            cc_issuer_group = ''recognized-docking-authorities'', cc_issued_at_s = issued_at_s,
            cc_expires_at_s = expires_at_s, cc_status_checked_at_s = now_s\<rparr>))"

definition issue_credentials ::
  "'p crates \<Rightarrow> identity_key \<Rightarrow> string \<Rightarrow> i64 \<Rightarrow> access_scenario \<Rightarrow> session_error + bytes list" where
  "issue_credentials K issuer subject now_s scenario =
     bind_result (registration_claims K (ik_key_id issuer) subject now_s scenario) (\<lambda>registration.
     bind_result (certification_claims K (ik_key_id issuer) subject now_s) (\<lambda>certification.
       map_err ProtocolErr
         (collect_results (map (\<lambda>claims. issue_credential K claims issuer) [registration, certification]))))"

definition credential_evidence :: "credential_claims \<Rightarrow> verified_credential_evidence" where
  "credential_evidence claims =
     \<lparr>vc_profile_id = cc_profile_id claims, vc_credential_type = cc_credential_type claims,
      vc_schema_id = cc_schema_id claims, vc_issuer_group = cc_issuer_group claims,
      vc_status_checked_at_s = cc_status_checked_at_s claims\<rparr>"

definition verify_presentation ::
  "'p crates \<Rightarrow> trust_store \<Rightarrow> verified_envelope \<Rightarrow> i64 \<Rightarrow> session_error + verified_credential_evidence list" where
  "verify_presentation K trust proof now_s =
     map_err ProtocolErr (collect_results (map (\<lambda>credential.
       bind_result (verify_credential K credential trust (ve_signer proof) now_s)
         (\<lambda>claims. Inr (credential_evidence claims))) (pc_credentials (ve_claims proof))))"

definition session_events ::
  "('p, 'b) access_engine \<Rightarrow> string \<Rightarrow> verified_envelope \<Rightarrow> access_decision \<Rightarrow> access_event list" where
  "session_events s session_id request decision =
     (let chaser = Some (ik_key_id (ae_chaser s)); station = Some (ik_key_id (ae_station s));
          issuer = ik_key_id (ae_credential_issuer s); policy = ad_policy decision
      in [event ''TRUST_BUNDLE_LOADED'' ''Configured peer and issuer keys loaded'' None None None,
          event ''ACCESS_REQUEST_VERIFIED'' ''Signed ACCESS request verified with replay protection''
            (Some (ve_signer request)) station (Some ''ACCESS_REQUEST''),
          event ''SESSION_OFFER_VERIFIED'' (''Signed challenge bound to session='' @ session_id)
            station chaser (Some ''SESSION_OFFER''),
          event ''CREDENTIAL_ISSUED''
            (''issuer='' @ issuer @ ''; type=VehicleRegistrationCredential,DockingCertificationCredential'')
            (Some issuer) chaser (Some ''CREDENTIAL''),
          event ''CREDENTIALS_VERIFIED'' ''Issuer signature, validity, and holder binding verified''
            chaser station (Some ''CREDENTIAL_PRESENTATION''),
          event ''HOLDER_PROOF_VERIFIED'' ''Fresh station challenge signed by credential subject''
            chaser station (Some ''SESSION_PROOF''),
          event ''ACCESS_INITIAL_CLAIMS_ALLOWED''
            (''bundle='' @ am_bundle_id policy @ ''@'' @ show_u64 (am_bundle_version policy)
               @ ''; hash='' @ am_policy_sha256 policy)
            station chaser (Some ''ACCESS_AUTHORIZATION''),
          event ''SESSION_AUTHORIZED'' (''session='' @ session_id @ ''; replay caches active'')
            station chaser (Some ''SESSION_AUTHORIZATION'')])"

text \<open>The checks on a verified proof: credentials, profile, policy; then the session is authorized.\<close>

definition authorize_holder ::
  "'p crates \<Rightarrow> string \<Rightarrow> verified_envelope \<Rightarrow> i64
     \<Rightarrow> (('p, 'b) access_engine, session_error, access_decision) op" where
  "authorize_holder K session_id proof now_s =
     and_then (if pc_credentials (ve_claims proof) = [] then fail CredentialMissing else ret ()) (\<lambda>_.
     and_then (try_with (\<lambda>s. verify_presentation K (ae_credential_trust s) proof now_s)) (\<lambda>evidence.
     and_then (update_state (\<lambda>s. s\<lparr>ae_verified_credentials := evidence\<rparr>)) (\<lambda>_.
     and_then (try_with (\<lambda>s. map_err ProtocolProfileErr
         (validate_foundation K (ec_protocol_profile (ae_config s)) now_s (ec_trust_bundle_id (ae_config s))
            (ec_trust_bundle_version (ae_config s)) (ec_trust_bundle_issued_at_s (ae_config s))))) (\<lambda>_.
     and_then (try_with (\<lambda>s. map_err ProtocolProfileErr
         (validate_credentials (ec_protocol_profile (ae_config s)) (ae_verified_credentials s) now_s))) (\<lambda>_.
     and_then (update_state (\<lambda>s. s\<lparr>ae_holder_proof_at_s := Some now_s\<rparr>)) (\<lambda>_.
     and_then (try_with (\<lambda>s. map_err AuthorizationPolicyErr
         (Cedar.authorize_session K (ec_policy_engine (ae_config s)) (ik_key_id (ae_chaser s))
            (ik_key_id (ae_station s)) (ae_verified_credentials s) True))) (\<lambda>decision.
     and_then (update_state (\<lambda>s. s\<lparr>ae_authorization := (ae_authorization s)\<lparr>session_authorized := True\<rparr>,
                                  ae_session_id := Some session_id\<rparr>)) (\<lambda>_.
     ret decision))))))))"

definition establish_session ::
  "'p crates \<Rightarrow> i64 \<Rightarrow> access_scenario \<Rightarrow> (('p, 'b) access_engine, session_error, session_outcome) op" where
  "establish_session K now_s scenario =
     and_then (update_state (\<lambda>s. (reset s)\<lparr>ae_scenario := scenario\<rparr>)) (\<lambda>_.
     and_then random_nonce (\<lambda>identifier.
     let session_id = ''access-'' @ hex_encode K identifier in
     and_then (access_request K now_s) (\<lambda>request.
     and_then (update_state (\<lambda>s. s\<lparr>ae_authorization := (ae_authorization s)\<lparr>identity_verified := True\<rparr>\<rparr>)) (\<lambda>_.
     and_then (session_offer K session_id now_s) (\<lambda>(challenge, offer).
     and_then (try_with (\<lambda>s. issue_credentials K (ae_credential_issuer s) (ik_key_id (ae_chaser s)) now_s
                              scenario)) (\<lambda>credentials.
     and_then (session_proof K session_id challenge credentials now_s) (\<lambda>proof.
     and_then (check_binding proof offer) (\<lambda>_.
     and_then (authorize_holder K session_id proof now_s) (\<lambda>decision s.
       (Inr \<lparr>so_session_id = session_id,
             so_protocol_profile_id = pp_profile_id (ec_protocol_profile (ae_config s)),
             so_protocol_profile_version = pp_profile_version (ec_protocol_profile (ae_config s)),
             so_authorization_decision = decision,
             so_events = session_events s session_id request decision\<rparr>, s))))))))))"

end
