(* ===== verification/Transitions.thy ===== *)
theory Transitions
  imports Commands
begin

text \<open>
  The second half of the commands of \<open>session.rs\<close>: \<open>request_transition\<close>, which refreshes the
  holder proof, evaluates profile and policy and issues a signed grant, and
  \<open>redeem_transition\<close>, which verifies a presented grant, uses up its entitlement and moves the
  protected state. At the end, the commands as one step function.
\<close>

section \<open>Requesting a transition\<close>

definition rule_by_id :: "protocol_profile \<Rightarrow> string \<Rightarrow> stage_rule_profile option" where
  "rule_by_id profile rule_id =
     List.find (\<lambda>candidate. sr_rule_id candidate = rule_id) (pp_stage_rules profile)"

definition readiness_fresh :: "protocol_profile \<Rightarrow> string \<Rightarrow> i64 \<Rightarrow> readiness_evidence \<Rightarrow> bool" where
  "readiness_fresh profile rule_id now_s readiness \<longleftrightarrow>
     sint (evidence_age_ms now_s (re_observed_at_ms readiness))
       \<le> sint (case rule_by_id profile rule_id of None \<Rightarrow> 0 | Some r \<Rightarrow> rr_maximum_age_ms (sr_readiness r))"

definition rule_action :: "protocol_profile \<Rightarrow> string \<Rightarrow> string" where
  "rule_action profile rule_id =
     (case rule_by_id profile rule_id of None \<Rightarrow> [] | Some r \<Rightarrow> sr_action r)"

definition proof_refreshed :: "('p, 'b) access_engine \<Rightarrow> string \<Rightarrow> access_event" where
  "proof_refreshed s session_id =
     event ''HOLDER_PROOF_REFRESHED'' (''Fresh transition proof bound to session='' @ session_id)
       (Some (ik_key_id (ae_chaser s))) (Some (ik_key_id (ae_station s))) (Some ''SESSION_PROOF'')"

definition profile_denial ::
  "('p, 'b) access_engine \<Rightarrow> u8 \<Rightarrow> string \<Rightarrow> string option \<Rightarrow> protocol_profile_error \<Rightarrow> transition_outcome" where
  "profile_denial s previous session_id matched_rule_id error =
     (let outcome = policy_denied previous error; profile = ec_protocol_profile (ae_config s)
      in outcome\<lparr>out_session_id := Some session_id,
                 out_protocol_profile_id := Some (pp_profile_id profile),
                 out_protocol_profile_version := Some (pp_profile_version profile),
                 out_rule_id := matched_rule_id,
                 out_events := proof_refreshed s session_id # out_events outcome\<rparr>)"

definition policy_denial ::
  "('p, 'b) access_engine \<Rightarrow> u8 \<Rightarrow> string \<Rightarrow> protocol_rule_decision \<Rightarrow> access_policy_error \<Rightarrow> transition_outcome" where
  "policy_denial s previous session_id rule error =
     (let outcome = denied previous ''DENY_AUTHORIZATION_POLICY'' (access_policy_error_display error)
      in outcome\<lparr>out_session_id := Some session_id,
                 out_protocol_profile_id := Some (rd_profile_id rule),
                 out_protocol_profile_version := Some (rd_profile_version rule),
                 out_rule_id := Some (rd_rule_id rule),
                 out_events := proof_refreshed s session_id # out_events outcome\<rparr>)"

definition grant_outcome ::
  "'p crates \<Rightarrow> ('p, 'b) access_engine \<Rightarrow> u8 \<Rightarrow> authorized_stage \<Rightarrow> string \<Rightarrow> protocol_rule_decision
     \<Rightarrow> access_decision \<Rightarrow> string \<Rightarrow> i64 \<Rightarrow> bytes \<Rightarrow> transition_outcome" where
  "grant_outcome K s previous stage session_id rule decision grant_id expires_at_s encoded =
     (let chaser = Some (ik_key_id (ae_chaser s)); station = Some (ik_key_id (ae_station s));
          policy = ad_policy decision
      in \<lparr>out_approved = True, out_previous_state = previous, out_resulting_state = previous,
          out_reason = ''ALLOW_AUTHORIZATION_GRANT_ISSUED'', out_session_id = Some session_id,
          out_protocol_profile_id = Some (rd_profile_id rule),
          out_protocol_profile_version = Some (rd_profile_version rule),
          out_rule_id = Some (rd_rule_id rule), out_grant_id = Some grant_id,
          out_entitlement_ttl_s = Some (rd_entitlement_ttl_s rule),
          out_grant_expires_at_s = Some expires_at_s,
          out_signed_grant_hex = Some (hex_encode K encoded),
          out_authorization_decision = Some decision,
          out_events =
            [proof_refreshed s session_id,
             event ''ACCESS_STAGE_POLICY_ALLOWED''
               (''bundle='' @ am_bundle_id policy @ ''@'' @ show_u64 (am_bundle_version policy)
                  @ ''; rule='' @ rd_rule_id rule) station chaser (Some ''ACCESS_AUTHORIZATION''),
             event ''AUTHORIZATION_GRANT_ISSUED''
               (''grant='' @ grant_id @ ''; session='' @ session_id @ ''; rule='' @ rd_rule_id rule
                  @ ''; stage='' @ stage_debug_name stage @ ''; ttl=''
                  @ show_u64 (rd_entitlement_ttl_s rule) @ ''s'') station chaser (Some ''AUTHORIZATION_GRANT'')]\<rparr>)"

definition issue_grant ::
  "'p crates \<Rightarrow> u8 \<Rightarrow> authorized_stage \<Rightarrow> string \<Rightarrow> u8 \<Rightarrow> i64 \<Rightarrow> protocol_rule_decision \<Rightarrow> access_decision
     \<Rightarrow> (('p, 'b) access_engine, session_error, transition_outcome) op" where
  "issue_grant K previous stage session_id requested_state now_s rule decision =
     and_then random_nonce (\<lambda>identifier.
     let grant_id = ''grant-'' @ hex_encode K identifier;
         expires_at_s = saturating_add now_s (rd_entitlement_ttl_s rule) in
     and_then random_nonce (\<lambda>nonce.
     and_then (try_with (\<lambda>s. map_err ProtocolErr (sign_envelope K
         (grant_claims (ik_key_id (ae_station s)) (ik_key_id (ae_chaser s)) now_s nonce session_id stage
            grant_id expires_at_s rule (ad_policy decision)) (ae_station s)))) (\<lambda>encoded.
     and_then (update_state (\<lambda>s. s\<lparr>ae_pending_entitlements := (ae_pending_entitlements s)(grant_id \<mapsto>
         \<lparr>pn_requested_state = requested_state, pn_authorization_decision = decision\<rparr>)\<rparr>)) (\<lambda>_ s.
       (Inr (grant_outcome K s previous stage session_id rule decision grant_id expires_at_s encoded), s)))))"

text \<open>The evaluation of profile and policy in the state the proof left.\<close>

definition evaluate_profile ::
  "'p crates \<Rightarrow> ('p, 'b) access_engine \<Rightarrow> string \<Rightarrow> string \<Rightarrow> i64 \<Rightarrow> readiness_evidence
     \<Rightarrow> protocol_profile_error + protocol_rule_decision" where
  "evaluate_profile K s from_stage to_stage now_s readiness =
     evaluate K (ec_protocol_profile (ae_config s)) from_stage to_stage now_s
       (ec_trust_bundle_id (ae_config s)) (ec_trust_bundle_version (ae_config s))
       (ec_trust_bundle_issued_at_s (ae_config s)) (ae_verified_credentials s) (ae_holder_proof_at_s s)
       (session_authorized (ae_authorization s)) readiness"

definition authorize_rule ::
  "'p crates \<Rightarrow> ('p, 'b) access_engine \<Rightarrow> string \<Rightarrow> i64 \<Rightarrow> readiness_evidence
     \<Rightarrow> access_policy_error + access_decision" where
  "authorize_rule K s rule_id now_s readiness =
     (let profile = ec_protocol_profile (ae_config s)
      in authorize_transition K (ec_policy_engine (ae_config s)) (ik_key_id (ae_chaser s))
           (ik_key_id (ae_station s)) (rule_action profile rule_id) (ae_verified_credentials s)
           (ae_holder_proof_at_s s \<noteq> None) (session_authorized (ae_authorization s)) readiness
           (readiness_fresh profile rule_id now_s readiness))"

definition decide_transition ::
  "'p crates \<Rightarrow> u8 \<Rightarrow> authorized_stage \<Rightarrow> string \<Rightarrow> u8 \<Rightarrow> i64 \<Rightarrow> readiness_evidence
     \<Rightarrow> (('p, 'b) access_engine, session_error, transition_outcome) op" where
  "decide_transition K previous stage session_id requested_state now_s readiness s =
     (case transition_names (ae_state s) requested_state of
        None \<Rightarrow> fail (TransitionErr InvalidTransition) s
      | Some (from_stage, to_stage) \<Rightarrow>
          (case evaluate_profile K s from_stage to_stage now_s readiness of
             Inl error \<Rightarrow>
               ret (profile_denial s previous session_id
                      (map_option sr_rule_id
                         (matching_rule (ec_protocol_profile (ae_config s)) from_stage to_stage)) error) s
           | Inr rule \<Rightarrow>
               (case authorize_rule K s (rd_rule_id rule) now_s readiness of
                  Inl error \<Rightarrow> ret (policy_denial s previous session_id rule error) s
                | Inr decision \<Rightarrow>
                    issue_grant K previous stage session_id requested_state now_s rule decision s)))"

definition request_transition ::
  "'p crates \<Rightarrow> u8 \<Rightarrow> i64 \<Rightarrow> readiness_evidence
     \<Rightarrow> (('p, 'b) access_engine, session_error, transition_outcome) op" where
  "request_transition K requested_state now_s readiness =
     and_then (try_with (\<lambda>s. Inr (state_number (ae_state s)))) (\<lambda>previous.
     and_then (try_with (\<lambda>s. ok_or (TransitionErr InvalidTransition)
                               (transition_for (ae_state s) requested_state))) (\<lambda>(_, stage).
     and_then (try_with (\<lambda>s. ok_or SessionBinding (ae_session_id s))) (\<lambda>session_id.
     and_then (session_offer K session_id now_s) (\<lambda>(challenge, offer).
     and_then (session_proof K session_id challenge [] now_s) (\<lambda>proof.
     and_then (check_binding proof offer) (\<lambda>_.
     and_then (update_state (\<lambda>s. s\<lparr>ae_holder_proof_at_s := Some now_s\<rparr>)) (\<lambda>_.
       decide_transition K previous stage session_id requested_state now_s readiness)))))))"

section \<open>Redeeming a grant\<close>

definition gate_receives ::
  "'p crates \<Rightarrow> bytes \<Rightarrow> i64 \<Rightarrow> (('p, 'b) access_engine, session_error, verified_envelope) op" where
  "gate_receives K encoded now_s s =
     on_field ae_gate_replay (\<lambda>c t. t\<lparr>ae_gate_replay := c\<rparr>) ProtocolErr
       (verify_envelope K encoded (ae_gate_trust s) (ik_key_id (ae_chaser s)) now_s max_clock_skew_s) s"

text \<open>\<open>remove(grant_id).ok_or(..)\<close>: the entitlement is gone whatever happens later.\<close>

definition take_pending ::
  "string \<Rightarrow> (('p, 'b) access_engine, session_error, pending_entitlement) op" where
  "take_pending grant_id s =
     (ok_or GrantMismatch (ae_pending_entitlements s grant_id),
      s\<lparr>ae_pending_entitlements := (ae_pending_entitlements s)(grant_id := None)\<rparr>)"

definition grant_matches ::
  "protocol_claims \<Rightarrow> pending_entitlement \<Rightarrow> u8 \<Rightarrow> string \<Rightarrow> authorized_stage \<Rightarrow> i64 \<Rightarrow> bool" where
  "grant_matches claims pending requested_state session_id stage now_s \<longleftrightarrow>
     \<not> (pn_requested_state pending \<noteq> requested_state
        \<or> pc_session_id claims \<noteq> Some session_id
        \<or> pc_authorized_stage claims \<noteq> Some stage
        \<or> (case pc_expires_at_s claims of None \<Rightarrow> True | Some expiry \<Rightarrow> sint now_s > sint expiry))"

definition grant_bound ::
  "protocol_claims \<Rightarrow> pending_entitlement \<Rightarrow> protocol_rule_decision \<Rightarrow> bool" where
  "grant_bound claims pending rule \<longleftrightarrow>
     (let policy = ad_policy (pn_authorization_decision pending)
      in \<not> (pc_protocol_profile_id claims \<noteq> Some (rd_profile_id rule)
            \<or> pc_protocol_profile_version claims \<noteq> Some (rd_profile_version rule)
            \<or> pc_rule_id claims \<noteq> Some (rd_rule_id rule)
            \<or> pc_authorization_policy_bundle_id claims \<noteq> Some (am_bundle_id policy)
            \<or> pc_authorization_policy_bundle_version claims \<noteq> Some (am_bundle_version policy)
            \<or> pc_authorization_policy_sha256 claims \<noteq> Some (am_policy_sha256 policy)))"

definition consume_grant :: "string \<Rightarrow> (('p, 'b) access_engine, session_error, unit) op" where
  "consume_grant grant_id =
     on_field ae_consumed_grants (\<lambda>c t. t\<lparr>ae_consumed_grants := c\<rparr>) ProtocolErr (consume (as_bytes grant_id))"

definition redeemed_outcome ::
  "('p, 'b) access_engine \<Rightarrow> u8 \<Rightarrow> string \<Rightarrow> protocol_rule_decision \<Rightarrow> string \<Rightarrow> protocol_claims \<Rightarrow> string
     \<Rightarrow> access_decision \<Rightarrow> transition_outcome" where
  "redeemed_outcome s previous session_id rule grant_id claims signed_grant_hex decision =
     \<lparr>out_approved = True, out_previous_state = previous,
      out_resulting_state = state_number (ae_state s), out_reason = ''ALLOW_ENTITLEMENT_CONSUMED'',
      out_session_id = Some session_id, out_protocol_profile_id = Some (rd_profile_id rule),
      out_protocol_profile_version = Some (rd_profile_version rule),
      out_rule_id = Some (rd_rule_id rule), out_grant_id = Some grant_id,
      out_entitlement_ttl_s = None, out_grant_expires_at_s = pc_expires_at_s claims,
      out_signed_grant_hex = Some signed_grant_hex, out_authorization_decision = Some decision,
      out_events = [event ''AUTHORIZATION_GRANT_CONSUMED''
        ''Entitlement verified and atomically consumed before releasing the action''
        (Some (ik_key_id (ae_chaser s))) (Some ''transition-gate'') (Some ''ENTITLEMENT_PRESENTATION'')]\<rparr>"

definition redeem_transition ::
  "'p crates \<Rightarrow> string \<Rightarrow> u8 \<Rightarrow> i64 \<Rightarrow> readiness_evidence
     \<Rightarrow> (('p, 'b) access_engine, session_error, transition_outcome) op" where
  "redeem_transition K signed_grant_hex requested_state now_s readiness =
     and_then (try_with (\<lambda>s. Inr (state_number (ae_state s)))) (\<lambda>previous.
     and_then (try_with (\<lambda>s. ok_or (TransitionErr InvalidTransition)
                               (transition_for (ae_state s) requested_state))) (\<lambda>(event_kind, stage).
     and_then (try_with (\<lambda>s. ok_or SessionBinding (ae_session_id s))) (\<lambda>session_id.
     and_then (try_with (\<lambda>_. map_err (\<lambda>_. ProtocolErr InvalidEnvelope) (hex_decode K signed_grant_hex))) (\<lambda>encoded.
     and_then (gate_receives K encoded now_s) (\<lambda>grant.
     and_then (try_with (\<lambda>_. ok_or GrantMismatch (pc_grant_id (ve_claims grant)))) (\<lambda>grant_id.
     and_then (take_pending grant_id) (\<lambda>pending.
     and_then (if grant_matches (ve_claims grant) pending requested_state session_id stage now_s
               then ret () else fail GrantMismatch) (\<lambda>_.
     and_then (try_with (\<lambda>s. ok_or (TransitionErr InvalidTransition)
                               (transition_names (ae_state s) requested_state))) (\<lambda>(from_stage, to_stage).
     and_then (try_with (\<lambda>s. map_err ProtocolProfileErr
                               (evaluate_profile K s from_stage to_stage now_s readiness))) (\<lambda>rule.
     and_then (if grant_bound (ve_claims grant) pending rule then ret () else fail GrantMismatch) (\<lambda>_.
     and_then (consume_grant grant_id) (\<lambda>_.
     and_then (try_with (\<lambda>s. map_err TransitionErr (reduce (ae_state s) event_kind
         \<lparr>identity_verified = identity_verified (ae_authorization s),
          session_authorized = session_authorized (ae_authorization s),
          docking_authorized = (stage = StageHardDock)\<rparr>))) (\<lambda>state.
     and_then (update_state (\<lambda>s. s\<lparr>ae_state := state\<rparr>)) (\<lambda>_ s.
       (Inr (redeemed_outcome s previous session_id rule grant_id (ve_claims grant) signed_grant_hex
               (pn_authorization_decision pending)), s)))))))))))))))"

section \<open>Commands as steps\<close>

datatype engine_command =
    EstablishSession i64 access_scenario
  | RequestTransition u8 i64 readiness_evidence
  | RedeemTransition string u8 i64 readiness_evidence

datatype engine_reply = SessionReply session_outcome | TransitionReply transition_outcome

fun engine_step ::
  "'p crates \<Rightarrow> engine_command \<Rightarrow> (('p, 'b) access_engine, session_error, engine_reply) op" where
  "engine_step K (EstablishSession now_s scenario) =
     and_then (establish_session K now_s scenario) (\<lambda>out. ret (SessionReply out))"
| "engine_step K (RequestTransition requested_state now_s readiness) =
     and_then (request_transition K requested_state now_s readiness) (\<lambda>out. ret (TransitionReply out))"
| "engine_step K (RedeemTransition signed_grant_hex requested_state now_s readiness) =
     and_then (redeem_transition K signed_grant_hex requested_state now_s readiness)
       (\<lambda>out. ret (TransitionReply out))"

end
