(* ===== verification/Engine.thy ===== *)
theory Engine
  imports Transitions
begin

text \<open>
  What each command of the ACCESS engine may change: frames of the message exchanges, the
  states a session goes through while it is established, and the effect of a request and of a
  redemption on the engine's state.
\<close>

section \<open>Frames\<close>

text \<open>An exchange of messages between chaser and station changes their replay caches and draws
  random numbers, nothing else.\<close>

definition exchanged :: "('p, 'b) access_engine \<Rightarrow> ('p, 'b) access_engine \<Rightarrow> bool" where
  "exchanged s t \<longleftrightarrow>
     t = s\<lparr>ae_station_replay := ae_station_replay t, ae_chaser_replay := ae_chaser_replay t,
           ae_random_calls := ae_random_calls t\<rparr>
     \<and> ae_random_calls s \<le> ae_random_calls t"

lemma exchanged_refl [simp]: "exchanged s s"
  by (simp add: exchanged_def)

lemma exchanged_updates [simp]:
  "exchanged s (s\<lparr>ae_station_replay := a\<rparr>)" "exchanged s (s\<lparr>ae_chaser_replay := b\<rparr>)"
  "ae_random_calls s \<le> n \<Longrightarrow> exchanged s (s\<lparr>ae_random_calls := n\<rparr>)"
  by (simp_all add: exchanged_def)

lemma exchangedE:
  assumes "exchanged s t"
  obtains a b n where "t = s\<lparr>ae_station_replay := a, ae_chaser_replay := b, ae_random_calls := n\<rparr>"
    "ae_random_calls s \<le> n"
  using assms unfolding exchanged_def by (elim conjE) (rule that)

lemma exchanged_fields:
  assumes "exchanged s t"
  shows "ae_state t = ae_state s" "ae_authorization t = ae_authorization s"
    "ae_session_id t = ae_session_id s" "ae_verified_credentials t = ae_verified_credentials s"
    "ae_holder_proof_at_s t = ae_holder_proof_at_s s"
    "ae_pending_entitlements t = ae_pending_entitlements s" "ae_config t = ae_config s"
    "ae_gate_replay t = ae_gate_replay s" "ae_consumed_grants t = ae_consumed_grants s"
    "ae_chaser t = ae_chaser s" "ae_station t = ae_station s" "ae_gate_trust t = ae_gate_trust s"
    "ae_credential_issuer t = ae_credential_issuer s" "ae_credential_trust t = ae_credential_trust s"
    "ae_random_source t = ae_random_source s" "ae_scenario t = ae_scenario s"
    "ae_station_peer_trust t = ae_station_peer_trust s" "ae_chaser_peer_trust t = ae_chaser_peer_trust s"
  using assms by (auto elim: exchangedE)

lemma exchanged_trans [trans]: "exchanged s t \<Longrightarrow> exchanged t u \<Longrightarrow> exchanged s u"
  by (elim exchangedE) (simp add: exchanged_def)

text \<open>Properties of the state that exchanges do not affect.\<close>

definition exchange_stable :: "(('p, 'b) access_engine \<Rightarrow> bool) \<Rightarrow> bool" where
  "exchange_stable P \<longleftrightarrow> (\<forall>s t. P s \<longrightarrow> exchanged s t \<longrightarrow> P t)"

lemma exchange_stableI: "(\<And>s t. P s \<Longrightarrow> exchanged s t \<Longrightarrow> P t) \<Longrightarrow> exchange_stable P"
  by (simp add: exchange_stable_def)

lemma keeps_stable:
  assumes "exchange_stable P" "\<And>s. exchanged s (snd (m s))"
  shows "keeps P m"
  using assms unfolding exchange_stable_def keeps_def by blast

lemma exchanged_random_nonce: "exchanged s (snd (random_nonce s))"
  by (simp add: random_nonce_def Let_def split: sum.splits)

lemma exchanged_station_receives: "exchanged s (snd (station_receives K claims now_s s))"
  by (simp add: station_receives_def on_field_def split: prod.splits)

lemma exchanged_chaser_receives: "exchanged s (snd (chaser_receives K claims now_s s))"
  by (simp add: chaser_receives_def on_field_def split: prod.splits)

lemma keeps_read: "(\<And>u. keeps P (f u)) \<Longrightarrow> keeps P (\<lambda>s. f (g s) s)"
  by (simp add: keeps_def)

lemma keeps_random_nonce [keeps_intros]: "exchange_stable P \<Longrightarrow> keeps P random_nonce"
  by (erule keeps_stable) (rule exchanged_random_nonce)

lemma keeps_access_request [keeps_intros]: "exchange_stable P \<Longrightarrow> keeps P (access_request K now_s)"
  unfolding access_request_def
  by (intro keeps_intros) (assumption | erule keeps_stable, rule exchanged_station_receives)+

lemma keeps_session_offer [keeps_intros]: "exchange_stable P \<Longrightarrow> keeps P (session_offer K session_id now_s)"
  unfolding session_offer_def
  by (intro keeps_intros) (assumption | erule keeps_stable, rule exchanged_chaser_receives)+

lemma keeps_session_proof [keeps_intros]:
  "exchange_stable P \<Longrightarrow> keeps P (session_proof K session_id challenge credentials now_s)"
  unfolding session_proof_def
  by (intro keeps_intros) (assumption | erule keeps_stable, rule exchanged_station_receives)+

lemma keeps_check_binding [keeps_intros]: "keeps P (check_binding proof offer)"
  by (simp add: check_binding_def keeps_ret keeps_fail)

lemma triple_keeps: "keeps P m \<Longrightarrow> (\<And>e s. P s \<Longrightarrow> E e s) \<Longrightarrow> triple P m (\<lambda>_. P) E"
  unfolding keeps_def triple_def by (auto split: prod.splits sum.splits)

lemma triple_fail: "(\<And>s. P s \<Longrightarrow> E e s) \<Longrightarrow> triple P (fail e) Q E"
  by (simp add: triple_def fail_def)

lemma triple_ret: "(\<And>s. P s \<Longrightarrow> Q x s) \<Longrightarrow> triple P (ret x) Q E"
  by (simp add: triple_def ret_def)

lemma triple_if: "triple (\<lambda>s. P s \<and> b) m Q E \<Longrightarrow> triple (\<lambda>s. P s \<and> \<not> b) n Q E \<Longrightarrow> triple P (if b then m else n) Q E"
  by (auto simp: triple_def)

lemma triple_weaken:
  "triple P m Q E \<Longrightarrow> (\<And>s. P' s \<Longrightarrow> P s) \<Longrightarrow> (\<And>x s. Q x s \<Longrightarrow> Q' x s) \<Longrightarrow> (\<And>e s. E e s \<Longrightarrow> E' e s)
     \<Longrightarrow> triple P' m Q' E'"
  unfolding triple_def by (fastforce split: prod.splits sum.splits)

section \<open>The configuration is fixed\<close>

text \<open>The identities, trust stores, configuration and random source, which no command changes.\<close>

definition setup_of where
  "setup_of s = (ae_chaser s, ae_station s, ae_credential_issuer s, ae_station_peer_trust s,
     ae_chaser_peer_trust s, ae_credential_trust s, ae_gate_trust s, ae_config s, ae_random_source s)"

lemma setup_stable: "exchange_stable (\<lambda>s. setup_of s = c)"
  by (rule exchange_stableI) (simp add: setup_of_def exchanged_fields)

lemma keeps_setup_update: "(\<And>s. setup_of (f s) = setup_of s) \<Longrightarrow> keeps (\<lambda>s. setup_of s = c) (update_state f)"
  by (simp add: keeps_update_state)

lemma keeps_authorize_holder_setup: "keeps (\<lambda>s. setup_of s = c) (authorize_holder K session_id proof now_s)"
  unfolding authorize_holder_def
  by (intro keeps_and_then keeps_try_with keeps_setup_update keeps_ret)
     (simp_all add: setup_of_def keeps_ret keeps_fail)

lemma keeps_establish_setup: "keeps (\<lambda>s. setup_of s = c) (establish_session K now_s scenario)"
  unfolding establish_session_def Let_def split_beta
  by (intro keeps_and_then keeps_try_with keeps_setup_update keeps_random_nonce keeps_access_request
      keeps_session_offer keeps_session_proof keeps_check_binding keeps_authorize_holder_setup setup_stable)
     (simp_all add: setup_of_def reset_def keeps_def)

lemma keeps_issue_grant_setup:
  "keeps (\<lambda>s. setup_of s = c) (issue_grant K previous stage session_id requested_state now_s rule decision)"
  unfolding issue_grant_def Let_def
  by (intro keeps_and_then keeps_try_with keeps_setup_update keeps_random_nonce setup_stable)
     (simp_all add: setup_of_def keeps_def)

lemma keeps_decide:
  assumes "\<And>rule decision. keeps P (issue_grant K previous stage session_id requested_state now_s rule decision)"
  shows "keeps P (decide_transition K previous stage session_id requested_state now_s readiness)"
  using assms by (auto simp: keeps_def decide_transition_def fail_def ret_def split: option.splits sum.splits)

lemmas keeps_decide_setup = keeps_decide [OF keeps_issue_grant_setup]

lemma keeps_request_setup: "keeps (\<lambda>s. setup_of s = c) (request_transition K requested_state now_s readiness)"
  unfolding request_transition_def split_beta
  by (intro keeps_and_then keeps_try_with keeps_setup_update keeps_session_offer keeps_session_proof
      keeps_check_binding keeps_decide_setup setup_stable) (simp add: setup_of_def)

lemma keeps_redeem_setup:
  "keeps (\<lambda>s. setup_of s = c) (redeem_transition K signed_grant_hex requested_state now_s readiness)"
  unfolding redeem_transition_def split_beta consume_grant_def
  by (intro keeps_and_then keeps_try_with keeps_setup_update keeps_on_field)
     (auto simp: setup_of_def keeps_def gate_receives_def take_pending_def on_field_def ret_def fail_def
        split: prod.splits)

lemma keeps_step_setup: "keeps (\<lambda>s. setup_of s = c) (engine_step K cmd)"
  by (cases cmd) (simp_all add: keeps_and_then keeps_ret keeps_establish_setup keeps_request_setup keeps_redeem_setup)

section \<open>Establishing a session\<close>

text \<open>The state \<open>reset\<close> leaves and every failed attempt ends in: no session, nothing pending.\<close>

definition unauthorized :: "('p, 'b) access_engine \<Rightarrow> bool" where
  "unauthorized s \<longleftrightarrow>
     ae_state s = Hold \<and> ae_session_id s = None \<and> \<not> session_authorized (ae_authorization s)
     \<and> \<not> docking_authorized (ae_authorization s) \<and> ae_pending_entitlements s = Map.empty"

text \<open>The state a successful attempt ends in: what was checked on the way.\<close>

definition session_open ::
  "'p crates \<Rightarrow> string \<Rightarrow> i64 \<Rightarrow> access_decision \<Rightarrow> ('p, 'b) access_engine \<Rightarrow> bool" where
  "session_open K session_id now_s decision s \<longleftrightarrow>
     ae_state s = Hold \<and> ae_session_id s = Some session_id
     \<and> ae_authorization s = \<lparr>identity_verified = True, session_authorized = True, docking_authorized = False\<rparr>
     \<and> ae_pending_entitlements s = Map.empty \<and> ae_holder_proof_at_s s = Some now_s
     \<and> validate_foundation K (ec_protocol_profile (ae_config s)) now_s (ec_trust_bundle_id (ae_config s))
         (ec_trust_bundle_version (ae_config s)) (ec_trust_bundle_issued_at_s (ae_config s)) = Inr ()
     \<and> validate_credentials (ec_protocol_profile (ae_config s)) (ae_verified_credentials s) now_s = Inr ()
     \<and> Cedar.authorize_session K (ec_policy_engine (ae_config s)) (ik_key_id (ae_chaser s))
         (ik_key_id (ae_station s)) (ae_verified_credentials s) True = Inr decision"

lemma unauthorized_stable: "exchange_stable unauthorized"
  by (rule exchange_stableI) (simp add: unauthorized_def exchanged_fields)

lemma identified_stable: "exchange_stable (\<lambda>s. unauthorized s \<and> identity_verified (ae_authorization s))"
  by (rule exchange_stableI) (simp add: unauthorized_def exchanged_fields)

lemma unauthorized_reset: "unauthorized ((reset s)\<lparr>ae_scenario := scenario\<rparr>)"
  by (simp add: unauthorized_def reset_def default_authorization_def)

lemma authorize_holder_triple:
  "triple (\<lambda>s. unauthorized s \<and> identity_verified (ae_authorization s))
     (authorize_holder K session_id proof now_s)
     (\<lambda>decision s. session_open K session_id now_s decision s) (\<lambda>_. unauthorized)"
proof -
  let ?I = "\<lambda>s :: ('a, 'b) access_engine. unauthorized s \<and> identity_verified (ae_authorization s)"
  let ?foundation = "\<lambda>s :: ('a, 'b) access_engine. validate_foundation K (ec_protocol_profile (ae_config s)) now_s
      (ec_trust_bundle_id (ae_config s)) (ec_trust_bundle_version (ae_config s))
      (ec_trust_bundle_issued_at_s (ae_config s)) = Inr ()"
  let ?credentials = "\<lambda>s :: ('a, 'b) access_engine. validate_credentials (ec_protocol_profile (ae_config s))
      (ae_verified_credentials s) now_s = Inr ()"
  let ?policy = "\<lambda>d (s :: ('a, 'b) access_engine). Cedar.authorize_session K (ec_policy_engine (ae_config s))
      (ik_key_id (ae_chaser s)) (ik_key_id (ae_station s)) (ae_verified_credentials s) True = Inr d"
  show ?thesis
    unfolding authorize_holder_def
    apply (rule triple_and_then [where R = "\<lambda>_. ?I"])
     apply (simp add: triple_def fail_def ret_def)
    apply (rule triple_and_then [where R = "\<lambda>_. ?I"], rule triple_try_with, simp, simp)
    apply (rule triple_and_then [where R = "\<lambda>_. ?I"], rule triple_update_state, simp add: unauthorized_def)
    apply (rule triple_and_then [where R = "\<lambda>_ s. ?I s \<and> ?foundation s"], rule triple_try_with, simp, simp)
    apply (rule triple_and_then [where R = "\<lambda>_ s. ?I s \<and> ?foundation s \<and> ?credentials s"], rule triple_try_with, simp, simp)
    apply (rule triple_and_then [where R = "\<lambda>_ s. ?I s \<and> ?foundation s \<and> ?credentials s
               \<and> ae_holder_proof_at_s s = Some now_s"], rule triple_update_state, simp add: unauthorized_def)
    apply (rule triple_and_then [where R = "\<lambda>d s. ?I s \<and> ?foundation s \<and> ?credentials s
               \<and> ae_holder_proof_at_s s = Some now_s \<and> ?policy d s"], rule triple_try_with, simp, simp)
    apply (rule triple_and_then [where R = "\<lambda>_. session_open K session_id now_s _"], rule triple_update_state)
    apply (simp add: unauthorized_def session_open_def)
    apply (rule triple_ret, assumption)
    done
qed

lemma triple_update_to: "(\<And>s. P s \<Longrightarrow> R (f s)) \<Longrightarrow> triple P (update_state f) (\<lambda>_. R) E"
  by (rule triple_update_state)

lemma establish_triple:
  "triple (\<lambda>_. True) (establish_session K now_s scenario)
     (\<lambda>out s. session_open K (so_session_id out) now_s (so_authorization_decision out) s)
     (\<lambda>_. unauthorized)"
proof -
  let ?I = "\<lambda>s :: ('a, 'b) access_engine. unauthorized s \<and> identity_verified (ae_authorization s)"
  show ?thesis
    unfolding establish_session_def Let_def split_beta
    by (rule triple_and_then, rule triple_update_to [where R = unauthorized], rule unauthorized_reset,
        rule triple_and_then, rule triple_keeps, rule keeps_random_nonce, rule unauthorized_stable, assumption,
        rule triple_and_then, rule triple_keeps, rule keeps_access_request, rule unauthorized_stable, assumption,
        rule triple_and_then, rule triple_update_to [where R = ?I], simp add: unauthorized_def,
        rule triple_and_then, rule triple_keeps, rule keeps_session_offer, rule identified_stable, simp,
        rule triple_and_then, rule triple_keeps, rule keeps_try_with, simp,
        rule triple_and_then, rule triple_keeps, rule keeps_session_proof, rule identified_stable, simp,
        rule triple_and_then, rule triple_keeps, rule keeps_check_binding, simp,
        rule triple_and_then, rule authorize_holder_triple)
       (simp add: triple_def)
qed

lemmas establish_Inr = tripleD_Inr [OF establish_triple TrueI]
lemmas establish_Inl = tripleD_Inl [OF establish_triple TrueI]

section \<open>Requesting a transition\<close>

text \<open>What a request may change: the exchange's caches, the random source's position, the time
  of the holder proof.\<close>

definition refreshed :: "('p, 'b) access_engine \<Rightarrow> ('p, 'b) access_engine \<Rightarrow> bool" where
  "refreshed s t \<longleftrightarrow>
     t = s\<lparr>ae_station_replay := ae_station_replay t, ae_chaser_replay := ae_chaser_replay t,
           ae_random_calls := ae_random_calls t, ae_holder_proof_at_s := ae_holder_proof_at_s t\<rparr>
     \<and> ae_random_calls s \<le> ae_random_calls t
     \<and> (ae_holder_proof_at_s t = None \<longrightarrow> ae_holder_proof_at_s s = None)"

lemma refreshedE:
  assumes "refreshed s t"
  obtains a b n p where "t = s\<lparr>ae_station_replay := a, ae_chaser_replay := b, ae_random_calls := n,
                               ae_holder_proof_at_s := p\<rparr>"
    "ae_random_calls s \<le> n" "p = None \<longrightarrow> ae_holder_proof_at_s s = None"
  using assms unfolding refreshed_def by (elim conjE) (rule that, assumption+)

lemma refreshed_fields:
  assumes "refreshed s t"
  shows "ae_state t = ae_state s" "ae_authorization t = ae_authorization s"
    "ae_session_id t = ae_session_id s" "ae_verified_credentials t = ae_verified_credentials s"
    "ae_pending_entitlements t = ae_pending_entitlements s" "setup_of t = setup_of s"
    "ae_gate_replay t = ae_gate_replay s" "ae_consumed_grants t = ae_consumed_grants s"
    "ae_station t = ae_station s" "ae_chaser t = ae_chaser s" "ae_config t = ae_config s"
  using assms by (auto elim!: refreshedE simp: setup_of_def)

lemma refreshed_refl [simp]: "refreshed s s"
  by (simp add: refreshed_def)

lemma refreshed_exchanged: "refreshed s t \<Longrightarrow> exchanged t u \<Longrightarrow> refreshed s u"
  by (elim refreshedE exchangedE) (simp add: refreshed_def)

lemma refreshed_stable: "exchange_stable (refreshed s)"
  by (rule exchange_stableI) (rule refreshed_exchanged)

lemma refreshed_holder_update: "refreshed s t \<Longrightarrow> refreshed s (t\<lparr>ae_holder_proof_at_s := Some p\<rparr>)"
  by (elim refreshedE) (simp add: refreshed_def)

text \<open>After the holder proof of the time \<open>now_s\<close>.\<close>

definition proved :: "('p, 'b) access_engine \<Rightarrow> i64 \<Rightarrow> ('p, 'b) access_engine \<Rightarrow> bool" where
  "proved s now_s t \<longleftrightarrow> refreshed s t \<and> ae_holder_proof_at_s t = Some now_s"

lemma proved_stable: "exchange_stable (proved s now_s)"
  by (rule exchange_stableI) (auto simp: proved_def exchanged_fields intro: refreshed_exchanged)

lemma evaluate_profile_proved:
  "proved s now_s t \<Longrightarrow> evaluate_profile K t from_stage to_stage n r
     = evaluate_profile K (s\<lparr>ae_holder_proof_at_s := Some now_s\<rparr>) from_stage to_stage n r"
  unfolding proved_def by (elim conjE refreshedE) (simp add: evaluate_profile_def)

lemma authorize_rule_proved:
  "proved s now_s t \<Longrightarrow> authorize_rule K t rule_id n r
     = authorize_rule K (s\<lparr>ae_holder_proof_at_s := Some now_s\<rparr>) rule_id n r"
  unfolding proved_def by (elim conjE refreshedE) (simp add: authorize_rule_def)

text \<open>The bytes of the \<open>i\<close>-th call of the random source, and bytes drawn between two states.\<close>

definition drawn :: "('p, 'b) access_engine \<Rightarrow> nat \<Rightarrow> bytes" where
  "drawn s i = (case ae_random_source s i of Inl _ \<Rightarrow> [] | Inr bs \<Rightarrow> take 32 (bs @ replicate 32 0))"

definition fresh_draw :: "('p, 'b) access_engine \<Rightarrow> ('p, 'b) access_engine \<Rightarrow> bytes \<Rightarrow> bool" where
  "fresh_draw s t bs \<longleftrightarrow>
     (\<exists>i. ae_random_calls s \<le> i \<and> i < ae_random_calls t \<and> bs = drawn s i \<and> length bs = 32)"

text \<open>The entitlement a grant leaves, and the signed grant handed out.\<close>

definition issued ::
  "'p crates \<Rightarrow> ('p, 'b) access_engine \<Rightarrow> authorized_stage \<Rightarrow> string \<Rightarrow> u8 \<Rightarrow> i64 \<Rightarrow> protocol_rule_decision
     \<Rightarrow> access_decision \<Rightarrow> transition_outcome \<Rightarrow> ('p, 'b) access_engine \<Rightarrow> bool" where
  "issued K s stage session_id requested_state now_s rule decision out t \<longleftrightarrow>
     (\<exists>u ident nonce encoded. proved s now_s u \<and> fresh_draw s t ident \<and> fresh_draw s t nonce
        \<and> t = u\<lparr>ae_pending_entitlements := (ae_pending_entitlements s)(''grant-'' @ hex_encode K ident \<mapsto>
             \<lparr>pn_requested_state = requested_state, pn_authorization_decision = decision\<rparr>)\<rparr>
        \<and> sign_envelope K (grant_claims (ik_key_id (ae_station s)) (ik_key_id (ae_chaser s)) now_s nonce session_id
             stage (''grant-'' @ hex_encode K ident) (saturating_add now_s (rd_entitlement_ttl_s rule)) rule
             (ad_policy decision)) (ae_station s) = Inr encoded
        \<and> out = grant_outcome K t (state_number (ae_state s)) stage session_id rule decision
             (''grant-'' @ hex_encode K ident) (saturating_add now_s (rd_entitlement_ttl_s rule)) encoded)"

lemma random_nonce_draws:
  assumes "proved s now_s u" "random_nonce u = (Inr bs, t)"
  shows "proved s now_s t \<and> fresh_draw s t bs"
proof -
  have t: "t = u\<lparr>ae_random_calls := Suc (ae_random_calls u)\<rparr>" "bs = drawn u (ae_random_calls u)" "length bs = 32"
    using assms(2) by (auto simp: random_nonce_def drawn_def Let_def split: sum.splits)
  have "exchanged u t" by (simp add: t(1))
  then have "proved s now_s t" using proved_stable assms(1) unfolding exchange_stable_def by blast
  moreover have "ae_random_calls s \<le> ae_random_calls u" "drawn u = drawn s"
    using assms(1) unfolding proved_def by (auto elim!: refreshedE simp: drawn_def fun_eq_iff)
  ultimately show ?thesis using t(2,3) unfolding fresh_draw_def t(1) by auto
qed

lemma fresh_draw_later: "fresh_draw s t bs \<Longrightarrow> ae_random_calls t \<le> ae_random_calls u \<Longrightarrow> fresh_draw s u bs"
  unfolding fresh_draw_def by fastforce

lemma random_nonce_calls: "random_nonce u = (r, t) \<Longrightarrow> ae_random_calls t = Suc (ae_random_calls u)"
  by (auto simp: random_nonce_def Let_def split: sum.splits)

lemma random_nonce_triple:
  "triple (\<lambda>u. proved s now_s u \<and> list_all (fresh_draw s u) bss) random_nonce
     (\<lambda>bs u. proved s now_s u \<and> list_all (fresh_draw s u) (bs # bss)) (\<lambda>_. refreshed s)"
proof (unfold triple_def, intro allI impI)
  fix u :: "('a, 'b) access_engine"
  assume u: "proved s now_s u \<and> list_all (fresh_draw s u) bss"
  obtain r t where run: "random_nonce u = (r, t)" by fastforce
  have "list_all (fresh_draw s t) bss"
    using u random_nonce_calls [OF run] by (auto simp: list_all_iff intro: fresh_draw_later)
  moreover have "proved s now_s t"
    using u exchanged_random_nonce [of u] proved_stable [of s now_s] run unfolding exchange_stable_def by force
  ultimately show "case random_nonce u of (Inl e, t) \<Rightarrow> refreshed s t
      | (Inr bs, u) \<Rightarrow> proved s now_s u \<and> list_all (fresh_draw s u) (bs # bss)"
    using u run random_nonce_draws [of s now_s u _ t] by (cases r) (auto simp: proved_def)
qed

abbreviation grant_name :: "'p crates \<Rightarrow> bytes \<Rightarrow> string" where
  "grant_name K ident \<equiv> ''grant-'' @ hex_encode K ident"

lemma issued_step:
  assumes "proved s now_s u" "list_all (fresh_draw s u) [nonce, ident]"
    and "sign_envelope K (grant_claims (ik_key_id (ae_station s)) (ik_key_id (ae_chaser s)) now_s nonce session_id
             stage (grant_name K ident) (saturating_add now_s (rd_entitlement_ttl_s rule)) rule
             (ad_policy decision)) (ae_station s) = Inr encoded"
    and "t = u\<lparr>ae_pending_entitlements := (ae_pending_entitlements u)(grant_name K ident \<mapsto>
             \<lparr>pn_requested_state = requested_state, pn_authorization_decision = decision\<rparr>)\<rparr>"
  shows "issued K s stage session_id requested_state now_s rule decision
           (grant_outcome K t (state_number (ae_state s)) stage session_id rule decision
             (grant_name K ident) (saturating_add now_s (rd_entitlement_ttl_s rule)) encoded) t"
proof -
  have "ae_pending_entitlements u = ae_pending_entitlements s"
    using assms(1) by (simp add: proved_def refreshed_fields)
  moreover have "fresh_draw s t nonce" "fresh_draw s t ident"
    using assms(2,4) by (auto intro: fresh_draw_later)
  ultimately show ?thesis using assms(1,3,4) unfolding issued_def by metis
qed

lemma issue_grant_triple:
  "triple (proved s now_s)
     (issue_grant K (state_number (ae_state s)) stage session_id requested_state now_s rule decision)
     (\<lambda>out t. issued K s stage session_id requested_state now_s rule decision out t)
     (\<lambda>_. refreshed s)"
proof -
  have last: "triple (\<lambda>t. proved s now_s t \<and> list_all (fresh_draw s t) [nonce, ident])
      (and_then (try_with (\<lambda>s. map_err ProtocolErr (sign_envelope K
         (grant_claims (ik_key_id (ae_station s)) (ik_key_id (ae_chaser s)) now_s nonce session_id stage
            (grant_name K ident) (saturating_add now_s (rd_entitlement_ttl_s rule)) rule (ad_policy decision))
         (ae_station s)))) (\<lambda>encoded.
       and_then (update_state (\<lambda>s. s\<lparr>ae_pending_entitlements := (ae_pending_entitlements s)(grant_name K ident \<mapsto>
         \<lparr>pn_requested_state = requested_state, pn_authorization_decision = decision\<rparr>)\<rparr>)) (\<lambda>_ t.
       (Inr (grant_outcome K t (state_number (ae_state s)) stage session_id rule decision (grant_name K ident)
          (saturating_add now_s (rd_entitlement_ttl_s rule)) encoded), t))))
      (\<lambda>out t. issued K s stage session_id requested_state now_s rule decision out t) (\<lambda>_. refreshed s)"
    for ident nonce
  proof -
    have keys: "ae_station u = ae_station s" "ae_chaser u = ae_chaser s" "refreshed s u" if "proved s now_s u" for u
      using that by (simp_all add: proved_def refreshed_fields)
    show ?thesis
      unfolding triple_def and_then_def try_with_def update_state_def
      by (auto simp: keys issued_step simp del: append.simps split: sum.splits)
  qed
  show ?thesis
    unfolding issue_grant_def Let_def
    by (rule triple_weaken, rule triple_and_then, rule random_nonce_triple [where bss = "[]"],
        rule triple_and_then, rule random_nonce_triple, rule last) simp_all
qed

text \<open>The result of a request that returns an outcome.\<close>

definition request_result ::
  "'p crates \<Rightarrow> ('p, 'b) access_engine \<Rightarrow> u8 \<Rightarrow> i64 \<Rightarrow> readiness_evidence \<Rightarrow> transition_outcome
     \<Rightarrow> ('p, 'b) access_engine \<Rightarrow> bool" where
  "request_result K s requested_state now_s readiness out t \<longleftrightarrow>
     (\<exists>event_kind stage session_id from_stage to_stage.
        transition_for (ae_state s) requested_state = Some (event_kind, stage)
        \<and> transition_names (ae_state s) requested_state = Some (from_stage, to_stage)
        \<and> ae_session_id s = Some session_id
        \<and> (let p = s\<lparr>ae_holder_proof_at_s := Some now_s\<rparr>; previous = state_number (ae_state s)
           in case evaluate_profile K p from_stage to_stage now_s readiness of
                Inl error \<Rightarrow> proved s now_s t
                  \<and> out = profile_denial t previous session_id
                      (map_option sr_rule_id (matching_rule (ec_protocol_profile (ae_config s)) from_stage to_stage)) error
              | Inr rule \<Rightarrow>
                  (case authorize_rule K p (rd_rule_id rule) now_s readiness of
                     Inl error \<Rightarrow> proved s now_s t \<and> out = policy_denial t previous session_id rule error
                   | Inr decision \<Rightarrow> issued K s stage session_id requested_state now_s rule decision out t)))"

lemma decide_transition_result:
  assumes "proved s now_s u" "transition_for (ae_state s) requested_state = Some (event_kind, stage)"
    and "ae_session_id s = Some session_id"
    and "decide_transition K (state_number (ae_state s)) stage session_id requested_state now_s readiness u = (r, t)"
  shows "case r of Inl e \<Rightarrow> refreshed s t | Inr out \<Rightarrow> request_result K s requested_state now_s readiness out t"
proof -
  have fixed: "ae_state u = ae_state s" "ae_config u = ae_config s" "refreshed s u"
    using assms(1) by (simp_all add: proved_def refreshed_fields)
  note evals = evaluate_profile_proved [OF assms(1)] authorize_rule_proved [OF assms(1)]
  note grant = issue_grant_triple [unfolded triple_def, rule_format, OF assms(1)]
  obtain from_stage to_stage where names: "transition_names (ae_state s) requested_state = Some (from_stage, to_stage)"
    using assms(2) by (auto simp: transition_for_def transition_names_def split: if_splits)
  let ?p = "s\<lparr>ae_holder_proof_at_s := Some now_s\<rparr>"
  have decide: "decide_transition K (state_number (ae_state s)) stage session_id requested_state now_s readiness u =
      (case evaluate_profile K ?p from_stage to_stage now_s readiness of
         Inl error \<Rightarrow> ret (profile_denial u (state_number (ae_state s)) session_id
             (map_option sr_rule_id (matching_rule (ec_protocol_profile (ae_config s)) from_stage to_stage)) error) u
       | Inr rule \<Rightarrow> (case authorize_rule K ?p (rd_rule_id rule) now_s readiness of
             Inl error \<Rightarrow> ret (policy_denial u (state_number (ae_state s)) session_id rule error) u
           | Inr decision \<Rightarrow> issue_grant K (state_number (ae_state s)) stage session_id requested_state now_s rule decision u))"
    unfolding decide_transition_def fixed names evals by simp
  show ?thesis
  proof (cases "evaluate_profile K ?p from_stage to_stage now_s readiness")
    case (Inl e)
    with decide assms names show ?thesis by (auto simp: request_result_def ret_def)
  next
    case eval: (Inr rule)
    show ?thesis
    proof (cases "authorize_rule K ?p (rd_rule_id rule) now_s readiness")
      case (Inl e)
      with decide eval assms names show ?thesis by (auto simp: request_result_def ret_def)
    next
      case (Inr decision)
      with decide eval assms(4)
      have "issue_grant K (state_number (ae_state s)) stage session_id requested_state now_s rule decision u = (r, t)"
        by simp
      with grant [of K stage session_id requested_state rule decision] Inr eval assms names
      show ?thesis by (auto simp: request_result_def split: sum.splits)
    qed
  qed
qed

text \<open>The body of a request once the stage and the session are known.\<close>

definition proof_and_decision where
  "proof_and_decision K previous stage session_id requested_state now_s readiness =
     and_then (session_offer K session_id now_s) (\<lambda>x.
     and_then (session_proof K session_id (fst x) [] now_s) (\<lambda>proof.
     and_then (check_binding proof (snd x)) (\<lambda>_.
     and_then (update_state (\<lambda>s. s\<lparr>ae_holder_proof_at_s := Some now_s\<rparr>)) (\<lambda>_.
       decide_transition K previous stage session_id requested_state now_s readiness))))"

lemma request_transition_cases:
  "request_transition K requested_state now_s readiness s =
     (case transition_for (ae_state s) requested_state of
        None \<Rightarrow> (Inl (TransitionErr InvalidTransition), s)
      | Some (event_kind, stage) \<Rightarrow>
          (case ae_session_id s of
             None \<Rightarrow> (Inl SessionBinding, s)
           | Some session_id \<Rightarrow>
               proof_and_decision K (state_number (ae_state s)) stage session_id requested_state now_s readiness s))"
  unfolding request_transition_def proof_and_decision_def split_beta
  by (simp add: and_then_def [of "try_with _"] try_with_def split: option.splits)

lemma request_triple:
  "triple (\<lambda>u. u = s) (request_transition K requested_state now_s readiness)
     (\<lambda>out t. request_result K s requested_state now_s readiness out t) (\<lambda>_. refreshed s)"
proof -
  let ?T = "\<lambda>stage. \<exists>event_kind. transition_for (ae_state s) requested_state = Some (event_kind, stage)"
  let ?S = "\<lambda>session_id. ae_session_id s = Some session_id"
  have decide: "triple (\<lambda>u. proved s now_s u \<and> ?T stage \<and> ?S session_id)
      (decide_transition K (state_number (ae_state s)) stage session_id requested_state now_s readiness)
      (\<lambda>out t. request_result K s requested_state now_s readiness out t) (\<lambda>_. refreshed s)" for stage session_id
    unfolding triple_def by (auto dest!: decide_transition_result split: prod.splits sum.splits)
  have exchange: "triple (\<lambda>u. refreshed s u \<and> ?T stage \<and> ?S session_id)
      (proof_and_decision K (state_number (ae_state s)) stage session_id requested_state now_s readiness)
      (\<lambda>out t. request_result K s requested_state now_s readiness out t) (\<lambda>_. refreshed s)" for stage session_id
  proof -
    have stable: "exchange_stable (\<lambda>u. refreshed s u \<and> ?T stage \<and> ?S session_id)"
      by (rule exchange_stableI) (auto intro: refreshed_exchanged)
    show ?thesis
      unfolding proof_and_decision_def
      by (rule triple_and_then, rule triple_keeps, rule keeps_session_offer, rule stable, simp,
          rule triple_and_then, rule triple_keeps, rule keeps_session_proof, rule stable, simp,
          rule triple_and_then, rule triple_keeps, rule keeps_check_binding, simp,
          rule triple_and_then [OF _ decide], rule triple_update_state, simp add: proved_def refreshed_holder_update)
  qed
  show ?thesis
    unfolding triple_def
  proof (intro allI impI)
    fix u assume u: "u = s"
    show "case request_transition K requested_state now_s readiness u of
        (Inl e, t) \<Rightarrow> refreshed s t | (Inr out, t) \<Rightarrow> request_result K s requested_state now_s readiness out t"
      using exchange [unfolded triple_def, rule_format, of s]
      by (auto simp: u request_transition_cases split: option.splits prod.splits)
  qed
qed


section \<open>Redeeming a grant\<close>

text \<open>What a redemption may change before it succeeds: the gate's replay cache, the consumed
  grants, and the pending entitlements, which only shrink.\<close>

definition presented :: "('p, 'b) access_engine \<Rightarrow> ('p, 'b) access_engine \<Rightarrow> bool" where
  "presented s t \<longleftrightarrow>
     t = s\<lparr>ae_gate_replay := ae_gate_replay t, ae_pending_entitlements := ae_pending_entitlements t,
           ae_consumed_grants := ae_consumed_grants t\<rparr>
     \<and> ae_pending_entitlements t \<subseteq>\<^sub>m ae_pending_entitlements s"

lemma presentedE:
  assumes "presented s t"
  obtains g p c where "t = s\<lparr>ae_gate_replay := g, ae_pending_entitlements := p, ae_consumed_grants := c\<rparr>"
    "p \<subseteq>\<^sub>m ae_pending_entitlements s"
  using assms that unfolding presented_def by blast

lemma presented_fields:
  assumes "presented s t"
  shows "ae_state t = ae_state s" "ae_authorization t = ae_authorization s" "ae_session_id t = ae_session_id s"
    "ae_verified_credentials t = ae_verified_credentials s" "ae_holder_proof_at_s t = ae_holder_proof_at_s s"
    "setup_of t = setup_of s" "ae_pending_entitlements t \<subseteq>\<^sub>m ae_pending_entitlements s"
    "ae_station_replay t = ae_station_replay s" "ae_chaser_replay t = ae_chaser_replay s"
  using assms by (auto elim!: presentedE simp: setup_of_def)

lemma presented_refl: "presented s s"
  by (simp add: presented_def)

lemma presented_updates:
  "presented s t \<Longrightarrow> presented s (t\<lparr>ae_gate_replay := g\<rparr>)"
  "presented s t \<Longrightarrow> presented s (t\<lparr>ae_consumed_grants := c\<rparr>)"
  "presented s t \<Longrightarrow> presented s (t\<lparr>ae_pending_entitlements := (ae_pending_entitlements t)(k := None)\<rparr>)"
  by (elim presentedE; auto simp: presented_def map_le_def)+

lemma redeem_cases:
  "redeem_transition K signed_grant_hex requested_state now_s readiness s = (r, t) \<Longrightarrow>
     case r of Inl e \<Rightarrow> presented s t
     | Inr out \<Rightarrow> \<exists>u. presented s u \<and> t = u\<lparr>ae_state := ae_state t\<rparr>"
proof -
  assume run: "redeem_transition K signed_grant_hex requested_state now_s readiness s = (r, t)"
  have gate: "keeps (presented s) (gate_receives K encoded now_s)" for encoded
    by (auto simp: keeps_def gate_receives_def on_field_def presented_updates split: prod.splits)
  have take: "keeps (presented s) (take_pending grant_id)" for grant_id
    by (auto simp: keeps_def take_pending_def presented_updates)
  have consume: "keeps (presented s) (consume_grant grant_id)" for grant_id
    by (auto simp: keeps_def consume_grant_def on_field_def presented_updates split: prod.splits)
  have test: "keeps (presented s) (if b then ret () else fail e)" for b e
    by (simp add: keeps_ret keeps_fail)
  have "triple (presented s) (redeem_transition K signed_grant_hex requested_state now_s readiness)
      (\<lambda>out t. \<exists>u. presented s u \<and> t = u\<lparr>ae_state := ae_state t\<rparr>) (\<lambda>_. presented s)"
    unfolding redeem_transition_def split_beta
    by (rule triple_and_then, rule triple_keeps, rule keeps_try_with, assumption)+
       (rule triple_and_then, rule triple_keeps, rule gate, assumption,
        rule triple_and_then, rule triple_keeps, rule keeps_try_with, assumption,
        rule triple_and_then, rule triple_keeps, rule take, assumption,
        rule triple_and_then, rule triple_keeps, rule test, assumption,
        rule triple_and_then, rule triple_keeps, rule keeps_try_with, assumption,
        rule triple_and_then, rule triple_keeps, rule keeps_try_with, assumption,
        rule triple_and_then, rule triple_keeps, rule test, assumption,
        rule triple_and_then, rule triple_keeps, rule consume, assumption,
        rule triple_and_then, rule triple_keeps, rule keeps_try_with, assumption,
        auto simp: triple_def and_then_def update_state_def)
  from this [unfolded triple_def, rule_format, OF presented_refl] run
  show ?thesis by (auto split: sum.splits)
qed

lemma gate_receives_Inr:
  "gate_receives K encoded now_s s = (Inr grant, t) \<longleftrightarrow>
     (\<exists>gate. verify_envelope K encoded (ae_gate_trust s) (ik_key_id (ae_chaser s)) now_s max_clock_skew_s
               (ae_gate_replay s) = (Inr grant, gate) \<and> t = s\<lparr>ae_gate_replay := gate\<rparr>)"
  by (simp add: gate_receives_def op_simps)

lemma take_pending_Inr:
  "take_pending grant_id s = (Inr pending, t) \<longleftrightarrow>
     ae_pending_entitlements s grant_id = Some pending
     \<and> t = s\<lparr>ae_pending_entitlements := (ae_pending_entitlements s)(grant_id := None)\<rparr>"
  by (auto simp: take_pending_def)

lemma consume_grant_Inr:
  "consume_grant grant_id s = (Inr x, t) \<longleftrightarrow>
     (\<exists>grants. consume (as_bytes grant_id) (ae_consumed_grants s) = (Inr (), grants)
        \<and> t = s\<lparr>ae_consumed_grants := grants\<rparr>)"
  by (auto simp: consume_grant_def op_simps)

lemma require_Inr: "(if b then ret () else fail e) s = (Inr x, t) \<longleftrightarrow> b \<and> t = s"
  by (auto simp: ret_def fail_def)

lemma evaluate_profile_updates:
  "evaluate_profile K (s\<lparr>ae_gate_replay := g\<rparr>) = evaluate_profile K s"
  "evaluate_profile K (s\<lparr>ae_pending_entitlements := p\<rparr>) = evaluate_profile K s"
  by (simp_all add: evaluate_profile_def fun_eq_iff)

lemma ex_through:
  "(\<exists>t. (\<exists>g. P g \<and> t = f g) \<and> Q t) \<longleftrightarrow> (\<exists>g. P g \<and> Q (f g))"
  "(\<exists>x t. (\<exists>g. R x g \<and> t = f g) \<and> S x t) \<longleftrightarrow> (\<exists>x g. R x g \<and> S x (f g))"
  by blast+

text \<open>A redemption that succeeds: everything it checked, and the state it leaves.\<close>

lemma redeem_Inr:
  "redeem_transition K signed_grant_hex requested_state now_s readiness s = (Inr out, t) \<longleftrightarrow>
     (\<exists>event_kind stage session_id encoded grant gate grant_id pending from_stage to_stage rule grants state.
        transition_for (ae_state s) requested_state = Some (event_kind, stage)
        \<and> ae_session_id s = Some session_id \<and> hex_decode K signed_grant_hex = Inr encoded
        \<and> verify_envelope K encoded (ae_gate_trust s) (ik_key_id (ae_chaser s)) now_s max_clock_skew_s
             (ae_gate_replay s) = (Inr grant, gate)
        \<and> pc_grant_id (ve_claims grant) = Some grant_id
        \<and> ae_pending_entitlements s grant_id = Some pending
        \<and> grant_matches (ve_claims grant) pending requested_state session_id stage now_s
        \<and> transition_names (ae_state s) requested_state = Some (from_stage, to_stage)
        \<and> evaluate_profile K s from_stage to_stage now_s readiness = Inr rule
        \<and> grant_bound (ve_claims grant) pending rule
        \<and> consume (as_bytes grant_id) (ae_consumed_grants s) = (Inr (), grants)
        \<and> reduce (ae_state s) event_kind \<lparr>identity_verified = identity_verified (ae_authorization s),
             session_authorized = session_authorized (ae_authorization s),
             docking_authorized = (stage = StageHardDock)\<rparr> = Inr state
        \<and> t = s\<lparr>ae_gate_replay := gate, ae_pending_entitlements := (ae_pending_entitlements s)(grant_id := None),
               ae_consumed_grants := grants, ae_state := state\<rparr>
        \<and> out = redeemed_outcome t (state_number (ae_state s)) session_id rule grant_id (ve_claims grant)
             signed_grant_hex (pn_authorization_decision pending))"
  unfolding redeem_transition_def split_beta
  apply (simp add: op_simps gate_receives_Inr take_pending_Inr consume_grant_Inr require_Inr
      evaluate_profile_updates ex_through)
  apply (rule iffI)
   apply (elim exE conjE, intro exI conjI, assumption+, simp_all)
  apply (elim exE conjE, intro exI conjI, assumption+, simp_all)
  done

end
