(* ===== verification/Safety.thy ===== *)
theory Safety 
  imports Engine
begin

text \<open>
  What holds of every sequence of commands: the engine's invariant, one grant for one
  redemption, one redemption for one stage, and a policy decision behind every stage reached.
\<close>

section \<open>The invariant\<close>

definition engine_ok :: "('p, 'b) access_engine \<Rightarrow> bool" where
  "engine_ok s \<longleftrightarrow>
     ae_state s \<noteq> Aborted \<and> \<not> docking_authorized (ae_authorization s)
     \<and> (session_authorized (ae_authorization s) \<longleftrightarrow> ae_session_id s \<noteq> None)
     \<and> (session_authorized (ae_authorization s) \<longrightarrow>
          identity_verified (ae_authorization s) \<and> ae_holder_proof_at_s s \<noteq> None)
     \<and> (\<not> session_authorized (ae_authorization s) \<longrightarrow>
          ae_state s = Hold \<and> ae_pending_entitlements s = Map.empty)
     \<and> (\<forall>g p. ae_pending_entitlements s g = Some p \<longrightarrow>
          pn_requested_state p \<in> {1, 2, 3, 4}
          \<and> ad_policy (pn_authorization_decision p) = pe_metadata (ec_policy_engine (ae_config s)))"

lemma unauthorized_ok: "unauthorized s \<Longrightarrow> engine_ok s"
  by (simp add: unauthorized_def engine_ok_def)

lemma session_open_ok: "session_open K session_id now_s decision s \<Longrightarrow> engine_ok s"
  by (simp add: session_open_def engine_ok_def)

lemma refreshed_ok: "refreshed s t \<Longrightarrow> engine_ok s \<Longrightarrow> engine_ok t"
  by (elim refreshedE) (auto simp: engine_ok_def)

lemma proved_ok: "proved s now_s t \<Longrightarrow> engine_ok s \<Longrightarrow> engine_ok t"
  by (auto simp: proved_def intro: refreshed_ok)

lemma transition_for_range: "transition_for state requested = Some x \<Longrightarrow> requested \<in> {1, 2, 3, 4}"
  by (auto simp: transition_for_def split: if_splits)

lemma authorize_rule_policy:
  "authorize_rule K s rule_id now_s readiness = Inr d \<Longrightarrow> ad_policy d = pe_metadata (ec_policy_engine (ae_config s))"
  by (auto simp: authorize_rule_def authorize_transition_def authorize_Inr response_decision_Inr Let_def)

lemma issued_ok:
  assumes "issued K s stage session_id requested_state now_s rule decision out t" "engine_ok s"
    and "requested_state \<in> {1, 2, 3, 4}" "ae_session_id s \<noteq> None"
    and "ad_policy decision = pe_metadata (ec_policy_engine (ae_config s))"
  shows "engine_ok t"
proof -
  obtain u ident where u: "proved s now_s u" and t: "t = u\<lparr>ae_pending_entitlements :=
      (ae_pending_entitlements s)(grant_name K ident \<mapsto>
        \<lparr>pn_requested_state = requested_state, pn_authorization_decision = decision\<rparr>)\<rparr>"
    using assms(1) unfolding issued_def by blast
  then show ?thesis
    using assms(2-5) unfolding proved_def by (elim conjE refreshedE) (auto simp: engine_ok_def)
qed

text \<open>Profile and policy grant the requested stage in the state \<open>s\<close>, with a holder proof of \<open>now_s\<close>.\<close>

definition grants_stage ::
  "'p crates \<Rightarrow> ('p, 'b) access_engine \<Rightarrow> u8 \<Rightarrow> i64 \<Rightarrow> readiness_evidence \<Rightarrow> bool" where
  "grants_stage K s q now_s readiness \<longleftrightarrow>
     (case transition_names (ae_state s) q of
        None \<Rightarrow> False
      | Some (from_stage, to_stage) \<Rightarrow>
          (let p = s\<lparr>ae_holder_proof_at_s := Some now_s\<rparr>
           in case evaluate_profile K p from_stage to_stage now_s readiness of
                Inl _ \<Rightarrow> False
              | Inr rule \<Rightarrow> (case authorize_rule K p (rd_rule_id rule) now_s readiness of Inl _ \<Rightarrow> False | Inr _ \<Rightarrow> True)))"

lemma request_resultE:
  assumes "request_result K s requested_state now_s readiness out t"
  obtains (denied) "proved s now_s t" "\<not> out_approved out" "out_grant_id out = None" "ae_session_id s \<noteq> None"
      "out_previous_state out = state_number (ae_state s)" "out_resulting_state out = state_number (ae_state s)"
      "\<not> grants_stage K s requested_state now_s readiness"
  | (granted) event_kind stage session_id from_stage to_stage rule decision where
      "transition_for (ae_state s) requested_state = Some (event_kind, stage)"
      "transition_names (ae_state s) requested_state = Some (from_stage, to_stage)"
      "ae_session_id s = Some session_id"
      "evaluate_profile K (s\<lparr>ae_holder_proof_at_s := Some now_s\<rparr>) from_stage to_stage now_s readiness = Inr rule"
      "authorize_rule K (s\<lparr>ae_holder_proof_at_s := Some now_s\<rparr>) (rd_rule_id rule) now_s readiness = Inr decision"
      "issued K s stage session_id requested_state now_s rule decision out t"
      "grants_stage K s requested_state now_s readiness"
proof -
  obtain event_kind stage session_id from_stage to_stage where tr:
      "transition_for (ae_state s) requested_state = Some (event_kind, stage)"
      "transition_names (ae_state s) requested_state = Some (from_stage, to_stage)"
      "ae_session_id s = Some session_id"
    and body: "case evaluate_profile K (s\<lparr>ae_holder_proof_at_s := Some now_s\<rparr>) from_stage to_stage now_s readiness of
        Inl error \<Rightarrow> proved s now_s t
          \<and> out = profile_denial t (state_number (ae_state s)) session_id
              (map_option sr_rule_id (matching_rule (ec_protocol_profile (ae_config s)) from_stage to_stage)) error
      | Inr rule \<Rightarrow>
          (case authorize_rule K (s\<lparr>ae_holder_proof_at_s := Some now_s\<rparr>) (rd_rule_id rule) now_s readiness of
             Inl error \<Rightarrow> proved s now_s t \<and> out = policy_denial t (state_number (ae_state s)) session_id rule error
           | Inr decision \<Rightarrow> issued K s stage session_id requested_state now_s rule decision out t)"
    using assms unfolding request_result_def Let_def by blast
  show thesis
  proof (cases "evaluate_profile K (s\<lparr>ae_holder_proof_at_s := Some now_s\<rparr>) from_stage to_stage now_s readiness")
    case (Inl e)
    with body tr show thesis by (intro denied) (simp_all add: profile_denial_def policy_denied_def denied_def Let_def grants_stage_def)
  next
    case rule: (Inr rule)
    show thesis
    proof (cases "authorize_rule K (s\<lparr>ae_holder_proof_at_s := Some now_s\<rparr>) (rd_rule_id rule) now_s readiness")
      case (Inl e)
      with body rule tr show thesis by (intro denied) (simp_all add: policy_denial_def denied_def Let_def grants_stage_def)
    next
      case (Inr decision)
      with body rule have "issued K s stage session_id requested_state now_s rule decision out t" by simp
      moreover have "grants_stage K s requested_state now_s readiness" using tr rule Inr by (simp add: grants_stage_def)
      ultimately show thesis by (rule granted [OF tr rule Inr])
    qed
  qed
qed

lemma issued_fields:
  assumes "issued K s stage session_id requested_state now_s rule decision out t"
  obtains ident where
    "out_approved out" "out_grant_id out = Some (grant_name K ident)"
    "out_authorization_decision out = Some decision"
    "out_previous_state out = state_number (ae_state s)" "out_resulting_state out = state_number (ae_state s)"
    "ae_pending_entitlements t = (ae_pending_entitlements s)(grant_name K ident \<mapsto>
        \<lparr>pn_requested_state = requested_state, pn_authorization_decision = decision\<rparr>)"
    "ae_state t = ae_state s" "ae_authorization t = ae_authorization s" "ae_session_id t = ae_session_id s"
    "ae_verified_credentials t = ae_verified_credentials s" "ae_config t = ae_config s" "setup_of t = setup_of s"
    "ae_gate_replay t = ae_gate_replay s" "ae_consumed_grants t = ae_consumed_grants s"
    "ae_holder_proof_at_s t = Some now_s"
proof -
  obtain u ident nonce encoded where u: "proved s now_s u" and t: "t = u\<lparr>ae_pending_entitlements :=
      (ae_pending_entitlements s)(grant_name K ident \<mapsto>
        \<lparr>pn_requested_state = requested_state, pn_authorization_decision = decision\<rparr>)\<rparr>"
    and out: "out = grant_outcome K t (state_number (ae_state s)) stage session_id rule decision
             (grant_name K ident) (saturating_add now_s (rd_entitlement_ttl_s rule)) encoded"
    using assms unfolding issued_def by blast
  have "refreshed s u" "ae_holder_proof_at_s u = Some now_s" using u by (simp_all add: proved_def)
  with refreshed_fields [OF this(1)] show thesis
    by (intro that [of ident]) (simp_all add: t out grant_outcome_def Let_def setup_of_def)
qed

lemma request_result_ok:
  assumes "request_result K s requested_state now_s readiness out t" "engine_ok s"
  shows "engine_ok t"
  using assms(1)
proof (cases rule: request_resultE)
  case denied
  then show ?thesis using assms(2) proved_ok by blast
next
  case granted
  then show ?thesis using issued_ok [OF granted(6) assms(2)] transition_for_range authorize_rule_policy by fastforce
qed

lemma presented_ok: "presented s t \<Longrightarrow> engine_ok s \<Longrightarrow> engine_ok t"
proof (elim presentedE)
  fix g p c
  assume ok: "engine_ok s" and t: "t = s\<lparr>ae_gate_replay := g, ae_pending_entitlements := p, ae_consumed_grants := c\<rparr>"
    and p: "p \<subseteq>\<^sub>m ae_pending_entitlements s"
  have "ae_pending_entitlements s k = Some e" if "p k = Some e" for k e
    using p that unfolding map_le_def by (metis domI)
  then have "\<forall>k e. p k = Some e \<longrightarrow> ae_pending_entitlements s k = Some e" by blast
  moreover from this have "ae_pending_entitlements s = Map.empty \<longrightarrow> p = Map.empty"
    by (metis ext not_Some_eq)
  ultimately show "engine_ok t" using ok unfolding engine_ok_def t by auto
qed

text \<open>How a redemption that succeeds moves the state.\<close>

lemma redeem_state:
  assumes "transition_for state requested_state = Some (event_kind, stage)"
    and "reduce state event_kind a = Inr state'"
  shows "state_number state' = requested_state \<and> stage_index state' = Suc (stage_index state) \<and> state' \<noteq> Aborted"
  using assms by (auto simp: transition_for_def reduce_def split: if_splits)

lemma redeem_Inr_ok:
  assumes "redeem_transition K signed_grant_hex requested_state now_s readiness s = (Inr out, t)" "engine_ok s"
  shows "engine_ok t"
proof -
  from assms(1) obtain event_kind stage state u where
      "transition_for (ae_state s) requested_state = Some (event_kind, stage)" "ae_session_id s \<noteq> None"
      "reduce (ae_state s) event_kind \<lparr>identity_verified = identity_verified (ae_authorization s),
             session_authorized = session_authorized (ae_authorization s),
             docking_authorized = (stage = StageHardDock)\<rparr> = Inr state"
    and t: "presented s u" "t = u\<lparr>ae_state := state\<rparr>"
    using redeem_cases [OF assms(1)] unfolding redeem_Inr by auto
  then have "state \<noteq> Aborted" using redeem_state by blast
  with presented_ok [OF t(1) assms(2)] presented_fields [OF t(1)] \<open>ae_session_id s \<noteq> None\<close> t(2)
  show ?thesis by (auto simp: engine_ok_def)
qed

lemma engine_step_ok: "engine_ok s \<Longrightarrow> engine_ok (snd (engine_step K cmd s))"
proof (cases cmd)
  case (EstablishSession now_s scenario)
  obtain r t where run: "establish_session K now_s scenario s = (r, t)" by fastforce
  then have "engine_ok t"
    by (cases r) (auto dest: establish_Inr establish_Inl intro: unauthorized_ok session_open_ok)
  then show ?thesis by (cases r) (simp_all add: EstablishSession and_then_def run ret_def)
next
  case (RequestTransition requested_state now_s readiness)
  assume ok: "engine_ok s"
  obtain r t where run: "request_transition K requested_state now_s readiness s = (r, t)" by fastforce
  have "engine_ok t"
    using request_triple [of s K requested_state now_s readiness, unfolded triple_def, rule_format, OF refl] run ok
    by (cases r) (auto intro: request_result_ok refreshed_ok)
  then show ?thesis by (cases r) (simp_all add: RequestTransition and_then_def run ret_def)
next
  case (RedeemTransition signed_grant_hex requested_state now_s readiness)
  assume ok: "engine_ok s"
  obtain r t where run: "redeem_transition K signed_grant_hex requested_state now_s readiness s = (r, t)" by fastforce
  have "engine_ok t"
    using redeem_cases [OF run] run ok by (cases r) (auto intro: redeem_Inr_ok presented_ok)
  then show ?thesis by (cases r) (simp_all add: RedeemTransition and_then_def run ret_def)
qed

interpretation engine: machine "engine_step K" engine_ok for K
  by unfold_locales (simp add: keeps_def engine_step_ok)

lemma new_engine_ok:
  "engine_ok (new_engine K chaser station issuer station_trust chaser_trust credential_trust gate_trust config)"
  by (simp add: new_engine_def engine_ok_def default_authorization_def)

end
