(* ===== verification/Traces.thy ===== *)
theory Traces
  imports Safety
begin

text \<open>
  Properties of sequences of commands: one issued grant for each redemption, redemptions that
  follow the stages, and a profile and policy decision behind every stage.
\<close>

section \<open>Ledgers\<close>

text \<open>How often a run's steps carry a token, by a reading of commands and results.\<close>

definition occurrences :: "('c \<Rightarrow> 'e + 'a \<Rightarrow> 'k option) \<Rightarrow> 'c list \<Rightarrow> ('e + 'a) list \<Rightarrow> 'k \<Rightarrow> nat" where
  "occurrences f cs rs k = length (filter (\<lambda>(c, r). f c r = Some k) (zip cs rs))"

lemma occurrences_Cons: "occurrences f (c # cs) (r # rs) k = (if f c r = Some k then 1 else 0) + occurrences f cs rs k"
  by (simp add: occurrences_def)

text \<open>A machine that issues tokens and redeems them, holding the ones still pending: redeeming
  needs a pending token and takes it away, and a token becomes pending only by being issued.\<close>

locale ledger =
  fixes step :: "'c \<Rightarrow> ('s, 'e, 'a) op" and pending :: "'s \<Rightarrow> 'k set"
    and issues :: "'c \<Rightarrow> 'e + 'a \<Rightarrow> 'k option" and redeems :: "'c \<Rightarrow> 'e + 'a \<Rightarrow> 'k option"
  assumes redeem_takes: "step c s = (r, t) \<Longrightarrow> redeems c r = Some k \<Longrightarrow> k \<in> pending s \<and> k \<notin> pending t"
    and pending_issued: "step c s = (r, t) \<Longrightarrow> k \<in> pending t \<Longrightarrow> k \<in> pending s \<or> issues c r = Some k"
begin

lemma redeemed_at_most_issued:
  assumes "run_all step cs s = (rs, t)"
  shows "occurrences redeems cs rs k + (if k \<in> pending t then 1 else 0)
           \<le> occurrences issues cs rs k + (if k \<in> pending s then 1 else 0)"
  using assms
proof (induction cs arbitrary: s rs)
  case Nil
  then show ?case by (simp add: occurrences_def)
next
  case (Cons c cs)
  obtain r u where step: "step c s = (r, u)" by fastforce
  obtain qs where run: "run_all step cs u = (qs, t)" and rs: "rs = r # qs"
    using Cons.prems step by (auto split: prod.splits)
  have "(if redeems c r = Some k then 1 else 0) + (if k \<in> pending u then 1 else 0 :: nat)
          \<le> (if issues c r = Some k then 1 else 0) + (if k \<in> pending s then 1 else 0)"
    using redeem_takes [OF step, of k] pending_issued [OF step, of k] by auto
  with Cons.IH [OF run] show ?case by (simp add: rs occurrences_Cons split del: if_split)
qed

end

section \<open>Grants\<close>

fun grant_issued :: "engine_command \<Rightarrow> session_error + engine_reply \<Rightarrow> string option" where
  "grant_issued (RequestTransition q n r) (Inr (TransitionReply out)) =
     (if out_approved out then out_grant_id out else None)"
| "grant_issued _ _ = None"

fun grant_redeemed :: "engine_command \<Rightarrow> session_error + engine_reply \<Rightarrow> string option" where
  "grant_redeemed (RedeemTransition g q n r) (Inr (TransitionReply out)) = out_grant_id out"
| "grant_redeemed _ _ = None"

text \<open>The commands' effect, read off a step.\<close>

lemma step_establish:
  assumes "engine_step K (EstablishSession now_s scenario) s = (r, t)"
  shows "ae_pending_entitlements t = Map.empty \<and> ae_state t = Hold"
  using assms
  by (cases "establish_session K now_s scenario s"; cases "fst (establish_session K now_s scenario s)")
     (auto simp: and_then_def ret_def unauthorized_def session_open_def dest!: establish_Inr establish_Inl)

lemma step_request:
  assumes "engine_step K (RequestTransition q now_s readiness) s = (r, t)"
  shows "(\<exists>e. r = Inl e \<and> refreshed s t)
     \<or> (\<exists>out. r = Inr (TransitionReply out) \<and> request_result K s q now_s readiness out t)"
  using assms request_triple [of s K q now_s readiness, unfolded triple_def, rule_format, OF refl]
  by (auto simp: and_then_def ret_def split: prod.splits sum.splits)

lemma step_redeem:
  assumes "engine_step K (RedeemTransition g q now_s readiness) s = (r, t)"
  shows "(\<exists>e. r = Inl e \<and> presented s t)
     \<or> (\<exists>out. r = Inr (TransitionReply out) \<and> redeem_transition K g q now_s readiness s = (Inr out, t))"
  using assms redeem_cases [of K g q now_s readiness s]
  by (cases "redeem_transition K g q now_s readiness s")
     (auto simp: and_then_def ret_def split: sum.splits)

lemma redeem_pending:
  assumes "redeem_transition K g q now_s readiness s = (Inr out, t)"
  obtains k p where "out_grant_id out = Some k" "ae_pending_entitlements s k = Some p" "pn_requested_state p = q"
    "ae_pending_entitlements t = (ae_pending_entitlements s)(k := None)"
    "state_number (ae_state t) = q" "stage_index (ae_state t) = Suc (stage_index (ae_state s))"
    "out_authorization_decision out = Some (pn_authorization_decision p)"
  using assms unfolding redeem_Inr
  by (auto simp: redeemed_outcome_def grant_matches_def dest: redeem_state)

lemma redeem_takes_pending:
  assumes "engine_step K c s = (r, t)" "grant_redeemed c r = Some k"
  shows "k \<in> dom (ae_pending_entitlements s) \<and> k \<notin> dom (ae_pending_entitlements t)"
proof (cases c)
  case (RedeemTransition g q now_s readiness)
  with assms(2) obtain out where r: "r = Inr (TransitionReply out)" "out_grant_id out = Some k"
    by (cases r rule: sum.exhaust; cases "projr r") auto
  with step_redeem [of K g q now_s readiness s r t] assms(1) RedeemTransition
  have "redeem_transition K g q now_s readiness s = (Inr out, t)" by auto
  then show ?thesis using r by (elim redeem_pending) auto
qed (use assms(2) in auto)

lemma pending_after_step:
  assumes "engine_step K c s = (r, t)" "ae_pending_entitlements t k = Some p"
  shows "ae_pending_entitlements s k = Some p
     \<or> (\<exists>now_s readiness out. c = RequestTransition (pn_requested_state p) now_s readiness
          \<and> r = Inr (TransitionReply out) \<and> grant_issued c r = Some k
          \<and> request_result K s (pn_requested_state p) now_s readiness out t \<and> out_approved out)"
proof (cases c)
  case (EstablishSession now_s scenario)
  with assms step_establish [of K now_s scenario s r t] show ?thesis by simp
next
  case (RequestTransition q now_s readiness)
  with assms(1) step_request [of K q now_s readiness s r t] consider
      "refreshed s t" | out where "r = Inr (TransitionReply out)" "request_result K s q now_s readiness out t" by auto
  then show ?thesis
  proof cases
    case 1
    with assms(2) show ?thesis by (simp add: refreshed_fields)
  next
    case 2
    from 2(2) show ?thesis
    proof (cases rule: request_resultE)
      case denied
      then have "ae_pending_entitlements t = ae_pending_entitlements s"
        using refreshed_fields(5) unfolding proved_def by blast
      with assms(2) show ?thesis by simp
    next
      case (granted event_kind stage session_id from_stage to_stage rule decision)
      from granted(6) obtain ident where "out_approved out" "out_grant_id out = Some (grant_name K ident)"
        "ae_pending_entitlements t = (ae_pending_entitlements s)(grant_name K ident \<mapsto>
            \<lparr>pn_requested_state = q, pn_authorization_decision = decision\<rparr>)"
        by (rule issued_fields)
      with assms(2) 2 RequestTransition show ?thesis by (auto split: if_splits)
    qed
  qed
next
  case (RedeemTransition g q now_s readiness)
  with assms(1) step_redeem [of K g q now_s readiness s r t] consider
      "presented s t" | out where "redeem_transition K g q now_s readiness s = (Inr out, t)" by auto
  then show ?thesis
  proof cases
    case 1
    then have "ae_pending_entitlements t \<subseteq>\<^sub>m ae_pending_entitlements s" by (simp add: presented_fields)
    with assms(2) show ?thesis unfolding map_le_def by (metis domI)
  next
    case 2
    with assms(2) show ?thesis by (elim redeem_pending) (auto split: if_splits)
  qed
qed

interpretation grants: ledger "engine_step K" "\<lambda>s. dom (ae_pending_entitlements s)" grant_issued grant_redeemed for K
  by unfold_locales (blast dest: redeem_takes_pending, auto dest!: pending_after_step)

text \<open>C8. One redemption per issued grant: in any sequence of commands, sessions restarted in between
  included, a grant identifier is redeemed at most as often as a request issued a grant with
  that identifier. No grant is redeemed twice and none is redeemed that was not issued.\<close>

theorem redemptions_need_grants:
  "occurrences grant_redeemed cmds (fst (run_all (engine_step K) cmds
       (set_replay_state a b c d (with_random_source source
          (new_engine K chaser station issuer station_trust chaser_trust credential_trust gate_trust config))))) k
   \<le> occurrences grant_issued cmds (fst (run_all (engine_step K) cmds
       (set_replay_state a b c d (with_random_source source
          (new_engine K chaser station issuer station_trust chaser_trust credential_trust gate_trust config))))) k"
proof -
  let ?s = "set_replay_state a b c d (with_random_source source
      (new_engine K chaser station issuer station_trust chaser_trust credential_trust gate_trust config))"
  have "ae_pending_entitlements ?s = Map.empty"
    by (simp add: set_replay_state_def with_random_source_def new_engine_def)
  moreover have "run_all (engine_step K) cmds ?s
      = (fst (run_all (engine_step K) cmds ?s), snd (run_all (engine_step K) cmds ?s))" by simp
  note grants.redeemed_at_most_issued [OF this, of k]
  ultimately show ?thesis by simp
qed

section \<open>Stages\<close>

text \<open>The stages redeemed since the last attempt to establish a session.\<close>

fun redeemed_stages :: "engine_command list \<Rightarrow> (session_error + engine_reply) list \<Rightarrow> u8 list \<Rightarrow> u8 list" where
  "redeemed_stages (EstablishSession _ _ # cs) (_ # rs) passed = redeemed_stages cs rs []"
| "redeemed_stages (RedeemTransition _ q _ _ # cs) (Inr _ # rs) passed = redeemed_stages cs rs (passed @ [q])"
| "redeemed_stages (_ # cs) (_ # rs) passed = redeemed_stages cs rs passed"
| "redeemed_stages _ _ passed = passed"

definition stages_up_to :: "docking_state \<Rightarrow> u8 list" where
  "stages_up_to state = map of_nat [1..<Suc (unat (state_number state))]"

lemma stage_index_number: "unat (state_number state) = stage_index state"
  by (cases state) simp_all

lemma stages_up_to_next:
  "stage_index state' = Suc (stage_index state) \<Longrightarrow> stages_up_to state' = stages_up_to state @ [state_number state']"
proof -
  assume "stage_index state' = Suc (stage_index state)"
  moreover have "of_nat (stage_index state') = state_number state'"
    by (cases state') simp_all
  ultimately show ?thesis by (simp add: stages_up_to_def stage_index_number)
qed

lemma redeemed_stages_run:
  assumes "run_all (engine_step K) cmds s = (rs, t)" "passed = stages_up_to (ae_state s)"
  shows "redeemed_stages cmds rs passed = stages_up_to (ae_state t)"
  using assms
proof (induction cmds arbitrary: s rs passed)
  case Nil
  then show ?case by simp
next
  case (Cons c cmds)
  obtain r u where step: "engine_step K c s = (r, u)" by fastforce
  obtain qs where run: "run_all (engine_step K) cmds u = (qs, t)" and rs: "rs = r # qs"
    using Cons.prems step by (auto split: prod.splits)
  show ?case
  proof (cases c)
    case (EstablishSession now_s scenario)
    with step step_establish have "ae_state u = Hold" by blast
    then show ?thesis using Cons.IH [OF run, of "[]"] by (simp add: rs EstablishSession stages_up_to_def)
  next
    case (RequestTransition q now_s readiness)
    with step step_request [of K q now_s readiness s r u] have "ae_state u = ae_state s"
      by (auto simp: refreshed_fields(1) proved_def elim!: request_resultE issued_fields)
    then show ?thesis using Cons.IH [OF run, of "passed"] Cons.prems(2) by (simp add: rs RequestTransition)
  next
    case (RedeemTransition g q now_s readiness)
    with step step_redeem [of K g q now_s readiness s r u] consider
        e where "r = Inl e" "presented s u"
      | out where "r = Inr (TransitionReply out)" "redeem_transition K g q now_s readiness s = (Inr out, u)" by auto
    then show ?thesis
    proof cases
      case 1
      then show ?thesis using Cons.IH [OF run, of "passed"] Cons.prems(2)
        by (simp add: rs RedeemTransition presented_fields(1))
    next
      case 2
      from 2(2) have "stages_up_to (ae_state u) = stages_up_to (ae_state s) @ [q]"
        by (elim redeem_pending) (simp add: stages_up_to_next)
      then show ?thesis using Cons.IH [OF run, of "passed @ [q]"] Cons.prems(2) 2(1) by (simp add: rs RedeemTransition)
    qed
  qed
qed

text \<open>C10. The stages are passed in order and each by a redemption: at the end of any sequence of
  commands, the stages successfully redeemed since the last attempt to establish a session are
  exactly 1, 2, ... up to the number of the current docking state, each once, in this order.\<close>

theorem stages_follow_redemptions:
  "case run_all (engine_step K) cmds
       (set_replay_state a b c d (with_random_source source
          (new_engine K chaser station issuer station_trust chaser_trust credential_trust gate_trust config)))
   of (results, final) \<Rightarrow>
        redeemed_stages cmds results [] = map of_nat [1..<Suc (unat (state_number (ae_state final)))]"
proof -
  let ?s = "set_replay_state a b c d (with_random_source source
      (new_engine K chaser station issuer station_trust chaser_trust credential_trust gate_trust config))"
  have "[] = stages_up_to (ae_state ?s)"
    by (simp add: stages_up_to_def set_replay_state_def with_random_source_def new_engine_def)
  from redeemed_stages_run [OF _ this, of K cmds] show ?thesis
    unfolding stages_up_to_def by (auto split: prod.splits)
qed

section \<open>A decision behind every stage\<close>

text \<open>Among the commands there is a request for the stage \<open>q\<close>, at a moment when the engine was in
  the stage before and, with the holder proof just refreshed, profile and policy granted it.\<close>

definition decided ::
  "'p crates \<Rightarrow> ('p, 'b) access_engine \<Rightarrow> engine_command list \<Rightarrow> u8 \<Rightarrow> bool" where
  "decided K start cmds q \<longleftrightarrow>
     (\<exists>before now_s readiness after event_kind stage from_stage to_stage rule decision.
        cmds = before @ RequestTransition q now_s readiness # after
        \<and> (let s = snd (run_all (engine_step K) before start); p = s\<lparr>ae_holder_proof_at_s := Some now_s\<rparr>
           in transition_for (ae_state s) q = Some (event_kind, stage)
              \<and> transition_names (ae_state s) q = Some (from_stage, to_stage)
              \<and> evaluate_profile K p from_stage to_stage now_s readiness = Inr rule
              \<and> authorize_rule K p (rd_rule_id rule) now_s readiness = Inr decision))"

lemma decided_extend: "decided K start cmds q \<Longrightarrow> decided K start (cmds @ rest) q"
  unfolding decided_def by fastforce

lemma run_all_snoc: "snd (run_all f (xs @ [x]) s) = snd (f x (snd (run_all f xs s)))"
  by (simp add: run_all_append split: prod.splits)

lemma decided_last:
  assumes "request_result K (snd (run_all (engine_step K) cmds start)) q now_s readiness out t" "out_approved out"
  shows "decided K start (cmds @ [RequestTransition q now_s readiness]) q"
  using assms(1)
proof (cases rule: request_resultE)
  case denied
  with assms(2) show ?thesis by simp
next
  case (granted event_kind stage session_id from_stage to_stage rule decision)
  then show ?thesis unfolding decided_def Let_def by blast
qed

definition all_decided where
  "all_decided K start cmds \<longleftrightarrow>
     (let s = snd (run_all (engine_step K) cmds start)
      in (\<forall>k p. ae_pending_entitlements s k = Some p \<longrightarrow> decided K start cmds (pn_requested_state p))
         \<and> (\<forall>q. 1 \<le> q \<and> q \<le> state_number (ae_state s) \<longrightarrow> decided K start cmds q))"

lemma below_next:
  assumes "stage_index state' = Suc (stage_index state)" "1 \<le> q" "q \<le> state_number state'"
  shows "q = state_number state' \<or> q \<le> state_number state"
  using assms by (simp add: word_le_nat_alt stage_index_number flip: word_unat_eq_iff) (metis stage_index_number le_SucE word_unat_eq_iff)

lemma decided_pending_after:
  assumes "all_decided K start cmds" "engine_step K c (snd (run_all (engine_step K) cmds start)) = (r, t)"
    and "ae_pending_entitlements t k = Some p"
  shows "decided K start (cmds @ [c]) (pn_requested_state p)"
proof -
  let ?s = "snd (run_all (engine_step K) cmds start)"
  consider "ae_pending_entitlements ?s k = Some p"
    | now_s readiness out where "c = RequestTransition (pn_requested_state p) now_s readiness"
        "request_result K ?s (pn_requested_state p) now_s readiness out t" "out_approved out"
    using pending_after_step [OF assms(2,3)] by blast
  then show ?thesis
  proof cases
    case 1
    with assms(1) show ?thesis by (intro decided_extend) (auto simp: all_decided_def Let_def)
  next
    case 2
    then show ?thesis using decided_last [of K cmds start] by simp
  qed
qed

lemma decided_state_after:
  assumes "all_decided K start cmds" "engine_step K c (snd (run_all (engine_step K) cmds start)) = (r, t)"
    and q: "1 \<le> q" "q \<le> state_number (ae_state t)"
  shows "decided K start (cmds @ [c]) q"
proof -
  define s where "s = snd (run_all (engine_step K) cmds start)"
  have step: "engine_step K c s = (r, t)" using assms(2) by (simp add: s_def)
  have old: "decided K start (cmds @ [c]) q" if "1 \<le> q" "q \<le> state_number (ae_state s)" for q
    using assms(1) that by (intro decided_extend) (auto simp: all_decided_def Let_def simp flip: s_def)
  show ?thesis
  proof (cases c)
    case (EstablishSession now_s scenario)
    with step step_establish have "ae_state t = Hold" by blast
    with q show ?thesis by (simp add: word_le_nat_alt)
  next
    case (RequestTransition q' now_s readiness)
    with step step_request [of K q' now_s readiness s r t] have "ae_state t = ae_state s"
      by (auto simp: refreshed_fields(1) proved_def elim!: request_resultE issued_fields)
    with q old show ?thesis by simp
  next
    case (RedeemTransition g q' now_s readiness)
    with step step_redeem [of K g q' now_s readiness s r t] consider
        "presented s t" | out where "redeem_transition K g q' now_s readiness s = (Inr out, t)" by auto
    then show ?thesis
    proof cases
      case 1
      with q old show ?thesis by (simp add: presented_fields(1))
    next
      case 2
      then obtain k p where "ae_pending_entitlements s k = Some p" "pn_requested_state p = q'"
        "state_number (ae_state t) = q'" "stage_index (ae_state t) = Suc (stage_index (ae_state s))"
        by (rule redeem_pending)
      moreover from this have "decided K start (cmds @ [c]) q'"
        using assms(1) by (intro decided_extend) (auto simp: all_decided_def Let_def simp flip: s_def)
      ultimately show ?thesis using below_next [of "ae_state t" "ae_state s" q] q old by metis
    qed
  qed
qed

lemma all_decided_step:
  assumes "all_decided K start cmds"
  shows "all_decided K start (cmds @ [c])"
proof -
  obtain r t where step: "engine_step K c (snd (run_all (engine_step K) cmds start)) = (r, t)" by fastforce
  then have "snd (run_all (engine_step K) (cmds @ [c]) start) = t" by (simp add: run_all_snoc)
  then show ?thesis
    using decided_pending_after [OF assms step] decided_state_after [OF assms step] unfolding all_decided_def Let_def by blast
qed

lemma all_decided_run:
  assumes "ae_state start = Hold" "ae_pending_entitlements start = Map.empty"
  shows "all_decided K start cmds"
proof (induction cmds rule: rev_induct)
  case Nil
  show ?case using assms by (auto simp: all_decided_def word_le_nat_alt)
next
  case (snoc c cmds)
  then show ?case by (rule all_decided_step)
qed

end
