(* ===== verification/Honest.thy ===== *)
theory Honest
  imports Traces
begin

text \<open>
  Honest runs: with working keys that the trust stores know and a random source that does not
  repeat itself, exchanges succeed, grants are issued and what was granted is redeemed.
\<close>

section \<open>Honest parties\<close>

definition working_signer :: "'p crates \<Rightarrow> identity_key \<Rightarrow> bool" where
  "working_signer K identity \<longleftrightarrow>
     honest_signer K identity \<and> (\<forall>payload. \<exists>signature. ik_signer identity payload = Inr signature)"

definition trusts :: "trust_store \<Rightarrow> identity_key \<Rightarrow> bool" where
  "trusts trust identity \<longleftrightarrow> trust (ik_key_id identity) = Some (ik_verifying_key identity)"

definition honest_parties :: "'p crates \<Rightarrow> ('p, 'b) access_engine \<Rightarrow> bool" where
  "honest_parties K s \<longleftrightarrow>
     hex_ok K \<and> cbor_ok K \<and> cose_ok K
     \<and> working_signer K (ae_chaser s) \<and> working_signer K (ae_station s) \<and> working_signer K (ae_credential_issuer s)
     \<and> trusts (ae_station_peer_trust s) (ae_chaser s) \<and> trusts (ae_chaser_peer_trust s) (ae_station s)
     \<and> trusts (ae_credential_trust s) (ae_credential_issuer s) \<and> trusts (ae_gate_trust s) (ae_station s)"

lemma honest_parties_setup: "setup_of t = setup_of s \<Longrightarrow> honest_parties K t = honest_parties K s"
  by (simp add: honest_parties_def setup_of_def)

lemma sign_payload_works:
  assumes "cose_ok K" "working_signer K identity"
  shows "\<exists>encoded. sign_payload K payload identity aad = Inr encoded"
proof -
  obtain signature where "ik_signer identity (cose_tbs K \<lparr>cose_alg = Some EdDSA, cose_key_id = as_bytes (ik_key_id identity),
      cose_payload = Some payload, cose_signature = [], cose_rest = []\<rparr> aad) = Inr signature"
    using assms(2) unfolding working_signer_def by blast
  then show ?thesis using cose_total [OF assms(1)] by (simp add: sign_payload_def Let_def)
qed

lemma sign_envelope_works:
  assumes "cbor_ok K" "cose_ok K" "working_signer K identity" "pc_issuer claims = ik_key_id identity"
  shows "\<exists>encoded. sign_envelope K claims identity = Inr encoded"
  using cbor_total(1) [OF assms(1), of claims] sign_payload_works [OF assms(2,3)] assms(4)
  by (auto simp: sign_envelope_Inr)

lemma issue_credential_works:
  assumes "cbor_ok K" "cose_ok K" "working_signer K issuer" "cc_issuer claims = ik_key_id issuer"
  shows "\<exists>encoded. issue_credential K claims issuer = Inr encoded"
  using cbor_total(2) [OF assms(1), of claims] sign_payload_works [OF assms(2,3)] assms(4)
  by (auto simp: issue_credential_def)

section \<open>Reliable caches\<close>

text \<open>A cache is reliable if it is in memory, or if its backend commits everything from here on.\<close>

definition reliable :: "'b replay_cache \<Rightarrow> bool" where
  "reliable c \<longleftrightarrow>
     (case rc_backend c of
        None \<Rightarrow> True
      | Some (ops, b) \<Rightarrow>
          (\<exists>B. b \<in> B \<and> (\<forall>b \<in> B. \<forall>n. \<exists>b' \<in> B. be_append_and_sync ops n b = (Inr (), b'))))"

lemma consume_reliable:
  assumes "reliable c" "nonce \<notin> rc_consumed c"
  shows "\<exists>d. consume nonce c = (Inr (), d) \<and> reliable d \<and> rc_consumed d = insert nonce (rc_consumed c)"
proof (cases "rc_backend c")
  case None
  with assms(2) show ?thesis by (simp add: consume_def reliable_def)
next
  case (Some ob)
  obtain ops b where ob: "ob = (ops, b)" by fastforce
  with assms(1) Some obtain B where B: "b \<in> B" "\<And>b n. b \<in> B \<Longrightarrow> \<exists>b' \<in> B. be_append_and_sync ops n b = (Inr (), b')"
    by (auto simp: reliable_def)
  then obtain b' where b': "b' \<in> B" "be_append_and_sync ops nonce b = (Inr (), b')" by blast
  with Some ob assms(2) B(2) show ?thesis by (auto simp: consume_def reliable_def)
qed

lemma reliable_journal:
  assumes "\<And>n. jf_append_outcome f n = AppendOk"
  shows "reliable \<lparr>rc_consumed = ids, rc_backend = Some (journal_backend K, f)\<rparr>"
proof -
  let ?B = "{f. \<forall>n. jf_append_outcome f n = AppendOk}"
  have "\<exists>b' \<in> ?B. be_append_and_sync (journal_backend K) n b = (Inr (), b')" if "b \<in> ?B" for b n
    using that by (simp add: journal_backend_def journal_append_def Let_def)
  with assms show ?thesis unfolding reliable_def by (auto intro!: exI [of _ ?B])
qed

text \<open>A cache that is reliable and has not seen the draws from the \<open>n\<close>-th to the \<open>N\<close>-th, under the name it
  knows them by.\<close>

definition unused :: "(nat \<Rightarrow> bytes) \<Rightarrow> nat \<Rightarrow> nat \<Rightarrow> (bytes \<Rightarrow> bytes) \<Rightarrow> 'b replay_cache \<Rightarrow> bool" where
  "unused draw n N name c \<longleftrightarrow> reliable c \<and> (\<forall>i. n \<le> i \<longrightarrow> i < N \<longrightarrow> name (draw i) \<notin> rc_consumed c)"

lemma unused_later: "unused draw n N name c \<Longrightarrow> n \<le> m \<Longrightarrow> unused draw m N name c"
  by (auto simp: unused_def)

lemma consume_unused:
  assumes "unused draw n N name c" "inj_on draw {..< N}" "inj name"
    and "name (draw i) \<notin> rc_consumed c" "i < N" "i < m" "n \<le> m"
  obtains d where "consume (name (draw i)) c = (Inr (), d)" "unused draw m N name d"
proof -
  obtain d where d: "consume (name (draw i)) c = (Inr (), d)" "reliable d" "rc_consumed d = insert (name (draw i)) (rc_consumed c)"
    using consume_reliable assms(1,4) unfolding unused_def by blast
  have "name (draw j) \<noteq> name (draw i)" if "m \<le> j" "j < N" for j
  proof -
    have "draw j \<noteq> draw i" using assms(2,5,6) that by (auto dest: inj_onD)
    then show ?thesis using assms(3) by (simp add: inj_eq)
  qed
  then have "unused draw m N name d" using d(2,3) assms(1,7) by (auto simp: unused_def)
  with d(1) show thesis by (rule that)
qed

lemma exchange_works:
  assumes "cbor_ok K" "cose_ok K" "working_signer K signer" "trusts trust signer"
    and "pc_issuer claims = ik_key_id signer" "pc_recipient claims = recipient"
    and "pc_issued_at_s claims = now_s" "length (pc_nonce claims) = 32"
    and "consume (pc_nonce claims) c = (Inr (), d)"
  shows "exchange K claims signer trust recipient now_s c = (Inr \<lparr>ve_signer = ik_key_id signer, ve_claims = claims\<rparr>, d)"
proof -
  obtain encoded where enc: "sign_envelope K claims signer = Inr encoded"
    using sign_envelope_works [OF assms(1-3,5)] by blast
  have h: "honest_signer K signer" using assms(3) by (simp add: working_signer_def)
  have "authentic_envelope K encoded trust (pc_recipient claims) now_s max_clock_skew_s
      \<lparr>ve_signer = ik_key_id signer, ve_claims = claims\<rparr>"
    by (rule sign_envelope_authentic [where trust = trust, OF assms(1,2) h enc])
       (use assms in \<open>simp_all add: trusts_def max_clock_skew_s_def\<close>)
  then have "verify_envelope K encoded trust recipient now_s max_clock_skew_s c =
     (Inr \<lparr>ve_signer = ik_key_id signer, ve_claims = claims\<rparr>, d)"
    unfolding verify_envelope_Inr using assms(6,9) by simp
  then show ?thesis by (auto simp: exchange_Inr enc)
qed

section \<open>Fresh randomness\<close>

text \<open>The first \<open>N\<close> calls of the random source deliver distinct bytes, and the caches have seen none of
  those that are still to come: neither as nonces nor in the identifiers of consumed grants.\<close>

definition fresh_source :: "nat \<Rightarrow> ('p, 'b) access_engine \<Rightarrow> bool" where
  "fresh_source N s \<longleftrightarrow> (\<forall>i < N. \<exists>bs. ae_random_source s i = Inr bs) \<and> inj_on (drawn s) {..< N}"

definition fresh_caches :: "'p crates \<Rightarrow> nat \<Rightarrow> ('p, 'b) access_engine \<Rightarrow> bool" where
  "fresh_caches K N s \<longleftrightarrow>
     unused (drawn s) (ae_random_calls s) N id (ae_station_replay s)
     \<and> unused (drawn s) (ae_random_calls s) N id (ae_chaser_replay s)
     \<and> unused (drawn s) (ae_random_calls s) N id (ae_gate_replay s)
     \<and> unused (drawn s) (ae_random_calls s) N (\<lambda>b. as_bytes (grant_name K b)) (ae_consumed_grants s)"

lemma drawn_setup: "setup_of t = setup_of s \<Longrightarrow> drawn t = drawn s"
  by (simp add: drawn_def setup_of_def fun_eq_iff)

lemma random_nonce_works:
  assumes "fresh_source N s" "ae_random_calls s < N"
  shows "random_nonce s = (Inr (drawn s (ae_random_calls s)), s\<lparr>ae_random_calls := Suc (ae_random_calls s)\<rparr>)"
    and "length (drawn s (ae_random_calls s)) = 32"
  using assms by (auto simp: fresh_source_def random_nonce_def drawn_def Let_def split: sum.splits)

definition ready :: "'p crates \<Rightarrow> nat \<Rightarrow> ('p, 'b) access_engine \<Rightarrow> bool" where
  "ready K N s \<longleftrightarrow> honest_parties K s \<and> fresh_source N s \<and> fresh_caches K N s"

lemma ready_update:
  assumes "ready K N s" "setup_of t = setup_of s"
    and "fresh_caches K N t"
  shows "ready K N t"
proof -
  have "honest_parties K t" using assms(1,2) honest_parties_setup unfolding ready_def by blast
  moreover have "fresh_source N t"
    using assms(1,2) drawn_setup [OF assms(2)] by (simp add: ready_def fresh_source_def setup_of_def)
  ultimately show ?thesis using assms(3) by (simp add: ready_def)
qed

lemma drawn_simps [simp]:
  "drawn (s\<lparr>ae_station_replay := c\<rparr>) = drawn s" "drawn (s\<lparr>ae_chaser_replay := c\<rparr>) = drawn s"
  "drawn (s\<lparr>ae_gate_replay := c\<rparr>) = drawn s" "drawn (s\<lparr>ae_consumed_grants := c\<rparr>) = drawn s"
  "drawn (s\<lparr>ae_pending_entitlements := p\<rparr>) = drawn s" "drawn (s\<lparr>ae_holder_proof_at_s := h\<rparr>) = drawn s"
  "drawn (s\<lparr>ae_verified_credentials := e\<rparr>) = drawn s" "drawn (s\<lparr>ae_authorization := a\<rparr>) = drawn s"
  "drawn (s\<lparr>ae_session_id := i\<rparr>) = drawn s" "drawn (s\<lparr>ae_scenario := x\<rparr>) = drawn s" "drawn (reset s) = drawn s"
  "drawn (s\<lparr>ae_state := st\<rparr>) = drawn s" "drawn (s\<lparr>ae_random_calls := n\<rparr>) = drawn s"
  by (simp_all add: drawn_def fun_eq_iff reset_def)

lemma ready_calls:
  assumes "ready K N s" "ae_random_calls s \<le> n"
  shows "ready K N (s\<lparr>ae_random_calls := n\<rparr>)"
  by (rule ready_update [OF assms(1)])
     (use assms in \<open>auto simp: setup_of_def ready_def fresh_caches_def intro: unused_later\<close>)

lemma ready_caches:
  assumes "ready K N s"
  shows "unused (drawn s) (ae_random_calls s) N id c \<Longrightarrow> ready K N (s\<lparr>ae_station_replay := c\<rparr>)"
    "unused (drawn s) (ae_random_calls s) N id c \<Longrightarrow> ready K N (s\<lparr>ae_chaser_replay := c\<rparr>)"
    "unused (drawn s) (ae_random_calls s) N id c \<Longrightarrow> ready K N (s\<lparr>ae_gate_replay := c\<rparr>)"
    "unused (drawn s) (ae_random_calls s) N (\<lambda>b. as_bytes (grant_name K b)) c \<Longrightarrow> ready K N (s\<lparr>ae_consumed_grants := c\<rparr>)"
  by (rule ready_update [OF assms]; use assms in \<open>auto simp: setup_of_def ready_def fresh_caches_def\<close>)+

lemma ready_other:
  assumes "ready K N s"
  shows "ready K N (s\<lparr>ae_pending_entitlements := p\<rparr>)" "ready K N (s\<lparr>ae_holder_proof_at_s := h\<rparr>)"
    "ready K N (s\<lparr>ae_state := st\<rparr>)"
  by (rule ready_update [OF assms]; use assms in \<open>auto simp: setup_of_def ready_def fresh_caches_def\<close>)+

text \<open>A nonce drawn now goes into a cache that is unused so far.\<close>

lemma consume_draw:
  assumes "ready K N s" "ae_random_calls s \<le> i" "i < N" "unused (drawn s) (ae_random_calls s) N id c"
  obtains d where "consume (drawn s i) c = (Inr (), d)" "unused (drawn s) (Suc i) N id d"
  using consume_unused [OF assms(4), of i "Suc i"] assms by (auto simp: ready_def fresh_source_def unused_def)

lemma station_receives_works:
  assumes "ready K N s" "ae_random_calls s \<le> i" "i < N"
    and "pc_issuer claims = ik_key_id (ae_chaser s)" "pc_recipient claims = ik_key_id (ae_station s)"
    and "pc_issued_at_s claims = now_s" "pc_nonce claims = drawn s i"
  shows "\<exists>t. station_receives K claims now_s (s\<lparr>ae_random_calls := Suc i\<rparr>)
       = (Inr \<lparr>ve_signer = ik_key_id (ae_chaser s), ve_claims = claims\<rparr>, t)
     \<and> exchanged s t \<and> ready K N t \<and> ae_random_calls t = Suc i"
proof -
  let ?c = "ae_station_replay s"
  have "length (drawn s i) = 32" using assms(1,3) by (auto simp: ready_def fresh_source_def drawn_def)
  moreover obtain d where d: "consume (drawn s i) ?c = (Inr (), d)" "unused (drawn s) (Suc i) N id d"
    using consume_draw [OF assms(1-3), of ?c] assms(1) unfolding ready_def fresh_caches_def by blast
  ultimately have "exchange K claims (ae_chaser s) (ae_station_peer_trust s) (ik_key_id (ae_station s)) now_s ?c =
      (Inr \<lparr>ve_signer = ik_key_id (ae_chaser s), ve_claims = claims\<rparr>, d)"
    using exchange_works [of K "ae_chaser s" "ae_station_peer_trust s" claims "ik_key_id (ae_station s)" now_s ?c d] assms
    by (simp add: ready_def honest_parties_def)
  moreover have "ready K N (s\<lparr>ae_random_calls := Suc i, ae_station_replay := d\<rparr>)"
    using ready_caches(1) [OF ready_calls [OF assms(1), of "Suc i"], of d] assms(2) d(2) by simp
  ultimately show ?thesis
    using assms(2) by (simp add: station_receives_def on_field_def exchanged_def)
qed

lemma chaser_receives_works:
  assumes "ready K N s" "ae_random_calls s \<le> i" "i < N"
    and "pc_issuer claims = ik_key_id (ae_station s)" "pc_recipient claims = ik_key_id (ae_chaser s)"
    and "pc_issued_at_s claims = now_s" "pc_nonce claims = drawn s i"
  shows "\<exists>t. chaser_receives K claims now_s (s\<lparr>ae_random_calls := Suc i\<rparr>)
       = (Inr \<lparr>ve_signer = ik_key_id (ae_station s), ve_claims = claims\<rparr>, t)
     \<and> exchanged s t \<and> ready K N t \<and> ae_random_calls t = Suc i"
proof -
  let ?c = "ae_chaser_replay s"
  have "length (drawn s i) = 32" using assms(1,3) by (auto simp: ready_def fresh_source_def drawn_def)
  moreover obtain d where d: "consume (drawn s i) ?c = (Inr (), d)" "unused (drawn s) (Suc i) N id d"
    using consume_draw [OF assms(1-3), of ?c] assms(1) unfolding ready_def fresh_caches_def by blast
  ultimately have "exchange K claims (ae_station s) (ae_chaser_peer_trust s) (ik_key_id (ae_chaser s)) now_s ?c =
      (Inr \<lparr>ve_signer = ik_key_id (ae_station s), ve_claims = claims\<rparr>, d)"
    using exchange_works [of K "ae_station s" "ae_chaser_peer_trust s" claims "ik_key_id (ae_chaser s)" now_s ?c d] assms
    by (simp add: ready_def honest_parties_def)
  moreover have "ready K N (s\<lparr>ae_random_calls := Suc i, ae_chaser_replay := d\<rparr>)"
    using ready_caches(2) [OF ready_calls [OF assms(1), of "Suc i"], of d] assms(2) d(2) by simp
  ultimately show ?thesis
    using assms(2) by (simp add: chaser_receives_def on_field_def exchanged_def)
qed

lemma ready_random_nonce:
  assumes "ready K N s" "ae_random_calls s \<le> i" "i < N"
  shows "random_nonce (s\<lparr>ae_random_calls := i\<rparr>) = (Inr (drawn s i), s\<lparr>ae_random_calls := Suc i\<rparr>)"
  using random_nonce_works [of N "s\<lparr>ae_random_calls := i\<rparr>"] ready_calls [OF assms(1,2)] assms(3)
  by (simp add: ready_def)

lemma session_offer_works:
  assumes "ready K N s" "ae_random_calls s + 2 \<le> N"
  shows "\<exists>challenge nonce t. session_offer K session_id now_s s =
       (Inr (challenge, \<lparr>ve_signer = ik_key_id (ae_station s), ve_claims = offer_claims (ik_key_id (ae_station s))
          (ik_key_id (ae_chaser s)) now_s nonce session_id challenge\<rparr>), t)
     \<and> exchanged s t \<and> ready K N t \<and> ae_random_calls t = ae_random_calls s + 2"
proof -
  define n where "n = ae_random_calls s"
  have r0: "random_nonce s = (Inr (drawn s n), s\<lparr>ae_random_calls := Suc n\<rparr>)"
    using ready_random_nonce [OF assms(1), of n] assms(2) by (simp add: n_def)
  have r1: "random_nonce (s\<lparr>ae_random_calls := Suc n\<rparr>) = (Inr (drawn s (Suc n)), s\<lparr>ae_random_calls := Suc (Suc n)\<rparr>)"
    using ready_random_nonce [OF assms(1), of "Suc n"] assms(2) by (simp add: n_def)
  let ?claims = "offer_claims (ik_key_id (ae_station s)) (ik_key_id (ae_chaser s)) now_s (drawn s (Suc n)) session_id (drawn s n)"
  obtain t where "chaser_receives K ?claims now_s (s\<lparr>ae_random_calls := Suc (Suc n)\<rparr>)
       = (Inr \<lparr>ve_signer = ik_key_id (ae_station s), ve_claims = ?claims\<rparr>, t)"
     "exchanged s t" "ready K N t" "ae_random_calls t = Suc (Suc n)"
    using chaser_receives_works [OF assms(1), of "Suc n" ?claims now_s] assms(2)
    by (auto simp: n_def offer_claims_def request_claims_def)
  then show ?thesis
    by (auto simp: session_offer_def and_then_def r0 r1 ret_def simp flip: n_def)
qed

lemma session_proof_works:
  assumes "ready K N s" "ae_random_calls s < N"
  shows "\<exists>nonce t. session_proof K session_id challenge credentials now_s s =
       (Inr \<lparr>ve_signer = ik_key_id (ae_chaser s), ve_claims = proof_claims (ik_key_id (ae_chaser s))
          (ik_key_id (ae_station s)) now_s nonce session_id challenge credentials\<rparr>, t)
     \<and> exchanged s t \<and> ready K N t \<and> ae_random_calls t = ae_random_calls s + 1"
proof -
  define n where "n = ae_random_calls s"
  have r0: "random_nonce s = (Inr (drawn s n), s\<lparr>ae_random_calls := Suc n\<rparr>)"
    using ready_random_nonce [OF assms(1), of n] assms(2) by (simp add: n_def)
  let ?claims = "proof_claims (ik_key_id (ae_chaser s)) (ik_key_id (ae_station s)) now_s (drawn s n) session_id
      challenge credentials"
  obtain t where "station_receives K ?claims now_s (s\<lparr>ae_random_calls := Suc n\<rparr>)
       = (Inr \<lparr>ve_signer = ik_key_id (ae_chaser s), ve_claims = ?claims\<rparr>, t)"
     "exchanged s t" "ready K N t" "ae_random_calls t = Suc n"
    using station_receives_works [OF assms(1), of n ?claims now_s] assms(2)
    by (auto simp: n_def proof_claims_def request_claims_def)
  then show ?thesis
    by (auto simp: session_proof_def and_then_def r0 simp flip: n_def)
qed

lemma access_request_works:
  assumes "ready K N s" "ae_random_calls s < N"
  shows "\<exists>nonce t. access_request K now_s s =
       (Inr \<lparr>ve_signer = ik_key_id (ae_chaser s), ve_claims = request_claims (ik_key_id (ae_chaser s))
          (ik_key_id (ae_station s)) now_s nonce\<rparr>, t)
     \<and> exchanged s t \<and> ready K N t \<and> ae_random_calls t = ae_random_calls s + 1"
proof -
  define n where "n = ae_random_calls s"
  have r0: "random_nonce s = (Inr (drawn s n), s\<lparr>ae_random_calls := Suc n\<rparr>)"
    using ready_random_nonce [OF assms(1), of n] assms(2) by (simp add: n_def)
  let ?claims = "request_claims (ik_key_id (ae_chaser s)) (ik_key_id (ae_station s)) now_s (drawn s n)"
  obtain t where "station_receives K ?claims now_s (s\<lparr>ae_random_calls := Suc n\<rparr>)
       = (Inr \<lparr>ve_signer = ik_key_id (ae_chaser s), ve_claims = ?claims\<rparr>, t)"
     "exchanged s t" "ready K N t" "ae_random_calls t = Suc n"
    using station_receives_works [OF assms(1), of n ?claims now_s] assms(2)
    by (auto simp: n_def request_claims_def)
  then show ?thesis
    by (auto simp: access_request_def and_then_def r0 simp flip: n_def)
qed

lemma binding_holds:
  "check_binding \<lparr>ve_signer = a, ve_claims = proof_claims i r n nonce session_id challenge credentials\<rparr>
     \<lparr>ve_signer = b, ve_claims = offer_claims i' r' n' nonce' session_id challenge\<rparr> s = (Inr (), s)"
  by (simp add: check_binding_def proof_claims_def offer_claims_def request_claims_def ret_def)

section \<open>A granted request\<close>

lemma issue_grant_works:
  assumes "ready K N s" "ae_random_calls s + 2 \<le> N"
  shows "\<exists>out t. issue_grant K previous stage session_id q now_s rule decision s = (Inr out, t)
     \<and> ready K N t \<and> ae_random_calls t = ae_random_calls s + 2"
proof -
  define n where "n = ae_random_calls s"
  have r0: "random_nonce s = (Inr (drawn s n), s\<lparr>ae_random_calls := Suc n\<rparr>)"
    using ready_random_nonce [OF assms(1), of n] assms(2) by (simp add: n_def)
  have r1: "random_nonce (s\<lparr>ae_random_calls := Suc n\<rparr>) = (Inr (drawn s (Suc n)), s\<lparr>ae_random_calls := Suc (Suc n)\<rparr>)"
    using ready_random_nonce [OF assms(1), of "Suc n"] assms(2) by (simp add: n_def)
  let ?claims = "grant_claims (ik_key_id (ae_station s)) (ik_key_id (ae_chaser s)) now_s (drawn s (Suc n)) session_id
      stage (grant_name K (drawn s n)) (saturating_add now_s (rd_entitlement_ttl_s rule)) rule (ad_policy decision)"
  obtain encoded where "sign_envelope K ?claims (ae_station s) = Inr encoded"
    using sign_envelope_works [of K "ae_station s" ?claims] assms(1)
    by (auto simp: ready_def honest_parties_def grant_claims_def request_claims_def)
  moreover have "ready K N (s\<lparr>ae_random_calls := Suc (Suc n), ae_pending_entitlements := p\<rparr>)" for p
    by (rule ready_other(1), rule ready_calls [OF assms(1)]) (simp add: n_def)
  ultimately show ?thesis
    by (simp add: issue_grant_def and_then_def r0 r1 Let_def try_with_def update_state_def flip: n_def)
qed

text \<open>With a session and the right stage, a request gets to its decision, with a fresh proof.\<close>

lemma request_reaches_decision:
  assumes "ready K N s" "ae_random_calls s + 3 \<le> N" "ae_session_id s = Some session_id"
    and "transition_for (ae_state s) q = Some (event_kind, stage)"
  obtains w where "request_transition K q now_s readiness s =
      decide_transition K (state_number (ae_state s)) stage session_id q now_s readiness w"
    "proved s now_s w" "ready K N w" "ae_random_calls w = ae_random_calls s + 3"
proof -
  have le: "ae_random_calls s + 2 \<le> N" using assms(2) by simp
  obtain challenge nonce u where offer: "session_offer K session_id now_s s =
       (Inr (challenge, \<lparr>ve_signer = ik_key_id (ae_station s), ve_claims = offer_claims (ik_key_id (ae_station s))
          (ik_key_id (ae_chaser s)) now_s nonce session_id challenge\<rparr>), u)"
     and u: "exchanged s u" "ready K N u" "ae_random_calls u = ae_random_calls s + 2"
    using session_offer_works [OF assms(1) le] by blast
  obtain nonce' v where proof': "session_proof K session_id challenge [] now_s u =
       (Inr \<lparr>ve_signer = ik_key_id (ae_chaser u), ve_claims = proof_claims (ik_key_id (ae_chaser u))
          (ik_key_id (ae_station u)) now_s nonce' session_id challenge []\<rparr>, v)"
     and v: "exchanged u v" "ready K N v" "ae_random_calls v = ae_random_calls u + 1"
    using session_proof_works [OF u(2)] u(3) assms(2) by fastforce
  let ?w = "v\<lparr>ae_holder_proof_at_s := Some now_s\<rparr>"
  have sv: "exchanged s v" using u(1) v(1) by (rule exchanged_trans)
  have w: "proved s now_s ?w" "ready K N ?w"
    using refreshed_holder_update [OF refreshed_exchanged [OF refreshed_refl sv]] ready_other(2) [OF v(2)]
    by (simp_all add: proved_def)
  have "request_transition K q now_s readiness s =
      decide_transition K (state_number (ae_state s)) stage session_id q now_s readiness ?w"
    by (simp add: request_transition_cases assms(3,4) proof_and_decision_def and_then_def offer proof' binding_holds
        update_state_def)
  then show thesis using that w u(3) v(3) by simp
qed

lemma request_works:
  assumes "ready K N s" "ae_random_calls s + 5 \<le> N" "ae_session_id s = Some session_id"
    and "transition_for (ae_state s) q = Some (event_kind, stage)"
    and "transition_names (ae_state s) q = Some (from_stage, to_stage)"
    and "evaluate_profile K (s\<lparr>ae_holder_proof_at_s := Some now_s\<rparr>) from_stage to_stage now_s readiness = Inr rule"
    and "authorize_rule K (s\<lparr>ae_holder_proof_at_s := Some now_s\<rparr>) (rd_rule_id rule) now_s readiness = Inr decision"
  shows "\<exists>out t. request_transition K q now_s readiness s = (Inr out, t)
     \<and> issued K s stage session_id q now_s rule decision out t \<and> ready K N t
     \<and> ae_random_calls t = ae_random_calls s + 5"
proof -
  have le: "ae_random_calls s + 3 \<le> N" using assms(2) by simp
  obtain w where run: "request_transition K q now_s readiness s =
      decide_transition K (state_number (ae_state s)) stage session_id q now_s readiness w"
    and w: "proved s now_s w" "ready K N w" "ae_random_calls w = ae_random_calls s + 3"
    by (rule request_reaches_decision [OF assms(1) le assms(3,4)])
  obtain out t where grant: "issue_grant K (state_number (ae_state s)) stage session_id q now_s rule decision w = (Inr out, t)"
     and t: "ready K N t" "ae_random_calls t = ae_random_calls w + 2"
    using issue_grant_works [OF w(2)] w(3) assms(2) by fastforce
  have state: "ae_state w = ae_state s" using w(1) by (simp add: proved_def refreshed_fields)
  have "issued K s stage session_id q now_s rule decision out t"
    using tripleD_Inr [OF issue_grant_triple w(1) grant] .
  moreover have "decide_transition K (state_number (ae_state s)) stage session_id q now_s readiness w = (Inr out, t)"
    unfolding decide_transition_def evaluate_profile_proved [OF w(1)] authorize_rule_proved [OF w(1)]
    using state assms(5-7) grant by simp
  ultimately show ?thesis using t w(3) by (simp add: run)
qed

text \<open>A request the policy refuses is answered with the denial; the fresh proof stays.\<close>

lemma request_refused:
  assumes "ready K N s" "ae_random_calls s + 3 \<le> N" "ae_session_id s = Some session_id"
    and "transition_for (ae_state s) q = Some (event_kind, stage)"
    and "transition_names (ae_state s) q = Some (from_stage, to_stage)"
    and "evaluate_profile K (s\<lparr>ae_holder_proof_at_s := Some now_s\<rparr>) from_stage to_stage now_s readiness = Inr rule"
    and "authorize_rule K (s\<lparr>ae_holder_proof_at_s := Some now_s\<rparr>) (rd_rule_id rule) now_s readiness = Inl e"
  shows "\<exists>w. request_transition K q now_s readiness s =
      (Inr (policy_denial w (state_number (ae_state s)) session_id rule e), w) \<and> proved s now_s w \<and> ready K N w"
proof -
  obtain w where run: "request_transition K q now_s readiness s =
      decide_transition K (state_number (ae_state s)) stage session_id q now_s readiness w"
    and w: "proved s now_s w" "ready K N w"
    by (rule request_reaches_decision [OF assms(1-4)])
  have state: "ae_state w = ae_state s" using w(1) by (simp add: proved_def refreshed_fields)
  have "decide_transition K (state_number (ae_state s)) stage session_id q now_s readiness w
      = (Inr (policy_denial w (state_number (ae_state s)) session_id rule e), w)"
    unfolding decide_transition_def evaluate_profile_proved [OF w(1)] authorize_rule_proved [OF w(1)]
    using state assms(5-7) by (simp add: ret_def)
  then show ?thesis using w by (simp add: run)
qed

section \<open>Redeeming what was granted\<close>

lemma evaluate_profile_unique:
  assumes "evaluate_profile K s from_stage to_stage now_s r = Inr rule"
    and "evaluate_profile K t from_stage to_stage now_s' r' = Inr rule'" "ae_config t = ae_config s"
  shows "rule' = rule"
  using assms by (auto simp: evaluate_profile_def evaluate_Inr)

lemma transition_reduces:
  assumes "transition_for state q = Some (event_kind, stage)"
  shows "\<exists>state'. reduce state event_kind \<lparr>identity_verified = True, session_authorized = True,
            docking_authorized = (stage = StageHardDock)\<rparr> = Inr state' \<and> state_number state' = q"
  using assms by (auto simp: transition_for_def reduce_def split: if_splits)

lemma grant_bound_claims:
  "grant_bound (grant_claims i r n nonce session_id stage g e rule (ad_policy decision))
     \<lparr>pn_requested_state = q, pn_authorization_decision = decision\<rparr> rule"
  by (simp add: grant_bound_def grant_claims_def request_claims_def Let_def)

lemma grant_matches_claims:
  "sint now_s \<le> sint e \<Longrightarrow>
     grant_matches (grant_claims i r n nonce session_id stage g e rule policy)
       \<lparr>pn_requested_state = q, pn_authorization_decision = decision\<rparr> q session_id stage now_s"
  by (simp add: grant_matches_def grant_claims_def request_claims_def)

lemma grant_claims_fields [simp]:
  "pc_recipient (grant_claims i r n nonce session_id stage g e rule policy) = r"
  "pc_issued_at_s (grant_claims i r n nonce session_id stage g e rule policy) = n"
  "pc_nonce (grant_claims i r n nonce session_id stage g e rule policy) = nonce"
  "pc_grant_id (grant_claims i r n nonce session_id stage g e rule policy) = Some g"
  by (simp_all add: grant_claims_def request_claims_def)

text \<open>The two caches of the gate take two numbers drawn since.\<close>

lemma gate_caches_take:
  assumes "ready K N s" "fresh_draw s t ident" "fresh_draw s t nonce" "ae_random_calls t \<le> N"
  obtains gate grants where "consume nonce (ae_gate_replay s) = (Inr (), gate)"
    "consume (as_bytes (grant_name K ident)) (ae_consumed_grants s) = (Inr (), grants)"
    "unused (drawn s) (ae_random_calls t) N id gate"
    "unused (drawn s) (ae_random_calls t) N (\<lambda>b. as_bytes (grant_name K b)) grants"
proof -
  have caches: "unused (drawn s) (ae_random_calls s) N id (ae_gate_replay s)"
      "unused (drawn s) (ae_random_calls s) N (\<lambda>b. as_bytes (grant_name K b)) (ae_consumed_grants s)"
      "inj_on (drawn s) {..< N}" "inj (\<lambda>b. as_bytes (grant_name K b))"
    using assms(1) by (auto simp: ready_def honest_parties_def fresh_source_def fresh_caches_def inj_def hex_encode_inject)
  obtain i j where i: "ae_random_calls s \<le> i" "i < ae_random_calls t" "nonce = drawn s i"
      and j: "ae_random_calls s \<le> j" "j < ae_random_calls t" "ident = drawn s j"
    using assms(2,3) unfolding fresh_draw_def by blast
  have le: "i < N" "j < N" "ae_random_calls s \<le> ae_random_calls t" using i(1,2) j(2) assms(4) by simp_all
  obtain gate where "consume nonce (ae_gate_replay s) = (Inr (), gate)" "unused (drawn s) (ae_random_calls t) N id gate"
    using consume_unused [OF caches(1,3), of i "ae_random_calls t"] caches(1) i le by (auto simp: unused_def)
  moreover obtain grants where "consume (as_bytes (grant_name K ident)) (ae_consumed_grants s) = (Inr (), grants)"
      "unused (drawn s) (ae_random_calls t) N (\<lambda>b. as_bytes (grant_name K b)) grants"
    using consume_unused [OF caches(2-4), of j "ae_random_calls t"] caches(2) j le by (auto simp: unused_def)
  ultimately show thesis using that by blast
qed

text \<open>The state in which a grant is pending, with the claims that were signed for it.\<close>

lemma issued_pending:
  assumes "issued K s stage session_id q now_s rule decision out t" "ae_session_id s = Some session_id"
    and "out_signed_grant_hex out = Some grant_hex"
  obtains ident nonce encoded where
    "fresh_draw s t ident" "fresh_draw s t nonce" "grant_hex = hex_encode K encoded"
    "sign_envelope K (grant_claims (ik_key_id (ae_station s)) (ik_key_id (ae_chaser s)) now_s nonce session_id
       stage (grant_name K ident) (saturating_add now_s (rd_entitlement_ttl_s rule)) rule (ad_policy decision)) (ae_station s)
     = Inr encoded"
    "ae_pending_entitlements t (grant_name K ident) = Some \<lparr>pn_requested_state = q, pn_authorization_decision = decision\<rparr>"
    "ae_state t = ae_state s" "ae_session_id t = Some session_id" "setup_of t = setup_of s"
    "ae_gate_replay t = ae_gate_replay s" "ae_consumed_grants t = ae_consumed_grants s"
proof -
  let ?e = "saturating_add now_s (rd_entitlement_ttl_s rule)"
  obtain v ident nonce encoded where v: "proved s now_s v" and fresh: "fresh_draw s t ident" "fresh_draw s t nonce"
    and t: "t = v\<lparr>ae_pending_entitlements := (ae_pending_entitlements s)(grant_name K ident \<mapsto>
             \<lparr>pn_requested_state = q, pn_authorization_decision = decision\<rparr>)\<rparr>"
    and enc: "sign_envelope K (grant_claims (ik_key_id (ae_station s)) (ik_key_id (ae_chaser s)) now_s nonce session_id
             stage (grant_name K ident) ?e rule (ad_policy decision)) (ae_station s) = Inr encoded"
    and out: "out = grant_outcome K t (state_number (ae_state s)) stage session_id rule decision
             (grant_name K ident) ?e encoded"
    using assms(1) unfolding issued_def by blast
  have rv: "refreshed s v" using v by (simp add: proved_def)
  have "ae_state t = ae_state s" "ae_session_id t = Some session_id" "setup_of t = setup_of s"
      "ae_gate_replay t = ae_gate_replay s" "ae_consumed_grants t = ae_consumed_grants s"
    using refreshed_fields [OF rv] assms(2) by (simp_all add: t setup_of_def)
  moreover have "grant_hex = hex_encode K encoded" using assms(3) by (simp add: out grant_outcome_def Let_def)
  moreover have "ae_pending_entitlements t (grant_name K ident) = Some \<lparr>pn_requested_state = q, pn_authorization_decision = decision\<rparr>"
    by (simp add: t)
  ultimately show thesis using that fresh enc by blast
qed

text \<open>Presented in time, the grant passes the gate and every check on its claims.\<close>

lemma grant_presented:
  assumes "ready K N s" "issued K s stage session_id q now_s rule decision out t" "ae_random_calls t \<le> N"
    and "ready K N t" "ae_session_id s = Some session_id"
    and "\<bar>sint now_s' - sint now_s\<bar> \<le> 30" "sint now_s' \<le> sint (saturating_add now_s (rd_entitlement_ttl_s rule))"
    and "out_signed_grant_hex out = Some grant_hex"
  obtains encoded verified grant_id gate grants where
    "hex_decode K grant_hex = Inr encoded"
    "verify_envelope K encoded (ae_gate_trust t) (ik_key_id (ae_chaser t)) now_s' max_clock_skew_s (ae_gate_replay t)
       = (Inr verified, gate)"
    "pc_grant_id (ve_claims verified) = Some grant_id"
    "ae_pending_entitlements t grant_id = Some \<lparr>pn_requested_state = q, pn_authorization_decision = decision\<rparr>"
    "grant_matches (ve_claims verified) \<lparr>pn_requested_state = q, pn_authorization_decision = decision\<rparr> q session_id stage now_s'"
    "grant_bound (ve_claims verified) \<lparr>pn_requested_state = q, pn_authorization_decision = decision\<rparr> rule"
    "consume (as_bytes grant_id) (ae_consumed_grants t) = (Inr (), grants)"
    "ae_state t = ae_state s" "ae_session_id t = Some session_id"
    "\<And>pending. ready K N (t\<lparr>ae_gate_replay := gate, ae_pending_entitlements := pending\<rparr>)"
    "\<And>pending state'. ready K N (t\<lparr>ae_gate_replay := gate, ae_pending_entitlements := pending, ae_consumed_grants := grants, ae_state := state'\<rparr>)"
proof -
  let ?e = "saturating_add now_s (rd_entitlement_ttl_s rule)"
  obtain ident nonce encoded where fresh: "fresh_draw s t ident" "fresh_draw s t nonce" and hex: "grant_hex = hex_encode K encoded"
    and enc: "sign_envelope K (grant_claims (ik_key_id (ae_station s)) (ik_key_id (ae_chaser s)) now_s nonce session_id
             stage (grant_name K ident) ?e rule (ad_policy decision)) (ae_station s) = Inr encoded"
    and kept: "ae_pending_entitlements t (grant_name K ident) = Some \<lparr>pn_requested_state = q, pn_authorization_decision = decision\<rparr>"
    and t: "ae_state t = ae_state s" "ae_session_id t = Some session_id" "setup_of t = setup_of s"
      "ae_gate_replay t = ae_gate_replay s" "ae_consumed_grants t = ae_consumed_grants s"
    by (rule issued_pending [OF assms(2,5,8)])
  obtain gate grants where gate: "consume nonce (ae_gate_replay t) = (Inr (), gate)"
      and grants: "consume (as_bytes (grant_name K ident)) (ae_consumed_grants t) = (Inr (), grants)"
      and unused: "unused (drawn t) (ae_random_calls t) N id gate"
        "unused (drawn t) (ae_random_calls t) N (\<lambda>b. as_bytes (grant_name K b)) grants"
    using gate_caches_take [OF assms(1) fresh assms(3)] drawn_setup [OF t(3)] unfolding t(4,5) by metis
  let ?claims = "grant_claims (ik_key_id (ae_station s)) (ik_key_id (ae_chaser s)) now_s nonce session_id
             stage (grant_name K ident) ?e rule (ad_policy decision)"
  let ?verified = "\<lparr>ve_signer = ik_key_id (ae_station s), ve_claims = ?claims\<rparr>"
  have good: "hex_ok K" "cbor_ok K" "cose_ok K" "honest_signer K (ae_station s)" "ik_key_id (ae_chaser t) = ik_key_id (ae_chaser s)"
      "ae_gate_trust t (ik_key_id (ae_station s)) = Some (ik_verifying_key (ae_station s))"
    using assms(1) t(3) by (simp_all add: ready_def honest_parties_def working_signer_def trusts_def setup_of_def)
  have "authentic_envelope K encoded (ae_gate_trust t) (pc_recipient ?claims) now_s' max_clock_skew_s ?verified"
    by (rule sign_envelope_authentic [where trust = "ae_gate_trust t", OF good(2-4) enc good(6)])
       (use assms(6) fresh(2) in \<open>auto simp: max_clock_skew_s_def fresh_draw_def\<close>)
  then have verify: "verify_envelope K encoded (ae_gate_trust t) (ik_key_id (ae_chaser t)) now_s' max_clock_skew_s
      (ae_gate_replay t) = (Inr ?verified, gate)"
    unfolding verify_envelope_Inr by (simp add: good(5) gate)
  have claims: "hex_decode K grant_hex = Inr encoded" "pc_grant_id (ve_claims ?verified) = Some (grant_name K ident)"
      "grant_matches (ve_claims ?verified) \<lparr>pn_requested_state = q, pn_authorization_decision = decision\<rparr> q session_id stage now_s'"
      "grant_bound (ve_claims ?verified) \<lparr>pn_requested_state = q, pn_authorization_decision = decision\<rparr> rule"
    using good(1) grant_matches_claims [OF assms(7)] grant_bound_claims by (simp_all add: hex del: append.simps)
  have passed: "ready K N (t\<lparr>ae_gate_replay := gate, ae_pending_entitlements := pending\<rparr>)" for pending
    using ready_other(1) [OF ready_caches(3) [OF assms(4), where c = gate]] unused by simp
  moreover have "ready K N (t\<lparr>ae_gate_replay := gate, ae_pending_entitlements := pending, ae_consumed_grants := grants, ae_state := state'\<rparr>)"
    for pending state'
    using ready_other(3) [OF ready_caches(4) [OF passed, where c = grants]] unused by simp
  ultimately show thesis by (rule that [OF claims(1) verify claims(2) kept claims(3,4) grants t(1,2)])
qed

lemma redeem_works:
  assumes "ready K N s" "issued K s stage session_id q now_s rule decision out t" "ae_random_calls t \<le> N"
    and "ready K N t" "engine_ok t" "ae_session_id s = Some session_id"
    and "transition_for (ae_state s) q = Some (event_kind, stage)"
    and "transition_names (ae_state s) q = Some (from_stage, to_stage)"
    and "evaluate_profile K t from_stage to_stage now_s' readiness' = Inr rule"
    and "\<bar>sint now_s' - sint now_s\<bar> \<le> 30" "sint now_s' \<le> sint (saturating_add now_s (rd_entitlement_ttl_s rule))"
    and "out_signed_grant_hex out = Some grant_hex"
  shows "\<exists>out' u. redeem_transition K grant_hex q now_s' readiness' t = (Inr out', u)
     \<and> ready K N u \<and> state_number (ae_state u) = q \<and> ae_random_calls u = ae_random_calls t"
proof -
  let ?pending = "\<lparr>pn_requested_state = q, pn_authorization_decision = decision\<rparr>"
  obtain encoded verified grant_id gate grants where gate:
    "hex_decode K grant_hex = Inr encoded"
    "verify_envelope K encoded (ae_gate_trust t) (ik_key_id (ae_chaser t)) now_s' max_clock_skew_s (ae_gate_replay t)
       = (Inr verified, gate)"
    "pc_grant_id (ve_claims verified) = Some grant_id" "ae_pending_entitlements t grant_id = Some ?pending"
    "grant_matches (ve_claims verified) ?pending q session_id stage now_s'" "grant_bound (ve_claims verified) ?pending rule"
    "consume (as_bytes grant_id) (ae_consumed_grants t) = (Inr (), grants)"
    and t: "ae_state t = ae_state s" "ae_session_id t = Some session_id"
    and rdy: "\<And>pending state'. ready K N (t\<lparr>ae_gate_replay := gate, ae_pending_entitlements := pending, ae_consumed_grants := grants, ae_state := state'\<rparr>)"
    by (rule grant_presented [OF assms(1-4,6,10-12)]) blast
  have auth: "identity_verified (ae_authorization t)" "session_authorized (ae_authorization t)"
    using assms(5) t(2) by (auto simp: engine_ok_def)
  obtain state' where state': "reduce (ae_state t) event_kind \<lparr>identity_verified = True, session_authorized = True,
            docking_authorized = (stage = StageHardDock)\<rparr> = Inr state'" "state_number state' = q"
    using transition_reduces [OF assms(7)] t(1) by auto
  let ?u = "t\<lparr>ae_gate_replay := gate, ae_pending_entitlements := (ae_pending_entitlements t)(grant_id := None),
               ae_consumed_grants := grants, ae_state := state'\<rparr>"
  have steps: "transition_for (ae_state t) q = Some (event_kind, stage)"
      "transition_names (ae_state t) q = Some (from_stage, to_stage)"
      "reduce (ae_state t) event_kind \<lparr>identity_verified = identity_verified (ae_authorization t),
         session_authorized = session_authorized (ae_authorization t), docking_authorized = (stage = StageHardDock)\<rparr> = Inr state'"
    using assms(7,8) state'(1) auth by (simp_all add: t(1))
  have "redeem_transition K grant_hex q now_s' readiness' t = (Inr (redeemed_outcome ?u (state_number (ae_state t)) session_id rule
      grant_id (ve_claims verified) grant_hex decision), ?u)"
    unfolding redeem_Inr
    by (intro exI conjI, rule steps(1), rule t(2), rule gate(1), rule gate(2), rule gate(3), rule gate(4),
        rule gate(5), rule steps(2), rule assms(9), rule gate(6), rule gate(7), rule steps(3), rule refl, simp)
  with rdy state'(2) show ?thesis by auto
qed

text \<open>When the profile refuses the transition by then, the entitlement is gone and nothing else has changed.\<close>

lemma redeem_refused:
  assumes "ready K N s" "issued K s stage session_id q now_s rule decision out t" "ae_random_calls t \<le> N"
    and "ready K N t" "ae_session_id s = Some session_id"
    and "transition_for (ae_state s) q = Some (event_kind, stage)"
    and "transition_names (ae_state s) q = Some (from_stage, to_stage)"
    and "evaluate_profile K t from_stage to_stage now_s' readiness' = Inl e"
    and "\<bar>sint now_s' - sint now_s\<bar> \<le> 30" "sint now_s' \<le> sint (saturating_add now_s (rd_entitlement_ttl_s rule))"
    and "out_signed_grant_hex out = Some grant_hex"
  obtains gate pending where "redeem_transition K grant_hex q now_s' readiness' t =
      (Inl (ProtocolProfileErr e), t\<lparr>ae_gate_replay := gate, ae_pending_entitlements := pending\<rparr>)"
    "ready K N (t\<lparr>ae_gate_replay := gate, ae_pending_entitlements := pending\<rparr>)"
proof -
  let ?pending = "\<lparr>pn_requested_state = q, pn_authorization_decision = decision\<rparr>"
  obtain encoded verified grant_id gate grants where gate:
    "hex_decode K grant_hex = Inr encoded"
    "verify_envelope K encoded (ae_gate_trust t) (ik_key_id (ae_chaser t)) now_s' max_clock_skew_s (ae_gate_replay t)
       = (Inr verified, gate)"
    "pc_grant_id (ve_claims verified) = Some grant_id" "ae_pending_entitlements t grant_id = Some ?pending"
    "grant_matches (ve_claims verified) ?pending q session_id stage now_s'" "grant_bound (ve_claims verified) ?pending rule"
    "consume (as_bytes grant_id) (ae_consumed_grants t) = (Inr (), grants)"
    and t: "ae_state t = ae_state s" "ae_session_id t = Some session_id"
    and rdy: "\<And>pending. ready K N (t\<lparr>ae_gate_replay := gate, ae_pending_entitlements := pending\<rparr>)"
    by (rule grant_presented [OF assms(1-5,9-11)]) blast
  have "evaluate_profile K (t\<lparr>ae_gate_replay := gate, ae_pending_entitlements := p\<rparr>) from_stage to_stage now_s' readiness' = Inl e" for p
    using assms(8) by (simp add: evaluate_profile_def)
  then have "redeem_transition K grant_hex q now_s' readiness' t = (Inl (ProtocolProfileErr e),
      t\<lparr>ae_gate_replay := gate, ae_pending_entitlements := (ae_pending_entitlements t)(grant_id := None)\<rparr>)"
    using assms(6,7) gate t
    by (simp add: redeem_transition_def and_then_def try_with_def gate_receives_def on_field_def take_pending_def ret_def)
  then show thesis using that rdy by blast
qed

end
