(* ===== verification/Nominal.thy ===== *)
theory Nominal
  imports Honest
begin

text \<open>
  Honest runs at the level of commands: a nominal session is established, and a granted request
  is followed by a redemption that succeeds.
\<close>

section \<open>Establishing a nominal session\<close>

text \<open>The credentials the engine issues to itself, as evidence.\<close>

definition nominal_evidence :: "i64 \<Rightarrow> verified_credential_evidence list" where
  "nominal_evidence now_s =
     [\<lparr>vc_profile_id = ''registered-vehicle-v1'', vc_credential_type = ''VehicleRegistrationCredential'',
       vc_schema_id = ''space:vehicle-registration:v1'', vc_issuer_group = ''recognized-registrars'',
       vc_status_checked_at_s = now_s\<rparr>,
      \<lparr>vc_profile_id = ''idss-compatible-v1'', vc_credential_type = ''DockingCertificationCredential'',
       vc_schema_id = ''space:docking-certification:v1'', vc_issuer_group = ''recognized-docking-authorities'',
       vc_status_checked_at_s = now_s\<rparr>]"

definition clock_in_range :: "i64 \<Rightarrow> bool" where
  "clock_in_range now_s \<longleftrightarrow> i64_min + 60 \<le> sint now_s \<and> sint now_s \<le> i64_max - 86400"

lemma checked_in_range:
  "i64_min \<le> x \<Longrightarrow> x \<le> i64_max \<Longrightarrow> i64_checked K x = Inr (word_of_int x) \<and> sint (word_of_int x :: i64) = x"
  using sint_word_of_int_i64 by (auto simp: i64_checked_def)

lemma registration_claims_in_range:
  assumes "clock_in_range now_s"
  shows "\<exists>c. registration_claims K issuer subject now_s scenario = Inr c \<and> cc_issuer c = issuer \<and> cc_subject c = subject
     \<and> sint (cc_issued_at_s c) = sint now_s - 60
     \<and> sint (cc_expires_at_s c) = (if scenario = ExpiredCredential then sint now_s - 1 else sint now_s + 86400)
     \<and> credential_evidence c = nominal_evidence now_s ! 0"
  using checked_in_range [of "sint now_s - 60" K] checked_in_range [of "sint now_s - 1" K]
    checked_in_range [of "sint now_s + 86400" K] assms
  by (auto simp: registration_claims_def clock_in_range_def credential_evidence_def nominal_evidence_def)

lemma certification_claims_in_range:
  assumes "clock_in_range now_s"
  shows "\<exists>c. certification_claims K issuer subject now_s = Inr c \<and> cc_issuer c = issuer \<and> cc_subject c = subject
     \<and> sint (cc_issued_at_s c) = sint now_s - 60 \<and> sint (cc_expires_at_s c) = sint now_s + 86400
     \<and> credential_evidence c = nominal_evidence now_s ! 1"
  using checked_in_range [of "sint now_s - 60" K] checked_in_range [of "sint now_s + 86400" K] assms
  by (auto simp: certification_claims_def clock_in_range_def credential_evidence_def nominal_evidence_def)

text \<open>Two issued credentials, and what their presentation by the holder gives.\<close>

definition valid_at :: "i64 \<Rightarrow> credential_claims \<Rightarrow> bool" where
  "valid_at now_s c \<longleftrightarrow> sint (cc_issued_at_s c) \<le> sint now_s \<and> sint now_s \<le> sint (cc_expires_at_s c)"

lemma issued_credentials_verify:
  assumes "cbor_ok K" "cose_ok K" "working_signer K issuer" "trusts trust issuer"
    and "registration_claims K (ik_key_id issuer) subject now_s scenario = Inr r"
    and "certification_claims K (ik_key_id issuer) subject now_s = Inr c"
    and "cc_issuer r = ik_key_id issuer" "cc_issuer c = ik_key_id issuer" "cc_subject r = subject" "cc_subject c = subject"
  obtains credentials where "issue_credentials K issuer subject now_s scenario = Inr credentials" "credentials \<noteq> []"
    "\<And>p. ve_signer p = subject \<Longrightarrow> pc_credentials (ve_claims p) = credentials \<Longrightarrow>
       verify_presentation K trust p now_s =
         (if valid_at now_s r \<and> valid_at now_s c then Inr [credential_evidence r, credential_evidence c]
          else Inl (ProtocolErr CredentialExpired))"
proof -
  obtain er where er: "issue_credential K r issuer = Inr er"
    using issue_credential_works [OF assms(1-3,7)] by blast
  obtain ec where ec: "issue_credential K c issuer = Inr ec"
    using issue_credential_works [OF assms(1-3,8)] by blast
  have honest: "honest_signer K issuer" and tr: "trust (ik_key_id issuer) = Some (ik_verifying_key issuer)"
    using assms(3,4) by (simp_all add: working_signer_def trusts_def)
  note verify = verify_issued_credential [where trust = trust, OF assms(1,2) honest _ tr]
  show thesis
    using verify [OF er, of subject now_s] verify [OF ec, of subject now_s] assms(9,10)
    by (intro that [of "[er, ec]"])
       (auto simp: issue_credentials_def assms(5,6) er ec verify_presentation_def valid_at_def)
qed

lemma nominal_credentials_verify:
  assumes "cbor_ok K" "cose_ok K" "working_signer K issuer" "trusts trust issuer" "clock_in_range now_s"
  obtains credentials where "issue_credentials K issuer subject now_s scenario = Inr credentials" "credentials \<noteq> []"
    "\<And>p. ve_signer p = subject \<Longrightarrow> pc_credentials (ve_claims p) = credentials \<Longrightarrow>
       verify_presentation K trust p now_s =
         (if scenario = ExpiredCredential then Inl (ProtocolErr CredentialExpired) else Inr (nominal_evidence now_s))"
proof -
  obtain r where r: "registration_claims K (ik_key_id issuer) subject now_s scenario = Inr r" "cc_issuer r = ik_key_id issuer"
      "cc_subject r = subject" "sint (cc_issued_at_s r) = sint now_s - 60"
      "sint (cc_expires_at_s r) = (if scenario = ExpiredCredential then sint now_s - 1 else sint now_s + 86400)"
      "credential_evidence r = nominal_evidence now_s ! 0"
    using registration_claims_in_range [OF assms(5)] by blast
  obtain c where c: "certification_claims K (ik_key_id issuer) subject now_s = Inr c" "cc_issuer c = ik_key_id issuer"
      "cc_subject c = subject" "sint (cc_issued_at_s c) = sint now_s - 60"
      "sint (cc_expires_at_s c) = sint now_s + 86400" "credential_evidence c = nominal_evidence now_s ! 1"
    using certification_claims_in_range [OF assms(5)] by blast
  have two: "nominal_evidence now_s = [credential_evidence r, credential_evidence c]"
    by (simp add: r(6) c(6)) (simp add: nominal_evidence_def)
  show thesis
    by (rule issued_credentials_verify [OF assms(1-4) r(1) c(1) r(2) c(2) r(3) c(3)])
       (auto simp: valid_at_def r(4,5) c(4,5) two intro: that)
qed

section \<open>Clocks at the ends of the range\<close>

text \<open>What the release build does to the validity arithmetic there: it wraps around.\<close>

lemma sint_wraps:
  "- (2 ^ 63) \<le> x - 2 ^ 64 \<Longrightarrow> x - 2 ^ 64 < 2 ^ 63 \<Longrightarrow> sint (word_of_int x :: i64) = x - 2 ^ 64"
  "- (2 ^ 63) \<le> x + 2 ^ 64 \<Longrightarrow> x + 2 ^ 64 < 2 ^ 63 \<Longrightarrow> sint (word_of_int x :: i64) = x + 2 ^ 64"
proof -
  have same: "word_of_int (x - 2 ^ 64) = (word_of_int x :: i64)" "word_of_int (x + 2 ^ 64) = (word_of_int x :: i64)"
    by (simp_all only: word_of_int_eq_iff take_bit_eq_mod) simp_all
  show "- (2 ^ 63) \<le> x - 2 ^ 64 \<Longrightarrow> x - 2 ^ 64 < 2 ^ 63 \<Longrightarrow> sint (word_of_int x :: i64) = x - 2 ^ 64"
    using sint_word_of_int_i64 [of "x - 2 ^ 64", unfolded same(1)] by simp
  show "- (2 ^ 63) \<le> x + 2 ^ 64 \<Longrightarrow> x + 2 ^ 64 < 2 ^ 63 \<Longrightarrow> sint (word_of_int x :: i64) = x + 2 ^ 64"
    using sint_word_of_int_i64 [of "x + 2 ^ 64", unfolded same(2)] by simp
qed

lemma checked_claims_panic:
  assumes "overflow_checks K" "\<not> clock_in_range now_s"
  shows "issue_credentials K issuer subject now_s scenario = Inl OverflowPanic"
  using assms sint_i64_bounds [of now_s]
  by (auto simp: issue_credentials_def registration_claims_def certification_claims_def i64_checked_def clock_in_range_def
      bind_result_def split: if_splits)

lemma wrapped_claims_expired:
  assumes "\<not> overflow_checks K" "\<not> clock_in_range now_s"
  obtains r where "registration_claims K issuer subject now_s scenario = Inr r" "cc_issuer r = issuer"
    "cc_subject r = subject" "\<not> valid_at now_s r"
proof -
  have free: "i64_checked K x = Inr (word_of_int x)" for x using assms(1) by (simp add: i64_checked_def)
  have "sint (word_of_int (sint now_s - 60) :: i64) > sint now_s
     \<or> (sint (word_of_int (sint now_s + 86400) :: i64) < sint now_s \<and> sint (word_of_int (sint now_s - 1) :: i64) < sint now_s)"
  proof (cases "sint now_s < i64_min + 60")
    case True
    then show ?thesis using sint_wraps(2) [of "sint now_s - 60"] sint_i64_bounds [of now_s] by simp
  next
    case False
    then show ?thesis
      using assms(2) sint_wraps(1) [of "sint now_s + 86400"] sint_word_of_int_i64 [of "sint now_s - 1"] sint_i64_bounds [of now_s]
      by (simp add: clock_in_range_def)
  qed
  then show thesis
    by (cases "scenario = ExpiredCredential"; intro that, simp add: registration_claims_def free)
       (auto simp: valid_at_def)
qed

lemma edge_credentials_expired:
  assumes "cbor_ok K" "cose_ok K" "working_signer K issuer" "trusts trust issuer"
    and "\<not> overflow_checks K" "\<not> clock_in_range now_s"
  obtains credentials where "issue_credentials K issuer subject now_s scenario = Inr credentials" "credentials \<noteq> []"
    "\<And>p. ve_signer p = subject \<Longrightarrow> pc_credentials (ve_claims p) = credentials \<Longrightarrow>
       verify_presentation K trust p now_s = Inl (ProtocolErr CredentialExpired)"
proof -
  obtain r where r: "registration_claims K (ik_key_id issuer) subject now_s scenario = Inr r" "cc_issuer r = ik_key_id issuer"
      "cc_subject r = subject" "\<not> valid_at now_s r"
    by (rule wrapped_claims_expired [OF assms(5,6)])
  obtain c where c: "certification_claims K (ik_key_id issuer) subject now_s = Inr c" "cc_issuer c = ik_key_id issuer"
      "cc_subject c = subject"
    using assms(5) by (simp add: certification_claims_def i64_checked_def)
  show thesis
    by (rule issued_credentials_verify [OF assms(1-4) r(1) c(1) r(2) c(2) r(3) c(3)]) (auto simp: r(4) intro: that)
qed

lemma ready_reset:
  assumes "honest_parties K s" "fresh_source N s"
    and "fresh_caches K N (reset s)"
  shows "ready K N ((reset s)\<lparr>ae_scenario := scenario\<rparr>)"
proof -
  have same: "setup_of ((reset s)\<lparr>ae_scenario := scenario\<rparr>) = setup_of s"
    by (simp add: setup_of_def reset_def)
  then have "honest_parties K ((reset s)\<lparr>ae_scenario := scenario\<rparr>)"
    using assms(1) honest_parties_setup by blast
  moreover have "fresh_source N ((reset s)\<lparr>ae_scenario := scenario\<rparr>)"
    using assms(2) drawn_setup [OF same] same by (simp add: fresh_source_def setup_of_def)
  moreover have "fresh_caches K N ((reset s)\<lparr>ae_scenario := scenario\<rparr>)"
    using assms(3) by (simp add: fresh_caches_def)
  ultimately show ?thesis by (simp add: ready_def)
qed

lemma ready_authorization: "ready K N s \<Longrightarrow> ready K N (s\<lparr>ae_authorization := a\<rparr>)"
  by (rule ready_update) (auto simp: setup_of_def ready_def fresh_caches_def)

text \<open>Up to issuing the credentials, an attempt with honest parties goes through, at any clock.\<close>

definition finish_session where
  "finish_session K session_id now_s request challenge offer credentials =
     and_then (session_proof K session_id challenge credentials now_s) (\<lambda>proof.
     and_then (check_binding proof offer) (\<lambda>_.
     and_then (authorize_holder K session_id proof now_s) (\<lambda>decision s.
       (Inr \<lparr>so_session_id = session_id,
             so_protocol_profile_id = pp_profile_id (ec_protocol_profile (ae_config s)),
             so_protocol_profile_version = pp_profile_version (ec_protocol_profile (ae_config s)),
             so_authorization_decision = decision,
             so_events = session_events s session_id request decision\<rparr>, s))))"

lemma establish_reaches_credentials:
  assumes "honest_parties K s" "fresh_source N s"
    and "fresh_caches K N (reset s)"
    and "ae_random_calls s + 4 \<le> N"
  obtains session_id request challenge i r nonce signer u where
    "establish_session K now_s scenario s =
       and_then (try_with (\<lambda>_. issue_credentials K (ae_credential_issuer s) (ik_key_id (ae_chaser s)) now_s scenario))
         (finish_session K session_id now_s request challenge
            \<lparr>ve_signer = signer, ve_claims = offer_claims i r now_s nonce session_id challenge\<rparr>) u"
    "ready K N u" "setup_of u = setup_of s" "ae_random_calls u = ae_random_calls s + 4"
proof -
  let ?s0 = "(reset s)\<lparr>ae_scenario := scenario\<rparr>"
  define n where "n = ae_random_calls s"
  have s0: "ready K N ?s0" "ae_random_calls ?s0 = n" "setup_of ?s0 = setup_of s"
    using ready_reset [OF assms(1-3)] by (simp_all add: n_def reset_def setup_of_def)
  let ?s1 = "?s0\<lparr>ae_random_calls := Suc n\<rparr>"
  have r0: "random_nonce ?s0 = (Inr (drawn s n), ?s1)"
    using ready_random_nonce [OF s0(1), of n] s0(2) assms(4) by (simp add: n_def reset_def)
  have s1: "ready K N ?s1" "ae_random_calls ?s1 = Suc n" "setup_of ?s1 = setup_of s"
    using ready_calls [OF s0(1), of "Suc n"] s0(2,3) by (simp_all add: setup_of_def)
  obtain request nonce u1 where req: "access_request K now_s ?s1 = (Inr request, u1)"
    and u1: "exchanged ?s1 u1" "ready K N u1" "ae_random_calls u1 = Suc n + 1"
    using access_request_works [OF s1(1)] s1(2) assms(4) by (fastforce simp: n_def)
  let ?u2 = "u1\<lparr>ae_authorization := (ae_authorization u1)\<lparr>identity_verified := True\<rparr>\<rparr>"
  have u2: "ready K N ?u2" by (rule ready_authorization [OF u1(2)])
  define session_id where "session_id = ''access-'' @ hex_encode K (drawn s n)"
  have le: "ae_random_calls ?u2 + 2 \<le> N" using u1(3) assms(4) by (simp add: n_def)
  obtain challenge nonce' u3 where offer: "session_offer K session_id now_s ?u2 =
       (Inr (challenge, \<lparr>ve_signer = ik_key_id (ae_station ?u2), ve_claims = offer_claims (ik_key_id (ae_station ?u2))
          (ik_key_id (ae_chaser ?u2)) now_s nonce' session_id challenge\<rparr>), u3)"
     and u3: "exchanged ?u2 u3" "ready K N u3" "ae_random_calls u3 = ae_random_calls ?u2 + 2"
    using session_offer_works [OF u2 le] by blast
  have same: "setup_of u3 = setup_of s"
    using exchanged_fields [OF u1(1)] exchanged_fields [OF u3(1)] s1(3) by (simp add: setup_of_def)
  then have keys: "ae_chaser u3 = ae_chaser s" "ae_credential_issuer u3 = ae_credential_issuer s"
    by (simp_all add: setup_of_def)
  have "establish_session K now_s scenario s =
       and_then (try_with (\<lambda>_. issue_credentials K (ae_credential_issuer s) (ik_key_id (ae_chaser s)) now_s scenario))
         (finish_session K session_id now_s request challenge
            \<lparr>ve_signer = ik_key_id (ae_station ?u2), ve_claims = offer_claims (ik_key_id (ae_station ?u2))
               (ik_key_id (ae_chaser ?u2)) now_s nonce' session_id challenge\<rparr>) u3"
    using offer
    by (simp add: establish_session_def and_then_def [of "update_state _"] and_then_def [of random_nonce]
        and_then_def [of "access_request _ _"] and_then_def [of "session_offer _ _ _"] and_then_def [of "try_with _"]
        update_state_def r0 req try_with_def keys finish_session_def Let_def del: append.simps flip: session_id_def
        split: sum.split)
  moreover have "ae_random_calls u3 = ae_random_calls s + 4" using u3(3) u1(3) by (simp add: n_def)
  ultimately show thesis using that u3(2) same by blast
qed

text \<open>With credentials that were issued, the attempt goes through up to the checks of the holder's proof.\<close>

lemma establish_reaches_holder:
  assumes "honest_parties K s" "fresh_source N s"
    and "fresh_caches K N (reset s)"
    and "ae_random_calls s + 5 \<le> N"
    and "issue_credentials K (ae_credential_issuer s) (ik_key_id (ae_chaser s)) now_s scenario = Inr credentials"
  obtains session_id request presented_proof u where "establish_session K now_s scenario s =
       and_then (authorize_holder K session_id presented_proof now_s) (\<lambda>decision s.
         (Inr \<lparr>so_session_id = session_id,
               so_protocol_profile_id = pp_profile_id (ec_protocol_profile (ae_config s)),
               so_protocol_profile_version = pp_profile_version (ec_protocol_profile (ae_config s)),
               so_authorization_decision = decision,
               so_events = session_events s session_id request decision\<rparr>, s)) u"
    "ready K N u" "setup_of u = setup_of s" "ae_random_calls u = ae_random_calls s + 5"
    "pc_credentials (ve_claims presented_proof) = credentials" "ve_signer presented_proof = ik_key_id (ae_chaser s)"
proof -
  have le: "ae_random_calls s + 4 \<le> N" using assms(4) by simp
  obtain session_id request challenge i r nonce signer u where est: "establish_session K now_s scenario s =
       and_then (try_with (\<lambda>_. issue_credentials K (ae_credential_issuer s) (ik_key_id (ae_chaser s)) now_s scenario))
         (finish_session K session_id now_s request challenge
            \<lparr>ve_signer = signer, ve_claims = offer_claims i r now_s nonce session_id challenge\<rparr>) u"
    and u: "ready K N u" "setup_of u = setup_of s" "ae_random_calls u = ae_random_calls s + 4"
    by (rule establish_reaches_credentials [OF assms(1-3) le])
  have keys: "ae_chaser u = ae_chaser s" using u(2) by (simp add: setup_of_def)
  obtain nonce' v where proof': "session_proof K session_id challenge credentials now_s u =
       (Inr \<lparr>ve_signer = ik_key_id (ae_chaser u), ve_claims = proof_claims (ik_key_id (ae_chaser u))
          (ik_key_id (ae_station u)) now_s nonce' session_id challenge credentials\<rparr>, v)"
     and v: "exchanged u v" "ready K N v" "ae_random_calls v = ae_random_calls u + 1"
    using session_proof_works [OF u(1)] u(3) assms(4) by fastforce
  let ?p = "\<lparr>ve_signer = ik_key_id (ae_chaser u), ve_claims = proof_claims (ik_key_id (ae_chaser u))
          (ik_key_id (ae_station u)) now_s nonce' session_id challenge credentials\<rparr>"
  have "establish_session K now_s scenario s =
       and_then (authorize_holder K session_id ?p now_s) (\<lambda>decision s.
         (Inr \<lparr>so_session_id = session_id,
               so_protocol_profile_id = pp_profile_id (ec_protocol_profile (ae_config s)),
               so_protocol_profile_version = pp_profile_version (ec_protocol_profile (ae_config s)),
               so_authorization_decision = decision,
               so_events = session_events s session_id request decision\<rparr>, s)) v"
    by (simp add: est and_then_def [of "try_with _"] assms(5) try_with_def finish_session_def
        and_then_def [of "session_proof _ _ _ _ _"] and_then_def [of "check_binding _ _"] proof' binding_holds)
  moreover have "setup_of v = setup_of s" using exchanged_fields [OF v(1)] u(2) by (simp add: setup_of_def)
  ultimately show thesis
    using that [of session_id ?p request v] v(2,3) u(3) keys by (simp add: proof_claims_def request_claims_def)
qed

lemma authorize_holder_expired:
  assumes "pc_credentials (ve_claims presented_proof) \<noteq> []"
    and "verify_presentation K (ae_credential_trust u) presented_proof now_s = Inl e"
  shows "fst (authorize_holder K session_id presented_proof now_s u) = Inl e"
  using assms by (simp add: authorize_holder_def and_then_def ret_def try_with_def)

lemma authorize_holder_works:
  assumes "pc_credentials (ve_claims presented_proof) \<noteq> []"
    and "verify_presentation K (ae_credential_trust u) presented_proof now_s = Inr evidence"
    and "validate_foundation K (ec_protocol_profile (ae_config u)) now_s (ec_trust_bundle_id (ae_config u))
            (ec_trust_bundle_version (ae_config u)) (ec_trust_bundle_issued_at_s (ae_config u)) = Inr ()"
    and "validate_credentials (ec_protocol_profile (ae_config u)) evidence now_s = Inr ()"
    and "Cedar.authorize_session K (ec_policy_engine (ae_config u)) (ik_key_id (ae_chaser u))
            (ik_key_id (ae_station u)) evidence True = Inr decision"
  shows "authorize_holder K session_id presented_proof now_s u =
     (Inr decision, u\<lparr>ae_verified_credentials := evidence, ae_holder_proof_at_s := Some now_s,
         ae_authorization := (ae_authorization u)\<lparr>session_authorized := True\<rparr>, ae_session_id := Some session_id\<rparr>)"
  using assms by (simp add: authorize_holder_def and_then_def ret_def try_with_def update_state_def)

lemma ready_session:
  "ready K N s \<Longrightarrow> ready K N (s\<lparr>ae_verified_credentials := a, ae_holder_proof_at_s := b, ae_authorization := c,
     ae_session_id := d\<rparr>)"
  by (rule ready_update) (auto simp: setup_of_def ready_def fresh_caches_def)

lemma session_works:
  assumes "honest_parties K s" "fresh_source N s"
    and "fresh_caches K N (reset s)"
    and "ae_random_calls s + 5 \<le> N" "clock_in_range now_s" "scenario \<noteq> ExpiredCredential"
    and "validate_foundation K (ec_protocol_profile (ae_config s)) now_s (ec_trust_bundle_id (ae_config s))
            (ec_trust_bundle_version (ae_config s)) (ec_trust_bundle_issued_at_s (ae_config s)) = Inr ()"
    and "validate_credentials (ec_protocol_profile (ae_config s)) (nominal_evidence now_s) now_s = Inr ()"
    and "Cedar.authorize_session K (ec_policy_engine (ae_config s)) (ik_key_id (ae_chaser s))
            (ik_key_id (ae_station s)) (nominal_evidence now_s) True = Inr decision"
  shows "\<exists>out t. establish_session K now_s scenario s = (Inr out, t) \<and> ready K N t \<and> setup_of t = setup_of s
     \<and> ae_random_calls t = ae_random_calls s + 5 \<and> ae_verified_credentials t = nominal_evidence now_s"
proof -
  have parties: "cbor_ok K" "cose_ok K" "working_signer K (ae_credential_issuer s)"
      "trusts (ae_credential_trust s) (ae_credential_issuer s)"
    using assms(1) by (simp_all add: honest_parties_def)
  obtain credentials where creds: "issue_credentials K (ae_credential_issuer s) (ik_key_id (ae_chaser s)) now_s scenario = Inr credentials"
      "credentials \<noteq> []" and verify: "\<And>p. ve_signer p = ik_key_id (ae_chaser s) \<Longrightarrow> pc_credentials (ve_claims p) = credentials \<Longrightarrow>
          verify_presentation K (ae_credential_trust s) p now_s =
            (if scenario = ExpiredCredential then Inl (ProtocolErr CredentialExpired) else Inr (nominal_evidence now_s))"
    by (rule nominal_credentials_verify [OF parties assms(5), of "ik_key_id (ae_chaser s)" scenario]) (rule that)
  obtain session_id request presented_proof u where est: "establish_session K now_s scenario s =
       and_then (authorize_holder K session_id presented_proof now_s) (\<lambda>decision s.
         (Inr \<lparr>so_session_id = session_id,
               so_protocol_profile_id = pp_profile_id (ec_protocol_profile (ae_config s)),
               so_protocol_profile_version = pp_profile_version (ec_protocol_profile (ae_config s)),
               so_authorization_decision = decision,
               so_events = session_events s session_id request decision\<rparr>, s)) u"
     and u: "ready K N u" "setup_of u = setup_of s" "ae_random_calls u = ae_random_calls s + 5"
     and p: "pc_credentials (ve_claims presented_proof) = credentials" "ve_signer presented_proof = ik_key_id (ae_chaser s)"
    by (rule establish_reaches_holder [OF assms(1-4) creds(1)])
  have same: "ae_config u = ae_config s" "ae_credential_trust u = ae_credential_trust s" "ae_chaser u = ae_chaser s"
      "ae_station u = ae_station s"
    using u(2) by (simp_all add: setup_of_def)
  have "authorize_holder K session_id presented_proof now_s u = (Inr decision, u\<lparr>ae_verified_credentials := nominal_evidence now_s,
      ae_holder_proof_at_s := Some now_s, ae_authorization := (ae_authorization u)\<lparr>session_authorized := True\<rparr>,
      ae_session_id := Some session_id\<rparr>)"
    by (rule authorize_holder_works) (simp_all add: same p creds(2) verify [OF p(2,1)] assms(6-9))
  then show ?thesis
    using ready_session [OF u(1)] u(2,3) by (simp add: est and_then_def setup_of_def)
qed

text \<open>When the presented credentials have expired, or wrapped clocks make it look so, there is no session.\<close>

lemma session_expired:
  assumes "honest_parties K s" "fresh_source N s"
    and "fresh_caches K N (reset s)"
    and "ae_random_calls s + 5 \<le> N"
    and "issue_credentials K (ae_credential_issuer s) (ik_key_id (ae_chaser s)) now_s scenario = Inr credentials" "credentials \<noteq> []"
    and "\<And>p. ve_signer p = ik_key_id (ae_chaser s) \<Longrightarrow> pc_credentials (ve_claims p) = credentials \<Longrightarrow>
       verify_presentation K (ae_credential_trust s) p now_s = Inl e"
  shows "fst (establish_session K now_s scenario s) = Inl e"
proof -
  obtain session_id request presented_proof u f where est: "establish_session K now_s scenario s =
       and_then (authorize_holder K session_id presented_proof now_s) f u" and u: "setup_of u = setup_of s"
     and p: "pc_credentials (ve_claims presented_proof) = credentials" "ve_signer presented_proof = ik_key_id (ae_chaser s)"
    by (rule establish_reaches_holder [OF assms(1-5)]) blast
  have "ae_credential_trust u = ae_credential_trust s" using u by (simp add: setup_of_def)
  with authorize_holder_expired [of presented_proof K u now_s e session_id] assms(6,7) p
  have "fst (authorize_holder K session_id presented_proof now_s u) = Inl e" by simp
  then show ?thesis
    unfolding est by (cases "authorize_holder K session_id presented_proof now_s u") (simp add: and_then_def)
qed


lemma expired_scenario_refused:
  assumes "honest_parties K s" "fresh_source N s" "fresh_caches K N (reset s)"
    and "ae_random_calls s + 5 \<le> N" "clock_in_range now_s"
  shows "fst (establish_session K now_s ExpiredCredential s) = Inl (ProtocolErr CredentialExpired)"
proof -
  have parties: "cbor_ok K" "cose_ok K" "working_signer K (ae_credential_issuer s)"
      "trusts (ae_credential_trust s) (ae_credential_issuer s)"
    using assms(1) by (simp_all add: honest_parties_def)
  show ?thesis
    by (rule nominal_credentials_verify [OF parties assms(5), of "ik_key_id (ae_chaser s)" ExpiredCredential],
        rule session_expired [OF assms(1-4)]) simp_all
qed

text \<open>C36. A nominal session is established: with working keys that the configured trust stores know, a
  random source that delivers and does not repeat itself, replay caches, in memory or
  on a disk that commits, that have not seen the bytes still to come, a clock
  whose validity arithmetic does not overflow, and a profile and policy that accept the two
  credentials the engine issues, \<open>establish_session\<close> succeeds, and the session it opens carries
  exactly those two credentials. In the expired-credential scenario the same configuration
  always ends in the error that the credential is not currently valid, and in no session.\<close>

theorem nominal_session_established:
  assumes "honest_parties K s" "fresh_source N s"
    and "fresh_caches K N (reset s)"
    and "ae_random_calls s + 5 \<le> N" "clock_in_range now_s"
    and "validate_foundation K (ec_protocol_profile (ae_config s)) now_s (ec_trust_bundle_id (ae_config s))
            (ec_trust_bundle_version (ae_config s)) (ec_trust_bundle_issued_at_s (ae_config s)) = Inr ()"
    and "validate_credentials (ec_protocol_profile (ae_config s)) (nominal_evidence now_s) now_s = Inr ()"
    and "Cedar.authorize_session K (ec_policy_engine (ae_config s)) (ik_key_id (ae_chaser s))
            (ik_key_id (ae_station s)) (nominal_evidence now_s) True = Inr decision"
  shows "case establish_session K now_s scenario s of
     (Inr out, t) \<Rightarrow> scenario \<noteq> ExpiredCredential \<and> ae_verified_credentials t = nominal_evidence now_s
        \<and> ae_session_id t = Some (so_session_id out) \<and> session_authorized (ae_authorization t)
   | (Inl e, t) \<Rightarrow> scenario = ExpiredCredential \<and> e = ProtocolErr CredentialExpired \<and> ae_session_id t = None"
proof (cases "scenario = ExpiredCredential")
  case True
  then have "fst (establish_session K now_s scenario s) = Inl (ProtocolErr CredentialExpired)"
    using expired_scenario_refused [OF assms(1-5)] by simp
  then obtain t where run: "establish_session K now_s scenario s = (Inl (ProtocolErr CredentialExpired), t)"
    by (metis prod.collapse)
  then have "unauthorized t" by (rule establish_Inl)
  with run True show ?thesis by (simp add: unauthorized_def)
next
  case False
  then obtain out t where run: "establish_session K now_s scenario s = (Inr out, t)"
     and "ae_verified_credentials t = nominal_evidence now_s"
    using session_works [OF assms(1-5) _ assms(6-8), of scenario] by blast
  moreover have "session_open K (so_session_id out) now_s (so_authorization_decision out) t"
    using run by (rule establish_Inr)
  ultimately show ?thesis using False by (simp add: session_open_def)
qed

text \<open>C37. Clocks at the ends of the \<open>i64\<close> range give no session: where the validity times of the
  self-issued credentials overflow (the code adds and subtracts without checks), a build with
  overflow checks panics, and the release build wraps around and refuses its own credentials
  as not currently valid. In neither case is a session authorized.\<close>

theorem clock_overflow_gives_no_session:
  assumes "honest_parties K s" "fresh_source N s"
    and "fresh_caches K N (reset s)"
    and "ae_random_calls s + 5 \<le> N"
    and "sint now_s < i64_min + 60 \<or> i64_max - 86400 < sint now_s"
  shows "fst (establish_session K now_s scenario s) =
      Inl (if overflow_checks K then OverflowPanic else ProtocolErr CredentialExpired)
   \<and> \<not> session_authorized (ae_authorization (snd (establish_session K now_s scenario s)))"
proof -
  have out: "\<not> clock_in_range now_s" using assms(5) by (auto simp: clock_in_range_def)
  have parties: "cbor_ok K" "cose_ok K" "working_signer K (ae_credential_issuer s)"
      "trusts (ae_credential_trust s) (ae_credential_issuer s)"
    using assms(1) by (simp_all add: honest_parties_def)
  have le: "ae_random_calls s + 4 \<le> N" using assms(4) by simp
  have res: "fst (establish_session K now_s scenario s) =
      Inl (if overflow_checks K then OverflowPanic else ProtocolErr CredentialExpired)"
  proof (cases "overflow_checks K")
    case True
    show ?thesis
      by (rule establish_reaches_credentials [OF assms(1-3) le, of now_s scenario])
         (simp add: and_then_def try_with_def checked_claims_panic [OF True out] True)
  next
    case False
    have "fst (establish_session K now_s scenario s) = Inl (ProtocolErr CredentialExpired)"
      by (rule edge_credentials_expired [OF parties False out, of "ik_key_id (ae_chaser s)" scenario],
          rule session_expired [OF assms(1-4)])
    with False show ?thesis by simp
  qed
  then obtain e t where "establish_session K now_s scenario s = (Inl e, t)" by (metis prod.collapse)
  moreover from this have "unauthorized t" by (rule establish_Inl)
  ultimately show ?thesis using res by (simp add: unauthorized_def)
qed

text \<open>What an approved request in a working engine leaves.\<close>

lemma approved_request:
  assumes "ready K N s" "engine_ok s" "ae_random_calls s + 5 \<le> N"
    and "request_transition K q now_s readiness s = (Inr out, t)" "out_approved out"
  obtains event_kind stage session_id from_stage to_stage rule decision where
    "transition_for (ae_state s) q = Some (event_kind, stage)" "transition_names (ae_state s) q = Some (from_stage, to_stage)"
    "ae_session_id s = Some session_id" "evaluate_profile K (s\<lparr>ae_holder_proof_at_s := Some now_s\<rparr>) from_stage to_stage now_s readiness = Inr rule"
    "issued K s stage session_id q now_s rule decision out t"
    "out_grant_expires_at_s out = Some (saturating_add now_s (rd_entitlement_ttl_s rule))"
    "ready K N t" "engine_ok t" "ae_random_calls t = ae_random_calls s + 5" "ae_config t = ae_config s" "ae_state t = ae_state s"
proof -
  have res: "request_result K s q now_s readiness out t"
    using tripleD_Inr [OF request_triple _ assms(4)] by simp
  then have ok: "engine_ok t" using request_result_ok assms(2) by blast
  from res show thesis
  proof (cases rule: request_resultE)
    case denied
    with assms(5) show ?thesis by simp
  next
    case (granted event_kind stage session_id from_stage to_stage rule decision)
    have "ready K N t" "ae_random_calls t = ae_random_calls s + 5"
      using request_works [OF assms(1,3) granted(3,1,2,4,5)] assms(4) by auto
    moreover have "ae_config t = ae_config s" "ae_state t = ae_state s" using granted(6) by (auto elim: issued_fields)
    moreover have "out_grant_expires_at_s out = Some (saturating_add now_s (rd_entitlement_ttl_s rule))"
      using granted(6) by (auto simp: issued_def grant_outcome_def Let_def)
    ultimately show ?thesis using that granted(1-4,6) ok by blast
  qed
qed

text \<open>C13. What a request grants, a redemption redeems: after an approved request, presenting the signed
  grant it returned, within the clock skew and before the grant expires, and while the profile
  still accepts the transition, succeeds and moves the engine to the requested stage.\<close>

theorem request_then_redeem:
  assumes "honest_parties K s" "fresh_source N s" "fresh_caches K N s" "engine_ok s"
    and "request_transition K q now_s readiness s = (Inr out, t)" "out_approved out"
    and "out_signed_grant_hex out = Some grant_hex" "out_grant_expires_at_s out = Some expires_at_s"
    and "ae_random_calls s + 5 \<le> N"
    and "\<bar>sint now_s' - sint now_s\<bar> \<le> 30" "sint now_s' \<le> sint expires_at_s"
    and "transition_names (ae_state s) q = Some (from_stage, to_stage)"
    and "evaluate_profile K t from_stage to_stage now_s' readiness' = Inr rule"
  shows "\<exists>out' u. redeem_transition K grant_hex q now_s' readiness' t = (Inr out', u)
     \<and> state_number (ae_state u) = q \<and> stage_index (ae_state u) = Suc (stage_index (ae_state s))"
proof -
  have rdy: "ready K N s" using assms(1-3) by (simp add: ready_def)
  obtain event_kind stage session_id from' to' rule' decision where
      granted: "transition_for (ae_state s) q = Some (event_kind, stage)" "transition_names (ae_state s) q = Some (from', to')"
        "ae_session_id s = Some session_id"
    and eval: "evaluate_profile K (s\<lparr>ae_holder_proof_at_s := Some now_s\<rparr>) from' to' now_s readiness = Inr rule'"
    and iss: "issued K s stage session_id q now_s rule' decision out t"
    and expiry: "out_grant_expires_at_s out = Some (saturating_add now_s (rd_entitlement_ttl_s rule'))"
    and after: "ready K N t" "engine_ok t" "ae_random_calls t = ae_random_calls s + 5" "ae_config t = ae_config s" "ae_state t = ae_state s"
    by (rule approved_request [OF rdy assms(4,9,5,6)])
  have names: "from' = from_stage" "to' = to_stage" using granted(2) assms(12) by simp_all
  have "rule = rule'" using evaluate_profile_unique [OF eval assms(13) [folded names]] after(4) by simp
  then obtain out' u where run: "redeem_transition K grant_hex q now_s' readiness' t = (Inr out', u)"
    using redeem_works [OF rdy iss _ after(1,2) granted(3,1,2), of now_s' readiness' grant_hex]
      assms(7-11,13) expiry after(3) names by auto
  then have "state_number (ae_state u) = q \<and> stage_index (ae_state u) = Suc (stage_index (ae_state t))"
    by (elim redeem_pending) simp
  with run after(5) show ?thesis by auto
qed

end
