(* ===== verification/Complete.thy ===== *)
theory Complete
  imports Nominal
begin

text \<open>
  A complete docking, from establishing a session to hard dock, of an engine with the
  repository's profile and commercial policy; and a concrete engine of that kind, with which
  the theorems about honest runs are instantiated.
\<close>

section \<open>A complete docking\<close>

text \<open>An engine configured as in the repository: its protocol profile, the commercial docking policy,
  the station it names and its trust bundle.\<close>

definition repository_policy :: "'p crates \<Rightarrow> ('p, 'b) access_engine \<Rightarrow> bool" where
  "repository_policy K s \<longleftrightarrow>
     ec_protocol_profile (ae_config s) = repository_profile
     \<and> commercial_setting K (ec_policy_engine (ae_config s)) (ik_key_id (ae_chaser s)) (ik_key_id (ae_station s))"

definition repository_engine :: "'p crates \<Rightarrow> ('p, 'b) access_engine \<Rightarrow> bool" where
  "repository_engine K s \<longleftrightarrow>
     repository_policy K s \<and> ik_key_id (ae_station s) = ''waystation-1''
     \<and> ec_trust_bundle_id (ae_config s) = ''waystation-1-trust'' \<and> 42 \<le> ec_trust_bundle_version (ae_config s)
     \<and> parse_rfc3339 K ''2026-01-01T00:00:00Z'' = Some 1767225600
     \<and> parse_rfc3339 K ''2027-01-01T00:00:00Z'' = Some 1798761600"

text \<open>A period in which a docking can happen: the year of the profile, the week after the issue of the
  trust bundle, and the day after the credentials were checked.\<close>

definition docking_period :: "('p, 'b) access_engine \<Rightarrow> i64 \<Rightarrow> i64 \<Rightarrow> bool" where
  "docking_period s start finish \<longleftrightarrow>
     1767225600 \<le> sint start \<and> sint start \<le> sint finish \<and> sint finish \<le> 1798761600
     \<and> sint finish \<le> sint start + 86400 \<and> sint finish \<le> sint (ec_trust_bundle_issued_at_s (ae_config s)) + 604800"

abbreviation during :: "i64 \<Rightarrow> i64 \<Rightarrow> i64 \<Rightarrow> bool" where
  "during start finish now \<equiv> sint start \<le> sint now \<and> sint now \<le> sint finish"

lemma repository_policy_same: "setup_of t = setup_of s \<Longrightarrow> repository_policy K t = repository_policy K s"
  by (simp add: repository_policy_def setup_of_def)

lemma repository_engine_same: "setup_of t = setup_of s \<Longrightarrow> repository_engine K t = repository_engine K s"
  by (simp add: repository_engine_def repository_policy_def setup_of_def)

lemma docking_period_same: "setup_of t = setup_of s \<Longrightarrow> docking_period t start finish = docking_period s start finish"
  by (simp add: docking_period_def setup_of_def)

text \<open>Evidence observed now, at 35 mm, without motion and with every check passed.\<close>

definition docking_readiness :: "i64 \<Rightarrow> readiness_evidence" where
  "docking_readiness now =
     \<lparr>re_observed_at_ms = saturating_mul now 1000, re_range_m = Finite 5044031582654956 (-57),
      re_closing_rate_mps = Finite 0 0, re_checks = (\<lambda>name. Some True)\<rparr>"

text \<open>The rule that leads on from each stage in the repository's profile.\<close>

fun repository_rule :: "docking_state \<Rightarrow> string \<times> string \<times> string \<times> string \<times> u64" where
  "repository_rule Hold = (''hold'', ''approach'', ''enter-approach'', ''enter_approach'', 60)"
| "repository_rule Approach =
     (''approach'', ''final_approach'', ''enter-final-approach'', ''enter_final_approach'', 30)"
| "repository_rule FinalApproach =
     (''final_approach'', ''soft_capture'', ''engage-soft-capture'', ''engage_soft_capture'', 15)"
| "repository_rule SoftCapture = (''soft_capture'', ''hard_dock'', ''engage-hard-dock'', ''engage_hard_dock'', 10)"
| "repository_rule _ = ([], [], [], [], 0)"

text \<open>Evidence that opens the next stage: at most 100 ms old, the smallest limit of the profile's rules, and
  with checks and measurements that the policy's permit for the stage accepts.\<close>

definition evidence_current :: "i64 \<Rightarrow> readiness_evidence \<Rightarrow> bool" where
  "evidence_current now r \<longleftrightarrow> sint (evidence_age_ms now (re_observed_at_ms r)) \<le> 100"

definition stage_evidence :: "docking_state \<Rightarrow> i64 \<Rightarrow> readiness_evidence \<Rightarrow> bool" where
  "stage_evidence state now r \<longleftrightarrow>
     evidence_current now r
     \<and> (case repository_rule state of (_, _, _, action, _) \<Rightarrow>
          commercial_conditions action (nominal_evidence now) True True (Some r) True)"

text \<open>The policy asks for the kinds of the credentials only.\<close>

lemma nominal_conditions:
  "commercial_conditions action (nominal_evidence a) p session r fresh = commercial_conditions action (nominal_evidence b) p session r fresh"
  by (simp add: commercial_conditions_def nominal_evidence_def has_profile_def)

lemma nominal_credentials_valid:
  assumes "docking_period s start finish" "during start finish now"
  shows "validate_credentials repository_profile (nominal_evidence start) now = Inr ()"
  using assms
  by (simp add: docking_period_def repository_profile_def nominal_evidence_def credential_conforms_def i64_simps)

lemma nominal_foundation_valid:
  assumes "repository_engine K s" "docking_period s start finish" "during start finish now"
  shows "validate_foundation K repository_profile now (ec_trust_bundle_id (ae_config s))
     (ec_trust_bundle_version (ae_config s)) (ec_trust_bundle_issued_at_s (ae_config s)) = Inr ()"
  using assms
  by (simp add: repository_engine_def docking_period_def validate_foundation_def parse_timestamp_def repository_profile_def
      not_less i64_simps)

lemma docking_measurements:
  "range_mm (Some (docking_readiness now)) = 35" "closing_rate_mmps (Some (docking_readiness now)) = 0"
  "check_flag (Some (docking_readiness now)) name = True"
  "evidence_age_ms now (re_observed_at_ms (docking_readiness now)) = 0"
  by (simp_all add: range_mm_def closing_rate_mmps_def docking_readiness_def f64_milli_ceil_def f64_times_1000_def
      f64_round_def Let_def round_half_even_def f64_ceil_def f64_as_i64_def clamp_i64_def check_flag_def
      evidence_age_ms_def saturating_sub_def saturating_mul_def)

lemma repository_rules:
  assumes "repository_rule state = (from_stage, to_stage, rule_id, action, ttl)" "stage_index state < 4"
  shows "\<exists>rule. matching_rule repository_profile from_stage to_stage = Some rule
     \<and> (\<forall>now proof_at r. sint proof_at \<le> sint now \<longrightarrow> sint now \<le> sint proof_at + 10
          \<longrightarrow> evidence_current now r \<longrightarrow> check_rule rule now (Some proof_at) True r = Inr ())
     \<and> sr_rule_id rule = rule_id \<and> rule_by_id repository_profile rule_id = Some rule \<and> sr_action rule = action
     \<and> 100 \<le> sint (rr_maximum_age_ms (sr_readiness rule)) \<and> 10 \<le> sint (sr_entitlement_ttl_s rule)
     \<and> sint (sr_entitlement_ttl_s rule) \<le> 60"
  using assms
  by (cases state)
     (auto simp: matching_rule_def rule_by_id_def repository_profile_def stage_rule_def check_rule_def
        evidence_current_def i64_simps)

lemma repository_action_ascii:
  "repository_rule state = (from_stage, to_stage, rule_id, action, ttl) \<Longrightarrow> is_ascii action"
  by (cases state) auto

lemma docking_readiness_current: "evidence_current now (docking_readiness now)"
  by (simp add: evidence_current_def docking_measurements)

lemma docking_readiness_opens: "stage_index state < 4 \<Longrightarrow> stage_evidence state now (docking_readiness now)"
  by (cases state)
     (auto simp: stage_evidence_def docking_readiness_current commercial_conditions_def docking_measurements
        nominal_evidence_def has_profile_def)

lemma repository_transitions:
  assumes "repository_rule state = (from_stage, to_stage, rule_id, action, ttl)" "stage_index state < 4"
  shows "\<exists>event_kind stage. transition_for state (state_number state + 1) = Some (event_kind, stage)"
    and "transition_names state (state_number state + 1) = Some (from_stage, to_stage)"
  using assms by (cases state; auto simp: transition_for_def transition_names_def)+

text \<open>The state between two stages of the complete run.\<close>

definition docking_at :: "'p crates \<Rightarrow> i64 \<Rightarrow> i64 \<Rightarrow> nat \<Rightarrow> ('p, 'b) access_engine \<Rightarrow> bool" where
  "docking_at K start finish N s \<longleftrightarrow>
     ready K N s \<and> engine_ok s \<and> repository_engine K s \<and> docking_period s start finish \<and> ae_session_id s \<noteq> None
     \<and> ae_verified_credentials s = nominal_evidence start"

lemma docking_evaluates:
  assumes "repository_engine K s" "docking_period s start finish" "during start finish now"
    and "ae_verified_credentials s = nominal_evidence start"
    and "session_authorized (ae_authorization s)" "ae_holder_proof_at_s s = Some proof_at"
    and "sint proof_at \<le> sint now" "sint now \<le> sint proof_at + 10"
    and "stage_index state < 4" "repository_rule state = (from_stage, to_stage, rule_id, action, ttl)"
    and "evidence_current now r"
  shows "\<exists>rule. evaluate_profile K s from_stage to_stage now r = Inr rule
     \<and> 10 \<le> sint (rd_entitlement_ttl_s rule) \<and> sint (rd_entitlement_ttl_s rule) \<le> 60
     \<and> (if stage_evidence state now r then \<exists>decision. authorize_rule K s (rd_rule_id rule) now r = Inr decision
        else authorize_rule K s (rd_rule_id rule) now r = Inl (Denied ''stage_transition''))"
proof -
  obtain rule where rule: "matching_rule repository_profile from_stage to_stage = Some rule"
     "check_rule rule now (Some proof_at) True r = Inr ()"
     "sr_rule_id rule = rule_id" "rule_by_id repository_profile rule_id = Some rule" "sr_action rule = action"
     "100 \<le> sint (rr_maximum_age_ms (sr_readiness rule))"
     "10 \<le> sint (sr_entitlement_ttl_s rule)" "sint (sr_entitlement_ttl_s rule) \<le> 60"
    using repository_rules [OF assms(10,9)] assms(7,8,11) by blast
  have conf: "ec_protocol_profile (ae_config s) = repository_profile"
    using assms(1) by (simp add: repository_engine_def repository_policy_def)
  let ?authorize = "authorize K (ec_policy_engine (ae_config s)) ''stage_transition'' (ik_key_id (ae_chaser s)) action
      (ik_key_id (ae_station s)) (policy_context (nominal_evidence start) True True (Some r) True)"
  have setting: "commercial_setting K (ec_policy_engine (ae_config s)) (ik_key_id (ae_chaser s)) (ik_key_id (ae_station s))"
      "ik_key_id (ae_station s) = ''waystation-1''"
    using assms(1) unfolding repository_engine_def repository_policy_def by blast+
  have cond: "stage_evidence state now r = commercial_conditions action (nominal_evidence start) True True (Some r) True"
    using assms(10,11) nominal_conditions by (simp add: stage_evidence_def)
  have decides: "if stage_evidence state now r then \<exists>decision. ?authorize = Inr decision
      else ?authorize = Inl (Denied ''stage_transition'')"
    using commercial_authorize [OF setting(1) repository_action_ascii [OF assms(10)],
        of "''stage_transition''" "nominal_evidence start" True True "Some r" True] setting(2)
    unfolding cond by (cases ?authorize) auto
  have "authorize_rule K s rule_id now r = ?authorize"
    using assms(4-6,11) rule(4-6)
    by (simp add: authorize_rule_def authorize_transition_def rule_action_def readiness_fresh_def conf evidence_current_def Let_def)
  moreover have "evaluate_profile K s from_stage to_stage now r
      = Inr \<lparr>rd_profile_id = pp_profile_id repository_profile, rd_profile_version = pp_profile_version repository_profile,
             rd_rule_id = rule_id, rd_entitlement_ttl_s = sr_entitlement_ttl_s rule\<rparr>"
    using nominal_foundation_valid [OF assms(1-3)] nominal_credentials_valid [OF assms(2,3)] rule(1-3) assms(4-6)
    unfolding evaluate_profile_def evaluate_Inr by (auto simp: conf)
  ultimately show ?thesis using rule(7,8) decides by simp
qed

section \<open>From stage to stage\<close>

text \<open>What the profile granted a request, it grants for the next ten seconds of the period.\<close>

lemma docking_reevaluates:
  assumes "evaluate_profile K p from_stage to_stage asked evidence = Inr rule" "ae_config u = ae_config p"
    and "repository_engine K u" "docking_period u start finish" "during start finish asked"
    and "ae_verified_credentials u = nominal_evidence start"
    and "session_authorized (ae_authorization u)" "ae_holder_proof_at_s u = Some asked"
    and "stage_index state < 4" "repository_rule state = (from_stage, to_stage, rule_id, action, ttl)"
  shows "\<forall>used r. during asked finish used \<longrightarrow> sint used \<le> sint asked + 10 \<longrightarrow> evidence_current used r
      \<longrightarrow> evaluate_profile K u from_stage to_stage used r = Inr rule"
proof (intro allI impI)
  fix used r
  assume used: "during asked finish used" "sint used \<le> sint asked + 10" "evidence_current used r"
  then have "during start finish used" using assms(5) by simp
  then obtain rule' where "evaluate_profile K u from_stage to_stage used r = Inr rule'"
    using docking_evaluates [OF assms(3,4) _ assms(6,7,8) _ used(2) assms(9,10) used(3)] used(1) by auto
  with evaluate_profile_unique [OF assms(1) this] assms(2) show "evaluate_profile K u from_stage to_stage used r = Inr rule"
    by simp
qed

text \<open>What a request in such a state is decided on.\<close>

lemma docking_asked:
  assumes "docking_at K start finish N s" "stage_index (ae_state s) < 4" "q = state_number (ae_state s) + 1"
    and "during start finish asked" "evidence_current asked evidence"
  obtains event_kind stage session_id from_stage to_stage rule_id action ttl rule where
    "transition_for (ae_state s) q = Some (event_kind, stage)" "ae_session_id s = Some session_id"
    "transition_names (ae_state s) q = Some (from_stage, to_stage)"
    "repository_rule (ae_state s) = (from_stage, to_stage, rule_id, action, ttl)"
    "session_authorized (ae_authorization s)"
    "evaluate_profile K (s\<lparr>ae_holder_proof_at_s := Some asked\<rparr>) from_stage to_stage asked evidence = Inr rule"
    "10 \<le> sint (rd_entitlement_ttl_s rule)" "sint (rd_entitlement_ttl_s rule) \<le> 60"
    "if stage_evidence (ae_state s) asked evidence
     then \<exists>decision. authorize_rule K (s\<lparr>ae_holder_proof_at_s := Some asked\<rparr>) (rd_rule_id rule) asked evidence = Inr decision
     else authorize_rule K (s\<lparr>ae_holder_proof_at_s := Some asked\<rparr>) (rd_rule_id rule) asked evidence
            = Inl (Denied ''stage_transition'')"
proof -
  obtain from_stage to_stage rule_id action ttl where r: "repository_rule (ae_state s) = (from_stage, to_stage, rule_id, action, ttl)"
    by (metis prod_cases5)
  obtain event_kind stage where tr: "transition_for (ae_state s) q = Some (event_kind, stage)"
      and names: "transition_names (ae_state s) q = Some (from_stage, to_stage)"
    using repository_transitions [OF r assms(2)] unfolding assms(3) by blast
  have s: "engine_ok s" "repository_engine K s" "docking_period s start finish" "ae_verified_credentials s = nominal_evidence start"
    using assms(1) by (simp_all add: docking_at_def)
  obtain session_id where sid: "ae_session_id s = Some session_id" using assms(1) by (auto simp: docking_at_def)
  then have auth: "session_authorized (ae_authorization s)" using s(1) by (auto simp: engine_ok_def)
  let ?p = "s\<lparr>ae_holder_proof_at_s := Some asked\<rparr>"
  have same: "setup_of ?p = setup_of s" by (simp add: setup_of_def)
  have "repository_engine K ?p" "docking_period ?p start finish"
    using s(2,3) repository_engine_same [OF same] docking_period_same [OF same] by blast+
  from docking_evaluates [OF this assms(4) _ _ _ _ _ assms(2) r assms(5), of asked] s(4) auth obtain rule where
      "evaluate_profile K ?p from_stage to_stage asked evidence = Inr rule"
      "10 \<le> sint (rd_entitlement_ttl_s rule)" "sint (rd_entitlement_ttl_s rule) \<le> 60"
      "if stage_evidence (ae_state s) asked evidence
       then \<exists>decision. authorize_rule K ?p (rd_rule_id rule) asked evidence = Inr decision
       else authorize_rule K ?p (rd_rule_id rule) asked evidence = Inl (Denied ''stage_transition'')"
    by auto
  then show thesis by (rule that [OF tr sid names r auth])
qed

text \<open>The request of one stage, granted, and the state it leaves.\<close>

lemma docking_request:
  assumes "docking_at K start finish N s" "stage_index (ae_state s) < 4" "ae_random_calls s + 5 \<le> N"
    and "q = state_number (ae_state s) + 1" "during start finish asked" "stage_evidence (ae_state s) asked evidence"
  obtains event_kind stage session_id from_stage to_stage rule decision out u g where
    "transition_for (ae_state s) q = Some (event_kind, stage)" "ae_session_id s = Some session_id"
    "transition_names (ae_state s) q = Some (from_stage, to_stage)"
    "request_transition K q asked evidence s = (Inr out, u)"
    "issued K s stage session_id q asked rule decision out u" "ready K N u" "engine_ok u"
    "ae_random_calls u = ae_random_calls s + 5"
    "\<forall>used r. during asked finish used \<longrightarrow> sint used \<le> sint asked + 10 \<longrightarrow> evidence_current used r
       \<longrightarrow> evaluate_profile K u from_stage to_stage used r = Inr rule"
    "10 \<le> sint (rd_entitlement_ttl_s rule)" "sint (rd_entitlement_ttl_s rule) \<le> 60"
    "out_signed_grant_hex out = Some g"
    "out_grant_expires_at_s out = Some (saturating_add asked (rd_entitlement_ttl_s rule))"
proof -
  have "evidence_current asked evidence" using assms(6) by (simp add: stage_evidence_def)
  then obtain event_kind stage session_id from_stage to_stage rule_id action ttl rule decision where
      tr: "transition_for (ae_state s) q = Some (event_kind, stage)" and sid: "ae_session_id s = Some session_id"
    and names: "transition_names (ae_state s) q = Some (from_stage, to_stage)"
    and r: "repository_rule (ae_state s) = (from_stage, to_stage, rule_id, action, ttl)"
    and auth: "session_authorized (ae_authorization s)"
    and granted: "evaluate_profile K (s\<lparr>ae_holder_proof_at_s := Some asked\<rparr>) from_stage to_stage asked evidence = Inr rule"
      "authorize_rule K (s\<lparr>ae_holder_proof_at_s := Some asked\<rparr>) (rd_rule_id rule) asked evidence = Inr decision"
    and ttl: "10 \<le> sint (rd_entitlement_ttl_s rule)" "sint (rd_entitlement_ttl_s rule) \<le> 60"
    using docking_asked [OF assms(1,2,4,5)] assms(6) by (metis (no_types, lifting))
  have s: "ready K N s" "engine_ok s" "repository_engine K s" "docking_period s start finish"
      "ae_verified_credentials s = nominal_evidence start"
    using assms(1) by (simp_all add: docking_at_def)
  obtain out u where req: "request_transition K q asked evidence s = (Inr out, u)"
      and iss: "issued K s stage session_id q asked rule decision out u" and u: "ready K N u"
      "ae_random_calls u = ae_random_calls s + 5"
    using request_works [OF s(1) assms(3) sid tr names granted] by blast
  have fields: "setup_of u = setup_of s" "ae_authorization u = ae_authorization s" "ae_config u = ae_config s"
      "ae_verified_credentials u = nominal_evidence start" "ae_holder_proof_at_s u = Some asked"
    using iss s(5) by (auto elim: issued_fields)
  have oku: "engine_ok u" using engine_step_ok [OF s(2), of K "RequestTransition q asked evidence"] req
    by (simp add: and_then_def ret_def)
  have ru: "repository_engine K u" "docking_period u start finish"
    using s(3,4) repository_engine_same [OF fields(1)] docking_period_same [OF fields(1)] by blast+
  have eval: "\<forall>used r. during asked finish used \<longrightarrow> sint used \<le> sint asked + 10 \<longrightarrow> evidence_current used r
      \<longrightarrow> evaluate_profile K u from_stage to_stage used r = Inr rule"
    by (rule docking_reevaluates [OF granted(1) _ ru assms(5) fields(4) _ fields(5) assms(2) r]) (use fields(2,3) auth in simp_all)
  obtain g where "out_signed_grant_hex out = Some g"
      "out_grant_expires_at_s out = Some (saturating_add asked (rd_entitlement_ttl_s rule))"
    using iss by (auto simp: issued_def grant_outcome_def Let_def)
  then show thesis by (rule that [OF tr sid names req iss u(1) oku u(2) eval ttl])
qed

lemma docking_redeem:
  assumes "docking_at K start finish N s" "stage_index (ae_state s) < 4" "ae_random_calls s + 5 \<le> N"
    and "q = state_number (ae_state s) + 1"
    and "during start finish asked" "stage_evidence (ae_state s) asked evidence"
    and "during asked finish used" "sint used \<le> sint asked + 10" "evidence_current used evidence'"
  obtains out u g out' t where
    "request_transition K q asked evidence s = (Inr out, u)"
    "redeem_transition K g q used evidence' u = (Inr out', t)"
    "docking_at K start finish N t" "stage_index (ae_state t) = Suc (stage_index (ae_state s))" "state_number (ae_state t) = q"
    "ae_random_calls t = ae_random_calls s + 5" "out_signed_grant_hex out = Some g" "out_signed_grant_hex out' = Some g"
proof -
  have s: "ready K N s" "repository_engine K s" "docking_period s start finish" using assms(1) by (simp_all add: docking_at_def)
  obtain event_kind stage session_id from_stage to_stage rule decision out u g where
      tr: "transition_for (ae_state s) q = Some (event_kind, stage)" and sid: "ae_session_id s = Some session_id"
    and names: "transition_names (ae_state s) q = Some (from_stage, to_stage)"
    and req: "request_transition K q asked evidence s = (Inr out, u)"
    and iss: "issued K s stage session_id q asked rule decision out u" and u: "ready K N u" "engine_ok u"
      "ae_random_calls u = ae_random_calls s + 5"
    and eval: "\<forall>used r. during asked finish used \<longrightarrow> sint used \<le> sint asked + 10 \<longrightarrow> evidence_current used r
       \<longrightarrow> evaluate_profile K u from_stage to_stage used r = Inr rule"
    and ttl: "10 \<le> sint (rd_entitlement_ttl_s rule)" "sint (rd_entitlement_ttl_s rule) \<le> 60"
    and g: "out_signed_grant_hex out = Some g"
    by (rule docking_request [OF assms(1-6)])
  have fields: "ae_state u = ae_state s" "ae_session_id u = Some session_id" "setup_of u = setup_of s"
      "ae_verified_credentials u = nominal_evidence start"
    using iss sid assms(1) by (auto simp: docking_at_def elim: issued_fields)
  have expiry: "sint used \<le> sint (saturating_add asked (rd_entitlement_ttl_s rule))" and skew: "\<bar>sint used - sint asked\<bar> \<le> 30"
    using ttl assms(7,8) sint_i64_bounds [of used] by (simp_all add: i64_simps)
  obtain out' t where red: "redeem_transition K g q used evidence' u = (Inr out', t)"
      and t: "ready K N t" "ae_random_calls t = ae_random_calls u"
    using redeem_works [OF s(1) iss _ u(1,2) sid tr names eval [rule_format, OF assms(7-9)] skew expiry g] u(3) assms(3) by auto
  have idx: "stage_index (ae_state t) = Suc (stage_index (ae_state s))" "state_number (ae_state t) = q"
    using red fields(1) by (auto elim: redeem_pending)
  obtain v where v: "presented u v" "t = v\<lparr>ae_state := ae_state t\<rparr>" using redeem_cases [OF red] by auto
  have tf: "ae_session_id t = Some session_id" "ae_verified_credentials t = nominal_evidence start" "setup_of t = setup_of s"
    using presented_fields [OF v(1)] fields by (subst v(2); simp add: setup_of_def)+
  have "docking_at K start finish N t"
    using t(1) redeem_Inr_ok [OF red u(2)] s(2,3) repository_engine_same [OF tf(3)] docking_period_same [OF tf(3)] tf
    by (simp add: docking_at_def)
  moreover have "out_signed_grant_hex out' = Some g" using red by (auto simp: redeem_Inr redeemed_outcome_def)
  ultimately show thesis using that [OF req red] idx t(2) u(3) g by simp
qed

text \<open>The commands of a docking: a session, then a request and a redemption for each stage, with the
  grant of the stage and evidence for the stage at the time of the command.\<close>

type_synonym evidence_source = "u8 \<Rightarrow> i64 \<Rightarrow> readiness_evidence"

definition stage_commands :: "evidence_source \<Rightarrow> i64 \<Rightarrow> i64 \<Rightarrow> u8 \<Rightarrow> string \<Rightarrow> engine_command list" where
  "stage_commands evidence asked used q grant_hex =
     [RequestTransition q asked (evidence q asked), RedeemTransition grant_hex q used (evidence q used)]"

primrec stages_from ::
  "evidence_source \<Rightarrow> (u8 \<Rightarrow> i64) \<Rightarrow> (u8 \<Rightarrow> i64) \<Rightarrow> u8 \<Rightarrow> string list \<Rightarrow> engine_command list" where
  "stages_from evidence asked used q [] = []"
| "stages_from evidence asked used q (g # gs) =
     stage_commands evidence (asked q) (used q) q g @ stages_from evidence asked used (q + 1) gs"

definition docking_commands ::
  "i64 \<Rightarrow> evidence_source \<Rightarrow> (u8 \<Rightarrow> i64) \<Rightarrow> (u8 \<Rightarrow> i64) \<Rightarrow> string list \<Rightarrow> engine_command list" where
  "docking_commands start evidence asked used gs =
     EstablishSession start Nominal # stages_from evidence asked used 1 gs"

text \<open>Each of the four stages is requested and then, within ten seconds, redeemed in the period, with
  current evidence, which at the request is such that the policy permits the stage.\<close>

definition on_schedule :: "i64 \<Rightarrow> i64 \<Rightarrow> evidence_source \<Rightarrow> (u8 \<Rightarrow> i64) \<Rightarrow> (u8 \<Rightarrow> i64) \<Rightarrow> bool" where
  "on_schedule start finish evidence asked used \<longleftrightarrow>
     list_all (\<lambda>(q, state). during start finish (asked q) \<and> during (asked q) finish (used q)
         \<and> sint (used q) \<le> sint (asked q) + 10
         \<and> stage_evidence state (asked q) (evidence q (asked q)) \<and> evidence_current (used q) (evidence q (used q)))
       [(1, Hold), (2, Approach), (3, FinalApproach), (4, SoftCapture)]"

text \<open>The signed grant a reply carries, and the grants of a docking's replies.\<close>

fun reply_grant :: "engine_reply \<Rightarrow> string option" where
  "reply_grant (SessionReply out) = None"
| "reply_grant (TransitionReply out) = out_signed_grant_hex out"

definition twice :: "'a list \<Rightarrow> 'a option list" where
  "twice gs = concat (map (\<lambda>g. [Some g, Some g]) gs)"

lemma docking_step:
  assumes "docking_at K start finish N s" "stage_index (ae_state s) < 4" "ae_random_calls s + 5 \<le> N"
    and "q = state_number (ae_state s) + 1" "on_schedule start finish evidence asked used"
  obtains g t replies where "run_all (engine_step K) (stage_commands evidence (asked q) (used q) q g) s = (map Inr replies, t)"
    "map reply_grant replies = [Some g, Some g]" "docking_at K start finish N t"
    "stage_index (ae_state t) = Suc (stage_index (ae_state s))"
    "state_number (ae_state t) = q" "ae_random_calls t = ae_random_calls s + 5"
proof -
  have times: "during start finish (asked q)" "stage_evidence (ae_state s) (asked q) (evidence q (asked q))"
      "during (asked q) finish (used q)" "sint (used q) \<le> sint (asked q) + 10" "evidence_current (used q) (evidence q (used q))"
    using assms(2,4,5) by (cases "ae_state s"; simp add: on_schedule_def)+
  obtain out u g out' t where run: "request_transition K q (asked q) (evidence q (asked q)) s = (Inr out, u)"
    "redeem_transition K g q (used q) (evidence q (used q)) u = (Inr out', t)"
    and t: "docking_at K start finish N t" "stage_index (ae_state t) = Suc (stage_index (ae_state s))" "state_number (ae_state t) = q"
    "ae_random_calls t = ae_random_calls s + 5" and g: "out_signed_grant_hex out = Some g" "out_signed_grant_hex out' = Some g"
    by (rule docking_redeem [OF assms(1-4) times])
  from t run g show thesis
    by (intro that [of g "[TransitionReply out, TransitionReply out']" t])
       (simp_all add: stage_commands_def and_then_def ret_def)
qed

lemma docking_stages:
  assumes "docking_at K start finish N s" "stage_index (ae_state s) + n = 4" "ae_random_calls s + 5 * n \<le> N"
    and "on_schedule start finish evidence asked used"
  shows "\<exists>gs replies t. length gs = n
     \<and> run_all (engine_step K) (stages_from evidence asked used (state_number (ae_state s) + 1) gs) s = (map Inr replies, t)
     \<and> map reply_grant replies = twice gs \<and> ae_state t = HardDock"
  using assms(1-3)
proof (induction n arbitrary: s)
  case 0
  then have "ae_state s = HardDock" by (cases "ae_state s") simp_all
  then show ?case by (intro exI [of _ "[]"] exI [of _ s]) (simp add: twice_def)
next
  case (Suc n)
  let ?q = "state_number (ae_state s) + 1"
  have bounds: "stage_index (ae_state s) < 4" "ae_random_calls s + 5 \<le> N" using Suc.prems(2,3) by simp_all
  obtain g t rs where first: "run_all (engine_step K) (stage_commands evidence (asked ?q) (used ?q) ?q g) s = (map Inr rs, t)"
      "map reply_grant rs = [Some g, Some g]"
      and t: "docking_at K start finish N t" "stage_index (ae_state t) = Suc (stage_index (ae_state s))"
      "state_number (ae_state t) = ?q" "ae_random_calls t = ae_random_calls s + 5"
    by (rule docking_step [OF Suc.prems(1) bounds refl assms(4)])
  have "stage_index (ae_state t) + n = 4" "ae_random_calls t + 5 * n \<le> N" using t(2,4) Suc.prems(2,3) by simp_all
  from Suc.IH [OF t(1) this] obtain gs rs' u where rest: "length gs = n"
      "run_all (engine_step K) (stages_from evidence asked used (?q + 1) gs) t = (map Inr rs', u)"
      "map reply_grant rs' = twice gs" "ae_state u = HardDock"
    unfolding t(3) by blast
  have "run_all (engine_step K) (stages_from evidence asked used ?q (g # gs)) s = (map Inr (rs @ rs'), u)"
    by (simp only: stages_from.simps run_all_append first rest(2) prod.case map_append)
  moreover have "map reply_grant (rs @ rs') = twice (g # gs)" using first(2) rest(3) by (simp add: twice_def)
  ultimately show ?case
    by (intro exI [of _ "g # gs"] exI [of _ "rs @ rs'"] exI [of _ u])
       (simp only: list.size rest(1,4) simp_thms)
qed

section \<open>A session with the repository's configuration\<close>

lemma repository_session:
  assumes "repository_engine K s" "docking_period s start finish"
  obtains decision where
    "validate_foundation K (ec_protocol_profile (ae_config s)) start (ec_trust_bundle_id (ae_config s))
       (ec_trust_bundle_version (ae_config s)) (ec_trust_bundle_issued_at_s (ae_config s)) = Inr ()"
    "validate_credentials (ec_protocol_profile (ae_config s)) (nominal_evidence start) start = Inr ()"
    "Cedar.authorize_session K (ec_policy_engine (ae_config s)) (ik_key_id (ae_chaser s))
       (ik_key_id (ae_station s)) (nominal_evidence start) True = Inr decision"
proof -
  have now: "during start finish start" using assms(2) by (simp add: docking_period_def)
  have conf: "ec_protocol_profile (ae_config s) = repository_profile"
    using assms(1) by (simp add: repository_engine_def repository_policy_def)
  have "commercial_setting K (ec_policy_engine (ae_config s)) (ik_key_id (ae_chaser s)) (ik_key_id (ae_station s))"
    using assms unfolding repository_engine_def repository_policy_def by blast
  moreover have "commercial_conditions ''authorize_session'' (nominal_evidence start) True False None False"
    by (simp add: commercial_conditions_def nominal_evidence_def has_profile_def)
  ultimately obtain decision where "Cedar.authorize_session K (ec_policy_engine (ae_config s)) (ik_key_id (ae_chaser s))
            (ik_key_id (ae_station s)) (nominal_evidence start) True = Inr decision"
    using commercial_authorize(1) [of K _ _ _ "''authorize_session''"] assms(1)
    by (fastforce simp: authorize_session_def repository_engine_def repository_policy_def)
  then show thesis
    using that nominal_foundation_valid [OF assms now] nominal_credentials_valid [OF assms(2) now] by (simp add: conf)
qed

lemma docking_start:
  assumes "honest_parties K s" "fresh_source N s" "fresh_caches K N (reset s)"
    and "ae_random_calls s + 5 \<le> N" "repository_engine K s" "docking_period s start finish"
  shows "\<exists>out t. engine_step K (EstablishSession start Nominal) s = (Inr (SessionReply out), t)
     \<and> docking_at K start finish N t \<and> ae_state t = Hold \<and> ae_random_calls t = ae_random_calls s + 5"
proof -
  obtain decision where valid:
    "validate_foundation K (ec_protocol_profile (ae_config s)) start (ec_trust_bundle_id (ae_config s))
       (ec_trust_bundle_version (ae_config s)) (ec_trust_bundle_issued_at_s (ae_config s)) = Inr ()"
    "validate_credentials (ec_protocol_profile (ae_config s)) (nominal_evidence start) start = Inr ()"
    "Cedar.authorize_session K (ec_policy_engine (ae_config s)) (ik_key_id (ae_chaser s))
       (ik_key_id (ae_station s)) (nominal_evidence start) True = Inr decision"
    by (rule repository_session [OF assms(5,6)])
  have "clock_in_range start" using assms(6) by (simp add: clock_in_range_def docking_period_def)
  then obtain out t where run: "establish_session K start Nominal s = (Inr out, t)" and t: "ready K N t" "setup_of t = setup_of s"
      "ae_random_calls t = ae_random_calls s + 5" "ae_verified_credentials t = nominal_evidence start"
    using session_works [OF assms(1-4) _ _ valid, of Nominal] by auto
  have "session_open K (so_session_id out) start (so_authorization_decision out) t" using run by (rule establish_Inr)
  then have "engine_ok t" "ae_state t = Hold" "ae_session_id t \<noteq> None"
    using session_open_ok by (blast, simp_all add: session_open_def)
  moreover have "repository_engine K t" "docking_period t start finish"
    using assms(5,6) repository_engine_same [OF t(2)] docking_period_same [OF t(2)] by blast+
  ultimately show ?thesis using t(1,3,4) run by (simp add: docking_at_def and_then_def ret_def)
qed

lemma docking_run:
  assumes "honest_parties K s" "fresh_source N s" "fresh_caches K N (reset s)" "ae_random_calls s + 25 \<le> N"
    and "repository_engine K s" "docking_period s start finish" "on_schedule start finish evidence asked used"
  shows "\<exists>gs replies t. length gs = 4 \<and> run_all (engine_step K) (docking_commands start evidence asked used gs) s = (map Inr replies, t)
     \<and> map reply_grant replies = None # twice gs \<and> ae_state t = HardDock"
proof -
  have le: "ae_random_calls s + 5 \<le> N" using assms(4) by simp
  obtain out t where t: "engine_step K (EstablishSession start Nominal) s = (Inr (SessionReply out), t)"
      "docking_at K start finish N t" "ae_state t = Hold" "ae_random_calls t = ae_random_calls s + 5"
    using docking_start [OF assms(1-3) le assms(5,6)] by blast
  have "stage_index (ae_state t) + 4 = 4" "ae_random_calls t + 5 * 4 \<le> N" using t(3,4) assms(4) by simp_all
  from docking_stages [OF t(2) this assms(7)] obtain gs replies u where
      "length gs = 4" "run_all (engine_step K) (stages_from evidence asked used 1 gs) t = (map Inr replies, u)"
      "map reply_grant replies = twice gs" "ae_state u = HardDock"
    by (auto simp: t(3))
  then show ?thesis
    by (intro exI [of _ gs] exI [of _ "SessionReply out # replies"] exI [of _ u])
       (simp add: docking_commands_def t(1) del: engine_step.simps)
qed

text \<open>C11. A complete docking is possible: an engine configured with the repository's profile and
  commercial policy, with working keys that the trust stores know, a random source whose
  next 25 calls deliver and do not repeat earlier bytes, and caches, in memory or on a disk that
  commits, that have not seen these bytes, answers every command of a docking: a session, and then,
  in a period in which profile, trust bundle and credentials are current, a request for each of
  the four stages, with any evidence of at most 100 ms age that the policy's permit for the stage accepts, and
  within ten seconds its redemption with the signed grant of the reply and current evidence. It ends in hard dock.\<close>

theorem docking_completes:
  assumes "honest_parties K s" "fresh_source N s" "fresh_caches K N (reset s)" "ae_random_calls s + 25 \<le> N"
    and "repository_engine K s" "docking_period s start finish" "on_schedule start finish evidence asked used"
  shows "\<exists>gs replies t. length gs = 4 \<and> run_all (engine_step K) (docking_commands start evidence asked used gs) s = (map Inr replies, t)
     \<and> map reply_grant replies = None # twice gs \<and> ae_state t = HardDock"
  using assms by (rule docking_run)

text \<open>An engine in its first session, and the grant it issues for the approach.\<close>

lemma first_grant:
  assumes "honest_parties K s0" "fresh_source N s0" "fresh_caches K N (reset s0)" "ae_random_calls s0 + 10 \<le> N"
    and "repository_engine K s0" "docking_period s0 start finish"
  obtains out0 s out t token expires_at_s session_id rule decision event_kind where
    "engine_step K (EstablishSession start Nominal) s0 = (Inr (SessionReply out0), s)"
    "request_transition K 1 start (docking_readiness start) s = (Inr out, t)" "out_approved out"
    "issued K s StageApproach session_id 1 start rule decision out t" "ae_session_id s = Some session_id"
    "out_signed_grant_hex out = Some token" "out_grant_expires_at_s out = Some expires_at_s"
    "sint start \<le> sint expires_at_s" "transition_for (ae_state s) 1 = Some (event_kind, StageApproach)"
    "ae_station s = ae_station s0" "ae_chaser s = ae_chaser s0"
proof -
  have calls: "ae_random_calls s0 + 5 \<le> N" using assms(4) by simp
  obtain out0 s where s: "engine_step K (EstablishSession start Nominal) s0 = (Inr (SessionReply out0), s)"
      "docking_at K start finish N s" "ae_state s = Hold" "ae_random_calls s = ae_random_calls s0 + 5"
    using docking_start [OF assms(1-3) calls assms(5,6)] by blast
  have "s = snd (engine_step K (EstablishSession start Nominal) s0)" using s(1) by simp
  then have "setup_of s = setup_of s0" using keeps_step_setup unfolding keeps_def by blast
  then have parties: "ae_station s = ae_station s0" "ae_chaser s = ae_chaser s0" by (simp_all add: setup_of_def)
  have idx: "stage_index (ae_state s) < 4" "ae_random_calls s + 5 \<le> N" "1 = state_number (ae_state s) + 1"
      "during start finish start"
    using s(3,4) assms(4,6) by (simp_all add: docking_period_def)
  obtain event_kind stage session_id from_stage to_stage rule decision out t token where
      names: "transition_for (ae_state s) 1 = Some (event_kind, stage)" "ae_session_id s = Some session_id"
    and req: "request_transition K 1 start (docking_readiness start) s = (Inr out, t)"
    and iss: "issued K s stage session_id 1 start rule decision out t"
    and ttl: "10 \<le> sint (rd_entitlement_ttl_s rule)" "sint (rd_entitlement_ttl_s rule) \<le> 60"
    and token: "out_signed_grant_hex out = Some token"
      "out_grant_expires_at_s out = Some (saturating_add start (rd_entitlement_ttl_s rule))"
    by (rule docking_request [OF s(2) idx, where evidence = "docking_readiness start"])
       (simp_all add: s(3) docking_readiness_opens)
  have stage: "stage = StageApproach" using names s(3) by (simp add: transition_for_def)
  have "out_approved out" using iss by (auto elim: issued_fields)
  moreover have "sint start \<le> sint (saturating_add start (rd_entitlement_ttl_s rule))"
    using ttl sint_i64_bounds [of start] by (simp add: i64_simps)
  ultimately show thesis
    by (intro that [OF s(1) req _ iss [unfolded stage] names(2) token _ names(1) [unfolded stage] parties])
qed

section \<open>A demonstration engine\<close>

abbreviation docking_time :: i64 where "docking_time \<equiv> 1787900100"

abbreviation demo_readiness :: readiness_evidence where "demo_readiness \<equiv> docking_readiness docking_time"

text \<open>A request twenty seconds after each other, and five seconds later the redemption.\<close>

definition demo_asked :: "u8 \<Rightarrow> i64" where
  "demo_asked q = docking_time + 20 * word_of_nat (unat q)"

definition demo_used :: "u8 \<Rightarrow> i64" where
  "demo_used q = demo_asked q + 5"

abbreviation demo_evidence :: evidence_source where "demo_evidence \<equiv> \<lambda>q. docking_readiness"

lemma demo_schedule: "on_schedule docking_time (docking_time + 300) demo_evidence demo_asked demo_used"
  by (simp add: on_schedule_def demo_asked_def demo_used_def docking_readiness_opens docking_readiness_current)

definition demo_identity :: "string \<Rightarrow> u8 \<Rightarrow> identity_key" where
  "demo_identity name b = from_seed conforming name (replicate 32 b)"

definition demo_trust :: "string \<Rightarrow> u8 \<Rightarrow> trust_store" where
  "demo_trust name b = trust_store_insert name (ik_verifying_key (demo_identity name b)) trust_store_default"

definition demo_config :: "cedar_permit list access_engine_config" where
  "demo_config =
     \<lparr>ec_protocol_profile = repository_profile, ec_policy_engine = sample_policy_engine,
      ec_trust_bundle_id = ''waystation-1-trust'', ec_trust_bundle_version = 42,
      ec_trust_bundle_issued_at_s = 1787900040\<rparr>"

definition demo_engine :: "(cedar_permit list, journal_file) access_engine" where
  "demo_engine =
     new_engine conforming (demo_identity ''odyssey-7'' 1) (demo_identity ''waystation-1'' 2) (demo_identity ''orbital-safety-registry'' 3)
       (demo_trust ''odyssey-7'' 1) (demo_trust ''waystation-1'' 2) (demo_trust ''orbital-safety-registry'' 3) (demo_trust ''waystation-1'' 2)
       demo_config"

lemma demo_identity_works:
  assumes "is_utf8 name"
  shows "working_signer conforming (demo_identity name b)" "trusts (demo_trust name b) (demo_identity name b)"
    "ik_key_id (demo_identity name b) = name"
proof -
  have "honest_signer conforming (demo_identity name b)"
    unfolding demo_identity_def by (rule from_seed_honest [OF conforming_ed25519 _ assms]) simp
  then show "working_signer conforming (demo_identity name b)"
    by (simp add: working_signer_def demo_identity_def from_seed_def local_payload_signer_def)
  show "trusts (demo_trust name b) (demo_identity name b)" "ik_key_id (demo_identity name b) = name"
    by (simp_all add: trusts_def demo_trust_def trust_store_insert_def demo_identity_def from_seed_def)
qed

lemma demo_names: "is_utf8 ''odyssey-7''" "is_utf8 ''waystation-1''" "is_utf8 ''orbital-safety-registry''"
  by (simp_all add: is_utf8_code)

lemmas demo_works = demo_identity_works [OF demo_names(1)] demo_identity_works [OF demo_names(2)]
  demo_identity_works [OF demo_names(3)]

lemma demo_honest: "honest_parties conforming demo_engine"
  by (simp add: honest_parties_def demo_engine_def new_engine_def conforming_hex conforming_cbor conforming_cose demo_works)

lemma os_draws_fresh:
  assumes "ae_random_source s = os_random_source conforming" "N \<le> 256"
  shows "fresh_source N s"
proof -
  have drawn: "drawn s i = replicate 32 (of_nat i)" for i
    by (simp add: drawn_def assms(1) os_random_source_def)
  have "inj_on (drawn s) {..< N}"
  proof (rule inj_onI)
    fix i j :: nat
    assume "i \<in> {..< N}" "j \<in> {..< N}" "drawn s i = drawn s j"
    then have "unat (of_nat i :: u8) = unat (of_nat j :: u8)" "i < 256" "j < 256" using assms(2) by (simp_all add: drawn)
    then show "i = j" by (simp add: unsigned_of_nat take_bit_nat_eq_self)
  qed
  then show ?thesis by (simp add: fresh_source_def assms(1) os_random_source_def)
qed

lemma demo_fresh: "fresh_source 256 demo_engine"
  by (rule os_draws_fresh) (simp_all add: demo_engine_def new_engine_def)

lemma demo_calls: "ae_random_calls demo_engine = 0"
  by (simp add: demo_engine_def new_engine_def)

lemma demo_fresh_caches: "fresh_caches conforming 256 (reset demo_engine)"
  by (simp add: fresh_caches_def unused_def reliable_def demo_engine_def new_engine_def replay_default_def reset_def reset_ephemeral_def)

lemma demo_period: "docking_period demo_engine docking_time (docking_time + 300)"
  by (simp add: docking_period_def demo_engine_def new_engine_def demo_config_def)

lemma demo_repository: "repository_engine conforming demo_engine"
  by (simp add: repository_engine_def repository_policy_def commercial_setting_def demo_engine_def new_engine_def demo_config_def
      sample_policy_engine_def conforming_cedar conforming_policy conforming_simps demo_works)

lemma demo_session:
  obtains out s where "engine_step conforming (EstablishSession docking_time Nominal) demo_engine = (Inr (SessionReply out), s)"
    "docking_at conforming docking_time (docking_time + 300) 256 s" "ae_state s = Hold" "ae_random_calls s = 5"
    "snd (engine_step conforming (EstablishSession docking_time Nominal) demo_engine) = s"
proof -
  have "ae_random_calls demo_engine + 5 \<le> 256" by (simp add: demo_calls)
  from docking_start [OF demo_honest demo_fresh demo_fresh_caches this demo_repository demo_period] show thesis
    using that demo_calls by auto
qed

theorem docking_completes_witness:
  "\<exists>gs replies t. length gs = 4
     \<and> run_all (engine_step conforming) (docking_commands docking_time demo_evidence demo_asked demo_used gs) demo_engine = (map Inr replies, t)
     \<and> map reply_grant replies = None # twice gs \<and> ae_state t = HardDock"
  by (rule docking_completes [OF demo_honest demo_fresh demo_fresh_caches _ demo_repository demo_period demo_schedule])
     (simp add: demo_calls)

theorem nominal_session_established_witness:
  "(\<exists>out t. establish_session conforming docking_time Nominal demo_engine = (Inr out, t)
      \<and> session_authorized (ae_authorization t))
   \<and> fst (establish_session conforming docking_time ExpiredCredential demo_engine) = Inl (ProtocolErr CredentialExpired)"
proof -
  obtain decision where valid:
    "validate_foundation conforming (ec_protocol_profile (ae_config demo_engine)) docking_time
       (ec_trust_bundle_id (ae_config demo_engine)) (ec_trust_bundle_version (ae_config demo_engine))
       (ec_trust_bundle_issued_at_s (ae_config demo_engine)) = Inr ()"
    "validate_credentials (ec_protocol_profile (ae_config demo_engine)) (nominal_evidence docking_time) docking_time = Inr ()"
    "Cedar.authorize_session conforming (ec_policy_engine (ae_config demo_engine)) (ik_key_id (ae_chaser demo_engine))
       (ik_key_id (ae_station demo_engine)) (nominal_evidence docking_time) True = Inr decision"
    by (rule repository_session [OF demo_repository demo_period])
  have "clock_in_range docking_time" by (simp add: clock_in_range_def)
  note run = nominal_session_established [OF demo_honest demo_fresh demo_fresh_caches _ this valid]
  from run [of Nominal] run [of ExpiredCredential] show ?thesis by (auto simp: demo_calls split: prod.splits sum.splits)
qed

theorem request_then_redeem_witness:
  "\<exists>s out t grant_hex out' u. request_transition conforming 1 docking_time demo_readiness s = (Inr out, t)
     \<and> out_signed_grant_hex out = Some grant_hex
     \<and> redeem_transition conforming grant_hex 1 docking_time demo_readiness t = (Inr out', u)
     \<and> ae_state s = Hold \<and> state_number (ae_state (u :: (cedar_permit list, journal_file) access_engine)) = 1"
proof -
  obtain s :: "(cedar_permit list, journal_file) access_engine" where s: "docking_at conforming docking_time (docking_time + 300) 256 s" "ae_state s = Hold" "ae_random_calls s = 5"
    by (rule demo_session)
  have calls: "ae_random_calls s + 5 \<le> 256" using s(3) by simp
  have idx: "stage_index (ae_state s) < 4" "1 = state_number (ae_state s) + 1" using s(2) by simp_all
  obtain event_kind stage session_id from_stage to_stage rule decision out t g where
      names: "transition_names (ae_state s) 1 = Some (from_stage, to_stage)"
    and req: "request_transition conforming 1 docking_time demo_readiness s = (Inr out, t)"
    and iss: "issued conforming s stage session_id 1 docking_time rule decision out t"
    and eval: "\<forall>used r. during docking_time (docking_time + 300) used \<longrightarrow> sint used \<le> sint docking_time + 10
       \<longrightarrow> evidence_current used r \<longrightarrow> evaluate_profile conforming t from_stage to_stage used r = Inr rule"
    and ttl: "10 \<le> sint (rd_entitlement_ttl_s rule)" "sint (rd_entitlement_ttl_s rule) \<le> 60"
    and g: "out_signed_grant_hex out = Some g"
      "out_grant_expires_at_s out = Some (saturating_add docking_time (rd_entitlement_ttl_s rule))"
    by (rule docking_request [OF s(1) idx(1) calls idx(2), of docking_time demo_readiness])
       (simp_all add: s(2) docking_readiness_opens)
  have pre: "honest_parties conforming s" "fresh_source 256 s" "fresh_caches conforming 256 s" "engine_ok s"
    using s(1) by (simp_all add: docking_at_def ready_def)
  have "out_approved out" using iss by (auto elim: issued_fields)
  from request_then_redeem [OF pre req this g calls _ _ names eval [rule_format, of docking_time demo_readiness]] ttl docking_readiness_current
  obtain out' u where "redeem_transition conforming g 1 docking_time demo_readiness t = (Inr out', u)"
      "state_number (ae_state u) = 1" by (auto simp: i64_simps)
  with req g(1) s(2) show ?thesis by blast
qed

theorem clock_overflow_gives_no_session_witness:
  "fst (establish_session conforming 9223372036854775807 Nominal demo_engine) = Inl (ProtocolErr CredentialExpired)"
  using clock_overflow_gives_no_session [OF demo_honest demo_fresh demo_fresh_caches, of 9223372036854775807 Nominal]
  by (simp add: demo_calls)

end
