(* ===== verification/Guarantees.thy ===== *)
theory Guarantees
  imports Complete
begin

text \<open>
  What the engine guarantees to its callers, command by command and over any sequence of
  commands from its construction.
\<close>

section \<open>Construction\<close>

text \<open>An engine as constructed, with any random source and any replay caches put in place.\<close>

definition initial_engine where
  "initial_engine K chaser station issuer station_trust chaser_trust credential_trust gate_trust config source a b c d =
     set_replay_state a b c d (with_random_source source
       (new_engine K chaser station issuer station_trust chaser_trust credential_trust gate_trust config))"

lemma initial_engine_fields:
  "ae_state (initial_engine K x1 x2 x3 x4 x5 x6 x7 config source a b c d) = Hold"
  "ae_pending_entitlements (initial_engine K x1 x2 x3 x4 x5 x6 x7 config source a b c d) = Map.empty"
  "ae_config (initial_engine K x1 x2 x3 x4 x5 x6 x7 config source a b c d) = config"
  "ae_chaser (initial_engine K x1 x2 x3 x4 x5 x6 x7 config source a b c d) = x1"
  "ae_station (initial_engine K x1 x2 x3 x4 x5 x6 x7 config source a b c d) = x2"
  by (simp_all add: initial_engine_def set_replay_state_def with_random_source_def new_engine_def)

lemma initial_engine_ok: "engine_ok (initial_engine K x1 x2 x3 x4 x5 x6 x7 config source a b c d)"
  by (simp add: initial_engine_def set_replay_state_def with_random_source_def new_engine_def engine_ok_def
      default_authorization_def)

lemma setup_step: "setup_of (snd (engine_step K c s)) = setup_of s"
  by (metis (mono_tags) keeps_def keeps_step_setup)

interpretation configuration: machine "engine_step K" "\<lambda>s. setup_of s = c" for K c
  by unfold_locales (rule keeps_step_setup)

text \<open>C9. In every state the engine can reach, the session flag and the session identifier agree, a
  session implies a verified identity and a holder proof, without a session the engine is in
  Hold with nothing pending, it is never Aborted, the docking fact is never stored, and every
  pending entitlement is for a stage from 1 to 4 and carries the digest of the configured policy.\<close>

theorem engine_invariant:
  "engine_ok (snd (run_all (engine_step K) cmds
     (initial_engine K chaser station issuer station_trust chaser_trust credential_trust gate_trust config source a b c d)))"
  by (rule engine.inv_run [OF initial_engine_ok])

text \<open>No command, whatever it returns, changes the identities, the trust stores, the profile, the
  policy engine, the trust bundle's identity or the random source.\<close>

lemma configuration_fixed:
  "setup_of (snd (run_all (engine_step K) cmds s)) = setup_of s"
  by (rule configuration.inv_run) (rule refl)

section \<open>Establishing a session\<close>

text \<open>C7. Establishing a session fails closed and starts over: an attempt that returns an error leaves no
  session, nothing pending and the engine in Hold, whatever session there was before; an
  attempt that succeeds leaves the engine in Hold with the new session, only after the trust
  bundle, the credentials and the policy were accepted for exactly the credentials it stores.\<close>

theorem establish_fails_closed:
  "case establish_session K now_s scenario s of
     (Inl e, t) \<Rightarrow> ae_state t = Hold \<and> ae_session_id t = None \<and> \<not> session_authorized (ae_authorization t)
        \<and> ae_pending_entitlements t = Map.empty
   | (Inr out, t) \<Rightarrow> ae_state t = Hold \<and> ae_session_id t = Some (so_session_id out)
        \<and> ae_pending_entitlements t = Map.empty \<and> ae_holder_proof_at_s t = Some now_s
        \<and> validate_foundation K (ec_protocol_profile (ae_config t)) now_s (ec_trust_bundle_id (ae_config t))
            (ec_trust_bundle_version (ae_config t)) (ec_trust_bundle_issued_at_s (ae_config t)) = Inr ()
        \<and> validate_credentials (ec_protocol_profile (ae_config t)) (ae_verified_credentials t) now_s = Inr ()
        \<and> Cedar.authorize_session K (ec_policy_engine (ae_config t)) (ik_key_id (ae_chaser t))
            (ik_key_id (ae_station t)) (ae_verified_credentials t) True = Inr (so_authorization_decision out)"
proof (cases "establish_session K now_s scenario s")
  case (Pair r t)
  show ?thesis
  proof (cases r)
    case (Inl e)
    with Pair establish_Inl [of K now_s scenario s e t] show ?thesis by (simp add: unauthorized_def)
  next
    case (Inr out)
    with Pair establish_Inr [of K now_s scenario s out t] show ?thesis by (simp add: session_open_def)
  qed
qed

section \<open>Requesting a transition\<close>

text \<open>C6. A request never moves the docking state. When it returns, it approves exactly if profile and
  policy grant the stage; a denial adds no entitlement and returns no grant; an approval adds
  one entitlement, for the requested stage, under the identifier it returns. When it fails,
  the session and the entitlements are as before.\<close>

theorem request_decides:
  "case request_transition K q now_s readiness s of
     (Inl e, t) \<Rightarrow> ae_state t = ae_state s \<and> ae_session_id t = ae_session_id s
        \<and> ae_pending_entitlements t = ae_pending_entitlements s
   | (Inr out, t) \<Rightarrow> ae_state t = ae_state s \<and> ae_session_id t = ae_session_id s
        \<and> (out_approved out \<longleftrightarrow> grants_stage K s q now_s readiness)
        \<and> (if out_approved out
           then \<exists>grant_id decision. out_grant_id out = Some grant_id \<and> out_authorization_decision out = Some decision
              \<and> ae_pending_entitlements t = (ae_pending_entitlements s)(grant_id \<mapsto>
                  \<lparr>pn_requested_state = q, pn_authorization_decision = decision\<rparr>)
           else out_grant_id out = None \<and> ae_pending_entitlements t = ae_pending_entitlements s)"
proof (cases "request_transition K q now_s readiness s")
  case (Pair r t)
  show ?thesis
  proof (cases r)
    case (Inl e)
    with Pair tripleD_Inl [OF request_triple refl] have "refreshed s t" by blast
    with Pair Inl show ?thesis by (simp add: refreshed_fields)
  next
    case (Inr out)
    with Pair tripleD_Inr [OF request_triple refl] have res: "request_result K s q now_s readiness out t" by blast
    then show ?thesis
      unfolding Pair Inr prod.case sum.case
      by (cases rule: request_resultE) (auto simp: proved_def refreshed_fields elim: issued_fields)
  qed
qed

section \<open>Redeeming a grant\<close>

text \<open>C4. A redemption that succeeds was presented with an envelope that is authentic under the gate's
  trust store, addressed to the chaser, within the clock skew and with an unused nonce. Its
  claims name a pending entitlement for the requested stage, the current session, the stage the
  engine moves into, and an expiry that has not passed; the profile grants that stage again, now,
  and the claims name the profile and the rule it grants by, and the policy bundle the
  entitlement was decided under, by identifier, version and digest. The redemption uses up the
  nonce, the entitlement and the grant identifier, and moves the docking state one stage on, to
  the requested one. A redemption that fails does not move the state, changes no session and
  adds no entitlement.\<close>

theorem redeem_sound:
  "case redeem_transition K signed_grant_hex q now_s readiness s of
     (Inl e, t) \<Rightarrow> ae_state t = ae_state s \<and> ae_session_id t = ae_session_id s
        \<and> ae_pending_entitlements t \<subseteq>\<^sub>m ae_pending_entitlements s
   | (Inr out, t) \<Rightarrow>
       (\<exists>encoded grant grant_id pending expiry event_kind stage from_stage to_stage rule.
          hex_decode K signed_grant_hex = Inr encoded
          \<and> authentic_envelope K encoded (ae_gate_trust s) (ik_key_id (ae_chaser s)) now_s 30 grant
          \<and> pc_nonce (ve_claims grant) \<notin> rc_consumed (ae_gate_replay s)
          \<and> rc_consumed (ae_gate_replay t) = insert (pc_nonce (ve_claims grant)) (rc_consumed (ae_gate_replay s))
          \<and> pc_grant_id (ve_claims grant) = Some grant_id
          \<and> ae_pending_entitlements s grant_id = Some pending \<and> pn_requested_state pending = q
          \<and> ae_pending_entitlements t = (ae_pending_entitlements s)(grant_id := None)
          \<and> as_bytes grant_id \<notin> rc_consumed (ae_consumed_grants s)
          \<and> rc_consumed (ae_consumed_grants t) = insert (as_bytes grant_id) (rc_consumed (ae_consumed_grants s))
          \<and> ae_session_id s \<noteq> None \<and> pc_session_id (ve_claims grant) = ae_session_id s
          \<and> transition_for (ae_state s) q = Some (event_kind, stage)
          \<and> pc_authorized_stage (ve_claims grant) = Some stage
          \<and> pc_expires_at_s (ve_claims grant) = Some expiry \<and> sint now_s \<le> sint expiry
          \<and> transition_names (ae_state s) q = Some (from_stage, to_stage)
          \<and> evaluate_profile K s from_stage to_stage now_s readiness = Inr rule
          \<and> pc_protocol_profile_id (ve_claims grant) = Some (rd_profile_id rule)
          \<and> pc_protocol_profile_version (ve_claims grant) = Some (rd_profile_version rule)
          \<and> pc_rule_id (ve_claims grant) = Some (rd_rule_id rule)
          \<and> pc_authorization_policy_bundle_id (ve_claims grant)
              = Some (am_bundle_id (ad_policy (pn_authorization_decision pending)))
          \<and> pc_authorization_policy_bundle_version (ve_claims grant)
              = Some (am_bundle_version (ad_policy (pn_authorization_decision pending)))
          \<and> pc_authorization_policy_sha256 (ve_claims grant)
              = Some (am_policy_sha256 (ad_policy (pn_authorization_decision pending)))
          \<and> state_number (ae_state t) = q \<and> stage_index (ae_state t) = Suc (stage_index (ae_state s)))"
proof (cases "redeem_transition K signed_grant_hex q now_s readiness s")
  case (Pair r t)
  show ?thesis
  proof (cases r)
    case (Inl e)
    with redeem_cases [OF Pair] have "presented s t" by simp
    with Pair Inl show ?thesis by (simp add: presented_fields)
  next
    case (Inr out)
    with Pair have run: "redeem_transition K signed_grant_hex q now_s readiness s = (Inr out, t)" by simp
    from run [unfolded redeem_Inr] obtain event_kind stage session_id encoded grant gate grant_id pending
        from_stage to_stage rule grants state where
        checked: "transition_for (ae_state s) q = Some (event_kind, stage)" "ae_session_id s = Some session_id"
          "hex_decode K signed_grant_hex = Inr encoded" "pc_grant_id (ve_claims grant) = Some grant_id"
          "ae_pending_entitlements s grant_id = Some pending" "transition_names (ae_state s) q = Some (from_stage, to_stage)"
          "evaluate_profile K s from_stage to_stage now_s readiness = Inr rule"
      and envelope: "verify_envelope K encoded (ae_gate_trust s) (ik_key_id (ae_chaser s)) now_s max_clock_skew_s
             (ae_gate_replay s) = (Inr grant, gate)"
      and matches: "grant_matches (ve_claims grant) pending q session_id stage now_s"
      and bound: "grant_bound (ve_claims grant) pending rule"
      and used: "consume (as_bytes grant_id) (ae_consumed_grants s) = (Inr (), grants)"
      and moved: "reduce (ae_state s) event_kind \<lparr>identity_verified = identity_verified (ae_authorization s),
             session_authorized = session_authorized (ae_authorization s),
             docking_authorized = (stage = StageHardDock)\<rparr> = Inr state"
      and t: "t = s\<lparr>ae_gate_replay := gate, ae_pending_entitlements := (ae_pending_entitlements s)(grant_id := None),
               ae_consumed_grants := grants, ae_state := state\<rparr>" by blast
    obtain expiry where "pc_expires_at_s (ve_claims grant) = Some expiry" "sint now_s \<le> sint expiry"
      using matches by (auto simp: grant_matches_def split: option.splits)
    moreover have "authentic_envelope K encoded (ae_gate_trust s) (ik_key_id (ae_chaser s)) now_s 30 grant"
      using envelope by (simp add: verify_envelope_Inr max_clock_skew_s_def)
    moreover have "pn_requested_state pending = q" "pc_session_id (ve_claims grant) = Some session_id"
        "pc_authorized_stage (ve_claims grant) = Some stage"
      using matches by (auto simp: grant_matches_def)
    moreover note checked bound [unfolded grant_bound_def Let_def de_Morgan_disj not_not]
      verify_envelope_consumed [OF envelope] consume_Inr [OF used] redeem_state [OF checked(1) moved]
    ultimately show ?thesis
      unfolding run prod.case sum.case
      by - (rule exI [of _ encoded], rule exI [of _ grant], rule exI [of _ grant_id], rule exI [of _ pending],
          rule exI [of _ expiry], rule exI [of _ event_kind], rule exI [of _ stage],
          rule exI [of _ from_stage], rule exI [of _ to_stage], rule exI [of _ rule], simp add: t)
  qed
qed

section \<open>What a redemption reads of the readiness evidence\<close>

lemma evaluate_profile_readiness:
  "evaluate_profile K s from_stage to_stage now_s (readiness\<lparr>re_range_m := a, re_closing_rate_mps := b, re_checks := c\<rparr>)
     = evaluate_profile K s from_stage to_stage now_s readiness"
proof -
  have "re_observed_at_ms (readiness\<lparr>re_range_m := a, re_closing_rate_mps := b, re_checks := c\<rparr>) = re_observed_at_ms readiness"
    by simp
  then show ?thesis unfolding evaluate_profile_def evaluate_def check_rule_def by (simp only:)
qed

text \<open>A redemption reads the observation time of the readiness evidence and nothing else: with any
  other range, closing rate and checks it has the same result and effect. The policy, which
  reads them, is asked when the grant is issued and not again when it is redeemed.\<close>

lemma redeem_ignores_readiness_values:
  "redeem_transition K signed_grant_hex q now_s (readiness\<lparr>re_range_m := a, re_closing_rate_mps := b, re_checks := c\<rparr>)
     = redeem_transition K signed_grant_hex q now_s readiness"
  unfolding redeem_transition_def evaluate_profile_readiness by (rule refl)

section \<open>The rule the policy is asked about\<close>

text \<open>When no two rules of the profile share an identifier, the policy is asked about the action of
  the rule the profile matched, and the freshness it is told is always true: an evaluation that
  got this far has already refused stale evidence. (The code looks both up by identifier.)\<close>

lemma policy_sees_matched_rule:
  assumes "evaluate_profile K s from_stage to_stage now_s readiness = Inr rule"
    and "distinct (map sr_rule_id (pp_stage_rules (ec_protocol_profile (ae_config s))))"
  shows "\<exists>matched. matching_rule (ec_protocol_profile (ae_config s)) from_stage to_stage = Some matched
     \<and> rule_action (ec_protocol_profile (ae_config s)) (rd_rule_id rule) = sr_action matched
     \<and> readiness_fresh (ec_protocol_profile (ae_config s)) (rd_rule_id rule) now_s readiness"
proof -
  let ?profile = "ec_protocol_profile (ae_config s)"
  obtain matched where m: "matching_rule ?profile from_stage to_stage = Some matched" "rd_rule_id rule = sr_rule_id matched"
      "check_rule matched now_s (ae_holder_proof_at_s s) (session_authorized (ae_authorization s)) readiness = Inr ()"
    using assms(1) by (auto simp: evaluate_profile_def evaluate_Inr)
  then have "matched \<in> set (pp_stage_rules ?profile)"
    unfolding matching_rule_def by (metis find_Some_props)
  then have "rule_by_id ?profile (rd_rule_id rule) = Some matched"
    unfolding rule_by_id_def m(2) by (rule find_distinct_key [OF assms(2)])
  with m show ?thesis by (auto simp: rule_action_def readiness_fresh_def check_rule_Inr)
qed

text \<open>With a shared identifier it can be another rule's action: here the rule for hard dock carries the
  identifier of the rule for the approach, and the policy is asked about entering the approach.\<close>

lemma shared_rule_id_misroutes:
  "let profile = repository_profile\<lparr>pp_stage_rules := take 3 (pp_stage_rules repository_profile) @
         [stage_rule ''enter-approach'' ''engage_hard_dock'' ''soft_capture'' ''hard_dock'' ''authorized'' 15 100 10]\<rparr>
   in case evaluate conforming profile ''soft_capture'' ''hard_dock'' 1787900100 ''waystation-1-trust'' 42
        1787900040 test_credentials (Some 1787900099) True test_readiness of
        Inr rule \<Rightarrow> rule_action profile (rd_rule_id rule) = ''enter_approach''
      | Inl _ \<Rightarrow> False"
  by (simp add: evaluate_def validate_foundation_def parse_timestamp_def repository_profile_def
      test_credentials_def test_readiness_def credential_conforms_def matching_rule_def stage_rule_def
      check_rule_def evidence_age_ms_def saturating_sub_def saturating_mul_def clamp_i64_def rule_action_def rule_by_id_def)

section \<open>Hard dock\<close>

lemma is_ascii_hard_dock: "is_ascii ''engage_hard_dock''"
  by simp

lemma hard_dock_decided:
  assumes "repository_policy K start" "decided K start cmds 4"
  shows "\<exists>before now_s readiness after. cmds = before @ RequestTransition 4 now_s readiness # after
     \<and> ae_state (snd (run_all (engine_step K) before start)) = SoftCapture
     \<and> sint (evidence_age_ms now_s (re_observed_at_ms readiness)) \<le> 100
     \<and> has_profile (ae_verified_credentials (snd (run_all (engine_step K) before start))) ''idss-compatible-v1''
     \<and> check_flag (Some readiness) ''soft_capture_confirmed'' \<and> check_flag (Some readiness) ''latches_ready''
     \<and> check_flag (Some readiness) ''relative_motion_stable''
     \<and> sint (closing_rate_mmps (Some readiness)) \<le> 50 \<and> sint (range_mm (Some readiness)) \<le> 40"
proof -
  obtain before now_s readiness after event_kind stage from_stage to_stage rule decision s where
      cmds: "cmds = before @ RequestTransition 4 now_s readiness # after"
    and s: "s = snd (run_all (engine_step K) before start)"
    and d: "transition_for (ae_state s) 4 = Some (event_kind, stage)" "transition_names (ae_state s) 4 = Some (from_stage, to_stage)"
      "evaluate_profile K (s\<lparr>ae_holder_proof_at_s := Some now_s\<rparr>) from_stage to_stage now_s readiness = Inr rule"
      "authorize_rule K (s\<lparr>ae_holder_proof_at_s := Some now_s\<rparr>) (rd_rule_id rule) now_s readiness = Inr decision"
    using assms(2) unfolding decided_def Let_def by blast
  have "setup_of s = setup_of start" unfolding s by (rule configuration.inv_run) (rule refl)
  then have rep: "repository_policy K s" using assms(1) repository_policy_same by blast
  then have conf: "ec_protocol_profile (ae_config s) = repository_profile" by (simp add: repository_policy_def)
  have st: "ae_state s = SoftCapture" "from_stage = ''soft_capture''" "to_stage = ''hard_dock''"
    using d(1,2) by (auto simp: transition_for_def transition_names_def split: if_splits)
  have rule: "rd_rule_id rule = ''engage-hard-dock''" "sint (evidence_age_ms now_s (re_observed_at_ms readiness)) \<le> 100"
    using d(3) by (auto simp: evaluate_profile_def evaluate_Inr conf st matching_rule_def repository_profile_def stage_rule_def
        check_rule_Inr)
  have action: "rule_action repository_profile ''engage-hard-dock'' = ''engage_hard_dock''"
    by (simp add: rule_action_def rule_by_id_def repository_profile_def stage_rule_def)
  have "commercial_setting K (ec_policy_engine (ae_config s)) (ik_key_id (ae_chaser s)) (ik_key_id (ae_station s))"
    using rep by (simp add: repository_policy_def)
  moreover have "authorize K (ec_policy_engine (ae_config s)) ''stage_transition'' (ik_key_id (ae_chaser s)) ''engage_hard_dock''
      (ik_key_id (ae_station s)) (policy_context (ae_verified_credentials s) True (session_authorized (ae_authorization s))
         (Some readiness) (readiness_fresh repository_profile ''engage-hard-dock'' now_s readiness)) = Inr decision"
    using d(4) by (simp add: authorize_rule_def authorize_transition_def Let_def rule(1) conf action)
  ultimately obtain proof_flag session_flag fresh_flag where
      "commercial_conditions ''engage_hard_dock'' (ae_verified_credentials s) proof_flag session_flag (Some readiness) fresh_flag"
    using commercial_authorize(1) by (metis is_ascii_hard_dock)
  then show ?thesis
    using cmds st(1) rule(2) unfolding s commercial_conditions_def Let_def by auto
qed

text \<open>C1. No hard dock without an allowed request: whenever an engine with the repository's profile and
  commercial policy is in hard dock, one of its commands was a request for hard dock, made in
  soft capture, with evidence at most 100 ms old, a docking certification among the session's
  credentials, the three hard-dock checks passed, and a range of at most 40 mm and a closing
  rate of at most 50 mm/s as the policy reads them.\<close>

theorem hard_dock_was_authorized:
  assumes "start = initial_engine K chaser station issuer station_trust chaser_trust credential_trust gate_trust
      config source a b c d"
    and "repository_policy K start" "ae_state (snd (run_all (engine_step K) cmds start)) = HardDock"
  shows "\<exists>before now_s readiness after. cmds = before @ RequestTransition 4 now_s readiness # after
     \<and> ae_state (snd (run_all (engine_step K) before start)) = SoftCapture
     \<and> sint (evidence_age_ms now_s (re_observed_at_ms readiness)) \<le> 100
     \<and> has_profile (ae_verified_credentials (snd (run_all (engine_step K) before start))) ''idss-compatible-v1''
     \<and> check_flag (Some readiness) ''soft_capture_confirmed'' \<and> check_flag (Some readiness) ''latches_ready''
     \<and> check_flag (Some readiness) ''relative_motion_stable''
     \<and> sint (closing_rate_mmps (Some readiness)) \<le> 50 \<and> sint (range_mm (Some readiness)) \<le> 40"
proof -
  have "all_decided K start cmds" by (rule all_decided_run) (simp_all add: assms(1) initial_engine_fields)
  then have "decided K start cmds 4" using assms(3) by (simp add: all_decided_def Let_def)
  with assms(2) show ?thesis by (rule hard_dock_decided)
qed

lemma demo_initial:
  "demo_engine = initial_engine conforming (demo_identity ''odyssey-7'' 1) (demo_identity ''waystation-1'' 2)
     (demo_identity ''orbital-safety-registry'' 3) (demo_trust ''odyssey-7'' 1) (demo_trust ''waystation-1'' 2)
     (demo_trust ''orbital-safety-registry'' 3) (demo_trust ''waystation-1'' 2) demo_config (os_random_source conforming)
     replay_default replay_default replay_default replay_default"
  by (simp add: demo_engine_def initial_engine_def new_engine_def set_replay_state_def with_random_source_def)

lemma demo_policy: "repository_policy conforming demo_engine"
  using demo_repository by (simp add: repository_engine_def)

theorem hard_dock_was_authorized_witness:
  "\<exists>cmds before now_s readiness after. ae_state (snd (run_all (engine_step conforming) cmds demo_engine)) = HardDock
     \<and> cmds = before @ RequestTransition 4 now_s readiness # after
     \<and> ae_state (snd (run_all (engine_step conforming) before demo_engine)) = SoftCapture
     \<and> check_flag (Some readiness) ''latches_ready'' \<and> sint (range_mm (Some readiness)) \<le> 40"
proof -
  have "ae_random_calls demo_engine + 25 \<le> 256" by (simp add: demo_calls)
  from docking_run [OF demo_honest demo_fresh demo_fresh_caches this demo_repository demo_period demo_schedule]
  obtain gs replies t where
    "run_all (engine_step conforming) (docking_commands docking_time demo_evidence demo_asked demo_used gs) demo_engine = (map Inr replies, t)"
    "ae_state t = HardDock"
    by blast
  then have run: "ae_state (snd (run_all (engine_step conforming) (docking_commands docking_time demo_evidence demo_asked demo_used gs) demo_engine))
      = HardDock"
    by simp
  from hard_dock_was_authorized [OF demo_initial demo_policy run] run show ?thesis by blast
qed

lemma policy_sees_matched_rule_witness:
  "\<exists>matched. matching_rule repository_profile ''hold'' ''approach'' = Some matched
     \<and> rule_action repository_profile ''enter-approach'' = sr_action matched"
proof -
  let ?s = "demo_engine\<lparr>ae_verified_credentials := nominal_evidence docking_time, ae_holder_proof_at_s := Some docking_time,
     ae_authorization := \<lparr>identity_verified = True, session_authorized = True, docking_authorized = False\<rparr>\<rparr>"
  have "setup_of ?s = setup_of demo_engine" by (simp add: setup_of_def)
  then have "repository_engine conforming ?s" "docking_period ?s docking_time (docking_time + 300)"
    using demo_repository demo_period repository_engine_same docking_period_same by blast+
  then obtain rule where e: "evaluate_profile conforming ?s ''hold'' ''approach'' docking_time demo_readiness = Inr rule"
    using docking_evaluates [of conforming ?s docking_time "docking_time + 300" docking_time docking_time Hold "''hold''" "''approach''"
      _ _ _ demo_readiness] docking_readiness_current [of docking_time]
    by auto
  have conf: "ec_protocol_profile (ae_config ?s) = repository_profile" "ec_protocol_profile (ae_config demo_engine) = repository_profile"
    using demo_policy by (simp_all add: repository_policy_def)
  have "rd_rule_id rule = ''enter-approach''"
    using e by (auto simp: evaluate_profile_def evaluate_Inr conf matching_rule_def repository_profile_def stage_rule_def)
  moreover have "distinct (map sr_rule_id (pp_stage_rules (ec_protocol_profile (ae_config ?s))))"
    unfolding conf by (simp add: repository_profile_def stage_rule_def)
  ultimately show ?thesis using policy_sees_matched_rule [OF e] unfolding conf by auto
qed

end
