(* ===== verification/Gate.thy ===== *)
theory Gate
  imports Guarantees
begin

text \<open>
  An abstract specification of the transition gate and a proof that the engine implements it. The
  specification has no cryptography, clocks, profile or policy: a gate is open or closed, stands
  at a stage from 0 to 4, and holds tickets, each for one stage. The engine's commands, read with
  their results, are the actions of the gate.
\<close>

section \<open>The abstract gate\<close>

record gate =
  g_stage :: nat
  g_open :: bool
  g_tickets :: "string \<rightharpoonup> nat"

datatype gate_action = Opens | Closes | Grants string nat | Redeems string | Loses

inductive gate_step :: "gate \<Rightarrow> gate_action \<Rightarrow> gate \<Rightarrow> bool" where
  opens: "gate_step g Opens \<lparr>g_stage = 0, g_open = True, g_tickets = Map.empty\<rparr>"
| closes: "gate_step g Closes \<lparr>g_stage = 0, g_open = False, g_tickets = Map.empty\<rparr>"
| grants: "g_open g \<Longrightarrow> n = Suc (g_stage g) \<Longrightarrow> n \<le> 4 \<Longrightarrow>
     gate_step g (Grants k n) (g\<lparr>g_tickets := (g_tickets g)(k \<mapsto> n)\<rparr>)"
| redeems: "g_open g \<Longrightarrow> g_tickets g k = Some (Suc (g_stage g)) \<Longrightarrow>
     gate_step g (Redeems k) (g\<lparr>g_stage := Suc (g_stage g), g_tickets := (g_tickets g)(k := None)\<rparr>)"
| loses: "tickets \<subseteq>\<^sub>m g_tickets g \<Longrightarrow> gate_step g Loses (g\<lparr>g_tickets := tickets\<rparr>)"

inductive_cases opensE: "gate_step g Opens h"
inductive_cases closesE: "gate_step g Closes h"
inductive_cases grantsE: "gate_step g (Grants k n) h"
inductive_cases redeemsE: "gate_step g (Redeems k) h"
inductive_cases losesE: "gate_step g Loses h"

lemmas gate_stepE = opensE closesE grantsE redeemsE losesE

inductive gate_run :: "gate \<Rightarrow> gate_action list \<Rightarrow> gate \<Rightarrow> bool" where
  stop: "gate_run g [] g"
| step: "gate_step g a h \<Longrightarrow> gate_run h as i \<Longrightarrow> gate_run g (a # as) i"

inductive_simps gate_run_Nil: "gate_run g [] h"
inductive_simps gate_run_Cons: "gate_run g (a # as) h"

text \<open>What every run keeps: the stage is at most 4, a closed gate is at stage 0 without tickets,
  and no ticket is for a stage beyond the next.\<close>

definition gate_ok :: "gate \<Rightarrow> bool" where
  "gate_ok g \<longleftrightarrow> g_stage g \<le> 4 \<and> (\<not> g_open g \<longrightarrow> g_stage g = 0 \<and> g_tickets g = Map.empty)
     \<and> (\<forall>k n. g_tickets g k = Some n \<longrightarrow> n \<le> Suc (g_stage g) \<and> n \<le> 4)"

lemma gate_step_ok:
  assumes "gate_step g a h" "gate_ok g"
  shows "gate_ok h"
  using assms
proof (cases rule: gate_step.cases)
  case (loses tickets)
  then have "\<And>k n. tickets k = Some n \<Longrightarrow> g_tickets g k = Some n"
    unfolding map_le_def by (metis domI)
  moreover from this have "g_tickets g = Map.empty \<Longrightarrow> tickets = Map.empty"
    by (metis ext not_None_eq)
  ultimately show ?thesis using loses assms(2) by (auto simp: gate_ok_def)
qed (auto simp: gate_ok_def split: if_splits; fastforce)+

lemma gate_run_ok: "gate_run g as h \<Longrightarrow> gate_ok g \<Longrightarrow> gate_ok h"
  by (induction rule: gate_run.induct) (auto dest: gate_step_ok)

lemma gate_run_snoc: "gate_run g (as @ [a]) i \<longleftrightarrow> (\<exists>h. gate_run g as h \<and> gate_step h a i)"
proof (induction as arbitrary: g)
  case Nil
  show ?case by (auto simp: gate_run_Cons gate_run_Nil)
next
  case (Cons b as)
  then show ?case by (auto simp: gate_run_Cons)
qed

text \<open>A ticket that is held was granted, and since then the gate was not opened or closed.\<close>

lemma ticket_origin:
  assumes "gate_run g as h" "g_tickets g = Map.empty" "g_tickets h k = Some n"
  shows "\<exists>before after. as = before @ Grants k n # after \<and> Opens \<notin> set after \<and> Closes \<notin> set after"
  using assms
proof (induction as arbitrary: h n rule: rev_induct)
  case Nil
  then show ?case by (simp add: gate_run_Nil)
next
  case (snoc a as)
  then obtain f where run: "gate_run g as f" and st: "gate_step f a h" by (auto simp: gate_run_snoc)
  have keep: ?case if old: "g_tickets f k = Some n" and still: "a \<noteq> Opens" "a \<noteq> Closes"
  proof -
    obtain before after where "as = before @ Grants k n # after" "Opens \<notin> set after" "Closes \<notin> set after"
      using snoc.IH [OF run snoc.prems(2) old] by blast
    with still have "as @ [a] = before @ Grants k n # (after @ [a])" "Opens \<notin> set (after @ [a])" "Closes \<notin> set (after @ [a])"
      by simp_all
    then show ?thesis by blast
  qed
  have kept: "tickets k = Some n \<Longrightarrow> tickets \<subseteq>\<^sub>m g_tickets f \<Longrightarrow> g_tickets f k = Some n" for tickets
    unfolding map_le_def by (metis domI)
  have new: ?case if "a = Grants k n"
    using that by (intro exI [of _ as] exI [of _ "[]"]) simp
  from st show ?case
    by (cases rule: gate_step.cases) (use snoc.prems(3) keep kept new in \<open>auto split: if_splits\<close>)
qed

section \<open>The engine as a gate\<close>

definition gate_of :: "('p, 'b) access_engine \<Rightarrow> gate" where
  "gate_of s =
     \<lparr>g_stage = stage_index (ae_state s), g_open = session_authorized (ae_authorization s),
      g_tickets = (\<lambda>k. map_option (\<lambda>p. unat (pn_requested_state p)) (ae_pending_entitlements s k))\<rparr>"

fun action_of :: "engine_command \<Rightarrow> session_error + engine_reply \<Rightarrow> gate_action" where
  "action_of (EstablishSession now_s scenario) r = (case r of Inl _ \<Rightarrow> Closes | Inr _ \<Rightarrow> Opens)"
| "action_of (RequestTransition q now_s readiness) r =
     (case grant_issued (RequestTransition q now_s readiness) r of None \<Rightarrow> Loses | Some k \<Rightarrow> Grants k (unat q))"
| "action_of (RedeemTransition g q now_s readiness) r =
     (case grant_redeemed (RedeemTransition g q now_s readiness) r of None \<Rightarrow> Loses | Some k \<Rightarrow> Redeems k)"

lemma transition_for_stage:
  "transition_for state q = Some (event_kind, stage) \<Longrightarrow> unat q = Suc (stage_index state) \<and> unat q \<le> 4"
  by (auto simp: transition_for_def split: if_splits)

lemma gate_of_same:
  "ae_state t = ae_state s \<Longrightarrow> ae_authorization t = ae_authorization s \<Longrightarrow>
     ae_pending_entitlements t = ae_pending_entitlements s \<Longrightarrow> gate_step (gate_of s) Loses (gate_of t)"
  using loses [of "g_tickets (gate_of s)" "gate_of s"] by (simp add: gate_of_def)

lemma establish_refines:
  assumes "engine_step K (EstablishSession now_s scenario) s = (r, t)"
  shows "gate_step (gate_of s) (action_of (EstablishSession now_s scenario) r) (gate_of t)"
proof (cases "establish_session K now_s scenario s")
  case (Pair q u)
  show ?thesis
  proof (cases q)
    case (Inl e)
    with Pair have "unauthorized u" using establish_Inl by blast
    with Pair Inl assms closes [of "gate_of s"] show ?thesis
      by (auto simp: and_then_def gate_of_def unauthorized_def)
  next
    case (Inr out)
    with Pair have "session_open K (so_session_id out) now_s (so_authorization_decision out) u" using establish_Inr by blast
    with Pair Inr assms opens [of "gate_of s"] show ?thesis
      by (auto simp: and_then_def ret_def gate_of_def session_open_def)
  qed
qed

lemma request_refines:
  assumes "engine_step K (RequestTransition q now_s readiness) s = (r, t)" "engine_ok s"
  shows "gate_step (gate_of s) (action_of (RequestTransition q now_s readiness) r) (gate_of t)"
proof -
  consider e where "r = Inl e" "refreshed s t"
    | out where "r = Inr (TransitionReply out)" "request_result K s q now_s readiness out t"
    using step_request [of K q now_s readiness s r t] assms(1) by auto
  then show ?thesis
  proof cases
    case 1
    then show ?thesis by (simp add: gate_of_same refreshed_fields)
  next
    case 2
    from 2(2) show ?thesis
    proof (cases rule: request_resultE)
      case denied
      with 2(1) show ?thesis by (simp add: gate_of_same proved_def refreshed_fields)
    next
      case (granted event_kind stage session_id from_stage to_stage rule decision)
      have "g_open (gate_of s)" using granted(3) assms(2) by (simp add: gate_of_def engine_ok_def)
      with granted(6) 2(1) transition_for_stage [OF granted(1)] show ?thesis
        using grants [of "gate_of s" "unat q"]
        by (elim issued_fields) (simp add: gate_of_def fun_upd_def if_distrib cong: if_cong)
    qed
  qed
qed

lemma redeem_refines:
  assumes "engine_step K (RedeemTransition g q now_s readiness) s = (r, t)" "engine_ok s"
  shows "gate_step (gate_of s) (action_of (RedeemTransition g q now_s readiness) r) (gate_of t)"
proof -
  consider e where "r = Inl e" "presented s t"
    | out where "r = Inr (TransitionReply out)" "redeem_transition K g q now_s readiness s = (Inr out, t)"
    using step_redeem [of K g q now_s readiness s r t] assms(1) by auto
  then show ?thesis
  proof cases
    case 1
    have "g_tickets (gate_of t) \<subseteq>\<^sub>m g_tickets (gate_of s)"
      using presented_fields(7) [OF 1(2)] by (auto simp: gate_of_def map_le_def) (metis domI option.simps(9))
    from loses [OF this] 1 show ?thesis by (simp add: gate_of_def presented_fields(1-3))
  next
    case 2
    from 2(2) obtain k p where k: "out_grant_id out = Some k" "ae_pending_entitlements s k = Some p" "pn_requested_state p = q"
        "ae_pending_entitlements t = (ae_pending_entitlements s)(k := None)"
        "state_number (ae_state t) = q" "stage_index (ae_state t) = Suc (stage_index (ae_state s))"
      by (rule redeem_pending)
    have "session_authorized (ae_authorization s)" using assms(2) k(2) by (auto simp: engine_ok_def)
    moreover obtain v where v: "presented s v" "t = v\<lparr>ae_state := ae_state t\<rparr>" using redeem_cases [OF 2(2)] by auto
    have "ae_authorization t = ae_authorization s"
      using presented_fields(2) [OF v(1)] arg_cong [OF v(2), of ae_authorization] by simp
    ultimately show ?thesis
      using redeems [of "gate_of s" k] k 2(1) by (simp add: gate_of_def fun_upd_def if_distrib stage_index_number [symmetric] cong: if_cong)
  qed
qed

lemma step_refines:
  "engine_step K c s = (r, t) \<Longrightarrow> engine_ok s \<Longrightarrow> gate_step (gate_of s) (action_of c r) (gate_of t)"
  by (cases c) (simp_all only: establish_refines request_refines redeem_refines)

lemma run_refines:
  assumes "run_all (engine_step K) cmds s = (rs, t)" "engine_ok s"
  shows "gate_run (gate_of s) (map2 action_of cmds rs) (gate_of t)"
  using assms
proof (induction cmds arbitrary: s rs)
  case Nil
  then show ?case by (simp add: gate_run_Nil)
next
  case (Cons c cmds)
  obtain r u where st: "engine_step K c s = (r, u)" by fastforce
  obtain qs where run: "run_all (engine_step K) cmds u = (qs, t)" and rs: "rs = r # qs"
    using Cons.prems st by (auto split: prod.splits)
  have "engine_ok u" using engine_step_ok [OF Cons.prems(2), of K c] st by simp
  from Cons.IH [OF run this] step_refines [OF st Cons.prems(2)] show ?case by (auto simp: rs gate_run_Cons)
qed

text \<open>C2. The engine implements the gate: over any sequence of commands from its construction, its
  state and pending entitlements, read as a gate, go exactly through the steps of the abstract
  gate that the commands' results announce. Sessions open and close it, approved requests add a
  ticket for the next stage, redemptions use one and move one stage on, and everything else at
  most loses tickets.\<close>

theorem engine_refines_gate:
  "case run_all (engine_step K) cmds
      (initial_engine K chaser station issuer station_trust chaser_trust credential_trust gate_trust config source a b c d)
   of (results, final) \<Rightarrow>
     gate_run \<lparr>g_stage = 0, g_open = False, g_tickets = Map.empty\<rparr> (map2 action_of cmds results) (gate_of final)"
proof -
  let ?s = "initial_engine K chaser station issuer station_trust chaser_trust credential_trust gate_trust config source a b c d"
  have "gate_of ?s = \<lparr>g_stage = 0, g_open = False, g_tickets = Map.empty\<rparr>"
    by (simp add: gate_of_def initial_engine_fields initial_engine_def set_replay_state_def with_random_source_def
        new_engine_def default_authorization_def)
  moreover obtain results final where run: "run_all (engine_step K) cmds ?s = (results, final)" by fastforce
  ultimately show ?thesis using run_refines [OF run initial_engine_ok] by simp
qed

lemma map2_split:
  "length xs = length ys \<Longrightarrow> map2 f xs ys = us @ a # vs \<Longrightarrow>
     \<exists>before x y after. zip xs ys = before @ (x, y) # after \<and> f x y = a \<and> map (\<lambda>(x, y). f x y) after = vs"
proof (induction xs ys arbitrary: us rule: list_induct2)
  case Nil
  then show ?case by simp
next
  case (Cons x xs y ys)
  show ?case
  proof (cases us)
    case Nil
    with Cons.prems show ?thesis by (intro exI [of _ "[]"]) auto
  next
    case (Cons u us')
    with Cons.prems have "map2 f xs ys = us' @ a # vs" by simp
    from Cons.IH [OF this] obtain before x' y' after where "zip xs ys = before @ (x', y') # after" "f x' y' = a"
      "map (\<lambda>(x, y). f x y) after = vs" by blast
    then show ?thesis by (intro exI [of _ "(x, y) # before"]) auto
  qed
qed

lemma action_of_grants:
  "action_of c r = Grants k n \<Longrightarrow> \<exists>q now_s readiness. c = RequestTransition q now_s readiness \<and> grant_issued c r = Some k \<and> unat q = n"
  by (cases c) (auto split: option.splits sum.splits)

lemma no_attempt:
  "action_of c r \<noteq> Opens \<Longrightarrow> action_of c r \<noteq> Closes \<Longrightarrow> case c of EstablishSession _ _ \<Rightarrow> False | _ \<Rightarrow> True"
  by (cases c) (auto split: sum.splits)

text \<open>C5. A grant is good only for its session and its stage: a redemption that succeeds was preceded by
  a request for the same stage that was approved under the redeemed grant's identifier, and no
  attempt to establish a session, failed or not, came between the two.\<close>

theorem redeemed_grant_is_current:
  assumes "run_all (engine_step K) cmds
      (initial_engine K chaser station issuer station_trust chaser_trust credential_trust gate_trust config source a b c d)
      = (results, s)"
    and "redeem_transition K signed_grant_hex q now_s readiness s = (Inr out, t)"
  shows "\<exists>before time evidence result after grant_id.
     zip cmds results = before @ (RequestTransition q time evidence, result) # after
     \<and> out_grant_id out = Some grant_id \<and> grant_issued (RequestTransition q time evidence) result = Some grant_id
     \<and> list_all (\<lambda>(c, _). case c of EstablishSession _ _ \<Rightarrow> False | _ \<Rightarrow> True) after"
proof -
  let ?s = "initial_engine K chaser station issuer station_trust chaser_trust credential_trust gate_trust config source a b c d"
  from assms(2) obtain k p where k: "out_grant_id out = Some k" "ae_pending_entitlements s k = Some p" "pn_requested_state p = q"
    by (rule redeem_pending)
  have "gate_run (gate_of ?s) (map2 action_of cmds results) (gate_of s)"
    by (rule run_refines [OF assms(1) initial_engine_ok])
  moreover have "g_tickets (gate_of ?s) = Map.empty" "g_tickets (gate_of s) k = Some (unat q)"
    using k by (simp_all add: gate_of_def initial_engine_fields)
  ultimately obtain us vs where acts: "map2 action_of cmds results = us @ Grants k (unat q) # vs" "Opens \<notin> set vs" "Closes \<notin> set vs"
    using ticket_origin by blast
  have "length cmds = length results" using length_run_all [of "engine_step K" cmds ?s] assms(1) by simp
  from map2_split [OF this acts(1)] obtain before c r after where split: "zip cmds results = before @ (c, r) # after"
    "action_of c r = Grants k (unat q)" "map (\<lambda>(x, y). action_of x y) after = vs" by blast
  obtain time evidence where c: "c = RequestTransition q time evidence" "grant_issued c r = Some k"
    using action_of_grants [OF split(2)] word_unat_eq_iff by metis
  have "action_of (fst p) (snd p) \<in> set vs" if "p \<in> set after" for p
    using that unfolding split(3) [symmetric] by (auto simp: case_prod_beta)
  then have "list_all (\<lambda>(c, _). case c of EstablishSession _ _ \<Rightarrow> False | _ \<Rightarrow> True) after"
    unfolding list_all_iff case_prod_beta using acts(2,3) no_attempt by metis
  with split(1) c k(1) show ?thesis by blast
qed

theorem redeemed_grant_is_current_witness:
  "\<exists>results s grant_hex out t before time evidence result after.
     run_all (engine_step conforming) [EstablishSession docking_time Nominal, RequestTransition 1 docking_time demo_readiness]
       demo_engine = (results, s)
     \<and> redeem_transition conforming grant_hex 1 docking_time demo_readiness s = (Inr out, t)
     \<and> zip [EstablishSession docking_time Nominal, RequestTransition 1 docking_time demo_readiness] results
         = before @ (RequestTransition 1 time evidence, result) # after"
proof -
  let ?cmds = "[EstablishSession docking_time Nominal, RequestTransition 1 docking_time demo_readiness]"
  obtain out0 s where s: "engine_step conforming (EstablishSession docking_time Nominal) demo_engine = (Inr (SessionReply out0), s)"
      "docking_at conforming docking_time (docking_time + 300) 256 s" "ae_state s = Hold" "ae_random_calls s = 5"
    by (rule demo_session)
  then have idx: "stage_index (ae_state s) < 4" "ae_random_calls s + 5 \<le> 256" "1 = state_number (ae_state s) + 1" by simp_all
  obtain out u g out' t where req: "request_transition conforming 1 docking_time demo_readiness s = (Inr out, u)"
      and red: "redeem_transition conforming g 1 docking_time demo_readiness u = (Inr out', t)"
    by (rule docking_redeem [OF s(2) idx, of docking_time demo_readiness docking_time demo_readiness])
       (simp_all add: s(3) docking_readiness_opens docking_readiness_current)
  have "engine_step conforming (RequestTransition 1 docking_time demo_readiness) s = (Inr (TransitionReply out), u)"
    by (simp add: and_then_def ret_def req)
  with s(1) obtain results where run: "run_all (engine_step conforming) ?cmds demo_engine = (results, u)"
    by (simp del: engine_step.simps)
  from redeemed_grant_is_current [OF run [unfolded demo_initial] red] run red show ?thesis by blast
qed

end
