(* ===== verification/Host.thy ===== *)
theory Host
  imports Session
begin

text \<open>
  What the three programs under \<open>src/bin\<close> share: the parts of the standard library they use on
  text read from outside (\<open>str::trim\<close>, \<open>String::from_utf8_lossy\<close>), the host they run on as a
  record of functions (files, environment, clock), the conversions of hexadecimal keys and
  timestamps with their errors, and the loop that answers each line of standard input with one
  line on standard output. An error is the text the program reports (\<open>Display\<close> of its
  \<open>Box<dyn Error>\<close>).
\<close>

section \<open>Text from outside\<close>

text \<open>The length in bytes of the white-space character a byte sequence starts with (Unicode
  \<open>White_Space\<close>), 0 if it starts with another character.\<close>

fun whitespace_length :: "nat list \<Rightarrow> nat" where
  "whitespace_length (a # bs) =
     (if 9 \<le> a \<and> a \<le> 13 \<or> a = 32 then 1
      else case bs of
        [] \<Rightarrow> 0
      | b # cs \<Rightarrow>
          if a = 194 \<and> (b = 133 \<or> b = 160) then 2
          else case cs of
            [] \<Rightarrow> 0
          | c # _ \<Rightarrow>
              if (a = 225 \<and> b = 154 \<and> c = 128)
                 \<or> (a = 226 \<and> b = 128 \<and> (128 \<le> c \<and> c \<le> 138 \<or> c = 168 \<or> c = 169 \<or> c = 175))
                 \<or> (a = 226 \<and> b = 129 \<and> c = 159) \<or> (a = 227 \<and> b = 128 \<and> c = 128)
              then 3 else 0)"
| "whitespace_length [] = 0"

lemma whitespace_length_le: "whitespace_length bs \<le> length bs"
  by (cases bs) (auto split: list.splits)

function trim_start :: "nat list \<Rightarrow> nat list" where
  "trim_start bs = (if whitespace_length bs = 0 then bs else trim_start (drop (whitespace_length bs) bs))"
  by auto

termination
proof (relation "measure length")
  fix bs :: "nat list"
  assume "whitespace_length bs \<noteq> 0"
  then show "(drop (whitespace_length bs) bs, bs) \<in> measure length"
    using whitespace_length_le [of bs] by (cases bs) auto
qed simp

text \<open>At the end, a character is recognized by its whole encoding: in well-formed UTF-8 no encoding
  is a suffix of another character's.\<close>

definition trailing_whitespace :: "nat list \<Rightarrow> nat" where
  "trailing_whitespace bs =
     (case List.find (\<lambda>n. n \<le> length bs \<and> whitespace_length (drop (length bs - n) bs) = n) [1, 2, 3] of
        None \<Rightarrow> 0 | Some n \<Rightarrow> n)"

lemma trailing_whitespace_le: "trailing_whitespace bs \<le> length bs"
  by (auto simp: trailing_whitespace_def split: option.splits dest: find_Some_props)

function trim_end :: "nat list \<Rightarrow> nat list" where
  "trim_end bs = (if trailing_whitespace bs = 0 then bs else trim_end (take (length bs - trailing_whitespace bs) bs))"
  by auto

termination
proof (relation "measure length")
  fix bs :: "nat list"
  assume "trailing_whitespace bs \<noteq> 0"
  then show "(take (length bs - trailing_whitespace bs) bs, bs) \<in> measure length"
    using trailing_whitespace_le [of bs] by auto
qed simp

declare trim_start.simps [simp del] trim_end.simps [simp del]

definition trim :: "string \<Rightarrow> string" where
  "trim s = map char_of (trim_end (trim_start (map of_char s)))"

text \<open>\<open>from_utf8_lossy\<close>: each maximal ill-formed part becomes U+FFFD. \<open>utf8_step\<close> gives, for the
  bytes at hand, whether a character starts there and how many bytes it or the ill-formed part takes.\<close>

definition cont_at :: "nat list \<Rightarrow> nat \<Rightarrow> bool" where
  "cont_at bs i \<longleftrightarrow> i < length bs \<and> utf8_cont (bs ! i)"

definition second_ok :: "nat \<Rightarrow> nat list \<Rightarrow> bool" where
  "second_ok a bs \<longleftrightarrow>
     cont_at bs 1 \<and> (a = 224 \<longrightarrow> 160 \<le> bs ! 1) \<and> (a = 237 \<longrightarrow> bs ! 1 \<le> 159) \<and> (a = 240 \<longrightarrow> 144 \<le> bs ! 1)
       \<and> (a = 244 \<longrightarrow> bs ! 1 \<le> 143)"

fun utf8_step :: "nat list \<Rightarrow> bool \<times> nat" where
  "utf8_step [] = (True, 0)"
| "utf8_step (a # bs) =
     (if a < 128 then (True, 1)
      else if 194 \<le> a \<and> a \<le> 223 then (if cont_at (a # bs) 1 then (True, 2) else (False, 1))
      else if 224 \<le> a \<and> a \<le> 239 then
        (if \<not> second_ok a (a # bs) then (False, 1) else if cont_at (a # bs) 2 then (True, 3) else (False, 2))
      else if 240 \<le> a \<and> a \<le> 244 then
        (if \<not> second_ok a (a # bs) then (False, 1)
         else if \<not> cont_at (a # bs) 2 then (False, 2)
         else if cont_at (a # bs) 3 then (True, 4) else (False, 3))
      else (False, 1))"

function lossy_bytes :: "nat list \<Rightarrow> nat list" where
  "lossy_bytes bs =
     (case bs of [] \<Rightarrow> []
      | _ \<Rightarrow> (case utf8_step bs of (good, n) \<Rightarrow>
          (if good then take n bs else [239, 191, 189]) @ lossy_bytes (drop (max 1 n) bs)))"
  by auto

termination
  by (relation "measure length") auto

declare lossy_bytes.simps [simp del]

definition from_utf8_lossy :: "bytes \<Rightarrow> string" where
  "from_utf8_lossy bs = map char_of (lossy_bytes (map unat bs))"

lemma lossy_ascii: "list_all (\<lambda>b. b < 128) bs \<Longrightarrow> lossy_bytes bs = bs"
proof (induction bs)
  case Nil
  show ?case by (subst lossy_bytes.simps) simp
next
  case (Cons b bs)
  then show ?case by (subst lossy_bytes.simps) simp
qed

section \<open>The host\<close>

text \<open>File contents or the error of reading them, environment variables, and the clock as seconds since
  the epoch (\<open>None\<close> before it). \<open>rfc3339_error\<close> is chrono's message for a string it does not parse.\<close>

record host =
  fs_read :: "string \<Rightarrow> string + bytes"
  fs_read_to_string :: "string \<Rightarrow> string + string"
  env_var_os :: "string \<Rightarrow> string option"
  rfc3339_error :: "string \<Rightarrow> string"

definition env_path :: "host \<Rightarrow> string \<Rightarrow> string \<Rightarrow> string" where
  "env_path H name fallback = (case env_var_os H name of None \<Rightarrow> fallback | Some p \<Rightarrow> p)"

definition unix_time :: "u64 option \<Rightarrow> i64" where
  "unix_time reading = (case reading of None \<Rightarrow> 0 | Some s \<Rightarrow> s)"

definition timestamp :: "'p crates \<Rightarrow> host \<Rightarrow> string \<Rightarrow> string + i64" where
  "timestamp K H s = ok_or (rfc3339_error H s) (parse_rfc3339 K s)"

definition public_key :: "'p crates \<Rightarrow> string \<Rightarrow> string + verifying_key" where
  "public_key K hex =
     bind_result (hex_decode K hex) (\<lambda>bs.
       if length bs \<noteq> 32 then Inl ''Ed25519 public key must contain exactly 32 bytes''
       else verifying_key_from_bytes K bs)"

section \<open>Answering lines\<close>

record 'v response =
  rp_ok :: bool
  rp_value :: "'v option"
  rp_error :: "string option"

definition error_response :: "string \<Rightarrow> 'v response" where
  "error_response e = \<lparr>rp_ok = False, rp_value = None, rp_error = Some e\<rparr>"

definition value_response :: "'v \<Rightarrow> 'v response" where
  "value_response v = \<lparr>rp_ok = True, rp_value = Some v, rp_error = None\<rparr>"

text \<open>How a program ends: at the end of its input, at the first response it cannot write, or by a
  panic while handling a line.\<close>

datatype ending = EndOfInput | OutputFailed string | Panicked

text \<open>One response per line, in order; a line that could not be read is answered with its error.
  The handler returns no response if it panics. \<open>output\<close> is the error of writing and flushing
  the \<open>n\<close>-th response, if any.\<close>

fun serve ::
  "('l \<Rightarrow> 's \<Rightarrow> 'v response option \<times> 's) \<Rightarrow> (nat \<Rightarrow> string option) \<Rightarrow> nat \<Rightarrow> (string + 'l) list \<Rightarrow> 's
     \<Rightarrow> 'v response list \<times> ending \<times> 's" where
  "serve handle output n [] s = ([], EndOfInput, s)"
| "serve handle output n (line # lines) s =
     (case (case line of Inr l \<Rightarrow> handle l s | Inl e \<Rightarrow> (Some (error_response e), s)) of
        (None, t) \<Rightarrow> ([], Panicked, t)
      | (Some response, t) \<Rightarrow>
          (case output n of
             Some e \<Rightarrow> ([], OutputFailed e, t)
           | None \<Rightarrow> (case serve handle output (Suc n) lines t of (rs, how, u) \<Rightarrow> (response # rs, how, u))))"

text \<open>A daemon whose handler never panics.\<close>

locale daemon =
  fixes handle :: "'l \<Rightarrow> 's \<Rightarrow> 'v response option \<times> 's"
  assumes answers: "fst (handle l s) \<noteq> None"
begin

lemma serves_every_line:
  assumes "\<And>n. output n = None"
  shows "\<exists>rs. serve handle output n lines s =
     (rs, EndOfInput, fold (\<lambda>line s. case line of Inl _ \<Rightarrow> s | Inr l \<Rightarrow> snd (handle l s)) lines s)
     \<and> length rs = length lines"
proof (induction lines arbitrary: n s)
  case Nil
  show ?case by simp
next
  case (Cons line lines)
  let ?t = "case line of Inl _ \<Rightarrow> s | Inr l \<Rightarrow> snd (handle l s)"
  obtain r where "(case line of Inr l \<Rightarrow> handle l s | Inl e \<Rightarrow> (Some (error_response e), s)) = (Some r, ?t)"
  proof (cases line)
    case (Inl e)
    with that show thesis by simp
  next
    case (Inr l)
    with that answers [of l s] show thesis by (cases "handle l s") auto
  qed
  with Cons.IH [of "Suc n" ?t] assms show ?case by (auto simp del: not_None_eq)
qed

end

end
