(* ===== verification/Verifier.thy ===== *)
theory Verifier
  imports Host
begin

text \<open>
  The client's entitlement verifier (\<open>bin/access_entitlement_verifier.rs\<close>): its trust bundle, the
  trust store made from it, the command that verifies a grant the station signed, and the program
  around it. Prefixes: \<open>cb_\<close> \<open>ClientTrustBundle\<close>, \<open>ta_\<close> \<open>TrustedAuthority\<close>, \<open>sk_\<close>
  \<open>SigningKeyRecord\<close>, \<open>vq_\<close> \<open>VerifyCommand\<close>, \<open>vd_\<close> \<open>VerifiedEntitlement\<close>. The JSON parsers are
  arguments (\<open>json\<close>).
\<close>

section \<open>Data\<close>

record signing_key_record =
  sk_key_id :: string
  sk_algorithm :: string
  sk_public_key_hex :: string

record trusted_authority =
  ta_authority_id :: string
  ta_signing_keys :: "signing_key_record list"

record client_trust_bundle =
  cb_bundle_id :: string
  cb_version :: u64
  cb_client_id :: string
  cb_valid_from :: string
  cb_valid_until :: string
  cb_trusted_authorities :: "trusted_authority list"

record verify_request =
  vq_command :: string
  vq_entitlement_hex :: "string option"
  vq_expected_authority :: "string option"
  vq_expected_session_id :: "string option"
  vq_expected_stage :: "string option"
  vq_now_s :: "i64 option"

record verified_entitlement =
  vd_verified :: bool
  vd_trust_bundle_id :: string
  vd_trust_bundle_version :: u64
  vd_authority_id :: string
  vd_client_id :: string
  vd_grant_id :: string
  vd_session_id :: string
  vd_authorized_stage :: string
  vd_expires_at_s :: i64
  vd_protocol_profile_id :: string
  vd_protocol_profile_version :: u64
  vd_rule_id :: string
  vd_authorization_policy_bundle_id :: string
  vd_authorization_policy_bundle_version :: u64
  vd_authorization_policy_sha256 :: string

section \<open>The trust bundle\<close>

definition load_client_bundle ::
  "'p crates \<Rightarrow> host \<Rightarrow> (bytes \<Rightarrow> string + client_trust_bundle) \<Rightarrow> string \<Rightarrow> i64 \<Rightarrow> string + client_trust_bundle" where
  "load_client_bundle K H json path now_s =
     bind_result (bind_result (fs_read H path) json) (\<lambda>bundle.
     bind_result (timestamp K H (cb_valid_from bundle)) (\<lambda>valid_from.
     bind_result (timestamp K H (cb_valid_until bundle)) (\<lambda>valid_until.
       if sint now_s < sint valid_from \<or> sint now_s > sint valid_until
       then Inl ''client trust bundle is outside its validity interval''
       else if trim (cb_bundle_id bundle) = [] \<or> trim (cb_client_id bundle) = []
       then Inl ''client trust bundle identifiers must not be empty''
       else Inr bundle)))"

text \<open>The keys of all authorities in order, each one checked and inserted; a later key replaces an
  earlier one with the same identifier.\<close>

fun add_signing_keys ::
  "'p crates \<Rightarrow> signing_key_record list \<Rightarrow> trust_store \<Rightarrow> nat \<Rightarrow> string + trust_store \<times> nat" where
  "add_signing_keys K [] store count = Inr (store, count)"
| "add_signing_keys K (key # keys) store count =
     (if sk_algorithm key \<noteq> ''Ed25519'' then Inl (''unsupported entitlement algorithm: '' @ sk_algorithm key)
      else bind_result (public_key K (sk_public_key_hex key)) (\<lambda>verifying_key.
        add_signing_keys K keys (trust_store_insert (sk_key_id key) verifying_key store) (Suc count)))"

definition client_trust_store :: "'p crates \<Rightarrow> client_trust_bundle \<Rightarrow> string + trust_store" where
  "client_trust_store K bundle =
     bind_result (add_signing_keys K (concat (map ta_signing_keys (cb_trusted_authorities bundle))) trust_store_default 0)
       (\<lambda>(store, count).
          if count = 0 then Inl ''client trust bundle contains no authority signing keys'' else Inr store)"

definition trusts_authority :: "client_trust_bundle \<Rightarrow> string \<Rightarrow> string \<Rightarrow> bool" where
  "trusts_authority bundle authority_id key_id =
     list_ex (\<lambda>authority. ta_authority_id authority = authority_id
       \<and> list_ex (\<lambda>key. sk_key_id key = key_id) (ta_signing_keys authority)) (cb_trusted_authorities bundle)"

section \<open>Verifying an entitlement\<close>

definition verifier_max_clock_skew_s :: i64 where
  "verifier_max_clock_skew_s = 30"

text \<open>The request of an input line and the envelope it presents.\<close>

definition presented_entitlement ::
  "'p crates \<Rightarrow> (string \<Rightarrow> string + verify_request) \<Rightarrow> string \<Rightarrow> string + verify_request \<times> bytes" where
  "presented_entitlement K json input =
     bind_result (json input) (\<lambda>command.
       if vq_command command = ''describe'' then Inl ''describe is not a verification command''
       else if vq_command command \<noteq> ''verify_entitlement'' then Inl (''unknown command: '' @ vq_command command)
       else bind_result (ok_or ''entitlement_hex is required'' (vq_entitlement_hex command)) (\<lambda>hex.
            bind_result (hex_decode K hex) (\<lambda>encoded. Inr (command, encoded))))"

text \<open>The checks on a verified envelope, after its nonce was consumed.\<close>

definition check_grant ::
  "client_trust_bundle \<Rightarrow> verify_request \<Rightarrow> i64 \<Rightarrow> verified_envelope \<Rightarrow> string + verified_entitlement" where
  "check_grant bundle command now_s verified =
     (let claims = ve_claims verified in
      if pc_message_type claims \<noteq> AuthorizationGrant then Inl ''message is not an ACCESS authorization grant''
      else bind_result (ok_or ''expected_authority is required'' (vq_expected_authority command)) (\<lambda>expected_authority.
      if ve_signer verified \<noteq> expected_authority \<or> \<not> trusts_authority bundle expected_authority (ve_signer verified)
      then Inl ''entitlement issuer is not the expected trusted authority''
      else bind_result (ok_or ''grant has no expiry'' (pc_expires_at_s claims)) (\<lambda>expires_at_s.
      if sint now_s > sint expires_at_s then Inl ''grant is expired''
      else bind_result (ok_or ''grant has no session binding'' (pc_session_id claims)) (\<lambda>session_id.
      if vq_expected_session_id command \<noteq> Some session_id
      then Inl ''grant session does not match the active ACCESS session''
      else bind_result (ok_or ''grant has no authorized stage'' (pc_authorized_stage claims)) (\<lambda>stage.
      let authorized_stage = stage_serde_name stage in
      if vq_expected_stage command \<noteq> Some authorized_stage
      then Inl ''grant stage does not match the requested operation''
      else bind_result (ok_or ''grant has no identifier'' (pc_grant_id claims)) (\<lambda>grant_id.
      bind_result (ok_or ''grant has no protocol profile'' (pc_protocol_profile_id claims)) (\<lambda>profile_id.
      bind_result (ok_or ''grant has no protocol profile version'' (pc_protocol_profile_version claims)) (\<lambda>profile_version.
      bind_result (ok_or ''grant has no rule binding'' (pc_rule_id claims)) (\<lambda>rule_id.
      bind_result (ok_or ''grant has no ACCESS authorization policy bundle binding''
                     (pc_authorization_policy_bundle_id claims)) (\<lambda>policy_id.
      bind_result (ok_or ''grant has no ACCESS authorization policy bundle version''
                     (pc_authorization_policy_bundle_version claims)) (\<lambda>policy_version.
      bind_result (ok_or ''grant has no ACCESS authorization policy digest''
                     (pc_authorization_policy_sha256 claims)) (\<lambda>policy_sha256.
        Inr \<lparr>vd_verified = True, vd_trust_bundle_id = cb_bundle_id bundle, vd_trust_bundle_version = cb_version bundle,
             vd_authority_id = ve_signer verified, vd_client_id = cb_client_id bundle, vd_grant_id = grant_id,
             vd_session_id = session_id, vd_authorized_stage = authorized_stage, vd_expires_at_s = expires_at_s,
             vd_protocol_profile_id = profile_id, vd_protocol_profile_version = profile_version, vd_rule_id = rule_id,
             vd_authorization_policy_bundle_id = policy_id, vd_authorization_policy_bundle_version = policy_version,
             vd_authorization_policy_sha256 = policy_sha256\<rparr>))))))))))))"

definition verify_command ::
  "'p crates \<Rightarrow> (string \<Rightarrow> string + verify_request) \<Rightarrow> client_trust_bundle \<Rightarrow> trust_store \<Rightarrow> i64 \<Rightarrow> string
     \<Rightarrow> ('b replay_cache, string, verified_entitlement) op" where
  "verify_command K json bundle trust clock input =
     and_then (try_with (\<lambda>_. presented_entitlement K json input)) (\<lambda>(command, encoded).
     let now_s = (case vq_now_s command of None \<Rightarrow> clock | Some n \<Rightarrow> n) in
     and_then (on_field id (\<lambda>c _. c) protocol_error_display
         (verify_envelope K encoded trust (cb_client_id bundle) now_s verifier_max_clock_skew_s)) (\<lambda>verified.
     try_with (\<lambda>_. check_grant bundle command now_s verified)))"

section \<open>The program\<close>

text \<open>An input line comes with the clock's reading when it is handled.\<close>

definition handle_line ::
  "'p crates \<Rightarrow> (string \<Rightarrow> string + verify_request) \<Rightarrow> client_trust_bundle \<Rightarrow> trust_store
     \<Rightarrow> u64 option \<times> string \<Rightarrow> 'b replay_cache \<Rightarrow> verified_entitlement response option \<times> 'b replay_cache" where
  "handle_line K json bundle trust = (\<lambda>(reading, line) replay.
     (case verify_command K json bundle trust (unix_time reading) line replay of
        (Inr v, replay') \<Rightarrow> (Some (value_response v), replay')
      | (Inl e, replay') \<Rightarrow> (Some (error_response e), replay')))"

text \<open>\<open>disk\<close> gives, for the path of the replay file, the error of creating its directory (if any)
  and the journal found there.\<close>

definition verifier_main ::
  "'p crates \<Rightarrow> host \<Rightarrow> (bytes \<Rightarrow> string + client_trust_bundle) \<Rightarrow> (string \<Rightarrow> string + verify_request)
     \<Rightarrow> (string \<Rightarrow> string option \<times> journal_file) \<Rightarrow> u64 option \<Rightarrow> (nat \<Rightarrow> string option) \<Rightarrow> (string + u64 option \<times> string) list
     \<Rightarrow> string + (verified_entitlement response list \<times> ending \<times> journal_file replay_cache)" where
  "verifier_main K H json_bundle json disk reading output lines =
     (let now_s = unix_time reading;
          path = env_path H ''ACCESS_CLIENT_TRUST_BUNDLE_FILE'' ''config/access/simulation-client-trust-bundle.json'' in
      bind_result (load_client_bundle K H json_bundle path now_s) (\<lambda>bundle.
      bind_result (client_trust_store K bundle) (\<lambda>trust.
      let replay_path = env_path H ''ACCESS_CLIENT_REPLAY_FILE'' ''state/access-client/consumed-entitlements.log'' in
      bind_result (map_err protocol_error_display (persistent K (fst (disk replay_path)) (snd (disk replay_path)))) (\<lambda>replay.
        Inr (serve (handle_line K json bundle trust) output 0 lines replay)))))"

interpretation verifier: daemon "handle_line K json client trust" for K json client trust
  by unfold_locales (simp add: handle_line_def case_prod_beta split: prod.splits sum.splits)

section \<open>What a verified entitlement is\<close>

lemma check_grant_Inr:
  "check_grant bundle command now_s verified = Inr v \<longleftrightarrow>
     (\<exists>expiry session_id stage grant_id profile_id profile_version rule_id policy_id policy_version policy_sha256.
        pc_message_type (ve_claims verified) = AuthorizationGrant \<and> pc_expires_at_s (ve_claims verified) = Some expiry
        \<and> pc_session_id (ve_claims verified) = Some session_id \<and> pc_authorized_stage (ve_claims verified) = Some stage
        \<and> pc_grant_id (ve_claims verified) = Some grant_id
        \<and> pc_protocol_profile_id (ve_claims verified) = Some profile_id
        \<and> pc_protocol_profile_version (ve_claims verified) = Some profile_version
        \<and> pc_rule_id (ve_claims verified) = Some rule_id
        \<and> pc_authorization_policy_bundle_id (ve_claims verified) = Some policy_id
        \<and> pc_authorization_policy_bundle_version (ve_claims verified) = Some policy_version
        \<and> pc_authorization_policy_sha256 (ve_claims verified) = Some policy_sha256
        \<and> vq_expected_authority command = Some (ve_signer verified)
        \<and> trusts_authority bundle (ve_signer verified) (ve_signer verified)
        \<and> sint now_s \<le> sint expiry \<and> vq_expected_session_id command = Some session_id
        \<and> vq_expected_stage command = Some (stage_serde_name stage)
        \<and> v = \<lparr>vd_verified = True, vd_trust_bundle_id = cb_bundle_id bundle, vd_trust_bundle_version = cb_version bundle,
             vd_authority_id = ve_signer verified, vd_client_id = cb_client_id bundle, vd_grant_id = grant_id,
             vd_session_id = session_id, vd_authorized_stage = stage_serde_name stage, vd_expires_at_s = expiry,
             vd_protocol_profile_id = profile_id, vd_protocol_profile_version = profile_version, vd_rule_id = rule_id,
             vd_authorization_policy_bundle_id = policy_id, vd_authorization_policy_bundle_version = policy_version,
             vd_authorization_policy_sha256 = policy_sha256\<rparr>)"
  by (auto simp: check_grant_def Let_def not_less)

lemma verify_command_Inr:
  "verify_command K json bundle trust clock input c = (Inr v, d) \<longleftrightarrow>
     (\<exists>command encoded verified. presented_entitlement K json input = Inr (command, encoded)
        \<and> verify_envelope K encoded trust (cb_client_id bundle)
            (case vq_now_s command of None \<Rightarrow> clock | Some n \<Rightarrow> n) verifier_max_clock_skew_s c = (Inr verified, d)
        \<and> check_grant bundle command (case vq_now_s command of None \<Rightarrow> clock | Some n \<Rightarrow> n) verified = Inr v)"
  by (auto simp: verify_command_def op_simps Let_def split_beta)

lemma verify_envelope_keeps: "rc_consumed c \<subseteq> rc_consumed (snd (verify_envelope K encoded trust recipient now_s skew c))"
proof (cases "verify_envelope K encoded trust recipient now_s skew c")
  case (Pair r d)
  then show ?thesis by (cases r) (auto dest: verify_envelope_consumed verify_envelope_failed)
qed

lemma verify_command_keeps: "rc_consumed c \<subseteq> rc_consumed (snd (verify_command K json bundle trust clock input c))"
  by (auto intro: subsetD [OF verify_envelope_keeps] simp: verify_command_def and_then_def try_with_def Let_def on_field_def split_beta split: sum.splits)

text \<open>C15. A verified entitlement is an authorization grant that is authentic under the client's trust
  store, addressed to the client, within the clock skew, not expired, with a nonce the replay
  cache had not seen and now holds; its signer is the authority the caller expected and one of
  the bundle's authorities with a key of the same identifier; session and stage are the ones the
  caller expected; grant, expiry, profile, rule and policy are reported as the signed claims have
  them, client and trust bundle as the configured bundle has them.\<close>

theorem verify_command_sound:
  "case verify_command K json bundle trust clock input c of
     (Inl e, d) \<Rightarrow> rc_consumed c \<subseteq> rc_consumed d
   | (Inr v, d) \<Rightarrow>
      (\<exists>command encoded verified.
         presented_entitlement K json input = Inr (command, encoded)
         \<and> authentic_envelope K encoded trust (cb_client_id bundle)
             (case vq_now_s command of None \<Rightarrow> clock | Some n \<Rightarrow> n) 30 verified
         \<and> pc_nonce (ve_claims verified) \<notin> rc_consumed c
         \<and> rc_consumed d = insert (pc_nonce (ve_claims verified)) (rc_consumed c)
         \<and> pc_message_type (ve_claims verified) = AuthorizationGrant
         \<and> vq_expected_authority command = Some (vd_authority_id v) \<and> ve_signer verified = vd_authority_id v
         \<and> trusts_authority bundle (vd_authority_id v) (vd_authority_id v)
         \<and> pc_expires_at_s (ve_claims verified) = Some (vd_expires_at_s v)
         \<and> sint (case vq_now_s command of None \<Rightarrow> clock | Some n \<Rightarrow> n) \<le> sint (vd_expires_at_s v)
         \<and> pc_session_id (ve_claims verified) = Some (vd_session_id v)
         \<and> vq_expected_session_id command = Some (vd_session_id v)
         \<and> map_option stage_serde_name (pc_authorized_stage (ve_claims verified)) = Some (vd_authorized_stage v)
         \<and> vq_expected_stage command = Some (vd_authorized_stage v)
         \<and> pc_grant_id (ve_claims verified) = Some (vd_grant_id v)
         \<and> pc_protocol_profile_id (ve_claims verified) = Some (vd_protocol_profile_id v)
         \<and> pc_protocol_profile_version (ve_claims verified) = Some (vd_protocol_profile_version v)
         \<and> pc_rule_id (ve_claims verified) = Some (vd_rule_id v)
         \<and> pc_authorization_policy_bundle_id (ve_claims verified) = Some (vd_authorization_policy_bundle_id v)
         \<and> pc_authorization_policy_bundle_version (ve_claims verified) = Some (vd_authorization_policy_bundle_version v)
         \<and> pc_authorization_policy_sha256 (ve_claims verified) = Some (vd_authorization_policy_sha256 v)
         \<and> vd_verified v \<and> vd_trust_bundle_id v = cb_bundle_id bundle
         \<and> vd_trust_bundle_version v = cb_version bundle \<and> vd_client_id v = cb_client_id bundle)"
proof (cases "verify_command K json bundle trust clock input c")
  case (Pair r d)
  show ?thesis
  proof (cases r)
    case (Inl e)
    have "rc_consumed c \<subseteq> rc_consumed d"
      using verify_command_keeps [of c K json "bundle" trust clock input] by (simp add: Pair)
    with Pair Inl show ?thesis by simp
  next
    case (Inr v)
    from Pair [unfolded Inr verify_command_Inr] obtain command encoded verified where
        p: "presented_entitlement K json input = Inr (command, encoded)"
      and env: "verify_envelope K encoded trust (cb_client_id bundle)
            (case vq_now_s command of None \<Rightarrow> clock | Some n \<Rightarrow> n) verifier_max_clock_skew_s c = (Inr verified, d)"
      and grant: "check_grant bundle command (case vq_now_s command of None \<Rightarrow> clock | Some n \<Rightarrow> n) verified = Inr v" by blast
    have "authentic_envelope K encoded trust (cb_client_id bundle)
             (case vq_now_s command of None \<Rightarrow> clock | Some n \<Rightarrow> n) 30 verified"
      using env by (simp add: verify_envelope_Inr verifier_max_clock_skew_s_def)
    with p verify_envelope_consumed [OF env] grant show ?thesis
      unfolding Pair Inr prod.case sum.case check_grant_Inr
      by (intro exI [of _ command] exI [of _ encoded] exI [of _ verified])
         (elim exE conjE, simp)
  qed
qed

section \<open>Each entitlement once\<close>

text \<open>The nonce of the envelope an input line presents, whoever signed it.\<close>

definition presented_nonce :: "'p crates \<Rightarrow> (string \<Rightarrow> string + verify_request) \<Rightarrow> string \<Rightarrow> bytes option" where
  "presented_nonce K json input =
     (case presented_entitlement K json input of
        Inl _ \<Rightarrow> None
      | Inr (_, encoded) \<Rightarrow>
          map_option pc_nonce (Option.bind (Option.bind (cose_from_tagged_slice K encoded) cose_payload) (cbor_read_protocol K)))"

lemma verify_command_nonce:
  assumes "verify_command K json bundle trust clock input c = (Inr v, d)"
  shows "\<exists>n. presented_nonce K json input = Some n \<and> n \<notin> rc_consumed c \<and> n \<in> rc_consumed d"
proof -
  from assms [unfolded verify_command_Inr] obtain command encoded verified now_s where
      p: "presented_entitlement K json input = Inr (command, encoded)"
    and env: "verify_envelope K encoded trust (cb_client_id bundle) now_s verifier_max_clock_skew_s c = (Inr verified, d)" by blast
  have "presented_nonce K json input = Some (pc_nonce (ve_claims verified))"
    using env by (auto simp: presented_nonce_def p verify_envelope_Inr authentic_envelope_def)
  with verify_envelope_consumed [OF env] show ?thesis by simp
qed

interpretation entitlements: one_time "\<lambda>(clock, input). verify_command K json client trust clock input"
    "\<lambda>(clock, input). presented_nonce K json input" rc_consumed for K json client trust
  by unfold_locales (auto dest: verify_command_nonce intro: subsetD [OF verify_command_keeps])

text \<open>C16. No entitlement is verified twice: over any sequence of input lines and clocks, with any cache
  and whatever its backend answers, the accepted lines present distinct nonces, none of which
  the cache held before.\<close>

theorem entitlement_verified_once:
  "distinct (map (\<lambda>(clock, input). presented_nonce K json input)
      (accepted lines (fst (run_all (\<lambda>(clock, input). verify_command K json bundle trust clock input) lines c))))
   \<and> {n. Some n \<in> (\<lambda>(clock, input). presented_nonce K json input) `
        set (accepted lines (fst (run_all (\<lambda>(clock, input). verify_command K json bundle trust clock input) lines c)))}
      \<inter> rc_consumed c = {}"
proof -
  let ?step = "\<lambda>(clock, input). verify_command K json bundle trust clock input"
  have "run_all ?step lines c = (fst (run_all ?step lines c), snd (run_all ?step lines c))" by simp
  from entitlements.tokens_once [OF this] show ?thesis by force
qed

text \<open>C40. A failed expectation uses the entitlement up: when the envelope verifies but a later check
  refuses the grant (another session, another stage, another authority), the command fails, and
  so does every later line that presents the same entitlement, whatever lines were handled in
  between and also with the right expectations.\<close>

theorem mismatch_burns_entitlement:
  assumes "presented_entitlement K json input = Inr (command, encoded)"
    and "verify_envelope K encoded trust (cb_client_id bundle)
           (case vq_now_s command of None \<Rightarrow> clock | Some n \<Rightarrow> n) verifier_max_clock_skew_s c = (Inr verified, d)"
    and "check_grant bundle command (case vq_now_s command of None \<Rightarrow> clock | Some n \<Rightarrow> n) verified = Inl e"
    and "presented_entitlement K json input' = Inr (command', encoded)"
  shows "verify_command K json bundle trust clock input c = (Inl e, d)
     \<and> (\<forall>lines clock'. \<exists>e'. fst (verify_command K json bundle trust clock' input'
          (snd (run_all (\<lambda>(clock, input). verify_command K json bundle trust clock input) lines d))) = Inl e')"
proof (intro conjI allI)
  show "verify_command K json bundle trust clock input c = (Inl e, d)"
    by (simp add: verify_command_def and_then_def try_with_def Let_def on_field_def assms(1-3))
  fix lines and clock' :: i64
  have "(\<lambda>(clock, input). presented_nonce K json input) (clock', input') = Some (pc_nonce (ve_claims verified))"
    using assms(2) by (auto simp: presented_nonce_def assms(4) verify_envelope_Inr authentic_envelope_def)
  moreover have "pc_nonce (ve_claims verified) \<in> rc_consumed d" using verify_envelope_consumed [OF assms(2)] by simp
  ultimately have "\<exists>e'. fst ((\<lambda>(clock, input). verify_command K json bundle trust clock input) (clock', input')
      (snd (run_all (\<lambda>(clock, input). verify_command K json bundle trust clock input) lines d))) = Inl e'"
    by (rule entitlements.used_token_fails_later)
  then show "\<exists>e'. fst (verify_command K json bundle trust clock' input'
          (snd (run_all (\<lambda>(clock, input). verify_command K json bundle trust clock input) lines d))) = Inl e'" by simp
qed

section \<open>Authorities and their keys\<close>

text \<open>Only an authority whose identifier is also the identifier of one of its keys can be verified:
  the verifier compares the expected authority with the signer's key identifier. If no authority
  of the bundle has such a key, every input line is refused, whoever signed the entitlement; an
  authority that rotates to keys with other identifiers is one of these.\<close>

lemma authority_must_be_named_as_its_key:
  assumes "\<And>authority key. authority \<in> set (cb_trusted_authorities bundle) \<Longrightarrow> key \<in> set (ta_signing_keys authority)
      \<Longrightarrow> sk_key_id key \<noteq> ta_authority_id authority"
  shows "\<exists>e. fst (verify_command K json bundle trust clock input c) = Inl e"
proof (cases "fst (verify_command K json bundle trust clock input c)")
  case (Inr v)
  then obtain d where "verify_command K json bundle trust clock input c = (Inr v, d)" by (metis prod.collapse)
  then obtain id where "trusts_authority bundle id id"
    unfolding verify_command_Inr check_grant_Inr by blast
  then have False using assms by (auto simp: trusts_authority_def list_ex_iff)
  then show ?thesis ..
qed simp

lemma add_signing_keys_Inr:
  "add_signing_keys K keys store count = Inr (store', count') \<Longrightarrow>
     count' = count + length keys
     \<and> store' = store ++ map_of (rev (map (\<lambda>key. (sk_key_id key, projr (public_key K (sk_public_key_hex key)))) keys))
     \<and> (\<forall>key \<in> set keys. sk_algorithm key = ''Ed25519'' \<and> (\<exists>k. public_key K (sk_public_key_hex key) = Inr k))"
  by (induction K keys store count rule: add_signing_keys.induct)
     (auto simp: trust_store_insert_def map_add_def fun_eq_iff split: if_splits option.splits)

text \<open>The client's trust store holds exactly the keys of its bundle: when it is built, every key is
  an Ed25519 key of 32 bytes the crate accepts and there is at least one, an identifier is known
  exactly if some authority has a key of that identifier, and with duplicates the last one wins.\<close>

lemma client_trust_store_keys:
  assumes "client_trust_store K bundle = Inr store"
  shows "concat (map ta_signing_keys (cb_trusted_authorities bundle)) \<noteq> []
     \<and> store = map_of (rev (map (\<lambda>key. (sk_key_id key, projr (public_key K (sk_public_key_hex key))))
         (concat (map ta_signing_keys (cb_trusted_authorities bundle)))))
     \<and> dom store = {k. \<exists>a. trusts_authority bundle a k}"
proof -
  let ?keys = "concat (map ta_signing_keys (cb_trusted_authorities bundle))"
  obtain count where add: "add_signing_keys K ?keys Map.empty 0 = Inr (store, count)" "count \<noteq> 0"
    using assms by (auto simp: client_trust_store_def trust_store_default_def split: if_splits)
  from add_signing_keys_Inr [OF add(1)] add(2)
  have store: "store = map_of (rev (map (\<lambda>key. (sk_key_id key, projr (public_key K (sk_public_key_hex key)))) ?keys))"
    and some: "?keys \<noteq> []" by auto
  have "dom store = sk_key_id ` set ?keys"
    unfolding store dom_map_of_conv_image_fst set_rev set_map image_image by simp
  also have "\<dots> = {k. \<exists>a. trusts_authority bundle a k}"
    by (auto simp: trusts_authority_def list_ex_iff image_iff)
  finally show ?thesis using store some by blast
qed

section \<open>A burnt entitlement\<close>

text \<open>A grant for \<open>session-1\<close> that the client \<open>target-1\<close> presents while it is in \<open>session-2\<close>.\<close>

definition sample_grant :: protocol_claims where
  "sample_grant = sample_claims\<lparr>pc_message_type := AuthorizationGrant, pc_session_id := Some ''session-1'',
     pc_expires_at_s := Some 1060\<rparr>"

definition sample_client :: client_trust_bundle where
  "sample_client =
     \<lparr>cb_bundle_id = ''client-trust'', cb_version = 1, cb_client_id = ''target-1'',
      cb_valid_from = ''2026-01-01T00:00:00Z'', cb_valid_until = ''2027-01-01T00:00:00Z'',
      cb_trusted_authorities = [\<lparr>ta_authority_id = ''chaser-1'', ta_signing_keys =
        [\<lparr>sk_key_id = ''chaser-1'', sk_algorithm = ''Ed25519'', sk_public_key_hex = hex_enc (replicate 32 7)\<rparr>]\<rparr>]\<rparr>"

definition sample_request :: "string \<Rightarrow> string \<Rightarrow> verify_request" where
  "sample_request grant_hex session_id =
     \<lparr>vq_command = ''verify_entitlement'', vq_entitlement_hex = Some grant_hex, vq_expected_authority = Some ''chaser-1'',
      vq_expected_session_id = Some session_id, vq_expected_stage = None, vq_now_s = Some 1000\<rparr>"

lemma sample_grant_signed:
  obtains encoded where "sign_envelope conforming sample_grant sample_identity = Inr encoded"
proof -
  obtain payload where "cbor_write_protocol conforming sample_grant = Some payload"
    using cbor_total(1) [OF conforming_cbor] by blast
  moreover obtain encoded where "sign_payload conforming payload sample_identity docking_identity_aad = Inr encoded"
    using sign_payload_total [OF conforming_cose, of sample_identity "replicate 32 7"]
    by (auto simp: sample_identity_def from_seed_def)
  ultimately show thesis
    using that by (simp add: sign_envelope_Inr sample_identity_facts) (simp add: sample_grant_def sample_claims_def)
qed

theorem mismatch_burns_entitlement_witness:
  "\<exists>grant_hex d e.
     verify_command conforming (\<lambda>line. Inr (sample_request grant_hex line)) sample_client sample_trust 0 ''session-2'' replay_default
       = (Inl ''grant session does not match the active ACCESS session'', d)
     \<and> fst (verify_command conforming (\<lambda>line. Inr (sample_request grant_hex line)) sample_client sample_trust 0 ''session-1''
         (snd (run_all (\<lambda>(clock, input). verify_command conforming (\<lambda>line. Inr (sample_request grant_hex line))
            sample_client sample_trust clock input) [(5, ''session-3''), (7, ''session-2'')] (d :: unit replay_cache)))) = Inl e"
proof -
  obtain encoded where enc: "sign_envelope conforming sample_grant sample_identity = Inr encoded"
    by (rule sample_grant_signed)
  let ?json = "\<lambda>line. Inr (sample_request (hex_enc encoded) line) :: string + verify_request"
  let ?d = "\<lparr>rc_consumed = {pc_nonce sample_grant}, rc_backend = None\<rparr> :: unit replay_cache"
  have "hex_decode conforming (hex_enc encoded) = Inr encoded"
    using conforming_hex unfolding hex_ok_def by (metis conforming_simps(1))
  then have presented: "presented_entitlement conforming ?json line = Inr (sample_request (hex_enc encoded) line, encoded)" for line
    by (simp add: presented_entitlement_def sample_request_def)
  have fields: "pc_recipient sample_grant = ''target-1''" "pc_issued_at_s sample_grant = 1000"
      "length (pc_nonce sample_grant) = 16" "cb_client_id sample_client = ''target-1''"
    by (simp_all add: sample_grant_def sample_claims_def sample_client_def as_bytes_def)
  have "authentic_envelope conforming encoded sample_trust (pc_recipient sample_grant) 1000 verifier_max_clock_skew_s
      \<lparr>ve_signer = ik_key_id sample_identity, ve_claims = sample_grant\<rparr>"
    by (rule sign_envelope_authentic [where trust = sample_trust, OF conforming_cbor conforming_cose sample_identity_facts(3) enc
          sample_identity_facts(4)]) (simp_all add: fields verifier_max_clock_skew_s_def)
  then have "verify_envelope conforming encoded sample_trust (pc_recipient sample_grant) 1000 verifier_max_clock_skew_s replay_default
      = (Inr \<lparr>ve_signer = ik_key_id sample_identity, ve_claims = sample_grant\<rparr>, ?d)"
    by (simp add: verify_envelope_Inr consume_def replay_default_def)
  then have verified: "verify_envelope conforming encoded sample_trust (cb_client_id sample_client)
      (case vq_now_s (sample_request (hex_enc encoded) ''session-2'') of None \<Rightarrow> 0 | Some n \<Rightarrow> n) verifier_max_clock_skew_s replay_default
      = (Inr \<lparr>ve_signer = ''chaser-1'', ve_claims = sample_grant\<rparr>, ?d)"
    by (simp add: fields sample_request_def sample_identity_facts)
  have refused: "check_grant sample_client (sample_request (hex_enc encoded) ''session-2'')
      (case vq_now_s (sample_request (hex_enc encoded) ''session-2'') of None \<Rightarrow> 0 | Some n \<Rightarrow> n)
      \<lparr>ve_signer = ''chaser-1'', ve_claims = sample_grant\<rparr> = Inl ''grant session does not match the active ACCESS session''"
    by (simp add: check_grant_def sample_request_def sample_grant_def sample_claims_def sample_client_def trusts_authority_def Let_def)
  from mismatch_burns_entitlement [OF presented verified refused presented, of "''session-1''"] show ?thesis
    by blast
qed

end
