(* ===== verification/Agreement.thy ===== *)
theory Agreement
  imports Verifier Complete
begin

text \<open>
  The station and the client. The engine hands signed grants out; the client verifies what it is
  presented with. This theory follows a grant from the engine's decision to the client's verdict, in both
  directions: what was granted verifies, and what is verified was granted, once.
\<close>

section \<open>What the engine hands out\<close>

text \<open>The token an approved request returns.\<close>

fun handed_out :: "engine_command \<Rightarrow> session_error + engine_reply \<Rightarrow> string option" where
  "handed_out (RequestTransition q now_s readiness) (Inr (TransitionReply out)) =
     (if out_approved out then out_signed_grant_hex out else None)"
| "handed_out _ _ = None"

text \<open>The payload a token carries.\<close>

definition token_payload :: "'p crates \<Rightarrow> string \<Rightarrow> bytes option" where
  "token_payload K token =
     (case hex_decode K token of
        Inl _ \<Rightarrow> None
      | Inr encoded \<Rightarrow> Option.bind (cose_from_tagged_slice K encoded) cose_payload)"

text \<open>A verdict of the client agrees with a command of the engine in a state: the command was an approved
  request for the stage, which profile and policy granted, in the session; the grant, its expiry,
  profile, rule and policy are those of the reply.\<close>

definition agrees ::
  "'p crates \<Rightarrow> ('p, 'b) access_engine \<Rightarrow> engine_command \<Rightarrow> session_error + engine_reply \<Rightarrow> verified_entitlement \<Rightarrow> bool" where
  "agrees K s command result v \<longleftrightarrow>
     (\<exists>q now_s readiness out. command = RequestTransition q now_s readiness \<and> result = Inr (TransitionReply out)
        \<and> out_approved out \<and> grants_stage K s q now_s readiness
        \<and> map_option (\<lambda>(_, stage). stage_serde_name stage) (transition_for (ae_state s) q) = Some (vd_authorized_stage v)
        \<and> ae_session_id s = Some (vd_session_id v) \<and> out_grant_id out = Some (vd_grant_id v)
        \<and> out_grant_expires_at_s out = Some (vd_expires_at_s v)
        \<and> out_protocol_profile_id out = Some (vd_protocol_profile_id v)
        \<and> out_protocol_profile_version out = Some (vd_protocol_profile_version v)
        \<and> out_rule_id out = Some (vd_rule_id v)
        \<and> map_option ad_policy (out_authorization_decision out)
            = Some \<lparr>am_bundle_id = vd_authorization_policy_bundle_id v,
                    am_bundle_version = vd_authorization_policy_bundle_version v,
                    am_policy_sha256 = vd_authorization_policy_sha256 v\<rparr>)"

lemma signed_payload_of:
  assumes "cose_ok K" "sign_payload K payload identity aad = Inr encoded"
  shows "Option.bind (cose_from_tagged_slice K encoded) cose_payload = Some payload"
proof -
  obtain m where m: "cose_to_tagged_vec K m = Some encoded" "cose_rest m = []" "cose_payload m = Some payload"
    using assms(2) by (auto simp: sign_payload_def Let_def)
  then have "cose_from_tagged_slice K encoded = Some m" using cose_read [OF assms(1)] by blast
  then show ?thesis using m(3) by simp
qed

lemma handed_out_claims:
  assumes "hex_ok K" "cbor_ok K" "cose_ok K" "engine_step K c s = (r, t)" "handed_out c r = Some token"
  shows "\<exists>payload claims. token_payload K token = Some payload \<and> cbor_read_protocol K payload = Some claims
     \<and> (\<forall>client command now_s signer v. check_grant client command now_s \<lparr>ve_signer = signer, ve_claims = claims\<rparr> = Inr v
          \<longrightarrow> agrees K s c r v)"
proof -
  obtain q now_s readiness out where c: "c = RequestTransition q now_s readiness" and r: "r = Inr (TransitionReply out)"
      and out: "out_approved out" "out_signed_grant_hex out = Some token"
    using assms(5) by (cases c; cases r rule: sum.exhaust; cases "projr r") (auto split: if_splits)
  have "request_result K s q now_s readiness out t"
    using step_request [of K q now_s readiness s r t] assms(4) by (auto simp: c r)
  then show ?thesis
  proof (cases rule: request_resultE)
    case denied
    with out show ?thesis by simp
  next
    case (granted event_kind stage session_id from_stage to_stage rule decision)
    let ?e = "saturating_add now_s (rd_entitlement_ttl_s rule)"
    obtain ident nonce encoded payload where
        payload: "cbor_write_protocol K (grant_claims (ik_key_id (ae_station s)) (ik_key_id (ae_chaser s)) now_s nonce
             session_id stage (grant_name K ident) ?e rule (ad_policy decision)) = Some payload"
          "sign_payload K payload (ae_station s) docking_identity_aad = Inr encoded"
      and outcome: "out = grant_outcome K t (state_number (ae_state s)) stage session_id rule decision (grant_name K ident) ?e encoded"
      using granted(6) unfolding issued_def sign_envelope_Inr by blast
    let ?claims = "grant_claims (ik_key_id (ae_station s)) (ik_key_id (ae_chaser s)) now_s nonce
             session_id stage (grant_name K ident) ?e rule (ad_policy decision)"
    have "token = hex_encode K encoded" using out(2) by (simp add: outcome grant_outcome_def Let_def)
    then have "token_payload K token = Some payload"
      using assms(1) signed_payload_of [OF assms(3) payload(2)] by (simp add: token_payload_def)
    moreover have "cbor_read_protocol K payload = Some ?claims" by (rule cbor_protocol_read [OF assms(2) payload(1)])
    moreover have "agrees K s c r v"
      if "check_grant client command clock \<lparr>ve_signer = signer, ve_claims = ?claims\<rparr> = Inr v" for client command clock signer v
      using that granted(1,3,7) out(1) unfolding check_grant_Inr agrees_def c r
      by (auto simp: grant_claims_def outcome grant_outcome_def Let_def)
    ultimately show ?thesis by blast
  qed
qed

text \<open>What an approved request says of the engine's configuration.\<close>

lemma approved_outcome_names:
  assumes "engine_step K (RequestTransition q now_s readiness) s = (Inr (TransitionReply out), t)" "out_approved out"
  shows "out_protocol_profile_id out = Some (pp_profile_id (ec_protocol_profile (ae_config s)))
     \<and> out_protocol_profile_version out = Some (pp_profile_version (ec_protocol_profile (ae_config s)))
     \<and> map_option ad_policy (out_authorization_decision out) = Some (pe_metadata (ec_policy_engine (ae_config s)))"
proof -
  have "request_result K s q now_s readiness out t" using step_request [OF assms(1)] by auto
  then show ?thesis
  proof (cases rule: request_resultE)
    case denied
    with assms(2) show ?thesis by simp
  next
    case (granted event_kind stage session_id from_stage to_stage rule decision)
    have "ad_policy decision = pe_metadata (ec_policy_engine (ae_config s))" using authorize_rule_policy [OF granted(5)] by simp
    moreover have "rd_profile_id rule = pp_profile_id (ec_protocol_profile (ae_config s))"
      "rd_profile_version rule = pp_profile_version (ec_protocol_profile (ae_config s))"
      using granted(4) by (auto simp: evaluate_profile_def evaluate_Inr)
    ultimately show ?thesis using granted(6) by (auto simp: issued_def grant_outcome_def Let_def)
  qed
qed

section \<open>What was granted verifies\<close>

text \<open>The input line of a client that expects what it asked for, from the station, in the session it
  is in.\<close>

definition expecting :: "string \<Rightarrow> string \<Rightarrow> string option \<Rightarrow> authorized_stage \<Rightarrow> i64 \<Rightarrow> verify_request" where
  "expecting grant_hex authority session_id stage now_s =
     \<lparr>vq_command = ''verify_entitlement'', vq_entitlement_hex = Some grant_hex, vq_expected_authority = Some authority,
      vq_expected_session_id = session_id, vq_expected_stage = Some (stage_serde_name stage), vq_now_s = Some now_s\<rparr>"

lemma issued_accepted:
  assumes "hex_ok K" "cbor_ok K" "cose_ok K" "honest_signer K (ae_station s)"
    and "issued K s stage session_id q now_s rule decision out t" "ae_session_id s = Some session_id"
    and "out_signed_grant_hex out = Some grant_hex" "out_grant_expires_at_s out = Some expires_at_s"
    and "json input = Inr (expecting grant_hex (ik_key_id (ae_station s)) (ae_session_id s) stage now_s')"
    and "trust (ik_key_id (ae_station s)) = Some (ik_verifying_key (ae_station s))"
    and "trusts_authority client (ik_key_id (ae_station s)) (ik_key_id (ae_station s))"
    and "cb_client_id client = ik_key_id (ae_chaser s)" "reliable c" "rc_consumed c = {}"
    and "\<bar>sint now_s' - sint now_s\<bar> \<le> 30" "sint now_s' \<le> sint expires_at_s"
  shows "\<exists>v d. verify_command K json client trust clock input c = (Inr v, d)
     \<and> out_grant_id out = Some (vd_grant_id v) \<and> out_session_id out = Some (vd_session_id v)
     \<and> out_rule_id out = Some (vd_rule_id v) \<and> vd_expires_at_s v = expires_at_s
     \<and> vd_authorized_stage v = stage_serde_name stage
     \<and> map_option (\<lambda>d. am_policy_sha256 (ad_policy d)) (out_authorization_decision out)
         = Some (vd_authorization_policy_sha256 v)"
proof -
  let ?e = "saturating_add now_s (rd_entitlement_ttl_s rule)"
  let ?asked = "expecting grant_hex (ik_key_id (ae_station s)) (ae_session_id s) stage now_s'"
  obtain ident nonce encoded where nonce: "length nonce = 32"
    and enc: "sign_envelope K (grant_claims (ik_key_id (ae_station s)) (ik_key_id (ae_chaser s)) now_s nonce session_id
           stage (grant_name K ident) ?e rule (ad_policy decision)) (ae_station s) = Inr encoded"
    and out: "out = grant_outcome K t (state_number (ae_state s)) stage session_id rule decision (grant_name K ident) ?e encoded"
    using assms(5) unfolding issued_def fresh_draw_def by blast
  let ?claims = "grant_claims (ik_key_id (ae_station s)) (ik_key_id (ae_chaser s)) now_s nonce session_id
           stage (grant_name K ident) ?e rule (ad_policy decision)"
  let ?verified = "\<lparr>ve_signer = ik_key_id (ae_station s), ve_claims = ?claims\<rparr>"
  have e: "expires_at_s = ?e" and hex: "grant_hex = hex_encode K encoded"
    using assms(7,8) by (simp_all add: out grant_outcome_def Let_def)
  have presented: "presented_entitlement K json input = Inr (?asked, encoded)"
    using assms(1,9) by (simp add: presented_entitlement_def expecting_def hex)
  have "authentic_envelope K encoded trust (pc_recipient ?claims) now_s' verifier_max_clock_skew_s ?verified"
    by (rule sign_envelope_authentic [where trust = trust, OF assms(2-4) enc assms(10)])
       (use assms(15) nonce in \<open>simp_all add: verifier_max_clock_skew_s_def\<close>)
  moreover obtain d where "consume nonce c = (Inr (), d)" using consume_reliable assms(13,14) by blast
  ultimately have "verify_envelope K encoded trust (cb_client_id client) now_s' verifier_max_clock_skew_s c = (Inr ?verified, d)"
    unfolding verify_envelope_Inr using assms(12) by simp
  moreover have "\<exists>v. check_grant client ?asked now_s' ?verified = Inr v \<and> vd_grant_id v = grant_name K ident
      \<and> vd_session_id v = session_id \<and> vd_rule_id v = rd_rule_id rule \<and> vd_expires_at_s v = ?e
      \<and> vd_authorized_stage v = stage_serde_name stage \<and> vd_authorization_policy_sha256 v = am_policy_sha256 (ad_policy decision)"
    unfolding check_grant_Inr using assms(6,11,16) e
    by (simp add: grant_claims_def request_claims_def expecting_def)
  ultimately show ?thesis
    unfolding verify_command_Inr
    using presented by (auto simp: out grant_outcome_def Let_def e expecting_def)
qed

section \<open>Lines without a forged grant\<close>

text \<open>The tokens an engine handed out in a run.\<close>

definition tokens_of :: "engine_command list \<Rightarrow> (session_error + engine_reply) list \<Rightarrow> string list" where
  "tokens_of commands results = List.map_filter (\<lambda>(c, r). handed_out c r) (zip commands results)"

text \<open>Among the lines presented to the client, every grant with a valid signature of the authority carries
  the payload of a token the engine handed out. The signature scheme and the custody of the key
  give this: nobody else can sign for the station, and the station signs grants for approved requests only.\<close>

definition unforged ::
  "'p crates \<Rightarrow> (string \<Rightarrow> string + verify_request) \<Rightarrow> trust_store \<Rightarrow> string \<Rightarrow> string list \<Rightarrow> (i64 \<times> string) list \<Rightarrow> bool" where
  "unforged K json trust authority tokens lines \<longleftrightarrow>
     list_all (\<lambda>(_, input).
       case presented_entitlement K json input of
         Inl _ \<Rightarrow> True
       | Inr (_, encoded) \<Rightarrow>
           (case verify_signed_payload K encoded trust docking_identity_aad of
              Inl _ \<Rightarrow> True
            | Inr (signer, payload) \<Rightarrow>
                signer = authority \<longrightarrow> map_option pc_message_type (cbor_read_protocol K payload) = Some AuthorizationGrant
                  \<longrightarrow> Some payload \<in> set (map (token_payload K) tokens))) lines"

lemma tokens_of_step:
  assumes "token \<in> set (tokens_of cmds (fst (run_all (engine_step K) cmds start)))"
  obtains j where "j < length cmds"
    "handed_out (cmds ! j) (fst (run_all (engine_step K) cmds start) ! j) = Some token"
  using assms by (auto simp: tokens_of_def map_filter_def set_zip)

lemma authentic_signed:
  assumes "authentic_envelope K encoded trust recipient now_s skew verified"
  obtains payload where "verify_signed_payload K encoded trust docking_identity_aad = Inr (ve_signer verified, payload)"
    "cbor_read_protocol K payload = Some (ve_claims verified)"
  using assms unfolding authentic_envelope_def verify_signed_payload_Inr by blast

text \<open>A line the client accepts from the authority carries the payload of a handed-out token, and the verdict is read off its claims.\<close>

lemma accepted_grant:
  assumes "verify_command K json client trust clock input c = (Inr v, d)" "vd_authority_id v = authority"
    and "unforged K json trust authority tokens lines" "(clock, input) \<in> set lines"
  obtains payload claims command now_s token where "token \<in> set tokens" "token_payload K token = Some payload"
    "cbor_read_protocol K payload = Some claims" "presented_nonce K json input = Some (pc_nonce claims)"
    "check_grant client command now_s \<lparr>ve_signer = authority, ve_claims = claims\<rparr> = Inr v"
proof -
  obtain command encoded verified where
      p: "presented_entitlement K json input = Inr (command, encoded)"
    and env: "authentic_envelope K encoded trust (cb_client_id client)
        (case vq_now_s command of None \<Rightarrow> clock | Some n \<Rightarrow> n) verifier_max_clock_skew_s verified"
    and grant: "check_grant client command (case vq_now_s command of None \<Rightarrow> clock | Some n \<Rightarrow> n) verified = Inr v"
    using assms(1) unfolding verify_command_Inr verify_envelope_Inr by blast
  have signer: "ve_signer verified = authority" "pc_message_type (ve_claims verified) = AuthorizationGrant"
    using grant assms(2) unfolding check_grant_Inr by auto
  obtain payload where payload: "verify_signed_payload K encoded trust docking_identity_aad = Inr (authority, payload)"
      "cbor_read_protocol K payload = Some (ve_claims verified)"
    using authentic_signed [OF env] signer(1) by metis
  obtain token where "token \<in> set tokens" "token_payload K token = Some payload"
    using assms(3,4) p payload signer(2) unfolding unforged_def list_all_iff by fastforce
  moreover have "presented_nonce K json input = Some (pc_nonce (ve_claims verified))"
    using env payload by (auto simp: presented_nonce_def p authentic_envelope_def)
  moreover have "verified = \<lparr>ve_signer = authority, ve_claims = ve_claims verified\<rparr>" using signer(1) by (cases verified) simp
  ultimately show thesis using that payload(2) grant by metis
qed

section \<open>The client's verdicts and the engine's decisions\<close>

text \<open>The positions at which the client accepted an entitlement of the authority.\<close>

definition accepted_from :: "string \<Rightarrow> (string + verified_entitlement) list \<Rightarrow> nat set" where
  "accepted_from authority verdicts =
     {i. i < length verdicts \<and> (case verdicts ! i of Inl _ \<Rightarrow> False | Inr v \<Rightarrow> vd_authority_id v = authority)}"

text \<open>The command at a position handed out the token whose claims an input line presents, and agrees with the verdict.\<close>

definition answers ::
  "'p crates \<Rightarrow> (string \<Rightarrow> string + verify_request) \<Rightarrow> engine_command list \<Rightarrow> (session_error + engine_reply) list
     \<Rightarrow> ('p, 'b) access_engine \<Rightarrow> i64 \<times> string \<Rightarrow> verified_entitlement \<Rightarrow> nat \<Rightarrow> bool" where
  "answers K json cmds results start line v j \<longleftrightarrow>
     j < length cmds
     \<and> (\<exists>payload claims. Option.bind (handed_out (cmds ! j) (results ! j)) (token_payload K) = Some payload
          \<and> cbor_read_protocol K payload = Some claims \<and> presented_nonce K json (snd line) = Some (pc_nonce claims))
     \<and> agrees K (snd (run_all (engine_step K) (take j cmds) start)) (cmds ! j) (results ! j) v"

lemma answers_same_nonce:
  "answers K json cmds results start line v j \<Longrightarrow> answers K json cmds results start line' v' j
     \<Longrightarrow> presented_nonce K json (snd line) = presented_nonce K json (snd line')"
  by (auto simp: answers_def)

lemma accepted_was_granted:
  assumes "hex_ok K" "cbor_ok K" "cose_ok K"
    and "run_all (engine_step K) cmds start = (results, t)"
    and "run_all (\<lambda>(clock, input). verify_command K json client trust clock input) lines c = (verdicts, d)"
    and "unforged K json trust authority (tokens_of cmds results) lines" "i \<in> accepted_from authority verdicts"
  shows "\<exists>j. answers K json cmds results start (lines ! i) (projr (verdicts ! i)) j"
proof -
  let ?verify = "\<lambda>(clock, input). verify_command K json client trust clock input"
  have len: "length verdicts = length lines" using length_run_all [of ?verify lines c] assms(5) by simp
  obtain v where i: "i < length lines" "verdicts ! i = Inr v" "vd_authority_id v = authority"
    using assms(7) by (auto simp: accepted_from_def len split: sum.splits)
  let ?before = "snd (run_all ?verify (take i lines) c)"
  have "fst (?verify (lines ! i) ?before) = Inr v" using run_all_nth [OF i(1), of ?verify c] assms(5) i(2) by simp
  then obtain d' where acc: "verify_command K json client trust (fst (lines ! i)) (snd (lines ! i)) ?before = (Inr v, d')"
    by (cases "?verify (lines ! i) ?before") (auto simp: case_prod_beta)
  have "(fst (lines ! i), snd (lines ! i)) \<in> set lines" using i(1) by simp
  from accepted_grant [OF acc i(3) assms(6) this] obtain payload claims command now_s token where
      token: "token \<in> set (tokens_of cmds results)" "token_payload K token = Some payload"
    and claims: "cbor_read_protocol K payload = Some claims" "presented_nonce K json (snd (lines ! i)) = Some (pc_nonce claims)"
      "check_grant client command now_s \<lparr>ve_signer = authority, ve_claims = claims\<rparr> = Inr v" by metis
  have results: "results = fst (run_all (engine_step K) cmds start)" using assms(4) by simp
  obtain j where j: "j < length cmds" "handed_out (cmds ! j) (results ! j) = Some token"
    using token(1) unfolding results by (rule tokens_of_step)
  let ?s = "snd (run_all (engine_step K) (take j cmds) start)"
  have step: "engine_step K (cmds ! j) ?s = (results ! j, snd (engine_step K (cmds ! j) ?s))"
    using run_all_nth [OF j(1), of "engine_step K" start] by (simp add: results prod_eq_iff)
  have "agrees K ?s (cmds ! j) (results ! j) v"
    using handed_out_claims [OF assms(1-3) step j(2)] token(2) claims(1,3) by fastforce
  then show ?thesis using j token(2) claims(1,2) i(2) unfolding answers_def by (intro exI [of _ j]) auto
qed

lemma injective_agreement:
  assumes "hex_ok K" "cbor_ok K" "cose_ok K"
    and "run_all (engine_step K) cmds start = (results, t)"
    and "run_all (\<lambda>(clock, input). verify_command K json client trust clock input) lines c = (verdicts, d)"
    and "unforged K json trust authority (tokens_of cmds results) lines"
  shows "\<exists>f. inj_on f (accepted_from authority verdicts)
     \<and> (\<forall>i \<in> accepted_from authority verdicts. f i < length cmds
          \<and> agrees K (snd (run_all (engine_step K) (take (f i) cmds) start)) (cmds ! f i) (results ! f i) (projr (verdicts ! i)))"
proof -
  let ?verify = "\<lambda>(clock, input). verify_command K json client trust clock input"
  obtain f where f: "\<And>i. i \<in> accepted_from authority verdicts
      \<Longrightarrow> answers K json cmds results start (lines ! i) (projr (verdicts ! i)) (f i)"
    using accepted_was_granted [OF assms] by metis
  have len: "length verdicts = length lines" using length_run_all [of ?verify lines c] assms(5) by simp
  have apart: "f i \<noteq> f j" if pos: "i \<in> accepted_from authority verdicts" "j \<in> accepted_from authority verdicts" "i < j" for i j
  proof
    assume "f i = f j"
    then have same: "presented_nonce K json (snd (lines ! i)) = presented_nonce K json (snd (lines ! j))"
      using answers_same_nonce [OF f [OF pos(1)]] f [OF pos(2)] by simp
    obtain v w where "verdicts ! i = Inr v" "verdicts ! j = Inr w" "j < length lines"
      using pos(1,2) by (auto simp: accepted_from_def len split: sum.splits)
    from entitlements.positions_once [OF assms(5) pos(3) this(3,1,2)] same show False by (simp add: case_prod_beta)
  qed
  then have "inj_on f (accepted_from authority verdicts)" by (intro inj_onI) (metis linorder_neqE_nat)
  with f show ?thesis unfolding answers_def by blast
qed

end
