(* ===== verification/Signer.thy ===== *)
theory Signer
  imports Host
begin

text \<open>
  The signer program (\<open>bin/access_signer.rs\<close>) and the authority's proxy for it (\<open>ExternalSigner\<close>
  of \<open>bin/access_authority.rs\<close>): the payload goes to the process in hexadecimal on standard
  input, the signature comes back in hexadecimal on standard output. \<open>sf_\<close> are the fields of
  \<open>IdentityFile\<close>, \<open>es_\<close> those of \<open>ExternalSigner\<close>.
\<close>

section \<open>The signer program\<close>

text \<open>The identities are a hash map from roles to records with one field, \<open>seed_hex\<close>.\<close>

record identity_record =
  ir_seed_hex :: string

record identity_file =
  sf_fixture_only :: bool
  sf_identities :: "string \<rightharpoonup> identity_record"

text \<open>The loop over the arguments, one round per option: the iterator and the two variables are its
  state. An option at the end of the line sets its variable to \<open>None\<close>.\<close>

definition next_argument :: "string list \<Rightarrow> string option \<times> string list" where
  "next_argument args = (case args of [] \<Rightarrow> (None, []) | a # rest \<Rightarrow> (Some a, rest))"

partial_function (option) arguments_loop ::
  "string list \<Rightarrow> string option \<Rightarrow> string option \<Rightarrow> (string + string option \<times> string option) option" where
  "arguments_loop args role path =
     (case next_argument args of
        (None, _) \<Rightarrow> Some (Inr (role, path))
      | (Some a, rest) \<Rightarrow>
          if a = ''--role'' then
            (case next_argument rest of (r, rest') \<Rightarrow> arguments_loop rest' r path)
          else if a = ''--identities-file'' then
            (case next_argument rest of (p, rest') \<Rightarrow> arguments_loop rest' role p)
          else Some (Inl (''unknown argument: '' @ a)))"

definition arguments :: "string list \<Rightarrow> (string + string \<times> string) option" where
  "arguments args =
     map_option (\<lambda>r. bind_result r (\<lambda>(role, path).
         bind_result (ok_or ''--role is required'' role) (\<lambda>role.
         bind_result (ok_or ''--identities-file is required'' path) (\<lambda>path. Inr (role, path)))))
       (arguments_loop args None None)"

text \<open>\<open>main\<close>: the arguments, the file with its parser \<open>json\<close>, standard input (or the error of reading
  it) to the text printed or the error reported.\<close>

definition signer_main ::
  "'p crates \<Rightarrow> host \<Rightarrow> (bytes \<Rightarrow> string + identity_file) \<Rightarrow> string list \<Rightarrow> string + string \<Rightarrow> (string + string) option" where
  "signer_main K H json args stdin =
     map_option (\<lambda>parsed. bind_result parsed (\<lambda>(role, identities_path).
       bind_result (bind_result (fs_read H identities_path) json) (\<lambda>file.
       if \<not> sf_fixture_only file then Inl ''file seed signer requires fixture_only=true''
       else bind_result (ok_or (''missing signing identity role: '' @ role) (sf_identities file role)) (\<lambda>identity.
       bind_result (hex_decode K (ir_seed_hex identity)) (\<lambda>seed.
       if length seed \<noteq> 32 then Inl ''Ed25519 seed must contain exactly 32 bytes''
       else bind_result stdin (\<lambda>encoded_payload.
       bind_result (hex_decode K (trim encoded_payload)) (\<lambda>payload.
         Inr (hex_encode K (ed25519_sign K seed payload) @ [CHR 0x0A]))))))))
     (arguments args)"

section \<open>The proxy\<close>

text \<open>What running a command with arguments and a text on standard input does.\<close>

datatype process_result =
    SpawnFails string
  | StdinUnavailable
  | WriteRequestFails string
  | WaitFails string
  | Exits bool bytes bytes

type_synonym process_runner = "string \<Rightarrow> string list \<Rightarrow> string \<Rightarrow> process_result"

record external_signer =
  es_command :: string
  es_role :: string
  es_identities_path :: string

definition external_sign ::
  "'p crates \<Rightarrow> process_runner \<Rightarrow> external_signer \<Rightarrow> payload_signer" where
  "external_sign K run signer payload =
     (case run (es_command signer)
            [''--role'', es_role signer, ''--identities-file'', es_identities_path signer] (hex_encode K payload) of
        SpawnFails e \<Rightarrow> Inl (''could not start '' @ es_role signer @ '' signer: '' @ e)
      | StdinUnavailable \<Rightarrow> Inl ''signer stdin unavailable''
      | WriteRequestFails e \<Rightarrow> Inl (''could not write signer request: '' @ e)
      | WaitFails e \<Rightarrow> Inl (''signer process failed: '' @ e)
      | Exits success out err \<Rightarrow>
          if \<not> success then Inl (trim (from_utf8_lossy err))
          else map_err (\<lambda>e. ''signer returned invalid signature encoding: '' @ e)
                 (hex_decode K (trim (from_utf8_lossy out))))"

section \<open>The argument loop ends\<close>

lemma arguments_loop_Nil: "arguments_loop [] role path = Some (Inr (role, path))"
  by (subst arguments_loop.simps) (simp add: next_argument_def)

lemma arguments_loop_ends: "\<exists>r. arguments_loop args role path = Some r"
proof (induction args arbitrary: role path rule: measure_induct_rule [of length])
  case (less args)
  show ?case
  proof (cases args)
    case Nil
    then show ?thesis by (simp add: arguments_loop_Nil)
  next
    case (Cons a rest)
    have "length (snd (next_argument rest)) < length args" using Cons by (cases rest) (simp_all add: next_argument_def)
    note IH = less.IH [OF this]
    show ?thesis
      using IH [of "fst (next_argument rest)" path] IH [of role "fst (next_argument rest)"]
      by (subst arguments_loop.simps) (simp add: Cons next_argument_def [of "a # rest"] case_prod_beta)
  qed
qed

lemma arguments_given:
  "arguments [''--role'', role, ''--identities-file'', path] = Some (Inr (role, path))"
  by (simp add: arguments_def arguments_loop.simps [of "_ # _"] arguments_loop_Nil next_argument_def)

text \<open>C39. The signer's argument loop returns on every command line, and reads back the one the proxy
  builds whatever role and path it is given, even ones that look like options.\<close>

theorem arguments_terminate:
  "(\<exists>r. arguments args = Some r)
   \<and> arguments [''--role'', role, ''--identities-file'', path] = Some (Inr (role, path))"
  using arguments_loop_ends [of args None None] arguments_given by (auto simp: arguments_def)

section \<open>Proxy and signer together\<close>

text \<open>The runner whose processes are the signer program on the host \<open>H\<close>; \<open>debug\<close> renders the error a
  failing \<open>main\<close> prints on standard error.\<close>

definition signer_process ::
  "'p crates \<Rightarrow> host \<Rightarrow> (bytes \<Rightarrow> string + identity_file) \<Rightarrow> (string \<Rightarrow> string) \<Rightarrow> process_runner" where
  "signer_process K H json debug command args text =
     (case signer_main K H json args (Inr text) of
        None \<Rightarrow> WaitFails ''no exit''
      | Some (Inl e) \<Rightarrow> Exits False [] (as_bytes (''Error: '' @ debug e))
      | Some (Inr out) \<Rightarrow> Exits True (as_bytes out) [])"

lemma hex_char_range: "c \<in> set hex_alphabet \<Longrightarrow> 33 \<le> (of_char c :: nat) \<and> (of_char c :: nat) < 128"
  by (auto simp: hex_alphabet_def)

definition plain :: "nat list \<Rightarrow> bool" where
  "plain bs \<longleftrightarrow> (\<forall>b \<in> set bs. 33 \<le> b \<and> b < 128)"

lemma plain_start: "33 \<le> b \<Longrightarrow> b < 128 \<Longrightarrow> whitespace_length (b # cs) = 0"
  by (auto split: list.splits)

declare whitespace_length.simps(1) [simp del]

lemma plain_drop:
  assumes "plain bs" "n < length bs"
  shows "whitespace_length (drop n bs @ cs) = 0"
proof -
  obtain b ds where "drop n bs = b # ds" using assms(2) by (cases "drop n bs") auto
  moreover from this have "b \<in> set bs" by (metis in_set_dropD list.set_intros(1))
  ultimately show ?thesis using assms(1) plain_start by (auto simp: plain_def)
qed

lemma trim_plain:
  assumes "plain bs"
  shows "trim_end bs = bs" "trim_start (bs @ cs) = (if bs = [] then trim_start cs else bs @ cs)"
proof -
  have "\<not> (n \<le> length bs \<and> whitespace_length (drop (length bs - n) bs) = n)" if "0 < n" for n
    using plain_drop [OF assms, of "length bs - n" "[]"] that by auto
  then have "trailing_whitespace bs = 0" by (simp add: trailing_whitespace_def)
  then show "trim_end bs = bs" by (subst trim_end.simps) simp
  show "trim_start (bs @ cs) = (if bs = [] then trim_start cs else bs @ cs)"
    using plain_drop [OF assms, of 0 cs] by (cases "bs = []") (simp_all add: trim_start.simps [of "bs @ cs"])
qed

lemma trim_line:
  assumes "plain bs"
  shows "trim_end (trim_start (bs @ [10])) = bs" "trim_end (trim_start bs) = bs"
proof -
  have ten: "whitespace_length [10] = 1" by (simp add: whitespace_length.simps)
  have none: "trim_start [10] = []" by (simp add: ten trim_start.simps [of "[10]"] trim_start.simps [of "[]"])
  have "trailing_whitespace (bs @ [10]) = 1" by (simp add: trailing_whitespace_def ten)
  then have "trim_end (bs @ [10]) = bs" using trim_plain(1) [OF assms] by (subst trim_end.simps) simp
  then show "trim_end (trim_start (bs @ [10])) = bs"
    using trim_plain(2) [OF assms, of "[10]"] trim_plain(1) [OF assms] by (auto simp: none)
  show "trim_end (trim_start bs) = bs"
    using trim_plain(1) [OF assms] trim_plain(2) [OF assms, of "[]"] by (simp add: trim_start.simps [of "[]"] split: if_splits)
qed

lemma trim_hex:
  assumes "hex_ok K"
  shows "trim (hex_encode K bs) = hex_encode K bs" "trim (hex_encode K bs @ [CHR 0x0A]) = hex_encode K bs"
    "from_utf8_lossy (as_bytes (hex_encode K bs @ [CHR 0x0A])) = hex_encode K bs @ [CHR 0x0A]"
proof -
  have plain: "plain (map of_char (hex_encode K bs))"
    using hex_encode_alphabet [OF assms, of bs] hex_char_range by (auto simp: plain_def)
  show "trim (hex_encode K bs) = hex_encode K bs" "trim (hex_encode K bs @ [CHR 0x0A]) = hex_encode K bs"
    using trim_line [OF plain] by (simp_all add: trim_def comp_def)
  have "unat (of_char c :: u8) = of_char c" for c
    by (simp add: of_char_def unat_word_ariths)
  moreover have "list_all (\<lambda>b. b < 128) (map of_char (hex_encode K bs @ [CHR 0x0A]) :: nat list)"
    using plain by (auto simp: plain_def list_all_iff)
  ultimately show "from_utf8_lossy (as_bytes (hex_encode K bs @ [CHR 0x0A])) = hex_encode K bs @ [CHR 0x0A]"
    by (simp only: from_utf8_lossy_def as_bytes_def map_map comp_def lossy_ascii char_of_char list.map_ident)
qed

lemma external_sign_local:
  assumes "hex_ok K" "bind_result (fs_read H path) json = Inr file"
    and "sf_identities file role = Some \<lparr>ir_seed_hex = hex_encode K seed\<rparr>" "length seed = 32"
  shows "external_sign K (signer_process K H json debug)
       \<lparr>es_command = command, es_role = role, es_identities_path = path\<rparr> payload
     = (if sf_fixture_only file then local_payload_signer K seed payload
        else Inl (trim (from_utf8_lossy (as_bytes (''Error: '' @ debug ''file seed signer requires fixture_only=true'')))))"
proof -
  have main: "signer_main K H json [''--role'', role, ''--identities-file'', path] (Inr (hex_encode K payload))
     = Some (if sf_fixture_only file then Inr (hex_encode K (ed25519_sign K seed payload) @ [CHR 0x0A])
             else Inl ''file seed signer requires fixture_only=true'')"
    unfolding signer_main_def arguments_given option.map bind_result_eq(3) prod.case assms(2)
    by (simp add: assms(1,3,4) trim_hex(1) [OF assms(1)] del: append.simps)
  show ?thesis
    by (simp add: external_sign_def signer_process_def main local_payload_signer_def trim_hex [OF assms(1)] assms(1)
        del: append.simps as_bytes_append)
qed

text \<open>C38. The external signer is the local one: when the proxy's processes are the signer program and
  the identities file on the host has a 32-byte seed for its role and is marked as a fixture,
  signing through the process gives, for every payload, the signature a local signer with that
  seed makes. With a file not marked as a fixture it gives no signature at all.\<close>

theorem external_signer_equivalent:
  assumes "hex_ok K" "bind_result (fs_read H path) json = Inr file"
    and "sf_identities file role = Some \<lparr>ir_seed_hex = hex_encode K seed\<rparr>" "length seed = 32"
  shows "external_sign K (signer_process K H json debug)
       \<lparr>es_command = command, es_role = role, es_identities_path = path\<rparr> payload
     = (if sf_fixture_only file then local_payload_signer K seed payload
        else Inl (trim (from_utf8_lossy (as_bytes (''Error: '' @ debug ''file seed signer requires fixture_only=true'')))))"
  using assms by (rule external_sign_local)

definition demo_host :: host where
  "demo_host =
     \<lparr>fs_read = (\<lambda>path. if path = ''identities.json'' then Inr [] else Inl ''No such file or directory''),
      fs_read_to_string = (\<lambda>path. Inl ''No such file or directory''), env_var_os = (\<lambda>_. None),
      rfc3339_error = (\<lambda>_. ''input contains invalid characters'')\<rparr>"

theorem external_signer_equivalent_witness:
  "external_sign conforming (signer_process conforming demo_host (\<lambda>_. Inr \<lparr>sf_fixture_only = True,
        sf_identities = [''chaser'' \<mapsto> \<lparr>ir_seed_hex = hex_encode conforming (replicate 32 1)\<rparr>]\<rparr>) debug_str)
      \<lparr>es_command = ''access-signer'', es_role = ''chaser'', es_identities_path = ''identities.json''\<rparr> [1, 2, 3]
     = Inr (replicate 32 1)"
proof -
  let ?file = "\<lparr>sf_fixture_only = True, sf_identities =
      [''chaser'' \<mapsto> \<lparr>ir_seed_hex = hex_encode conforming (replicate 32 1)\<rparr>]\<rparr>"
  have "bind_result (fs_read demo_host ''identities.json'') (\<lambda>_. Inr ?file) = Inr ?file" by (simp add: demo_host_def)
  from external_signer_equivalent [OF conforming_hex this, of "''chaser''" "replicate 32 1" debug_str "''access-signer''" "[1, 2, 3]"]
  show ?thesis by (simp add: local_payload_signer_def)
qed

end
