(* ===== verification/Authority.thy ===== *)
theory Authority
  imports Complete Signer
begin

text \<open>
  The authority program (\<open>bin/access_authority.rs\<close>): its trust bundle and policy bundle, the
  identities whose signer is an external process, the construction of the engine at start-up, and
  the commands it reads as JSON lines. Prefixes: \<open>tn_\<close> \<open>TrustBundle\<close>, \<open>tr_\<close> \<open>TrustRecord\<close>, \<open>ab_\<close>
  \<open>AuthorizationPolicyBundle\<close>. The JSON parsers are arguments.
\<close>

section \<open>Bundles\<close>

record trust_record =
  tr_key_id :: string
  tr_public_key_hex :: string
  tr_scopes :: "string list"

record trust_bundle =
  tn_bundle_id :: string
  tn_version :: u64
  tn_issued_at :: string
  tn_keys :: "trust_record list"

record authorization_policy_bundle =
  ab_bundle_id :: string
  ab_bundle_version :: u64
  ab_issued_at :: string
  ab_valid_until :: string
  ab_source_file :: string

definition load_policy_bundle ::
  "'p crates \<Rightarrow> host \<Rightarrow> (bytes \<Rightarrow> string + authorization_policy_bundle) \<Rightarrow> string \<Rightarrow> i64
     \<Rightarrow> string + authorization_policy_bundle \<times> string" where
  "load_policy_bundle K H json path now_s =
     bind_result (bind_result (fs_read H path) json) (\<lambda>bundle.
     bind_result (timestamp K H (ab_issued_at bundle)) (\<lambda>issued_at.
     bind_result (timestamp K H (ab_valid_until bundle)) (\<lambda>valid_until.
       if sint now_s < sint issued_at \<or> sint now_s > sint valid_until
       then Inl ''ACCESS authorization policy bundle is outside its validity interval''
       else bind_result (fs_read_to_string H (ab_source_file bundle)) (\<lambda>source. Inr (bundle, source)))))"

definition load_trust_bundle :: "host \<Rightarrow> (bytes \<Rightarrow> string + trust_bundle) \<Rightarrow> string \<Rightarrow> string + trust_bundle" where
  "load_trust_bundle H json path =
     bind_result (bind_result (fs_read H path) json) (\<lambda>bundle.
       if trim (tn_bundle_id bundle) = [] then Inl ''trust bundle_id must not be empty'' else Inr bundle)"

definition in_scope :: "string \<Rightarrow> trust_record \<Rightarrow> bool" where
  "in_scope scope key = list_ex (\<lambda>value. value = scope) (tr_scopes key)"

fun add_records :: "'p crates \<Rightarrow> trust_record list \<Rightarrow> trust_store \<Rightarrow> nat \<Rightarrow> string + trust_store \<times> nat" where
  "add_records K [] store count = Inr (store, count)"
| "add_records K (record # records) store count =
     bind_result (public_key K (tr_public_key_hex record)) (\<lambda>key.
       add_records K records (trust_store_insert (tr_key_id record) key store) (Suc count))"

definition store_for :: "'p crates \<Rightarrow> trust_bundle \<Rightarrow> string \<Rightarrow> string + trust_store" where
  "store_for K bundle scope =
     bind_result (add_records K (filter (in_scope scope) (tn_keys bundle)) trust_store_default 0) (\<lambda>(store, count).
       if count = 0 then Inl (''trust bundle has no keys for scope: '' @ scope) else Inr store)"

definition external_identity ::
  "'p crates \<Rightarrow> process_runner \<Rightarrow> trust_bundle \<Rightarrow> string \<Rightarrow> string \<Rightarrow> string \<Rightarrow> string \<Rightarrow> string + identity_key" where
  "external_identity K run bundle scope role command identities_path =
     (case filter (in_scope scope) (tn_keys bundle) of
        [record] \<Rightarrow>
          bind_result (public_key K (tr_public_key_hex record)) (\<lambda>key.
            Inr (from_signer (tr_key_id record) key
              (external_sign K run
                 \<lparr>es_command = command, es_role = role, es_identities_path = identities_path\<rparr>)))
      | _ \<Rightarrow> Inl (''trust scope must contain exactly one key: '' @ scope))"

section \<open>Commands\<close>

datatype authority_command =
    Describe
  | Establish string "i64 option"
  | Transition u8 "i64 option" readiness_evidence
  | RedeemEntitlement u8 string "i64 option" readiness_evidence

text \<open>The values of successful responses, before their serialization.\<close>

datatype reply_value =
    Description protocol_profile access_policy_metadata
  | EngineReply engine_reply

definition parse_scenario :: "string \<Rightarrow> string + access_scenario" where
  "parse_scenario value =
     (if value = [] \<or> value = ''nominal'' then Inr Nominal
      else if value = ''expired_credential'' then Inr ExpiredCredential
      else if value = ''corridor_violation'' then Inr CorridorViolation
      else if value = ''latch_not_ready'' then Inr LatchNotReady
      else Inl (''unknown scenario: '' @ value))"

definition or_clock :: "i64 option \<Rightarrow> i64 \<Rightarrow> i64" where
  "or_clock now_s clock = (case now_s of None \<Rightarrow> clock | Some n \<Rightarrow> n)"

text \<open>What a parsed command asks of the engine: nothing (\<open>Describe\<close>), a command, or an error.\<close>

fun engine_request :: "i64 \<Rightarrow> authority_command \<Rightarrow> string + engine_command option" where
  "engine_request clock Describe = Inr None"
| "engine_request clock (Establish scenario now_s) =
     bind_result (parse_scenario scenario) (\<lambda>s. Inr (Some (EstablishSession (or_clock now_s clock) s)))"
| "engine_request clock (Transition requested_state now_s readiness) =
     Inr (Some (RequestTransition requested_state (or_clock now_s clock) readiness))"
| "engine_request clock (RedeemEntitlement requested_state entitlement_hex now_s readiness) =
     Inr (Some (RedeemTransition entitlement_hex requested_state (or_clock now_s clock) readiness))"

text \<open>The response to a line and the engine it leaves; no response when the engine panics.\<close>

definition handle_command ::
  "'p crates \<Rightarrow> (string \<Rightarrow> string + authority_command) \<Rightarrow> u64 option \<times> string \<Rightarrow> ('p, 'b) access_engine
     \<Rightarrow> reply_value response option \<times> ('p, 'b) access_engine" where
  "handle_command K json = (\<lambda>(reading, input) engine.
     (case bind_result (json input) (engine_request (unix_time reading)) of
        Inl e \<Rightarrow> (Some (error_response e), engine)
      | Inr None \<Rightarrow>
          (Some (value_response (Description (ec_protocol_profile (ae_config engine))
                   (pe_metadata (ec_policy_engine (ae_config engine))))), engine)
      | Inr (Some command) \<Rightarrow>
          (case engine_step K command engine of
             (Inr reply, engine') \<Rightarrow> (Some (value_response (EngineReply reply)), engine')
           | (Inl OverflowPanic, engine') \<Rightarrow> (None, engine')
           | (Inl e, engine') \<Rightarrow> (Some (error_response (session_error_display e)), engine'))))"

section \<open>The program\<close>

definition default_signer_command :: "string option \<Rightarrow> string \<Rightarrow> string" where
  "default_signer_command exe_directory exe_suffix =
     (case exe_directory of
        None \<Rightarrow> ''access-signer''
      | Some directory \<Rightarrow> directory @ ''/access-signer'' @ exe_suffix)"

text \<open>The parsers of the configuration files.\<close>

record config_parsers =
  cj_trust :: "bytes \<Rightarrow> string + trust_bundle"
  cj_profile :: "bytes \<Rightarrow> string + protocol_profile"
  cj_policy :: "bytes \<Rightarrow> string + authorization_policy_bundle"

text \<open>The engine \<open>main\<close> builds before it reads commands; \<open>directory\<close> gives, for the path of the state
  directory, what is found under it.\<close>

definition start_engine ::
  "'p crates \<Rightarrow> host \<Rightarrow> config_parsers \<Rightarrow> process_runner \<Rightarrow> string \<Rightarrow> (string \<Rightarrow> state_directory) \<Rightarrow> i64
     \<Rightarrow> string + ('p, journal_file) access_engine" where
  "start_engine K H json run default_command directory now_s =
     (let identity_path = env_path H ''ACCESS_IDENTITIES_FILE'' ''config/access/simulation-identities.json'';
          signer_command = env_path H ''ACCESS_SIGNER_COMMAND'' default_command;
          trust_path = env_path H ''ACCESS_TRUST_BUNDLE_FILE'' ''config/access/simulation-trust-bundle.json'';
          policy_path = env_path H ''ACCESS_PROTOCOL_PROFILE_FILE'' ''config/access/access-protocol-profile.json'';
          bundle_path = env_path H ''ACCESS_AUTHORIZATION_POLICY_BUNDLE_FILE''
                          ''config/access/access-authorization-policy-bundle.json'';
          state_path = env_path H ''ACCESS_STATE_DIR'' ''state/access-authority'' in
      bind_result (load_trust_bundle H (cj_trust json) trust_path) (\<lambda>trust.
      bind_result (bind_result (fs_read H policy_path) (cj_profile json)) (\<lambda>profile.
      bind_result (load_policy_bundle K H (cj_policy json) bundle_path now_s) (\<lambda>(policy_bundle, source).
      bind_result (map_err access_policy_error_display
          (from_source K (ab_bundle_id policy_bundle) (ab_bundle_version policy_bundle) source)) (\<lambda>policy_engine.
      bind_result (timestamp K H (tn_issued_at trust)) (\<lambda>issued_at_s.
      bind_result (external_identity K run trust ''station_peer'' ''chaser'' signer_command identity_path) (\<lambda>chaser.
      bind_result (external_identity K run trust ''chaser_peer'' ''station'' signer_command identity_path) (\<lambda>station.
      bind_result (external_identity K run trust ''credential_issuer'' ''credential_issuer'' signer_command
                     identity_path) (\<lambda>credential_issuer.
      bind_result (store_for K trust ''station_peer'') (\<lambda>station_peer_trust.
      bind_result (store_for K trust ''chaser_peer'') (\<lambda>chaser_peer_trust.
      bind_result (store_for K trust ''credential_issuer'') (\<lambda>credential_trust.
      bind_result (store_for K trust ''transition_gate'') (\<lambda>gate_trust.
      let engine = new_engine K chaser station credential_issuer station_peer_trust chaser_peer_trust
            credential_trust gate_trust
            \<lparr>ec_protocol_profile = profile, ec_policy_engine = policy_engine,
             ec_trust_bundle_id = tn_bundle_id trust, ec_trust_bundle_version = tn_version trust,
             ec_trust_bundle_issued_at_s = issued_at_s\<rparr> in
      case enable_persistent_state K (directory state_path) engine of
        (Inl e, _) \<Rightarrow> Inl (session_error_display e)
      | (Inr _, started) \<Rightarrow> Inr started)))))))))))))"

definition authority_main ::
  "'p crates \<Rightarrow> host \<Rightarrow> config_parsers \<Rightarrow> (string \<Rightarrow> string + authority_command) \<Rightarrow> process_runner \<Rightarrow> string
     \<Rightarrow> (string \<Rightarrow> state_directory) \<Rightarrow> u64 option \<Rightarrow> (nat \<Rightarrow> string option) \<Rightarrow> (string + u64 option \<times> string) list
     \<Rightarrow> string + (reply_value response list \<times> ending \<times> ('p, journal_file) access_engine)" where
  "authority_main K H json_config json run default_command directory reading output lines =
     bind_result (start_engine K H json_config run default_command directory (unix_time reading)) (\<lambda>engine.
       Inr (serve (handle_command K json) output 0 lines engine))"

section \<open>Trust by scope\<close>

lemma add_records_Inr:
  "add_records K records store count = Inr (store', count') \<Longrightarrow>
     count' = count + length records
     \<and> store' = store ++ map_of (rev (map (\<lambda>r. (tr_key_id r, projr (public_key K (tr_public_key_hex r)))) records))
     \<and> (\<forall>r \<in> set records. \<exists>k. public_key K (tr_public_key_hex r) = Inr k)"
  by (induction K records store count rule: add_records.induct)
     (auto simp: trust_store_insert_def map_add_def fun_eq_iff split: option.splits)

lemma store_for_Inr:
  assumes "store_for K bundle scope = Inr store"
  shows "dom store = tr_key_id ` {r \<in> set (tn_keys bundle). scope \<in> set (tr_scopes r)}"
    and "filter (in_scope scope) (tn_keys bundle) = [record] \<Longrightarrow>
           store = [tr_key_id record \<mapsto> projr (public_key K (tr_public_key_hex record))]"
proof -
  let ?records = "filter (in_scope scope) (tn_keys bundle)"
  obtain count where "add_records K ?records Map.empty 0 = Inr (store, count)"
    using assms by (auto simp: store_for_def trust_store_default_def split: if_splits)
  from add_records_Inr [OF this]
  have store: "store = map_of (rev (map (\<lambda>r. (tr_key_id r, projr (public_key K (tr_public_key_hex r)))) ?records))" by simp
  have "dom store = tr_key_id ` set ?records"
    unfolding store dom_map_of_conv_image_fst set_rev set_map image_image by simp
  also have "set ?records = {r \<in> set (tn_keys bundle). scope \<in> set (tr_scopes r)}"
    by (auto simp: in_scope_def list_ex_iff)
  finally show "dom store = tr_key_id ` {r \<in> set (tn_keys bundle). scope \<in> set (tr_scopes r)}" .
  show "?records = [record] \<Longrightarrow> store = [tr_key_id record \<mapsto> projr (public_key K (tr_public_key_hex record))]"
    by (simp add: store)
qed

lemma external_identity_Inr:
  assumes "external_identity K run bundle scope role command path = Inr identity"
  obtains entry key where "filter (in_scope scope) (tn_keys bundle) = [entry]"
    "public_key K (tr_public_key_hex entry) = Inr key"
    "identity = from_signer (tr_key_id entry) key
       (external_sign K run \<lparr>es_command = command, es_role = role, es_identities_path = path\<rparr>)"
  using assms by (auto simp: external_identity_def split: list.splits)

text \<open>A party holds the only key of a scope, and a store trusts that key and no other.\<close>

definition holds_sole_key :: "trust_bundle \<Rightarrow> string \<Rightarrow> identity_key \<Rightarrow> trust_store \<Rightarrow> bool" where
  "holds_sole_key trust scope identity store \<longleftrightarrow>
     (\<exists>entry. filter (in_scope scope) (tn_keys trust) = [entry] \<and> ik_key_id identity = tr_key_id entry
        \<and> store = [tr_key_id entry \<mapsto> ik_verifying_key identity])"

lemma identity_sole_key:
  assumes "external_identity K run bundle scope role command path = Inr identity" "store_for K bundle scope = Inr store"
  shows "holds_sole_key bundle scope identity store"
proof -
  obtain entry key where entry: "filter (in_scope scope) (tn_keys bundle) = [entry]"
    "public_key K (tr_public_key_hex entry) = Inr key"
    "identity = from_signer (tr_key_id entry) key
       (external_sign K run \<lparr>es_command = command, es_role = role, es_identities_path = path\<rparr>)"
    by (rule external_identity_Inr [OF assms(1)])
  from store_for_Inr(2) [OF assms(2) entry(1)] entry show ?thesis by (simp add: holds_sole_key_def from_signer_def)
qed

section \<open>The engine at start-up\<close>

lemma bind_result_InrE: "bind_result r f = Inr y \<Longrightarrow> (\<And>x. r = Inr x \<Longrightarrow> f x = Inr y \<Longrightarrow> P) \<Longrightarrow> P"
  by auto

lemma case_prod_InrE: "(case p of (x, y) \<Rightarrow> f x y) = Inr z \<Longrightarrow> (\<And>x y. p = (x, y) \<Longrightarrow> f x y = Inr z \<Longrightarrow> P) \<Longrightarrow> P"
  by (cases p) auto

lemma case_started:
  "(case m of (Inl e, t) \<Rightarrow> Inl (f e) | (Inr x, t) \<Rightarrow> Inr t) = Inr s \<longleftrightarrow> (\<exists>x. m = (Inr x, s))"
  by (auto split: prod.splits sum.splits)

text \<open>A cache that remembers what its journal holds.\<close>

definition remembers :: "'p crates \<Rightarrow> state_directory \<Rightarrow> string \<Rightarrow> 'b replay_cache \<Rightarrow> bool" where
  "remembers K disk name cache \<longleftrightarrow>
     (\<exists>ids. fst (journal_load K (snd (disk name))) = Inr ids \<and> rc_consumed cache = set ids)"

lemma open_cache_Inr: "open_cache K disk name = Inr cache \<Longrightarrow> remembers K disk name cache"
  by (auto simp: remembers_def open_cache_def persistent_def with_backend_def journal_backend_def
      split: option.splits prod.splits sum.splits)

lemma enable_persistent_state_Inr:
  "enable_persistent_state K disk s = (Inr x, t) \<longleftrightarrow>
     (\<exists>a b c d. open_cache K disk ''station-nonces.log'' = Inr a \<and> open_cache K disk ''chaser-nonces.log'' = Inr b
        \<and> open_cache K disk ''gate-nonces.log'' = Inr c \<and> open_cache K disk ''consumed-grants.log'' = Inr d
        \<and> t = set_replay_state a b c d s)"
  by (auto simp: enable_persistent_state_def op_simps set_replay_state_def)

lemma start_engine_Inr:
  assumes "start_engine K H json run default_command directory now_s = Inr s"
  obtains trust profile policy_bundle source policy_engine issued_at_s chaser station issuer command path sp cp ct gt a b c d where
    "load_trust_bundle H (cj_trust json) (env_path H ''ACCESS_TRUST_BUNDLE_FILE''
       ''config/access/simulation-trust-bundle.json'') = Inr trust" "timestamp K H (tn_issued_at trust) = Inr issued_at_s"
    "bind_result (fs_read H (env_path H ''ACCESS_PROTOCOL_PROFILE_FILE'' ''config/access/access-protocol-profile.json''))
       (cj_profile json) = Inr profile"
    "load_policy_bundle K H (cj_policy json) (env_path H ''ACCESS_AUTHORIZATION_POLICY_BUNDLE_FILE''
       ''config/access/access-authorization-policy-bundle.json'') now_s = Inr (policy_bundle, source)"
    "from_source K (ab_bundle_id policy_bundle) (ab_bundle_version policy_bundle) source = Inr policy_engine"
    "path = env_path H ''ACCESS_IDENTITIES_FILE'' ''config/access/simulation-identities.json''"
    "external_identity K run trust ''station_peer'' ''chaser'' command path = Inr chaser"
    "external_identity K run trust ''chaser_peer'' ''station'' command path = Inr station"
    "external_identity K run trust ''credential_issuer'' ''credential_issuer'' command path = Inr issuer"
    "store_for K trust ''station_peer'' = Inr sp" "store_for K trust ''chaser_peer'' = Inr cp"
    "store_for K trust ''credential_issuer'' = Inr ct" "store_for K trust ''transition_gate'' = Inr gt"
    "open_cache K (directory (env_path H ''ACCESS_STATE_DIR'' ''state/access-authority'')) ''station-nonces.log'' = Inr a"
    "open_cache K (directory (env_path H ''ACCESS_STATE_DIR'' ''state/access-authority'')) ''chaser-nonces.log'' = Inr b"
    "open_cache K (directory (env_path H ''ACCESS_STATE_DIR'' ''state/access-authority'')) ''gate-nonces.log'' = Inr c"
    "open_cache K (directory (env_path H ''ACCESS_STATE_DIR'' ''state/access-authority'')) ''consumed-grants.log'' = Inr d"
    "s = set_replay_state a b c d (new_engine K chaser station issuer sp cp ct gt
       \<lparr>ec_protocol_profile = profile, ec_policy_engine = policy_engine, ec_trust_bundle_id = tn_bundle_id trust,
        ec_trust_bundle_version = tn_version trust, ec_trust_bundle_issued_at_s = issued_at_s\<rparr>)"
  using assms unfolding start_engine_def Let_def
  apply (elim bind_result_InrE)
  apply (erule case_prod_InrE)
  apply (elim bind_result_InrE)
  apply (unfold case_started enable_persistent_state_Inr)
  apply (elim exE conjE)
  apply (rule that)
  apply (assumption | rule refl | simp)+
  done

lemma start_engine_hold:
  assumes "start_engine K H files run default_command directory started_at = Inr s"
  shows "ae_state s = Hold" "ae_pending_entitlements s = Map.empty"
proof -
  have "ae_state s = Hold \<and> ae_pending_entitlements s = Map.empty"
  proof (rule start_engine_Inr [OF assms])
    fix trust profile policy_engine issued_at_s chaser station issuer sp cp ct gt a b c d
    assume "s = set_replay_state a b c d (new_engine K chaser station issuer sp cp ct gt
       \<lparr>ec_protocol_profile = profile, ec_policy_engine = policy_engine, ec_trust_bundle_id = tn_bundle_id trust,
        ec_trust_bundle_version = tn_version trust, ec_trust_bundle_issued_at_s = issued_at_s\<rparr>)"
    then show ?thesis by (simp add: set_replay_state_def new_engine_def)
  qed
  then show "ae_state s = Hold" "ae_pending_entitlements s = Map.empty" by simp_all
qed

lemma start_engine_configuration:
  assumes "start_engine K H files run default_command directory started_at = Inr s"
  obtains policy_bundle source where
    "bind_result (fs_read H (env_path H ''ACCESS_PROTOCOL_PROFILE_FILE'' ''config/access/access-protocol-profile.json''))
       (cj_profile files) = Inr (ec_protocol_profile (ae_config s))"
    "load_policy_bundle K H (cj_policy files) (env_path H ''ACCESS_AUTHORIZATION_POLICY_BUNDLE_FILE''
       ''config/access/access-authorization-policy-bundle.json'') started_at = Inr (policy_bundle, source)"
    "from_source K (ab_bundle_id policy_bundle) (ab_bundle_version policy_bundle) source = Inr (ec_policy_engine (ae_config s))"
proof (rule start_engine_Inr [OF assms])
  fix trust profile policy_bundle source policy_engine issued_at_s chaser station issuer command path sp cp ct gt a b c d
  assume files: "bind_result (fs_read H (env_path H ''ACCESS_PROTOCOL_PROFILE_FILE'' ''config/access/access-protocol-profile.json''))
       (cj_profile files) = Inr profile"
    "load_policy_bundle K H (cj_policy files) (env_path H ''ACCESS_AUTHORIZATION_POLICY_BUNDLE_FILE''
       ''config/access/access-authorization-policy-bundle.json'') started_at = Inr (policy_bundle, source)"
    "from_source K (ab_bundle_id policy_bundle) (ab_bundle_version policy_bundle) source = Inr policy_engine"
    and s: "s = set_replay_state a b c d (new_engine K chaser station issuer sp cp ct gt
       \<lparr>ec_protocol_profile = profile, ec_policy_engine = policy_engine, ec_trust_bundle_id = tn_bundle_id trust,
        ec_trust_bundle_version = tn_version trust, ec_trust_bundle_issued_at_s = issued_at_s\<rparr>)"
  have "ec_protocol_profile (ae_config s) = profile" "ec_policy_engine (ae_config s) = policy_engine"
    by (simp_all add: s set_replay_state_def new_engine_def)
  with files show thesis using that by blast
qed

text \<open>C20. The authority starts only with a complete configuration. It then stands in Hold without a
  session or pending grants, with the profile, the policy and the trust bundle of its files, inside
  the validity interval of the policy bundle; each of the three parties holds the only key of
  its scope, the only one the store that checks its messages trusts; the gate trusts exactly the keys of the
  scope \<open>transition_gate\<close>; and what the four journals hold is consumed from the start.\<close>

theorem start_engine_sound:
  assumes "start_engine K H json run default_command directory now_s = Inr s"
  shows "\<exists>trust policy_bundle source.
     ae_state s = Hold \<and> ae_session_id s = None \<and> ae_pending_entitlements s = Map.empty
     \<and> load_trust_bundle H (cj_trust json) (env_path H ''ACCESS_TRUST_BUNDLE_FILE''
         ''config/access/simulation-trust-bundle.json'') = Inr trust
     \<and> ec_trust_bundle_id (ae_config s) = tn_bundle_id trust \<and> ec_trust_bundle_version (ae_config s) = tn_version trust
     \<and> timestamp K H (tn_issued_at trust) = Inr (ec_trust_bundle_issued_at_s (ae_config s))
     \<and> bind_result (fs_read H (env_path H ''ACCESS_PROTOCOL_PROFILE_FILE'' ''config/access/access-protocol-profile.json''))
         (cj_profile json) = Inr (ec_protocol_profile (ae_config s))
     \<and> load_policy_bundle K H (cj_policy json) (env_path H ''ACCESS_AUTHORIZATION_POLICY_BUNDLE_FILE''
         ''config/access/access-authorization-policy-bundle.json'') now_s = Inr (policy_bundle, source)
     \<and> from_source K (ab_bundle_id policy_bundle) (ab_bundle_version policy_bundle) source
         = Inr (ec_policy_engine (ae_config s))
     \<and> holds_sole_key trust ''station_peer'' (ae_chaser s) (ae_station_peer_trust s)
     \<and> holds_sole_key trust ''chaser_peer'' (ae_station s) (ae_chaser_peer_trust s)
     \<and> holds_sole_key trust ''credential_issuer'' (ae_credential_issuer s) (ae_credential_trust s)
     \<and> dom (ae_gate_trust s) = tr_key_id ` {r \<in> set (tn_keys trust). ''transition_gate'' \<in> set (tr_scopes r)}
     \<and> (let disk = directory (env_path H ''ACCESS_STATE_DIR'' ''state/access-authority'') in
          remembers K disk ''station-nonces.log'' (ae_station_replay s)
          \<and> remembers K disk ''chaser-nonces.log'' (ae_chaser_replay s)
          \<and> remembers K disk ''gate-nonces.log'' (ae_gate_replay s)
          \<and> remembers K disk ''consumed-grants.log'' (ae_consumed_grants s))"
  using assms
proof (rule start_engine_Inr)
  fix trust profile policy_bundle source policy_engine issued_at_s chaser station issuer command path sp cp ct gt a b c d
  let ?disk = "directory (env_path H ''ACCESS_STATE_DIR'' ''state/access-authority'')"
  assume trust: "load_trust_bundle H (cj_trust json) (env_path H ''ACCESS_TRUST_BUNDLE_FILE''
       ''config/access/simulation-trust-bundle.json'') = Inr trust" "timestamp K H (tn_issued_at trust) = Inr issued_at_s"
    and files: "bind_result (fs_read H (env_path H ''ACCESS_PROTOCOL_PROFILE_FILE'' ''config/access/access-protocol-profile.json''))
       (cj_profile json) = Inr profile"
      "load_policy_bundle K H (cj_policy json) (env_path H ''ACCESS_AUTHORIZATION_POLICY_BUNDLE_FILE''
         ''config/access/access-authorization-policy-bundle.json'') now_s = Inr (policy_bundle, source)"
      "from_source K (ab_bundle_id policy_bundle) (ab_bundle_version policy_bundle) source = Inr policy_engine"
    and ids: "external_identity K run trust ''station_peer'' ''chaser'' command path = Inr chaser"
      "external_identity K run trust ''chaser_peer'' ''station'' command path = Inr station"
      "external_identity K run trust ''credential_issuer'' ''credential_issuer'' command path = Inr issuer"
    and stores: "store_for K trust ''station_peer'' = Inr sp" "store_for K trust ''chaser_peer'' = Inr cp"
      "store_for K trust ''credential_issuer'' = Inr ct" "store_for K trust ''transition_gate'' = Inr gt"
    and caches: "open_cache K ?disk ''station-nonces.log'' = Inr a" "open_cache K ?disk ''chaser-nonces.log'' = Inr b"
      "open_cache K ?disk ''gate-nonces.log'' = Inr c" "open_cache K ?disk ''consumed-grants.log'' = Inr d"
    and s: "s = set_replay_state a b c d (new_engine K chaser station issuer sp cp ct gt
       \<lparr>ec_protocol_profile = profile, ec_policy_engine = policy_engine, ec_trust_bundle_id = tn_bundle_id trust,
        ec_trust_bundle_version = tn_version trust, ec_trust_bundle_issued_at_s = issued_at_s\<rparr>)"
  note keys = identity_sole_key [OF ids(1) stores(1)] identity_sole_key [OF ids(2) stores(2)]
    identity_sole_key [OF ids(3) stores(3)]
  show ?thesis
    by (rule exI [of _ trust], rule exI [of _ policy_bundle], rule exI [of _ source])
       (simp add: s set_replay_state_def new_engine_def trust files keys store_for_Inr(1) [OF stores(4)]
          caches [THEN open_cache_Inr] Let_def del: bind_result_eq(1))
qed

section \<open>The program serves the engine\<close>

text \<open>The engine commands among the lines of the input, and what was answered to them.\<close>

definition line_command ::
  "(string \<Rightarrow> string + authority_command) \<Rightarrow> string + u64 option \<times> string \<Rightarrow> engine_command option" where
  "line_command json line =
     (case line of
        Inl _ \<Rightarrow> None
      | Inr (reading, input) \<Rightarrow>
          (case bind_result (json input) (engine_request (unix_time reading)) of
             Inl _ \<Rightarrow> None
           | Inr command \<Rightarrow> command))"

definition engine_commands ::
  "(string \<Rightarrow> string + authority_command) \<Rightarrow> (string + u64 option \<times> string) list \<Rightarrow> engine_command list" where
  "engine_commands json lines = List.map_filter (line_command json) lines"

definition engine_replies :: "reply_value response list \<Rightarrow> engine_reply list" where
  "engine_replies rs =
     List.map_filter (\<lambda>r. case rp_value r of Some (EngineReply reply) \<Rightarrow> Some reply | _ \<Rightarrow> None) rs"

definition successes :: "('e + 'a) list \<Rightarrow> 'a list" where
  "successes rs = List.map_filter (\<lambda>r. case r of Inl _ \<Rightarrow> None | Inr x \<Rightarrow> Some x) rs"

lemma collections_simps [simp]:
  "engine_commands json [] = []"
  "engine_commands json (l # ls) =
     (case line_command json l of None \<Rightarrow> engine_commands json ls | Some c \<Rightarrow> c # engine_commands json ls)"
  "engine_replies [] = []" "engine_replies (error_response e # rs) = engine_replies rs"
  "engine_replies (value_response (Description p m) # rs) = engine_replies rs"
  "engine_replies (value_response (EngineReply reply) # rs) = reply # engine_replies rs"
  "successes [] = []" "successes (Inl problem # qs) = successes qs" "successes (Inr x # qs) = x # successes qs"
  by (simp_all add: engine_commands_def engine_replies_def successes_def List.map_filter_simps
      error_response_def value_response_def split: option.splits)

text \<open>One line: no command leaves the engine alone and replies nothing; a command is the engine's step.\<close>

lemma handle_command_step:
  assumes "handle_command K json l s = (response, t)"
  shows "case line_command json (Inr l) of
      None \<Rightarrow> t = s \<and> (\<exists>r. response = Some r \<and> (\<forall>rs. engine_replies (r # rs) = engine_replies rs))
    | Some c \<Rightarrow> (\<exists>q. engine_step K c s = (q, t)
        \<and> (case response of None \<Rightarrow> q = Inl OverflowPanic
           | Some r \<Rightarrow> (\<forall>rs qs. engine_replies rs = successes qs \<longrightarrow> engine_replies (r # rs) = successes (q # qs))))"
  using assms
  by (cases l) (auto simp: handle_command_def line_command_def split: sum.splits option.splits prod.splits session_error.splits)

lemma serve_runs_engine:
  "case serve (handle_command K json) output n lines s of (rs, how, t) \<Rightarrow>
     (if how = EndOfInput then length rs = length lines else length rs < length lines)
     \<and> t = snd (run_all (engine_step K) (engine_commands json
           (take (if how = EndOfInput then length rs else Suc (length rs)) lines)) s)
     \<and> engine_replies rs = successes (fst (run_all (engine_step K) (engine_commands json (take (length rs) lines)) s))"
proof (induction lines arbitrary: n s)
  case Nil
  show ?case by simp
next
  case (Cons line lines)
  obtain response u where answer:
    "(case line of Inr l \<Rightarrow> handle_command K json l s | Inl e \<Rightarrow> (Some (error_response e), s)) = (response, u)"
    by fastforce
  have reading_fails: "line_command json (Inl e) = None" for e by (simp add: line_command_def)
  have step: "case line_command json line of
      None \<Rightarrow> u = s \<and> (\<exists>r. response = Some r \<and> (\<forall>rs. engine_replies (r # rs) = engine_replies rs))
    | Some c \<Rightarrow> (\<exists>q. engine_step K c s = (q, u)
        \<and> (case response of None \<Rightarrow> q = Inl OverflowPanic
           | Some r \<Rightarrow> (\<forall>rs qs. engine_replies rs = successes qs \<longrightarrow> engine_replies (r # rs) = successes (q # qs))))"
  proof (cases line)
    case (Inl e)
    then show ?thesis using answer by (auto simp: line_command_def)
  next
    case (Inr l)
    then show ?thesis using answer handle_command_step [of K json l s response u] by simp
  qed
  note IH = Cons.IH [where n = "Suc n" and s = u]
  show ?case
    using answer step IH
    by (auto simp: reading_fails split: option.splits prod.splits sum.splits if_splits)
qed

text \<open>C17. The program is the engine behind a line protocol: whatever its input is, the engine it leaves
  is the one the engine commands of the handled lines lead to, taken in order, and the engine
  replies among its responses are exactly the successful outcomes of those commands. Lines that cannot be read or parsed, unknown
  scenarios and \<open>describe\<close> do not touch the engine; only the end of the input, an output error or a
  panic ends the loop.\<close>

theorem authority_serves_engine:
  "case serve (handle_command K json) output n lines s of (rs, how, t) \<Rightarrow>
     (if how = EndOfInput then length rs = length lines else length rs < length lines)
     \<and> t = snd (run_all (engine_step K) (engine_commands json
           (take (if how = EndOfInput then length rs else Suc (length rs)) lines)) s)
     \<and> engine_replies rs = successes (fst (run_all (engine_step K) (engine_commands json (take (length rs) lines)) s))"
  by (rule serve_runs_engine)

text \<open>A request among the commands of the handled lines is a \<open>transition\<close> line.\<close>

lemma request_line:
  assumes "engine_commands json lines = before @ RequestTransition q at_s readiness # after"
  obtains earlier reading input now_s later where
    "lines = earlier @ Inr (reading, input) # later" "json input = Inr (Transition q now_s readiness)"
    "at_s = or_clock now_s (unix_time reading)" "engine_commands json earlier = before"
proof -
  obtain earlier line later where l: "lines = earlier @ line # later"
      "line_command json line = Some (RequestTransition q at_s readiness)" "engine_commands json earlier = before"
    using map_filter_split [of "line_command json" lines before] assms unfolding engine_commands_def by blast
  from l(2) obtain reading input a where "line = Inr (reading, input)" "json input = Inr a"
      "engine_request (unix_time reading) a = Inr (Some (RequestTransition q at_s readiness))"
    by (auto simp: line_command_def split: sum.splits)
  moreover from this(3) obtain now_s where "a = Transition q now_s readiness" "at_s = or_clock now_s (unix_time reading)"
    by (cases a) auto
  ultimately show thesis using that l(1,3) by blast
qed

section \<open>A demonstration start\<close>

definition demo_records :: "trust_record list" where
  "demo_records =
     [\<lparr>tr_key_id = ''odyssey-7'', tr_public_key_hex = hex_enc (replicate 32 1), tr_scopes = [''station_peer'']\<rparr>,
      \<lparr>tr_key_id = ''waystation-1'', tr_public_key_hex = hex_enc (replicate 32 2),
       tr_scopes = [''chaser_peer'', ''transition_gate'']\<rparr>,
      \<lparr>tr_key_id = ''orbital-safety-registry'', tr_public_key_hex = hex_enc (replicate 32 3),
       tr_scopes = [''credential_issuer'']\<rparr>]"

definition demo_parsers :: config_parsers where
  "demo_parsers =
     \<lparr>cj_trust = (\<lambda>_. Inr \<lparr>tn_bundle_id = ''waystation-1-trust'', tn_version = 42,
        tn_issued_at = ''2026-08-28T06:54:00Z'', tn_keys = demo_records\<rparr>),
      cj_profile = (\<lambda>_. Inr repository_profile),
      cj_policy = (\<lambda>_. Inr \<lparr>ab_bundle_id = ''commercial-docking'', ab_bundle_version = 1,
        ab_issued_at = ''2026-01-01T00:00:00Z'', ab_valid_until = ''2027-01-01T00:00:00Z'',
        ab_source_file = ''commercial-docking.cedar''\<rparr>)\<rparr>"

definition configured_host :: host where
  "configured_host = demo_host\<lparr>fs_read := (\<lambda>_. Inr []), fs_read_to_string := Inr\<rparr>"

definition fresh_directory :: "string \<Rightarrow> state_directory" where
  "fresh_directory path name =
     (None, \<lparr>jf_contents = None, jf_appends = 0, jf_append_outcome = (\<lambda>_. AppendOk), jf_read_error = None\<rparr>)"

lemma demo_public_key: "public_key conforming (hex_enc (replicate 32 b)) = Inr (replicate 32 b)"
proof -
  have "hex_decode conforming (hex_enc (replicate 32 b)) = Inr (replicate 32 b)"
    using conforming_hex unfolding hex_ok_def by (metis conforming_simps(1))
  then show ?thesis by (simp add: public_key_def)
qed

lemma demo_keys:
  assumes "filter (in_scope scope) demo_records = [entry]" "tr_public_key_hex entry = hex_enc (replicate 32 b)"
    and "tn_keys trust = demo_records"
  shows "\<exists>store. store_for conforming trust scope = Inr store"
    "\<exists>identity. external_identity conforming run trust scope role command path = Inr identity"
  using assms by (simp_all add: store_for_def external_identity_def demo_public_key)

lemma demo_scopes:
  "filter (in_scope ''station_peer'') demo_records = [demo_records ! 0]"
  "filter (in_scope ''chaser_peer'') demo_records = [demo_records ! 1]"
  "filter (in_scope ''credential_issuer'') demo_records = [demo_records ! 2]"
  "filter (in_scope ''transition_gate'') demo_records = [demo_records ! 1]"
  by (simp_all add: demo_records_def in_scope_def)

lemma demo_hex:
  "tr_public_key_hex (demo_records ! 0) = hex_enc (replicate 32 1)"
  "tr_public_key_hex (demo_records ! 1) = hex_enc (replicate 32 2)"
  "tr_public_key_hex (demo_records ! 2) = hex_enc (replicate 32 3)"
  by (simp_all only: demo_records_def nth_Cons_0 nth_Cons_Suc One_nat_def numeral_2_eq_2 trust_record.select_convs)

lemmas demo_scope_keys = demo_keys [OF demo_scopes(1) demo_hex(1)] demo_keys [OF demo_scopes(2) demo_hex(2)]
  demo_keys [OF demo_scopes(3) demo_hex(3)] demo_keys [OF demo_scopes(4) demo_hex(2)]

lemma demo_policy_source:
  "from_source conforming ''commercial-docking'' 1 ''commercial-docking.cedar''
     = Inr (sample_policy_engine\<lparr>pe_metadata := \<lparr>am_bundle_id = ''commercial-docking'', am_bundle_version = 1,
         am_policy_sha256 = ''sha-256:'' @ hex_enc (sha256 conforming (as_bytes ''commercial-docking.cedar''))\<rparr>\<rparr>)"
  by (simp add: from_source_def conforming_def sample_policy_engine_def commercial_docking_def)

lemma fresh_opens: "\<exists>cache. open_cache conforming (fresh_directory path) name = Inr cache"
  by (simp add: open_cache_def persistent_def with_backend_def journal_backend_def fresh_directory_def journal_load_def)

lemma demo_starts:
  "\<exists>s. start_engine conforming configured_host demo_parsers run ''access-signer'' fresh_directory docking_time = Inr s"
proof -
  let ?trust = "\<lparr>tn_bundle_id = ''waystation-1-trust'', tn_version = 42,
        tn_issued_at = ''2026-08-28T06:54:00Z'', tn_keys = demo_records\<rparr>"
  have keys: "tn_keys ?trust = demo_records" by simp
  have "trim ''waystation-1-trust'' \<noteq> []" by code_simp
  then have loads: "load_trust_bundle configured_host (cj_trust demo_parsers) path = Inr ?trust"
    "load_policy_bundle conforming configured_host (cj_policy demo_parsers) path docking_time
       = Inr (\<lparr>ab_bundle_id = ''commercial-docking'', ab_bundle_version = 1, ab_issued_at = ''2026-01-01T00:00:00Z'',
          ab_valid_until = ''2027-01-01T00:00:00Z'', ab_source_file = ''commercial-docking.cedar''\<rparr>, ''commercial-docking.cedar'')"
    "bind_result (fs_read configured_host path) (cj_profile demo_parsers) = Inr repository_profile"
    "timestamp conforming configured_host ''2026-08-28T06:54:00Z'' = Inr 1787900040" for path
    by (simp_all add: load_trust_bundle_def load_policy_bundle_def demo_parsers_def configured_host_def timestamp_def)
  let ?command = "env_path configured_host ''ACCESS_SIGNER_COMMAND'' ''access-signer''"
  let ?path = "env_path configured_host ''ACCESS_IDENTITIES_FILE'' ''config/access/simulation-identities.json''"
  obtain chaser station issuer where parties:
    "external_identity conforming run ?trust ''station_peer'' ''chaser'' ?command ?path = Inr chaser"
    "external_identity conforming run ?trust ''chaser_peer'' ''station'' ?command ?path = Inr station"
    "external_identity conforming run ?trust ''credential_issuer'' ''credential_issuer'' ?command ?path = Inr issuer"
    using demo_scope_keys [OF keys] by meson
  obtain sp cp ct gt where stores:
    "store_for conforming ?trust ''station_peer'' = Inr sp" "store_for conforming ?trust ''chaser_peer'' = Inr cp"
    "store_for conforming ?trust ''credential_issuer'' = Inr ct" "store_for conforming ?trust ''transition_gate'' = Inr gt"
    using demo_scope_keys [OF keys] by meson
  have opens: "\<exists>t. enable_persistent_state conforming (fresh_directory path) s = (Inr (), t)" for path and s :: "('q, journal_file) access_engine"
    unfolding enable_persistent_state_Inr
    using fresh_opens [of path "''station-nonces.log''"] fresh_opens [of path "''chaser-nonces.log''"]
      fresh_opens [of path "''gate-nonces.log''"] fresh_opens [of path "''consumed-grants.log''"] by blast
  show ?thesis
    using opens
    by (auto simp: start_engine_def Let_def loads parties stores demo_policy_source case_started
        simp del: bind_result_eq(1) simp flip: ex_simps)
qed

text \<open>The signer's processes on the demonstration host.\<close>

definition demo_runner :: process_runner where
  "demo_runner = signer_process conforming demo_host (\<lambda>_. Inr \<lparr>sf_fixture_only = True,
     sf_identities = [''chaser'' \<mapsto> \<lparr>ir_seed_hex = hex_enc (replicate 32 1)\<rparr>]\<rparr>) debug_str"

text \<open>The demonstration configuration starts, in Hold, with an empty memory and the chaser's key alone in
  the store that checks the chaser's messages.\<close>

theorem start_engine_sound_witness:
  "\<exists>s. start_engine conforming configured_host demo_parsers demo_runner ''access-signer'' fresh_directory docking_time = Inr s
     \<and> ae_state s = Hold \<and> ae_station_peer_trust s = [''odyssey-7'' \<mapsto> ik_verifying_key (ae_chaser s)]
     \<and> dom (ae_gate_trust s) = {''waystation-1''}"
proof -
  obtain s where s: "start_engine conforming configured_host demo_parsers demo_runner ''access-signer'' fresh_directory docking_time = Inr s"
    using demo_starts by blast
  have loaded: "load_trust_bundle configured_host (cj_trust demo_parsers) path = Inr trust \<Longrightarrow> tn_keys trust = demo_records"
    for path trust
    by (auto simp: load_trust_bundle_def demo_parsers_def configured_host_def split: if_splits)
  have gate: "{r \<in> set demo_records. ''transition_gate'' \<in> set (tr_scopes r)} = {demo_records ! 1}"
    by (auto simp: demo_records_def)
  have names: "tr_key_id (demo_records ! 0) = ''odyssey-7''" "tr_key_id (demo_records ! 1) = ''waystation-1''"
    by (simp_all add: demo_records_def)
  from start_engine_sound [OF s] obtain trust where t: "tn_keys trust = demo_records" "ae_state s = Hold"
      "holds_sole_key trust ''station_peer'' (ae_chaser s) (ae_station_peer_trust s)"
      "dom (ae_gate_trust s) = tr_key_id ` {r \<in> set (tn_keys trust). ''transition_gate'' \<in> set (tr_scopes r)}"
    using loaded by blast
  have "dom (ae_gate_trust s) = {''waystation-1''}" using t(4) unfolding t(1) gate by (simp only: names image_insert image_empty)
  moreover have "ae_station_peer_trust s = [''odyssey-7'' \<mapsto> ik_verifying_key (ae_chaser s)]"
    using t(3) by (auto simp: holds_sole_key_def t(1) demo_scopes names)
  ultimately show ?thesis using s t(2) by blast
qed

end
