(* ===== verification/Deployment.thy ===== *)
theory Deployment
  imports Authority
begin

text \<open>
  The deployed system: an authority that started from its configuration files, whose signatures come
  from the signer program, whose caches are journals on disk and whose commands arrive as lines, takes a
  vehicle from Hold to hard dock.
\<close>

section \<open>Keys provisioned for the signer program\<close>

text \<open>The identities file has, for a role, the seed of the key that is alone in a scope of the trust bundle.\<close>

definition provisioned :: "'p crates \<Rightarrow> trust_bundle \<Rightarrow> identity_file \<Rightarrow> string \<Rightarrow> string \<Rightarrow> bool" where
  "provisioned K trust file scope role \<longleftrightarrow>
     (\<exists>entry seed. filter (in_scope scope) (tn_keys trust) = [entry] \<and> is_utf8 (tr_key_id entry)
        \<and> sf_identities file role = Some \<lparr>ir_seed_hex = hex_encode K seed\<rparr> \<and> length seed = 32
        \<and> public_key K (tr_public_key_hex entry) = Inr (ed25519_public K seed))"

lemma provisioned_identity:
  assumes "hex_ok K" "ed25519_ok K" "bind_result (fs_read H path) json = Inr file" "sf_fixture_only file"
    and "provisioned K trust file scope role"
    and "external_identity K (signer_process K H json debug) trust scope role command path = Inr identity"
  shows "working_signer K identity"
proof -
  obtain entry seed where p: "filter (in_scope scope) (tn_keys trust) = [entry]" "is_utf8 (tr_key_id entry)"
      "sf_identities file role = Some \<lparr>ir_seed_hex = hex_encode K seed\<rparr>" "length seed = 32"
      "public_key K (tr_public_key_hex entry) = Inr (ed25519_public K seed)"
    using assms(5) unfolding provisioned_def by blast
  have "external_sign K (signer_process K H json debug)
      \<lparr>es_command = command, es_role = role, es_identities_path = path\<rparr> = local_payload_signer K seed"
    using external_sign_local [OF assms(1,3) p(3,4)] assms(4) by auto
  moreover obtain entry' key where "filter (in_scope scope) (tn_keys trust) = [entry']"
      "public_key K (tr_public_key_hex entry') = Inr key"
      "identity = from_signer (tr_key_id entry') key (external_sign K (signer_process K H json debug)
         \<lparr>es_command = command, es_role = role, es_identities_path = path\<rparr>)"
    by (rule external_identity_Inr [OF assms(6)])
  ultimately have "identity = from_seed K (tr_key_id entry) seed"
    using p(1,5) by (simp add: from_signer_def from_seed_def)
  then show ?thesis
    using from_seed_honest [OF assms(2) p(4,2)] by (simp add: working_signer_def from_seed_def local_payload_signer_def)
qed

section \<open>The command lines of a docking\<close>

definition stage_lines :: "evidence_source \<Rightarrow> i64 \<Rightarrow> i64 \<Rightarrow> u8 \<Rightarrow> string \<Rightarrow> authority_command list" where
  "stage_lines evidence asked used q grant_hex =
     [Transition q (Some asked) (evidence q asked), RedeemEntitlement q grant_hex (Some used) (evidence q used)]"

primrec lines_from ::
  "evidence_source \<Rightarrow> (u8 \<Rightarrow> i64) \<Rightarrow> (u8 \<Rightarrow> i64) \<Rightarrow> u8 \<Rightarrow> string list \<Rightarrow> authority_command list" where
  "lines_from evidence asked used q [] = []"
| "lines_from evidence asked used q (g # gs) =
     stage_lines evidence (asked q) (used q) q g @ lines_from evidence asked used (q + 1) gs"

definition docking_lines ::
  "i64 \<Rightarrow> evidence_source \<Rightarrow> (u8 \<Rightarrow> i64) \<Rightarrow> (u8 \<Rightarrow> i64) \<Rightarrow> string list \<Rightarrow> authority_command list" where
  "docking_lines start evidence asked used gs =
     Establish ''nominal'' (Some start) # lines_from evidence asked used 1 gs"

lemma lines_from_commands:
  "map (engine_request clock) (lines_from evidence asked used q gs) = map (\<lambda>c. Inr (Some c)) (stages_from evidence asked used q gs)"
  by (induction gs arbitrary: q) (simp_all add: stage_lines_def stage_commands_def or_clock_def)

lemma docking_lines_commands:
  "map (engine_request clock) (docking_lines start evidence asked used gs)
     = map (\<lambda>c. Inr (Some c)) (docking_commands start evidence asked used gs)"
  by (simp add: docking_lines_def docking_commands_def lines_from_commands parse_scenario_def or_clock_def)

text \<open>Lines that are commands the engine carries out are answered with its replies.\<close>

lemma serve_commands:
  assumes "run_all (engine_step K) cs s = (map Inr replies, t)" "\<And>a. a \<in> set as \<Longrightarrow> json (render a) = Inr a"
    and "map (engine_request (unix_time reading)) as = map (\<lambda>c. Inr (Some c)) cs"
  shows "serve (handle_command K json) (\<lambda>_. None) n (map (\<lambda>a. Inr (reading, render a)) as) s
     = (map (\<lambda>r. value_response (EngineReply r)) replies, EndOfInput, t)"
  using assms
proof (induction cs arbitrary: as s n replies)
  case Nil
  then show ?case by simp
next
  case (Cons c cs)
  from Cons.prems(3) obtain a as' where as: "as = a # as'" "engine_request (unix_time reading) a = Inr (Some c)"
    "map (engine_request (unix_time reading)) as' = map (\<lambda>c. Inr (Some c)) cs" by auto
  from Cons.prems(1) obtain reply u replies' where run: "engine_step K c s = (Inr reply, u)"
    "run_all (engine_step K) cs u = (map Inr replies', t)" "replies = reply # replies'"
    by (auto split: prod.splits simp: Cons_eq_map_conv)
  have "handle_command K json (reading, render a) s = (Some (value_response (EngineReply reply)), u)"
    using Cons.prems(2) by (simp add: handle_command_def as(1,2) run(1))
  with Cons.IH [OF run(2) _ as(3)] Cons.prems(2) show ?case by (simp add: as(1) run(3))
qed

lemma unused_reset: "unused draw n N f c \<Longrightarrow> unused draw n N f (reset_ephemeral c)"
  by (auto simp: unused_def reliable_def reset_ephemeral_def split: option.splits)

lemma fresh_caches_reset: "fresh_caches K N s \<Longrightarrow> fresh_caches K N (reset s)"
  by (simp add: fresh_caches_def reset_def unused_reset)

section \<open>The deployed system docks\<close>

text \<open>The four journals commit every append, and hold none of the bytes the engine is going to draw.\<close>

definition clean_disk :: "'p crates \<Rightarrow> state_directory \<Rightarrow> (nat \<Rightarrow> bytes) \<Rightarrow> nat \<Rightarrow> bool" where
  "clean_disk K disk draw N \<longleftrightarrow>
     list_all (\<lambda>name. (\<forall>n. jf_append_outcome (snd (disk name)) n = AppendOk)
         \<and> (\<forall>ids. fst (journal_load K (snd (disk name))) = Inr ids \<longrightarrow>
              (\<forall>i < N. draw i \<notin> set ids \<and> as_bytes (grant_name K (draw i)) \<notin> set ids)))
       [''station-nonces.log'', ''chaser-nonces.log'', ''gate-nonces.log'', ''consumed-grants.log'']"

lemma open_cache_unused:
  assumes "open_cache K disk name = Inr c" "\<And>n. jf_append_outcome (snd (disk name)) n = AppendOk"
    and "\<And>ids i. fst (journal_load K (snd (disk name))) = Inr ids \<Longrightarrow> i < N \<Longrightarrow> f (draw i) \<notin> set ids"
  shows "unused draw m N f c"
proof -
  have "journal_load K (snd (disk name)) = (fst (journal_load K (snd (disk name))), snd (disk name))"
    by (auto simp: journal_load_def split: option.splits)
  then obtain ids where "fst (journal_load K (snd (disk name))) = Inr ids"
      "c = \<lparr>rc_consumed = set ids, rc_backend = Some (journal_backend K, snd (disk name))\<rparr>"
    using assms(1)
    by (auto simp: open_cache_def persistent_def with_backend_def journal_backend_def split: option.splits prod.splits sum.splits)
  with reliable_journal [OF assms(2)] assms(3) show ?thesis by (simp add: unused_def)
qed

text \<open>With keys provisioned for the signer program and a clean disk, the started engine is ready to dock.\<close>

lemma deployment_ready:
  assumes "hex_ok K" "cbor_ok K" "cose_ok K" "ed25519_ok K"
    and "start_engine K H config (signer_process K H identities debug) default_command directory now_s = Inr s"
    and "load_trust_bundle H (cj_trust config) (env_path H ''ACCESS_TRUST_BUNDLE_FILE''
           ''config/access/simulation-trust-bundle.json'') = Inr trust"
    and "bind_result (fs_read H (env_path H ''ACCESS_IDENTITIES_FILE'' ''config/access/simulation-identities.json''))
           identities = Inr file" "sf_fixture_only file"
    and "provisioned K trust file ''station_peer'' ''chaser''" "provisioned K trust file ''chaser_peer'' ''station''"
    and "provisioned K trust file ''credential_issuer'' ''credential_issuer''"
    and "filter (in_scope ''transition_gate'') (tn_keys trust) = filter (in_scope ''chaser_peer'') (tn_keys trust)"
    and "clean_disk K (directory (env_path H ''ACCESS_STATE_DIR'' ''state/access-authority'')) (drawn s) 25"
  shows "honest_parties K s \<and> fresh_caches K 25 (reset s) \<and> ae_random_calls s = 0"
  using assms(5)
proof (rule start_engine_Inr)
  fix trust' profile policy_bundle source policy_engine issued_at_s chaser station issuer command path sp cp ct gt a b c d
  let ?disk = "directory (env_path H ''ACCESS_STATE_DIR'' ''state/access-authority'')"
  assume "load_trust_bundle H (cj_trust config) (env_path H ''ACCESS_TRUST_BUNDLE_FILE''
       ''config/access/simulation-trust-bundle.json'') = Inr trust'"
    and path: "path = env_path H ''ACCESS_IDENTITIES_FILE'' ''config/access/simulation-identities.json''"
    and ids: "external_identity K (signer_process K H identities debug) trust' ''station_peer'' ''chaser'' command path = Inr chaser"
      "external_identity K (signer_process K H identities debug) trust' ''chaser_peer'' ''station'' command path = Inr station"
      "external_identity K (signer_process K H identities debug) trust' ''credential_issuer'' ''credential_issuer'' command path
         = Inr issuer"
    and stores: "store_for K trust' ''station_peer'' = Inr sp" "store_for K trust' ''chaser_peer'' = Inr cp"
      "store_for K trust' ''credential_issuer'' = Inr ct" "store_for K trust' ''transition_gate'' = Inr gt"
    and caches: "open_cache K ?disk ''station-nonces.log'' = Inr a" "open_cache K ?disk ''chaser-nonces.log'' = Inr b"
      "open_cache K ?disk ''gate-nonces.log'' = Inr c" "open_cache K ?disk ''consumed-grants.log'' = Inr d"
    and s: "s = set_replay_state a b c d (new_engine K chaser station issuer sp cp ct gt
       \<lparr>ec_protocol_profile = profile, ec_policy_engine = policy_engine, ec_trust_bundle_id = tn_bundle_id trust',
        ec_trust_bundle_version = tn_version trust', ec_trust_bundle_issued_at_s = issued_at_s\<rparr>)"
  then have trust: "trust' = trust" using assms(6) by simp
  note works = provisioned_identity [OF assms(1,4) _ assms(8)]
  have signers: "working_signer K chaser" "working_signer K station" "working_signer K issuer"
    using works [OF _ assms(9)] works [OF _ assms(10)] works [OF _ assms(11)] ids assms(7) by (simp_all add: path trust)
  have "gt = cp" using stores(2,4) assms(12) by (auto simp: store_for_def trust split: if_splits)
  then have trusted: "trusts sp chaser" "trusts cp station" "trusts ct issuer" "trusts gt station"
    using identity_sole_key [OF ids(1) stores(1)] identity_sole_key [OF ids(2) stores(2)] identity_sole_key [OF ids(3) stores(3)]
    by (auto simp: holds_sole_key_def trusts_def)
  have fields: "ae_chaser s = chaser" "ae_station s = station" "ae_credential_issuer s = issuer"
      "ae_station_peer_trust s = sp" "ae_chaser_peer_trust s = cp" "ae_credential_trust s = ct" "ae_gate_trust s = gt"
      "ae_station_replay s = a" "ae_chaser_replay s = b" "ae_gate_replay s = c" "ae_consumed_grants s = d" "ae_random_calls s = 0"
    by (simp_all add: s set_replay_state_def new_engine_def)
  have "honest_parties K s" using assms(1-3) signers trusted by (simp add: honest_parties_def fields)
  moreover have "fresh_caches K 25 s"
    using assms(13) caches unfolding fresh_caches_def fields
    by (auto simp: clean_disk_def intro!: open_cache_unused)
  ultimately show ?thesis using fields(12) fresh_caches_reset by blast
qed

lemma deployment_docks:
  assumes "hex_ok K" "cbor_ok K" "cose_ok K" "ed25519_ok K"
    and "start_engine K H config (signer_process K H identities debug) default_command directory now_s = Inr s"
    and "load_trust_bundle H (cj_trust config) (env_path H ''ACCESS_TRUST_BUNDLE_FILE''
           ''config/access/simulation-trust-bundle.json'') = Inr trust"
    and "bind_result (fs_read H (env_path H ''ACCESS_IDENTITIES_FILE'' ''config/access/simulation-identities.json''))
           identities = Inr file" "sf_fixture_only file"
    and "provisioned K trust file ''station_peer'' ''chaser''" "provisioned K trust file ''chaser_peer'' ''station''"
    and "provisioned K trust file ''credential_issuer'' ''credential_issuer''"
    and "filter (in_scope ''transition_gate'') (tn_keys trust) = filter (in_scope ''chaser_peer'') (tn_keys trust)"
    and "repository_engine K s" "docking_period s start finish" "on_schedule start finish evidence asked used" "fresh_source 25 s"
    and "clean_disk K (directory (env_path H ''ACCESS_STATE_DIR'' ''state/access-authority'')) (drawn s) 25"
    and "\<And>gs c. length gs = 4 \<Longrightarrow> c \<in> set (docking_lines start evidence asked used gs) \<Longrightarrow> json (render c) = Inr c"
  shows "\<exists>gs replies t. length gs = 4
     \<and> serve (handle_command K json) (\<lambda>_. None) 0 (map (\<lambda>c. Inr (reading, render c)) (docking_lines start evidence asked used gs)) s
         = (map (\<lambda>r. value_response (EngineReply r)) replies, EndOfInput, t)
     \<and> map reply_grant replies = None # twice gs \<and> ae_state t = HardDock"
proof -
  have ready: "honest_parties K s" "fresh_caches K 25 (reset s)" "ae_random_calls s + 25 \<le> 25"
    using deployment_ready [OF assms(1-12,17)] by simp_all
  from docking_run [OF ready(1) assms(16) ready(2,3) assms(13-15)]
  obtain gs replies t where run: "length gs = 4"
      "run_all (engine_step K) (docking_commands start evidence asked used gs) s = (map Inr replies, t)"
      "map reply_grant replies = None # twice gs" "ae_state t = HardDock"
    by - (elim exE conjE, rule that)
  have "serve (handle_command K json) (\<lambda>_. None) 0 (map (\<lambda>c. Inr (reading, render c)) (docking_lines start evidence asked used gs)) s
      = (map (\<lambda>r. value_response (EngineReply r)) replies, EndOfInput, t)"
    by (rule serve_commands [OF run(2) _ docking_lines_commands]) (rule assms(18) [OF run(1)])
  note facts = run(1) this run(3,4)
  show ?thesis
    by (rule exI [of _ gs], rule exI [of _ replies], rule exI [of _ t]) (intro conjI facts)
qed

text \<open>C12. The deployed system docks: an authority that starts from its configuration files with signer
  processes that run the signer program, an identities file with the seeds of the
  three parties, one key for the station and the gate, the repository's profile and policy, journals that commit, and
  random bytes that do not repeat and are in no journal, answers the nine command lines of a docking on
  schedule, with current evidence that the policy accepts, without an error, the lines that redeem presenting the signed grants of its own replies,
  and is then in hard dock.\<close>

theorem authority_docks:
  assumes "hex_ok K" "cbor_ok K" "cose_ok K" "ed25519_ok K"
    and "start_engine K H config (signer_process K H identities debug) default_command directory now_s = Inr s"
    and "load_trust_bundle H (cj_trust config) (env_path H ''ACCESS_TRUST_BUNDLE_FILE''
           ''config/access/simulation-trust-bundle.json'') = Inr trust"
    and "bind_result (fs_read H (env_path H ''ACCESS_IDENTITIES_FILE'' ''config/access/simulation-identities.json''))
           identities = Inr file" "sf_fixture_only file"
    and "provisioned K trust file ''station_peer'' ''chaser''" "provisioned K trust file ''chaser_peer'' ''station''"
    and "provisioned K trust file ''credential_issuer'' ''credential_issuer''"
    and "filter (in_scope ''transition_gate'') (tn_keys trust) = filter (in_scope ''chaser_peer'') (tn_keys trust)"
    and "repository_engine K s" "docking_period s start finish" "on_schedule start finish evidence asked used" "fresh_source 25 s"
    and "clean_disk K (directory (env_path H ''ACCESS_STATE_DIR'' ''state/access-authority'')) (drawn s) 25"
    and "\<And>gs c. length gs = 4 \<Longrightarrow> c \<in> set (docking_lines start evidence asked used gs) \<Longrightarrow> json (render c) = Inr c"
  shows "\<exists>gs replies t. length gs = 4
     \<and> serve (handle_command K json) (\<lambda>_. None) 0 (map (\<lambda>c. Inr (reading, render c)) (docking_lines start evidence asked used gs)) s
         = (map (\<lambda>r. value_response (EngineReply r)) replies, EndOfInput, t)
     \<and> map reply_grant replies = None # twice gs \<and> ae_state t = HardDock"
  using assms by (rule deployment_docks)

section \<open>A demonstration deployment\<close>

definition demo_identities :: identity_file where
  "demo_identities =
     \<lparr>sf_fixture_only = True, sf_identities =
        [''chaser'' \<mapsto> \<lparr>ir_seed_hex = hex_encode conforming (replicate 32 1)\<rparr>,
         ''station'' \<mapsto> \<lparr>ir_seed_hex = hex_encode conforming (replicate 32 2)\<rparr>,
         ''credential_issuer'' \<mapsto> \<lparr>ir_seed_hex = hex_encode conforming (replicate 32 3)\<rparr>]\<rparr>"

definition demo_bundle :: trust_bundle where
  "demo_bundle =
     \<lparr>tn_bundle_id = ''waystation-1-trust'', tn_version = 42, tn_issued_at = ''2026-08-28T06:54:00Z'',
      tn_keys = demo_records\<rparr>"

text \<open>A compact notation for the lines of a docking, and its parser.\<close>

fun demo_render :: "authority_command \<Rightarrow> string" where
  "demo_render (Transition q now_s r) = [CHR ''T'', char_of (unat q)]"
| "demo_render (RedeemEntitlement q g now_s r) = CHR ''R'' # char_of (unat q) # g"
| "demo_render c = ''E''"

fun demo_json :: "string \<Rightarrow> string + authority_command" where
  "demo_json (c # cs) =
     (if c = CHR ''E'' then Inr (Establish ''nominal'' (Some docking_time))
      else case cs of
        [] \<Rightarrow> Inl ''expected value''
      | q # g \<Rightarrow>
          let n = of_nat (of_char q) in
          if c = CHR ''T'' then Inr (Transition n (Some (demo_asked n)) (docking_readiness (demo_asked n)))
          else Inr (RedeemEntitlement n g (Some (demo_used n)) (docking_readiness (demo_used n))))"
| "demo_json [] = Inl ''expected value''"

lemma demo_json_lines: "c \<in> set (lines_from demo_evidence demo_asked demo_used q gs) \<Longrightarrow> demo_json (demo_render c) = Inr c"
proof (induction gs arbitrary: q)
  case (Cons g gs)
  have "unat q < 2 ^ LENGTH(8)" by (rule unsigned_less)
  then have "of_nat (of_char (char_of (unat q) :: char)) = q" by simp
  with Cons show ?case by (auto simp: stage_lines_def Let_def)
qed simp

lemma demo_json_render: "c \<in> set (docking_lines docking_time demo_evidence demo_asked demo_used gs) \<Longrightarrow> demo_json (demo_render c) = Inr c"
  using demo_json_lines by (auto simp: docking_lines_def)

lemma demo_bundle_loads:
  "load_trust_bundle configured_host (cj_trust demo_parsers) path = Inr trust \<longleftrightarrow> trust = demo_bundle"
proof -
  have "trim ''waystation-1-trust'' \<noteq> []" by code_simp
  then show ?thesis
    by (auto simp: load_trust_bundle_def demo_parsers_def demo_bundle_def configured_host_def)
qed

lemma demo_provisioned:
  "provisioned conforming demo_bundle demo_identities ''station_peer'' ''chaser''"
  "provisioned conforming demo_bundle demo_identities ''chaser_peer'' ''station''"
  "provisioned conforming demo_bundle demo_identities ''credential_issuer'' ''credential_issuer''"
proof -
  have names: "is_utf8 (tr_key_id (demo_records ! 0))" "is_utf8 (tr_key_id (demo_records ! 1))" "is_utf8 (tr_key_id (demo_records ! 2))"
    using demo_names by (simp_all add: demo_records_def numeral_2_eq_2 nth_Cons' del: One_nat_def)
  have seeds: "sf_identities demo_identities ''chaser'' = Some \<lparr>ir_seed_hex = hex_encode conforming (replicate 32 1)\<rparr>"
    "sf_identities demo_identities ''station'' = Some \<lparr>ir_seed_hex = hex_encode conforming (replicate 32 2)\<rparr>"
    "sf_identities demo_identities ''credential_issuer'' = Some \<lparr>ir_seed_hex = hex_encode conforming (replicate 32 3)\<rparr>"
    by (simp_all add: demo_identities_def)
  have keys: "tn_keys demo_bundle = demo_records" by (simp add: demo_bundle_def)
  show "provisioned conforming demo_bundle demo_identities ''station_peer'' ''chaser''"
    "provisioned conforming demo_bundle demo_identities ''chaser_peer'' ''station''"
    "provisioned conforming demo_bundle demo_identities ''credential_issuer'' ''credential_issuer''"
    unfolding provisioned_def keys demo_scopes seeds
    using names demo_hex demo_public_key by fastforce+
qed

lemma demo_started:
  assumes "start_engine conforming configured_host demo_parsers run command fresh_directory docking_time = Inr s"
  shows "repository_engine conforming s \<and> docking_period s docking_time (docking_time + 300) \<and> fresh_source 25 s
     \<and> ik_key_id (ae_chaser s) = ''odyssey-7'' \<and> ik_key_id (ae_station s) = ''waystation-1''
     \<and> ik_verifying_key (ae_station s) = ed25519_public conforming (replicate 32 2)"
  using assms
proof (rule start_engine_Inr)
  fix trust profile policy_bundle source policy_engine issued_at_s chaser station issuer command path sp cp ct gt a b c d
  assume loaded: "load_trust_bundle configured_host (cj_trust demo_parsers) (env_path configured_host ''ACCESS_TRUST_BUNDLE_FILE''
       ''config/access/simulation-trust-bundle.json'') = Inr trust" "timestamp conforming configured_host (tn_issued_at trust) = Inr issued_at_s"
    and profile: "bind_result (fs_read configured_host (env_path configured_host ''ACCESS_PROTOCOL_PROFILE_FILE''
       ''config/access/access-protocol-profile.json'')) (cj_profile demo_parsers) = Inr profile"
    and policy: "load_policy_bundle conforming configured_host (cj_policy demo_parsers) (env_path configured_host
         ''ACCESS_AUTHORIZATION_POLICY_BUNDLE_FILE'' ''config/access/access-authorization-policy-bundle.json'') docking_time
       = Inr (policy_bundle, source)"
      "from_source conforming (ab_bundle_id policy_bundle) (ab_bundle_version policy_bundle) source = Inr policy_engine"
    and ids: "external_identity conforming run trust ''station_peer'' ''chaser'' command path = Inr chaser"
      "external_identity conforming run trust ''chaser_peer'' ''station'' command path = Inr station"
    and s: "s = set_replay_state a b c d (new_engine conforming chaser station issuer sp cp ct gt
       \<lparr>ec_protocol_profile = profile, ec_policy_engine = policy_engine, ec_trust_bundle_id = tn_bundle_id trust,
        ec_trust_bundle_version = tn_version trust, ec_trust_bundle_issued_at_s = issued_at_s\<rparr>)"
  have trust: "trust = demo_bundle" using loaded(1) unfolding demo_bundle_loads .
  have "issued_at_s = 1787900040" using loaded(2) by (simp add: trust demo_bundle_def timestamp_def)
  moreover have "profile = repository_profile" using profile by (simp add: demo_parsers_def configured_host_def)
  moreover have "pe_policies policy_engine = commercial_docking"
    using policy by (auto simp: load_policy_bundle_def demo_parsers_def configured_host_def timestamp_def from_source_def
        conforming_def split: if_splits)
  moreover have "ik_key_id chaser = ''odyssey-7''" "ik_key_id station = ''waystation-1''"
    using ids by (auto simp: external_identity_def trust demo_bundle_def demo_scopes from_signer_def)
       (simp_all add: demo_records_def)
  moreover have "ik_verifying_key station = ed25519_public conforming (replicate 32 2)"
    using ids(2) demo_public_key [of 2] demo_hex(2)
    by (auto simp: external_identity_def trust demo_bundle_def demo_scopes from_signer_def)
  ultimately have "repository_engine conforming s" "ik_key_id (ae_chaser s) = ''odyssey-7''" "ik_key_id (ae_station s) = ''waystation-1''"
      "ik_verifying_key (ae_station s) = ed25519_public conforming (replicate 32 2)" "docking_period s docking_time (docking_time + 300)"
    by (simp_all add: repository_engine_def repository_policy_def commercial_setting_def docking_period_def s set_replay_state_def new_engine_def trust demo_bundle_def conforming_cedar conforming_policy)
  moreover have "fresh_source 25 s"
    by (rule os_draws_fresh) (simp_all add: s set_replay_state_def new_engine_def)
  ultimately show ?thesis by blast
qed

text \<open>The demonstration deployment: its host, the signer processes on it, and the engine they start.\<close>

abbreviation demo_signers :: process_runner where
  "demo_signers \<equiv> signer_process conforming configured_host (\<lambda>_. Inr demo_identities) debug_str"

lemma demo_files:
  "clean_disk conforming (fresh_directory path) (drawn s) 25"
  "filter (in_scope ''transition_gate'') (tn_keys demo_bundle) = filter (in_scope ''chaser_peer'') (tn_keys demo_bundle)"
  "bind_result (fs_read configured_host path) (\<lambda>_. Inr demo_identities) = Inr demo_identities"
  "load_trust_bundle configured_host (cj_trust demo_parsers) path = Inr demo_bundle"
  "sf_fixture_only demo_identities"
proof -
  show "load_trust_bundle configured_host (cj_trust demo_parsers) path = Inr demo_bundle" by (simp add: demo_bundle_loads)
qed (simp_all add: clean_disk_def fresh_directory_def journal_load_def demo_bundle_def demo_scopes configured_host_def
    demo_identities_def)

lemma demo_deployed:
  assumes "start_engine conforming configured_host demo_parsers demo_signers command fresh_directory docking_time = Inr s"
  shows "honest_parties conforming s" "fresh_caches conforming 25 (reset s)" "ae_random_calls s = 0"
    "repository_engine conforming s" "docking_period s docking_time (docking_time + 300)" "fresh_source 25 s"
    "ik_key_id (ae_chaser s) = ''odyssey-7''" "ik_key_id (ae_station s) = ''waystation-1''"
    "ik_verifying_key (ae_station s) = ed25519_public conforming (replicate 32 2)"
  using demo_started [OF assms] deployment_ready [OF conforming_hex conforming_cbor conforming_cose conforming_ed25519 assms
      demo_files(4,3,5) demo_provisioned demo_files(2,1)] by simp_all

lemma demo_docks:
  assumes s: "start_engine conforming configured_host demo_parsers demo_signers ''access-signer'' fresh_directory docking_time = Inr s"
  shows "\<exists>gs replies t. length gs = 4 \<and>
     serve (handle_command conforming demo_json) (\<lambda>_. None) 0
         (map (\<lambda>c. Inr (None, demo_render c)) (docking_lines docking_time demo_evidence demo_asked demo_used gs)) s
       = (map (\<lambda>r. value_response (EngineReply r)) replies, EndOfInput, t)
     \<and> map reply_grant replies = None # twice gs \<and> ae_state t = HardDock"
proof -
  note docks = deployment_docks [where reading = None and json = demo_json and render = demo_render,
      OF conforming_hex conforming_cbor conforming_cose conforming_ed25519 s demo_files(4,3,5)
      demo_provisioned demo_files(2) demo_deployed(4,5) [OF s] demo_schedule demo_deployed(6) [OF s] demo_files(1)]
  show ?thesis by (rule docks) (rule demo_json_render)
qed

theorem authority_docks_witness:
  "\<exists>s gs replies t.
     start_engine conforming configured_host demo_parsers demo_signers ''access-signer'' fresh_directory docking_time = Inr s
     \<and> serve (handle_command conforming demo_json) (\<lambda>_. None) 0
         (map (\<lambda>c. Inr (None, demo_render c)) (docking_lines docking_time demo_evidence demo_asked demo_used gs)) s
       = (map (\<lambda>r. value_response (EngineReply r)) replies, EndOfInput, t)
     \<and> ae_state t = HardDock"
proof -
  obtain s where s: "start_engine conforming configured_host demo_parsers demo_signers ''access-signer'' fresh_directory docking_time
      = Inr s" using demo_starts by blast
  note docks = authority_docks [where reading = None and json = demo_json and render = demo_render,
      OF conforming_hex conforming_cbor conforming_cose conforming_ed25519 s demo_files(4,3,5)
      demo_provisioned demo_files(2) demo_deployed(4,5) [OF s] demo_schedule demo_deployed(6) [OF s] demo_files(1)]
  have "\<exists>gs replies t. length gs = 4 \<and>
     serve (handle_command conforming demo_json) (\<lambda>_. None) 0
         (map (\<lambda>c. Inr (None, demo_render c)) (docking_lines docking_time demo_evidence demo_asked demo_used gs)) s
       = (map (\<lambda>r. value_response (EngineReply r)) replies, EndOfInput, t)
     \<and> map reply_grant replies = None # twice gs \<and> ae_state t = HardDock"
    by (rule docks) (rule demo_json_render)
  then show ?thesis using s by blast
qed

end
