(* ===== verification/Tests.thy ===== *)
theory Tests
  imports Docking Journal Envelope Cedar Verifier
begin

text \<open>
  The unit tests of the crate's library modules and of the entitlement verifier, translated like
  the code they test: a definition per test, true when the test passes. They are the
  repository's own statement of what the code should do; that they pass whatever the crates do
  beyond their documentation is proved at the end of the theory.
\<close>

section \<open>Tests\<close>

text \<open>\<open>unwrap\<close> of a value and of an operation on a state: an error fails the test, a value goes
  into its rest.\<close>

definition unwrap :: "'e + 'a \<Rightarrow> ('a \<Rightarrow> bool) \<Rightarrow> bool" where
  "unwrap r rest = (case r of Inl _ \<Rightarrow> False | Inr x \<Rightarrow> rest x)"

definition unwrap_op :: "('s, 'e, 'a) op \<Rightarrow> 's \<Rightarrow> ('a \<Rightarrow> 's \<Rightarrow> bool) \<Rightarrow> bool" where
  "unwrap_op m s rest = (case m s of (Inl _, _) \<Rightarrow> False | (Inr x, t) \<Rightarrow> rest x t)"

lemma unwrap_simps [simp]: "unwrap (Inr x) rest = rest x" "unwrap (Inl e) rest = False"
  by (simp_all add: unwrap_def)

lemma unwrap_op_Inr: "m s = (Inr x, t) \<Longrightarrow> unwrap_op m s rest = rest x t"
  by (simp add: unwrap_op_def)

fun is_persistent_state :: "protocol_error + 'a \<Rightarrow> bool" where
  "is_persistent_state (Inl (PersistentState _)) = True"
| "is_persistent_state _ = False"

section \<open>The state machine\<close>

definition protected_transitions_fail_closed :: bool where
  "protected_transitions_fail_closed =
     (let denied = default_authorization in
      reduce Approach EnterFinalApproach denied = Inl IdentityRequired
      \<and> reduce FinalApproach EngageSoftCapture denied = Inl SessionRequired
      \<and> reduce SoftCapture EngageHardDock denied = Inl DockingAuthorizationRequired)"

fun reduce_each ::
  "docking_state \<Rightarrow> docking_event list \<Rightarrow> authorization_context \<Rightarrow> transition_error + docking_state" where
  "reduce_each state [] a = Inr state"
| "reduce_each state (e # events) a = bind_result (reduce state e a) (\<lambda>state. reduce_each state events a)"

definition authorized_sequence_reaches_hard_dock :: bool where
  "authorized_sequence_reaches_hard_dock =
     unwrap (reduce_each Hold [BeginApproach, EnterFinalApproach, EngageSoftCapture, EngageHardDock]
               \<lparr>identity_verified = True, session_authorized = True, docking_authorized = True\<rparr>)
       (\<lambda>state. state = HardDock)"

section \<open>Replay protection\<close>

text \<open>\<open>disk\<close> is the file at the test's temporary path, with what the operating system does to it.\<close>

definition write_failing_backend :: "unit replay_backend" where
  "write_failing_backend =
     \<lparr>be_load = (\<lambda>b. (Inr [], b)), be_append_and_sync = (\<lambda>value b. (Inl ''durable commit failed'', b))\<rparr>"

definition persistent_replay_cache_survives_restart :: "'p crates \<Rightarrow> journal_file \<Rightarrow> bool" where
  "persistent_replay_cache_survives_restart K disk =
     (let ident = as_bytes ''persisted-grant-id'' in
      unwrap (persistent K None (disk\<lparr>jf_contents := None\<rparr>)) (\<lambda>first.
      unwrap_op (consume ident) first (\<lambda>_ first.
      let first = reset_ephemeral first in
      fst (consume ident first) = Inl Replay
      \<and> (case rc_backend (snd (consume ident first)) of
           None \<Rightarrow> False
         | Some (_, path) \<Rightarrow>
             unwrap (persistent K None path) (\<lambda>restarted. fst (consume ident restarted) = Inl Replay)))))"

definition persistent_replay_cache_rejects_corrupt_journal :: "'p crates \<Rightarrow> journal_file \<Rightarrow> bool" where
  "persistent_replay_cache_rejects_corrupt_journal K disk =
     is_persistent_state (persistent K None (disk\<lparr>jf_contents := Some (as_bytes ''not-hex'' @ [10])\<rparr>))"

definition replay_cache_fails_closed_when_durable_commit_fails :: bool where
  "replay_cache_fails_closed_when_durable_commit_fails =
     unwrap (with_backend write_failing_backend ()) (\<lambda>cache.
       let (result, cache) = consume (as_bytes ''grant-id'') cache in
       is_persistent_state result \<and> as_bytes ''grant-id'' \<notin> rc_consumed cache)"

section \<open>Envelopes and credentials\<close>

definition test_claims :: protocol_claims where
  "test_claims =
     \<lparr>pc_message_type = AccessRequest, pc_issuer = ''chaser-1'', pc_recipient = ''target-1'', pc_issued_at_s = 1000,
      pc_nonce = as_bytes ''0123456789abcdef'', pc_session_id = None, pc_authorized_stage = None,
      pc_challenge_nonce = None, pc_credentials = [], pc_grant_id = None, pc_expires_at_s = None,
      pc_protocol_profile_id = None, pc_protocol_profile_version = None, pc_rule_id = None,
      pc_authorization_policy_bundle_id = None, pc_authorization_policy_bundle_version = None,
      pc_authorization_policy_sha256 = None\<rparr>"

definition envelope_fixture :: "'p crates \<Rightarrow> identity_key \<times> trust_store" where
  "envelope_fixture K =
     (let identity = from_seed K ''chaser-1'' (replicate 32 7);
          trust = trust_store_insert (ik_key_id identity) (ik_verifying_key identity) trust_store_default
      in (identity, trust))"

definition verifies_valid_envelope_only_once :: "'p crates \<Rightarrow> bool" where
  "verifies_valid_envelope_only_once K =
     (let (identity, trust) = envelope_fixture K in
      unwrap (sign_envelope K test_claims identity) (\<lambda>encoded.
      unwrap_op (verify_envelope K encoded trust ''target-1'' 1000 30) (replay_default :: unit replay_cache) (\<lambda>verified replay.
      ve_signer verified = ''chaser-1''
      \<and> fst (verify_envelope K encoded trust ''target-1'' 1000 30 replay) = Inl Replay)))"

definition rejects_tampering :: "'p crates \<Rightarrow> bool" where
  "rejects_tampering K =
     (let (identity, trust) = envelope_fixture K in
      unwrap (sign_envelope K test_claims identity) (\<lambda>encoded.
      encoded \<noteq> []
      \<and> (let encoded = butlast encoded @ [xor (last encoded) 1] in
         fst (verify_envelope K encoded trust ''target-1'' 1000 30 (replay_default :: unit replay_cache)) = Inl InvalidSignature)))"

definition verifies_issuer_signed_credential_and_holder_binding :: "'p crates \<Rightarrow> bool" where
  "verifies_issuer_signed_credential_and_holder_binding K =
     (let issuer = from_seed K ''orbital-registry'' (replicate 32 9);
          trust = trust_store_insert (ik_key_id issuer) (ik_verifying_key issuer) trust_store_default;
          claims = \<lparr>cc_issuer = ik_key_id issuer, cc_subject = ''chaser-1'', cc_profile_id = ''registered-vehicle-v1'',
            cc_credential_type = ''vehicle_registration'', cc_schema_id = ''space:vehicle-registration:v1'',
            cc_issuer_group = ''recognized-registrars'', cc_issued_at_s = 900, cc_expires_at_s = 1100,
            cc_status_checked_at_s = 990\<rparr>
      in unwrap (issue_credential K claims issuer) (\<lambda>encoded.
         verify_credential K encoded trust ''chaser-1'' 1000 = Inr claims
         \<and> verify_credential K encoded trust ''other-holder'' 1000 = Inl SubjectMismatch
         \<and> verify_credential K encoded trust ''chaser-1'' 1101 = Inl CredentialExpired))"

section \<open>The protocol profile\<close>

text \<open>\<open>parsed\<close> is what \<open>ProtocolProfile::from_json\<close> makes of the repository's file.\<close>

definition evaluates_repository_policy_against_fresh_readiness ::
  "'p crates \<Rightarrow> 'e + protocol_profile \<Rightarrow> bool" where
  "evaluates_repository_policy_against_fresh_readiness K parsed =
     unwrap parsed (\<lambda>policy.
     let now_s = 1787900100;
         outcome = \<lambda>readiness. evaluate K policy ''approach'' ''final_approach'' now_s ''waystation-1-trust'' 42
           (now_s - 60) test_credentials (Some (now_s - 1)) True readiness
     in unwrap (outcome test_readiness) (\<lambda>decision.
          rd_rule_id decision = ''enter-final-approach'' \<and> rd_entitlement_ttl_s decision = 30
          \<and> outcome (test_readiness\<lparr>re_observed_at_ms := re_observed_at_ms test_readiness - 501\<rparr>) = Inl ReadinessStale))"

section \<open>The Cedar engine\<close>

definition cedar_test_credentials :: "verified_credential_evidence list" where
  "cedar_test_credentials =
     map (\<lambda>profile_id. \<lparr>vc_profile_id = profile_id, vc_credential_type = ''type'', vc_schema_id = ''schema'',
            vc_issuer_group = ''issuer'', vc_status_checked_at_s = 0\<rparr>)
       [''registered-vehicle-v1'', ''idss-compatible-v1'']"

definition permits_verified_claims_and_denies_missing_claims :: "'p crates \<Rightarrow> bool" where
  "permits_verified_claims_and_denies_missing_claims K =
     unwrap (from_source K ''test'' 1 test_policy_text) (\<lambda>engine.
       \<not> isl (Cedar.authorize_session K engine ''vehicle-1'' ''station-1'' cedar_test_credentials True)
       \<and> (case Cedar.authorize_session K engine ''vehicle-1'' ''station-1'' [] True of
            Inl (Denied _) \<Rightarrow> True | _ \<Rightarrow> False))"

text \<open>5.0 and 0.6 as \<open>f64\<close>.\<close>

definition cedar_test_readiness :: readiness_evidence where
  "cedar_test_readiness =
     \<lparr>re_observed_at_ms = 1000, re_range_m = Finite 5 0, re_closing_rate_mps = Finite 5404319552844595 (-53),
      re_checks = [''initial_hold_confirmed'' \<mapsto> True]\<rparr>"

definition evaluates_operational_context :: "'p crates \<Rightarrow> bool" where
  "evaluates_operational_context K =
     unwrap (from_source K ''test'' 1 test_policy_text) (\<lambda>engine.
       \<not> isl (authorize_transition K engine ''vehicle-1'' ''station-1'' ''enter_approach'' cedar_test_credentials
                True True cedar_test_readiness True))"

section \<open>The entitlement verifier\<close>

definition verifier_test_grant :: "i64 \<Rightarrow> protocol_claims" where
  "verifier_test_grant now_s =
     \<lparr>pc_message_type = AuthorizationGrant, pc_issuer = ''waystation-1'', pc_recipient = ''odyssey-7'',
      pc_issued_at_s = now_s, pc_nonce = replicate 32 7, pc_session_id = Some ''session-1'',
      pc_authorized_stage = Some StageApproach, pc_challenge_nonce = None, pc_credentials = [],
      pc_grant_id = Some ''grant-1'', pc_expires_at_s = Some (now_s + 30),
      pc_protocol_profile_id = Some ''protocol-profile'', pc_protocol_profile_version = Some 3,
      pc_rule_id = Some ''enter-approach'', pc_authorization_policy_bundle_id = Some ''commercial-policy'',
      pc_authorization_policy_bundle_version = Some 2, pc_authorization_policy_sha256 = Some ''sha-256:abc''\<rparr>"

definition verifier_fixture :: "'p crates \<Rightarrow> string + client_trust_bundle \<times> trust_store \<times> string" where
  "verifier_fixture K =
     (let station = from_seed K ''waystation-1'' (replicate 32 2);
          bundle = \<lparr>cb_bundle_id = ''client-trust'', cb_version = 1, cb_client_id = ''odyssey-7'',
            cb_valid_from = ''2026-01-01T00:00:00Z'', cb_valid_until = ''2027-01-01T00:00:00Z'',
            cb_trusted_authorities = [\<lparr>ta_authority_id = ''waystation-1'', ta_signing_keys =
              [\<lparr>sk_key_id = ''waystation-1'', sk_algorithm = ''Ed25519'',
                sk_public_key_hex = hex_encode K (ik_verifying_key station)\<rparr>]\<rparr>]\<rparr>
      in bind_result (map_err protocol_error_display (sign_envelope K (verifier_test_grant 1787900100) station)) (\<lambda>encoded.
         bind_result (client_trust_store K bundle) (\<lambda>trust. Inr (bundle, trust, hex_encode K encoded))))"

text \<open>\<open>text\<close> writes a request as JSON (\<open>serde_json::json!\<close>), \<open>json\<close> reads it; \<open>clock\<close> is not used.\<close>

definition entitlement_query :: "string \<Rightarrow> string \<Rightarrow> verify_request" where
  "entitlement_query entitlement_hex authority =
     \<lparr>vq_command = ''verify_entitlement'', vq_entitlement_hex = Some entitlement_hex,
      vq_expected_authority = Some authority, vq_expected_session_id = Some ''session-1'',
      vq_expected_stage = Some ''approach'', vq_now_s = Some 1787900100\<rparr>"

definition verifies_expected_authority_and_rejects_replay ::
  "'p crates \<Rightarrow> (verify_request \<Rightarrow> string) \<Rightarrow> (string \<Rightarrow> string + verify_request) \<Rightarrow> i64 \<Rightarrow> bool" where
  "verifies_expected_authority_and_rejects_replay K text json clock =
     unwrap (verifier_fixture K) (\<lambda>(bundle, trust, entitlement_hex).
       let input = text (entitlement_query entitlement_hex ''waystation-1'') in
       unwrap_op (verify_command K json bundle trust clock input) (replay_default :: unit replay_cache) (\<lambda>verified replay.
       vd_grant_id verified = ''grant-1''
       \<and> isl (fst (verify_command K json bundle trust clock input replay))))"

definition rejects_wrong_authority ::
  "'p crates \<Rightarrow> (verify_request \<Rightarrow> string) \<Rightarrow> (string \<Rightarrow> string + verify_request) \<Rightarrow> i64 \<Rightarrow> bool" where
  "rejects_wrong_authority K text json clock =
     unwrap (verifier_fixture K) (\<lambda>(bundle, trust, entitlement_hex).
       let input = text (entitlement_query entitlement_hex ''rogue-station'') in
       isl (fst (verify_command K json bundle trust clock input (replay_default :: unit replay_cache))))"

section \<open>The state machine's tests pass\<close>

lemma state_machine_tests: "protected_transitions_fail_closed" "authorized_sequence_reaches_hard_dock"
  by (simp_all add: protected_transitions_fail_closed_def default_authorization_def reduce_def
      authorized_sequence_reaches_hard_dock_def)

section \<open>The replay tests pass\<close>

definition working_disk :: "journal_file \<Rightarrow> bool" where
  "working_disk f \<longleftrightarrow> (\<forall>n. jf_append_outcome f n = AppendOk) \<and> jf_read_error f = None"

lemma survives_restart:
  assumes "hex_ok K" "working_disk disk"
  shows "persistent_replay_cache_survives_restart K disk"
proof -
  let ?id = "as_bytes ''persisted-grant-id''"
  let ?f = "disk\<lparr>jf_contents := None\<rparr>"
  let ?g = "disk\<lparr>jf_contents := Some (journal_line K ?id), jf_appends := Suc (jf_appends disk)\<rparr>"
  have new: "persistent K None ?f = Inr \<lparr>rc_consumed = {}, rc_backend = Some (journal_backend K, ?f)\<rparr>"
    by (simp add: persistent_def with_backend_def journal_backend_def journal_load_def)
  have first: "consume ?id \<lparr>rc_consumed = {}, rc_backend = Some (journal_backend K, ?f)\<rparr> =
      (Inr (), \<lparr>rc_consumed = {?id}, rc_backend = Some (journal_backend K, ?g)\<rparr>)"
    using assms(2) by (simp add: consume_def journal_backend_def journal_append_def journal_bytes_def working_disk_def)
  have again: "persistent K None ?g = Inr \<lparr>rc_consumed = {?id}, rc_backend = Some (journal_backend K, ?g)\<rparr>"
    using assms(2) journal_entries_line [OF assms(1), of ?id]
    by (simp add: persistent_def with_backend_def journal_backend_def journal_load_def working_disk_def journal_entries_def)
  show ?thesis
    unfolding persistent_replay_cache_survives_restart_def Let_def new unwrap_simps unwrap_op_Inr [of "consume ?id", OF first]
    by (simp add: reset_ephemeral_def consume_def again)
qed

lemma corrupt_journal:
  assumes "hex_strict K"
  shows "persistent_replay_cache_rejects_corrupt_journal K disk"
proof -
  have lines: "split_lines (as_bytes ''not-hex'' @ [10]) = [as_bytes ''not-hex'']"
    by (simp add: as_bytes_def)
  have "\<exists>e. decode_line K (as_bytes ''not-hex'') = Inl e"
  proof (cases "hex_decode K ''not-hex''")
    case (Inr bs)
    with assms have "even (length ''not-hex'')" unfolding hex_strict_def by blast
    then show ?thesis by simp
  qed (auto simp: decode_line_def is_utf8_code)
  then obtain e where "decode_line K (as_bytes ''not-hex'') = Inl e" ..
  then show ?thesis
    by (cases "jf_read_error disk")
       (simp_all add: persistent_replay_cache_rejects_corrupt_journal_def persistent_def with_backend_def
          journal_backend_def journal_load_def lines)
qed

lemma failing_commit: "replay_cache_fails_closed_when_durable_commit_fails"
  by (simp add: replay_cache_fails_closed_when_durable_commit_fails_def with_backend_def write_failing_backend_def consume_def)

section \<open>The envelope tests pass\<close>

lemma test_seed_identity:
  assumes "ed25519_ok K" "is_utf8 name"
  shows "honest_signer K (from_seed K name (replicate 32 b))" "ik_key_id (from_seed K name (replicate 32 b)) = name"
    "ik_verifying_key (from_seed K name (replicate 32 b)) = ed25519_public K (replicate 32 b)"
    "ik_signer (from_seed K name (replicate 32 b)) = local_payload_signer K (replicate 32 b)"
    "trust_store_insert name (ed25519_public K (replicate 32 b)) trust_store_default name
       = Some (ed25519_public K (replicate 32 b))"
  using from_seed_honest [OF assms(1) _ assms(2), of "replicate 32 b"]
  by (simp_all add: from_seed_def trust_store_insert_def)

lemma seed_signs_envelope:
  assumes "cbor_ok K" "cose_ok K" "pc_issuer claims = name"
  obtains encoded where "sign_envelope K claims (from_seed K name seed) = Inr encoded"
proof -
  obtain payload where "cbor_write_protocol K claims = Some payload" using cbor_total(1) [OF assms(1)] by blast
  moreover obtain encoded where "sign_payload K payload (from_seed K name seed) docking_identity_aad = Inr encoded"
    using sign_payload_total [OF assms(2), of "from_seed K name seed" seed] by (auto simp: from_seed_def)
  ultimately show thesis using that assms(3) by (simp add: sign_envelope_Inr from_seed_def)
qed

lemma test_names: "is_utf8 ''chaser-1''" "is_utf8 ''orbital-registry''" "is_utf8 ''waystation-1''"
  by (simp_all add: is_utf8_code)

lemma envelope_once:
  assumes "cbor_ok K" "cose_ok K" "ed25519_ok K"
  shows "verifies_valid_envelope_only_once K"
proof -
  let ?identity = "from_seed K ''chaser-1'' (replicate 32 7)"
  let ?trust = "trust_store_insert (ik_key_id ?identity) (ik_verifying_key ?identity) trust_store_default"
  let ?v = "\<lparr>ve_signer = ''chaser-1'', ve_claims = test_claims\<rparr>"
  let ?d = "\<lparr>rc_consumed = {pc_nonce test_claims}, rc_backend = None\<rparr> :: unit replay_cache"
  note identity = test_seed_identity [OF assms(3) test_names(1), of 7]
  have fields: "pc_issuer test_claims = ''chaser-1''" "pc_recipient test_claims = ''target-1''"
      "pc_issued_at_s test_claims = 1000" "length (pc_nonce test_claims) = 16"
    by (simp_all add: test_claims_def as_bytes_def)
  obtain encoded where enc: "sign_envelope K test_claims ?identity = Inr encoded"
    by (rule seed_signs_envelope [OF assms(1,2) fields(1)])
  have "authentic_envelope K encoded ?trust (pc_recipient test_claims) 1000 30
      \<lparr>ve_signer = ik_key_id ?identity, ve_claims = test_claims\<rparr>"
    by (rule sign_envelope_authentic [where trust = ?trust, OF assms(1,2) identity(1) enc])
       (simp_all add: identity fields)
  then have ok: "verify_envelope K encoded ?trust ''target-1'' 1000 30 replay_default = (Inr ?v, ?d)"
    by (simp add: verify_envelope_Inr identity(2) fields) (simp add: consume_def replay_default_def)
  have "fst (verify_envelope K encoded ?trust ''target-1'' 1000 30 ?d) = Inl Replay"
    using verify_envelope_replay [OF ok, of ?d] by simp
  then show ?thesis
    by (simp add: verifies_valid_envelope_only_once_def envelope_fixture_def Let_def enc unwrap_op_def ok)
qed

text \<open>Another last byte of the signature.\<close>

lemma tampering:
  assumes "cbor_ok K" "cose_ok K" "cose_signature_last K" "ed25519_ok K" "ed25519_strict K"
  shows "rejects_tampering K"
proof -
  let ?seed = "replicate 32 7 :: bytes"
  let ?identity = "from_seed K ''chaser-1'' ?seed"
  let ?trust = "trust_store_insert (ik_key_id ?identity) (ik_verifying_key ?identity) trust_store_default"
  note identity = test_seed_identity [OF assms(4) test_names(1), of 7]
  obtain encoded where enc: "sign_envelope K test_claims ?identity = Inr encoded"
    by (rule seed_signs_envelope [OF assms(1,2), of test_claims]) (simp_all add: test_claims_def)
  obtain payload where payload: "sign_payload K payload ?identity docking_identity_aad = Inr encoded"
    using enc by (auto simp: sign_envelope_Inr)
  let ?m = "\<lparr>cose_alg = Some EdDSA, cose_key_id = as_bytes ''chaser-1'', cose_payload = Some payload,
             cose_signature = [], cose_rest = []\<rparr>"
  define tbs where "tbs = cose_tbs K ?m docking_identity_aad"
  define sig where "sig = ed25519_sign K ?seed tbs"
  have written: "cose_to_tagged_vec K (?m\<lparr>cose_signature := sig\<rparr>) = Some encoded"
    using payload by (simp add: sign_payload_def identity(2,4) local_payload_signer_def sig_def tbs_def Let_def)
  have sig: "sig \<noteq> []" "\<And>b. b \<noteq> last sig \<Longrightarrow> \<not> ed25519_verify_strict K (ed25519_public K ?seed) tbs (butlast sig @ [b])"
    using assms(5) by (simp_all add: ed25519_strict_def sig_def)
  have flip: "encoded \<noteq> []" "last encoded = last sig"
      "cose_from_tagged_slice K (butlast encoded @ [b]) = Some (?m\<lparr>cose_signature := butlast sig @ [b]\<rparr>)" for b
    using assms(3) [unfolded cose_signature_last_def, rule_format, OF _ _ written] sig(1) by simp_all
  have "xor (last sig) 1 \<noteq> last sig"
    by (metis bit.xor_left_self bit.xor_self xor.right_neutral zero_neq_one)
  then have "\<not> ed25519_verify_strict K (ed25519_public K ?seed) tbs (butlast sig @ [xor (last sig) 1])"
    by (rule sig(2))
  moreover have "cose_tbs K (?m\<lparr>cose_signature := s\<rparr>) docking_identity_aad = tbs" for s
    unfolding tbs_def by (rule cose_tbs_signature [OF assms(2)])
  ultimately show ?thesis
    using flip test_names(1) identity(5)
    by (simp add: rejects_tampering_def envelope_fixture_def Let_def enc verify_envelope_def and_then_def try_with_def
        check_envelope_def verify_signed_payload_def identity(2,3))
qed

lemma holder_binding:
  assumes "cbor_ok K" "cose_ok K" "ed25519_ok K"
  shows "verifies_issuer_signed_credential_and_holder_binding K"
proof -
  let ?issuer = "from_seed K ''orbital-registry'' (replicate 32 9)"
  let ?trust = "trust_store_insert (ik_key_id ?issuer) (ik_verifying_key ?issuer) trust_store_default"
  let ?claims = "\<lparr>cc_issuer = ik_key_id ?issuer, cc_subject = ''chaser-1'', cc_profile_id = ''registered-vehicle-v1'',
            cc_credential_type = ''vehicle_registration'', cc_schema_id = ''space:vehicle-registration:v1'',
            cc_issuer_group = ''recognized-registrars'', cc_issued_at_s = 900, cc_expires_at_s = 1100,
            cc_status_checked_at_s = 990\<rparr>"
  note issuer = test_seed_identity [OF assms(3) test_names(2), of 9]
  obtain encoded where enc: "issue_credential K ?claims ?issuer = Inr encoded"
    using issue_credential_total [OF assms(1,2) issuer(4), of ?claims] by auto
  have "?trust (ik_key_id ?issuer) = Some (ik_verifying_key ?issuer)" by (simp add: issuer(2,3,5))
  note verify = verify_issued_credential [where trust = ?trust, OF assms(1,2) issuer(1) enc this]
  show ?thesis
    by (simp add: verifies_issuer_signed_credential_and_holder_binding_def enc verify)
qed

section \<open>The profile and policy tests pass\<close>

lemma fresh_readiness:
  assumes "parse_rfc3339 K ''2026-01-01T00:00:00Z'' = Some 1767225600" "parse_rfc3339 K ''2027-01-01T00:00:00Z'' = Some 1798761600"
  shows "evaluates_repository_policy_against_fresh_readiness K (Inr repository_profile)"
  using assms
  by (simp add: evaluates_repository_policy_against_fresh_readiness_def evaluate_def validate_foundation_def
      parse_timestamp_def repository_profile_def test_credentials_def test_readiness_def credential_conforms_def
      matching_rule_def stage_rule_def check_rule_def evidence_age_ms_def saturating_sub_def saturating_mul_def
      clamp_i64_def Let_def)

text \<open>The crate reads a source text as the given permits.\<close>

definition reads_policy :: "'p crates \<Rightarrow> string \<Rightarrow> cedar_permit list \<Rightarrow> bool" where
  "reads_policy K source permits \<longleftrightarrow>
     (\<exists>P. policy_set_from_str K source = Inr P \<and> \<not> policy_set_is_empty K P \<and> policy_means K P permits)"

lemma reads_policy_engine:
  assumes "reads_policy K source permits"
  obtains engine where "from_source K bundle version source = Inr engine" "policy_means K (pe_policies engine) permits"
  using assms by (fastforce simp: reads_policy_def from_source_def)

lemma permits_response:
  assumes "policy_means K (pe_policies engine) permits" "\<forall>p \<in> set permits. permit_value p rq \<noteq> None"
  shows "isl (response_decision K engine gate rq) \<longleftrightarrow> \<not> permitted permits rq"
    and "\<not> permitted permits rq \<Longrightarrow> response_decision K engine gate rq = Inl (Denied gate)"
  using assms by (simp_all add: policy_means_def response_decision_def Let_def)

text \<open>The test's policy on a context of the engine: always defined, and true for two actions.\<close>

lemma test_policy_value:
  "\<forall>p \<in> set test_policy. permit_value p (cedar_request_for vehicle action station (policy_context cs proof session r fresh)) \<noteq> None"
  "permitted test_policy (cedar_request_for vehicle action station (policy_context cs proof session r fresh)) \<longleftrightarrow>
     has_profile cs ''registered-vehicle-v1''
     \<and> (action = ''authorize_session'' \<and> has_profile cs ''idss-compatible-v1'' \<and> proof
        \<or> action = ''enter_approach'' \<and> fresh \<and> check_flag r ''initial_hold_confirmed'' \<and> sint (closing_rate_mmps r) \<le> 600)"
proof -
  have "when_value (policy_context cs proof session r fresh) (pm_when p) \<noteq> None" if "p \<in> set test_policy" for p
    by (rule when_value_defined)
       (use that in \<open>auto simp: test_policy_def context_simps readiness_checks_def simp del: condition_value.simps\<close>)
  then show "\<forall>p \<in> set test_policy. permit_value p (cedar_request_for vehicle action station (policy_context cs proof session r fresh)) \<noteq> None"
    by (simp add: permit_value_def cedar_request_for_def del: not_None_eq)
  show "permitted test_policy (cedar_request_for vehicle action station (policy_context cs proof session r fresh)) \<longleftrightarrow>
     has_profile cs ''registered-vehicle-v1''
     \<and> (action = ''authorize_session'' \<and> has_profile cs ''idss-compatible-v1'' \<and> proof
        \<or> action = ''enter_approach'' \<and> fresh \<and> check_flag r ''initial_hold_confirmed'' \<and> sint (closing_rate_mmps r) \<le> 600)"
    unfolding permitted_def permit_value_True test_policy_def cedar_request_for_def
    by (auto simp: context_simps readiness_checks_def simp del: condition_value.simps)
qed

lemma cedar_test_facts:
  "has_profile cedar_test_credentials ''registered-vehicle-v1''" "has_profile cedar_test_credentials ''idss-compatible-v1''"
  "check_flag (Some cedar_test_readiness) ''initial_hold_confirmed''" "closing_rate_mmps (Some cedar_test_readiness) = 600"
  by (simp_all add: has_profile_def cedar_test_credentials_def check_flag_def cedar_test_readiness_def closing_rate_mmps_def
      f64_milli_ceil_def f64_times_1000_def f64_round_def Let_def round_half_even_def f64_ceil_def f64_as_i64_def clamp_i64_def)

lemma cedar_tests:
  assumes "cedar_ok K" "reads_policy K test_policy_text test_policy"
  shows "permits_verified_claims_and_denies_missing_claims K" "evaluates_operational_context K"
proof -
  obtain engine where engine: "from_source K ''test'' 1 test_policy_text = Inr engine"
    and means: "policy_means K (pe_policies engine) test_policy"
    by (rule reads_policy_engine [OF assms(2)])
  have ascii: "is_ascii ''vehicle-1''" "is_ascii ''station-1''" "is_ascii ''authorize_session''" "is_ascii ''enter_approach''"
    by simp_all
  have decides: "authorize K engine gate ''vehicle-1'' action ''station-1'' (policy_context cs proof session r fresh) =
      response_decision K engine gate (cedar_request_for ''vehicle-1'' action ''station-1'' (policy_context cs proof session r fresh))"
    if "is_ascii action" for gate action cs "proof" session r fresh
    by (rule authorize_documented [OF assms(1) ascii(1) that ascii(2) policy_context_distinct])
  note response = permits_response [OF means test_policy_value(1)]
  show "permits_verified_claims_and_denies_missing_claims K"
    unfolding permits_verified_claims_and_denies_missing_claims_def engine unwrap_simps authorize_session_def decides [OF ascii(3)]
    using response(2) [of "''vehicle-1''" "''authorize_session''" "''station-1''" "[]" True False None False "''initial_claims''"]
    by (simp add: response(1) test_policy_value(2) cedar_test_facts) (simp add: has_profile_def)
  show "evaluates_operational_context K"
    unfolding evaluates_operational_context_def engine unwrap_simps authorize_transition_def decides [OF ascii(4)]
    by (simp add: response(1) test_policy_value(2) cedar_test_facts)
qed

section \<open>The verifier's tests pass\<close>

definition fixture_bundle :: "'p crates \<Rightarrow> client_trust_bundle" where
  "fixture_bundle K =
     \<lparr>cb_bundle_id = ''client-trust'', cb_version = 1, cb_client_id = ''odyssey-7'',
      cb_valid_from = ''2026-01-01T00:00:00Z'', cb_valid_until = ''2027-01-01T00:00:00Z'',
      cb_trusted_authorities = [\<lparr>ta_authority_id = ''waystation-1'', ta_signing_keys =
        [\<lparr>sk_key_id = ''waystation-1'', sk_algorithm = ''Ed25519'',
          sk_public_key_hex = hex_encode K (ed25519_public K (replicate 32 2))\<rparr>]\<rparr>]\<rparr>"

lemma fixture_works:
  assumes "hex_ok K" "cbor_ok K" "cose_ok K" "ed25519_ok K" "ed25519_keys K"
  obtains encoded where
    "verifier_fixture K = Inr (fixture_bundle K, [''waystation-1'' \<mapsto> ed25519_public K (replicate 32 2)], hex_encode K encoded)"
    "authentic_envelope K encoded [''waystation-1'' \<mapsto> ed25519_public K (replicate 32 2)] ''odyssey-7'' 1787900100 30
       \<lparr>ve_signer = ''waystation-1'', ve_claims = verifier_test_grant 1787900100\<rparr>"
proof -
  let ?grant = "verifier_test_grant 1787900100"
  let ?station = "from_seed K ''waystation-1'' (replicate 32 2)"
  let ?trust = "[''waystation-1'' \<mapsto> ed25519_public K (replicate 32 2)]"
  note station = test_seed_identity [OF assms(4) test_names(3), of 2]
  have fields: "pc_issuer ?grant = ''waystation-1''" "pc_recipient ?grant = ''odyssey-7''"
      "pc_issued_at_s ?grant = 1787900100" "length (pc_nonce ?grant) = 32"
    by (simp_all add: verifier_test_grant_def)
  obtain encoded where enc: "sign_envelope K ?grant ?station = Inr encoded"
    by (rule seed_signs_envelope [OF assms(2,3) fields(1)])
  have "client_trust_store K (fixture_bundle K) = Inr ?trust"
    using assms(1,5)
    by (simp add: client_trust_store_def fixture_bundle_def public_key_def ed25519_keys_def trust_store_insert_def trust_store_default_def)
  then have "verifier_fixture K = Inr (fixture_bundle K, ?trust, hex_encode K encoded)"
    by (simp add: verifier_fixture_def enc station(3) Let_def flip: fixture_bundle_def)
  moreover have "authentic_envelope K encoded ?trust (pc_recipient ?grant) 1787900100 30 \<lparr>ve_signer = ik_key_id ?station, ve_claims = ?grant\<rparr>"
    by (rule sign_envelope_authentic [where trust = ?trust, OF assms(2,3) station(1) enc]) (simp_all add: station fields)
  ultimately show thesis using that by (simp add: station(2) fields(2))
qed

lemma presented_query:
  assumes "hex_ok K" "json (text (entitlement_query (hex_encode K encoded) authority)) = Inr (entitlement_query (hex_encode K encoded) authority)"
  shows "presented_entitlement K json (text (entitlement_query (hex_encode K encoded) authority))
     = Inr (entitlement_query (hex_encode K encoded) authority, encoded)"
proof -
  have "vq_command (entitlement_query h a) = ''verify_entitlement''" "vq_entitlement_hex (entitlement_query h a) = Some h" for h a
    by (simp_all add: entitlement_query_def)
  then show ?thesis using assms by (simp add: presented_entitlement_def)
qed

lemma verifier_tests:
  assumes "hex_ok K" "cbor_ok K" "cose_ok K" "ed25519_ok K" "ed25519_keys K"
    and "\<forall>q. json (text q) = Inr q"
  shows "verifies_expected_authority_and_rejects_replay K text json clock" "rejects_wrong_authority K text json clock"
proof -
  let ?trust = "[''waystation-1'' \<mapsto> ed25519_public K (replicate 32 2)]"
  let ?verified = "\<lparr>ve_signer = ''waystation-1'', ve_claims = verifier_test_grant 1787900100\<rparr>"
  let ?d = "\<lparr>rc_consumed = {pc_nonce (verifier_test_grant 1787900100)}, rc_backend = None\<rparr> :: unit replay_cache"
  obtain encoded where fixture: "verifier_fixture K = Inr (fixture_bundle K, ?trust, hex_encode K encoded)"
    and auth: "authentic_envelope K encoded ?trust ''odyssey-7'' 1787900100 30 ?verified"
    by (rule fixture_works [OF assms(1-5)])
  let ?q = "\<lambda>authority. entitlement_query (hex_encode K encoded) authority"
  have client: "cb_client_id (fixture_bundle K) = ''odyssey-7''" "vq_now_s (?q authority) = Some 1787900100" for authority
    by (simp_all add: fixture_bundle_def entitlement_query_def)
  have presented: "presented_entitlement K json (text (?q authority)) = Inr (?q authority, encoded)" for authority
    by (rule presented_query [OF assms(1)]) (use assms(6) in blast)
  have env: "verify_envelope K encoded ?trust ''odyssey-7'' 1787900100 30 replay_default = (Inr ?verified, ?d)"
    using auth by (simp add: verify_envelope_Inr consume_def replay_default_def)
  have run: "verify_command K json (fixture_bundle K) ?trust clock (text (?q authority)) (replay_default :: unit replay_cache) =
      (check_grant (fixture_bundle K) (?q authority) 1787900100 ?verified, ?d)" for authority
    by (simp add: verify_command_def and_then_def try_with_def on_field_def presented client verifier_max_clock_skew_s_def env)
  have granted: "\<exists>v. check_grant (fixture_bundle K) (?q ''waystation-1'') 1787900100 ?verified = Inr v \<and> vd_grant_id v = ''grant-1''"
    by (simp add: check_grant_def verifier_test_grant_def entitlement_query_def fixture_bundle_def trusts_authority_def Let_def)
  then obtain v where v: "check_grant (fixture_bundle K) (?q ''waystation-1'') 1787900100 ?verified = Inr v" "vd_grant_id v = ''grant-1''"
    by blast
  have "isl (fst (verify_command K json (fixture_bundle K) ?trust clock (text (?q ''waystation-1'')) ?d))"
  proof -
    have "presented_nonce K json (text (?q ''waystation-1'')) = Some (pc_nonce (verifier_test_grant 1787900100))"
      using auth by (auto simp: presented_nonce_def presented authentic_envelope_def)
    moreover obtain r e where run: "verify_command K json (fixture_bundle K) ?trust clock (text (?q ''waystation-1'')) ?d = (r, e)"
      by fastforce
    ultimately show ?thesis
      using verify_command_nonce [of K json "fixture_bundle K" ?trust clock "text (?q ''waystation-1'')" ?d]
      by (cases r) auto
  qed
  then show "verifies_expected_authority_and_rejects_replay K text json clock"
    by (simp add: verifies_expected_authority_and_rejects_replay_def fixture unwrap_op_def run v)
  have "isl (check_grant (fixture_bundle K) (?q ''rogue-station'') 1787900100 ?verified)"
    by (simp add: check_grant_def verifier_test_grant_def entitlement_query_def Let_def)
  then show "rejects_wrong_authority K text json clock"
    by (simp add: rejects_wrong_authority_def fixture run)
qed

section \<open>The library's tests\<close>

text \<open>Crates that behave as documented, and read the repository's policies and timestamps.\<close>

definition documented_crates :: "'p crates \<Rightarrow> bool" where
  "documented_crates K \<longleftrightarrow>
     hex_ok K \<and> hex_strict K \<and> cbor_ok K \<and> cose_ok K \<and> cose_signature_last K
     \<and> ed25519_ok K \<and> ed25519_keys K \<and> ed25519_strict K \<and> cedar_ok K
     \<and> reads_policy K test_policy_text test_policy
     \<and> parse_rfc3339 K ''2026-01-01T00:00:00Z'' = Some 1767225600
     \<and> parse_rfc3339 K ''2027-01-01T00:00:00Z'' = Some 1798761600"

lemma conforming_documented: "documented_crates conforming"
proof -
  have "policy_set_from_str conforming test_policy_text = Inr test_policy"
    by (simp add: conforming_def test_policy_text_def)
  moreover have "\<not> policy_set_is_empty conforming test_policy"
    by (simp add: conforming_def test_policy_def)
  ultimately have "reads_policy conforming test_policy_text test_policy"
    using conforming_policy unfolding reads_policy_def by blast
  then show ?thesis by (simp add: documented_crates_def conforming_laws)
qed

text \<open>C23. The unit tests of the state machine, the protocol, the protocol profile, the Cedar engine and
  the entitlement verifier pass with every implementation of the crates that has the documented
  behaviour, on every disk that works and at every clock.\<close>

theorem library_tests_pass:
  assumes "documented_crates K" "working_disk disk" "\<forall>q. json (text q) = Inr q"
  shows "protected_transitions_fail_closed \<and> authorized_sequence_reaches_hard_dock
     \<and> persistent_replay_cache_survives_restart K disk
     \<and> persistent_replay_cache_rejects_corrupt_journal K disk
     \<and> replay_cache_fails_closed_when_durable_commit_fails
     \<and> verifies_valid_envelope_only_once K \<and> rejects_tampering K
     \<and> verifies_issuer_signed_credential_and_holder_binding K
     \<and> evaluates_repository_policy_against_fresh_readiness K (Inr repository_profile)
     \<and> permits_verified_claims_and_denies_missing_claims K \<and> evaluates_operational_context K
     \<and> verifies_expected_authority_and_rejects_replay K text json clock
     \<and> rejects_wrong_authority K text json clock"
proof -
  have laws: "hex_ok K" "hex_strict K" "cbor_ok K" "cose_ok K" "cose_signature_last K" "ed25519_ok K" "ed25519_keys K"
      "ed25519_strict K" "cedar_ok K" "reads_policy K test_policy_text test_policy"
      "parse_rfc3339 K ''2026-01-01T00:00:00Z'' = Some 1767225600" "parse_rfc3339 K ''2027-01-01T00:00:00Z'' = Some 1798761600"
    using assms(1) by (simp_all add: documented_crates_def)
  show ?thesis
    by (intro conjI state_machine_tests survives_restart corrupt_journal failing_commit envelope_once tampering holder_binding
        fresh_readiness cedar_tests verifier_tests laws assms)
qed

text \<open>A serialization of requests, standing for JSON.\<close>

definition request_text :: "verify_request \<Rightarrow> string" where
  "request_text q = bytes_string
     (enc_string (vq_command q) @ enc_option enc_string (vq_entitlement_hex q) @ enc_option enc_string (vq_expected_authority q)
      @ enc_option enc_string (vq_expected_session_id q) @ enc_option enc_string (vq_expected_stage q)
      @ enc_option enc_word (vq_now_s q) @ [])"

definition text_request :: "string \<Rightarrow> string + verify_request" where
  "text_request s = ok_or ''no request''
     (next_field dec_string (as_bytes s) (\<lambda>c b. next_field (dec_option dec_string) b (\<lambda>h b. next_field (dec_option dec_string) b
       (\<lambda>a b. next_field (dec_option dec_string) b (\<lambda>i b. next_field (dec_option dec_string) b (\<lambda>g b.
       next_field (dec_option dec_word) b (\<lambda>n b.
         Some \<lparr>vq_command = c, vq_entitlement_hex = h, vq_expected_authority = a, vq_expected_session_id = i,
               vq_expected_stage = g, vq_now_s = n\<rparr>)))))))"

lemma as_bytes_string: "as_bytes (bytes_string bs) = bs"
proof -
  have "(of_char (char_of (unat b) :: char) :: u8) = b" for b :: u8
  proof -
    have "(of_char (char_of (unat b) :: char) :: u8) = of_nat (of_char (char_of (unat b) :: char))"
      by (simp only: of_nat_of_char)
    also have "\<dots> = of_nat (unat b mod 256)" by (simp only: of_char_of)
    also have "\<dots> = b" using unat_byte_less [of b] by simp
    finally show ?thesis .
  qed
  then show ?thesis by (simp add: as_bytes_def bytes_string_def map_idI)
qed

theorem library_tests_pass_witness:
  "persistent_replay_cache_survives_restart conforming fresh_journal \<and> rejects_tampering conforming
     \<and> evaluates_operational_context conforming
     \<and> verifies_expected_authority_and_rejects_replay conforming request_text text_request 0"
proof -
  have "working_disk fresh_journal" by (simp add: working_disk_def fresh_journal_def)
  moreover have "\<forall>q. text_request (request_text q) = Inr q"
    by (simp add: text_request_def request_text_def as_bytes_string del: append_Nil2)
  ultimately show ?thesis
    using library_tests_pass [OF conforming_documented, of fresh_journal text_request request_text 0] by blast
qed

end
