(* ===== verification/Engine_Tests.thy ===== *)
theory Engine_Tests
  imports Tests Complete
begin

text \<open>
  The unit tests of the session engine (\<open>session.rs\<close>), translated like those in theory \<open>Tests\<close>, and
  a proof that they pass with every implementation of the crates that has the documented behaviour.
\<close>

section \<open>Fixtures\<close>

definition NOW_S :: i64 where
  "NOW_S = 1787900100"

definition failing_random_source :: random_source where
  "failing_random_source = (\<lambda>_. Inl ''qualified random source unavailable'')"

text \<open>\<open>parsed\<close> is what \<open>ProtocolProfile::from_json\<close> makes of the repository's profile, \<open>source\<close> is the text
  of the commercial policy; the engine built from them is the test's to use.\<close>

definition with_engine ::
  "'p crates \<Rightarrow> string + protocol_profile \<Rightarrow> string \<Rightarrow> (('p, unit) access_engine \<Rightarrow> bool) \<Rightarrow> bool" where
  "with_engine K parsed source rest =
     (let chaser = from_seed K ''odyssey-7'' (replicate 32 1);
          station = from_seed K ''waystation-1'' (replicate 32 2);
          issuer = from_seed K ''orbital-registry'' (replicate 32 3);
          station_peer_trust = trust_store_insert (ik_key_id chaser) (ik_verifying_key chaser) trust_store_default;
          chaser_peer_trust = trust_store_insert (ik_key_id station) (ik_verifying_key station) trust_store_default;
          credential_trust = trust_store_insert (ik_key_id issuer) (ik_verifying_key issuer) trust_store_default;
          gate_trust = trust_store_insert (ik_key_id station) (ik_verifying_key station) trust_store_default
      in unwrap parsed (\<lambda>profile.
         unwrap (from_source K ''waystation-1-commercial-authorization'' 1 source) (\<lambda>policy_engine.
           rest (new_engine K chaser station issuer station_peer_trust chaser_peer_trust credential_trust gate_trust
             \<lparr>ec_protocol_profile = profile, ec_policy_engine = policy_engine,
              ec_trust_bundle_id = ''waystation-1-trust'', ec_trust_bundle_version = 42,
              ec_trust_bundle_issued_at_s = NOW_S - 60\<rparr>))))"

text \<open>The numbers are 3.32, 1.12, 0.32, 0.04, \<open>f64::MAX\<close> and 0.01.\<close>

definition passing_readiness :: "u8 \<Rightarrow> i64 \<Rightarrow> readiness_evidence" where
  "passing_readiness requested_state now_s =
     \<lparr>re_observed_at_ms = now_s * 1000,
      re_range_m =
        (if requested_state = 1 then Finite 7475975381435023 (-51)
         else if requested_state = 2 then Finite 1261007895663739 (-50)
         else if requested_state = 3 then Finite 5764607523034235 (-54)
         else if requested_state = 4 then Finite 5764607523034235 (-57)
         else Finite 9007199254740991 971),
      re_closing_rate_mps = Finite 5764607523034235 (-59),
      re_checks = map_of (map (\<lambda>check. (check, True))
        [''initial_hold_confirmed'', ''retreat_available'', ''relative_navigation_valid'',
         ''approach_corridor_clear'', ''closing_rate_within_limit'', ''alignment_within_limit'',
         ''capture_system_ready'', ''soft_capture_confirmed'', ''latches_ready'', ''relative_motion_stable''])\<rparr>"

definition authorize_and_redeem ::
  "'p crates \<Rightarrow> u8 \<Rightarrow> i64 \<Rightarrow> readiness_evidence \<Rightarrow> ('p, unit) access_engine
     \<Rightarrow> (transition_outcome \<Rightarrow> ('p, unit) access_engine \<Rightarrow> bool) \<Rightarrow> bool" where
  "authorize_and_redeem K requested_state now_s readiness engine rest =
     unwrap_op (request_transition K requested_state now_s readiness) engine (\<lambda>issued engine.
     case out_signed_grant_hex issued of
       None \<Rightarrow> False
     | Some grant_hex \<Rightarrow> unwrap_op (redeem_transition K grant_hex requested_state now_s readiness) engine rest)"

section \<open>Tests\<close>

primrec drive_transitions :: "'p crates \<Rightarrow> u8 list \<Rightarrow> ('p, unit) access_engine \<Rightarrow> bool" where
  "drive_transitions K [] engine = True"
| "drive_transitions K (requested # rest) engine =
     (let now_s = NOW_S + ucast requested in
      unwrap_op (request_transition K requested now_s (passing_readiness requested now_s)) engine (\<lambda>issued engine.
      out_approved issued \<and> out_previous_state issued = out_resulting_state issued
      \<and> (case out_signed_grant_hex issued of
           None \<Rightarrow> False
         | Some grant_hex \<Rightarrow>
             unwrap_op (redeem_transition K grant_hex requested now_s (passing_readiness requested now_s)) engine
               (\<lambda>redeemed engine. out_approved redeemed \<and> out_resulting_state redeemed = requested
                  \<and> drive_transitions K rest engine))))"

definition cryptographic_session_drives_all_protected_transitions ::
  "'p crates \<Rightarrow> string + protocol_profile \<Rightarrow> string \<Rightarrow> bool" where
  "cryptographic_session_drives_all_protected_transitions K parsed source =
     with_engine K parsed source (\<lambda>engine.
     unwrap_op (establish_session K NOW_S Nominal) engine (\<lambda>events engine.
     list_ex (\<lambda>e. ev_code e = ''CREDENTIALS_VERIFIED'') (so_events events)
     \<and> drive_transitions K [1, 2, 3, 4] engine))"

definition expired_credential_prevents_session_authorization ::
  "'p crates \<Rightarrow> string + protocol_profile \<Rightarrow> string \<Rightarrow> bool" where
  "expired_credential_prevents_session_authorization K parsed source =
     with_engine K parsed source (\<lambda>engine.
       fst (establish_session K NOW_S ExpiredCredential engine) = Inl (ProtocolErr CredentialExpired))"

definition random_source_failure_prevents_session_authorization ::
  "'p crates \<Rightarrow> string + protocol_profile \<Rightarrow> string \<Rightarrow> bool" where
  "random_source_failure_prevents_session_authorization K parsed source =
     with_engine K parsed source (\<lambda>engine.
       fst (establish_session K NOW_S Nominal (with_random_source failing_random_source engine)) = Inl RandomSourceErr)"

definition corridor_violation_withholds_final_approach_grant ::
  "'p crates \<Rightarrow> string + protocol_profile \<Rightarrow> string \<Rightarrow> bool" where
  "corridor_violation_withholds_final_approach_grant K parsed source =
     with_engine K parsed source (\<lambda>engine.
     unwrap_op (establish_session K NOW_S Nominal) engine (\<lambda>_ engine.
     authorize_and_redeem K 1 (NOW_S + 1) (passing_readiness 1 (NOW_S + 1)) engine (\<lambda>redeemed engine.
     out_approved redeemed
     \<and> (let ready = passing_readiness 2 (NOW_S + 2);
            failed = ready\<lparr>re_checks := (re_checks ready)(''approach_corridor_clear'' \<mapsto> False)\<rparr>
        in unwrap_op (request_transition K 2 (NOW_S + 2) failed) engine (\<lambda>outcome _.
             \<not> out_approved outcome \<and> out_reason outcome = ''DENY_AUTHORIZATION_POLICY''
             \<and> out_resulting_state outcome = 1)))))"

definition stale_readiness_blocks_entitlement_redemption ::
  "'p crates \<Rightarrow> string + protocol_profile \<Rightarrow> string \<Rightarrow> bool" where
  "stale_readiness_blocks_entitlement_redemption K parsed source =
     with_engine K parsed source (\<lambda>engine.
     unwrap_op (establish_session K NOW_S Nominal) engine (\<lambda>_ engine.
     unwrap_op (request_transition K 1 (NOW_S + 1) (passing_readiness 1 (NOW_S + 1))) engine (\<lambda>issued engine.
     case out_signed_grant_hex issued of
       None \<Rightarrow> False
     | Some grant_hex \<Rightarrow>
         (let (result, engine) = redeem_transition K grant_hex 1 (NOW_S + 3) (passing_readiness 1 (NOW_S + 1)) engine
          in result = Inl (ProtocolProfileErr ReadinessStale)
             \<and> unwrap_op (request_transition K 1 (NOW_S + 4) (passing_readiness 1 (NOW_S + 4))) engine
                 (\<lambda>replacement _. out_previous_state replacement = 0)))))"

primrec redeem_each ::
  "'p crates \<Rightarrow> u8 list \<Rightarrow> ('p, unit) access_engine \<Rightarrow> (('p, unit) access_engine \<Rightarrow> bool) \<Rightarrow> bool" where
  "redeem_each K [] engine rest = rest engine"
| "redeem_each K (requested # others) engine rest =
     (let now_s = NOW_S + ucast requested in
      authorize_and_redeem K requested now_s (passing_readiness requested now_s) engine (\<lambda>redeemed engine.
        out_approved redeemed \<and> redeem_each K others engine rest))"

definition incomplete_latches_withhold_hard_dock_grant ::
  "'p crates \<Rightarrow> string + protocol_profile \<Rightarrow> string \<Rightarrow> bool" where
  "incomplete_latches_withhold_hard_dock_grant K parsed source =
     with_engine K parsed source (\<lambda>engine.
     unwrap_op (establish_session K NOW_S Nominal) engine (\<lambda>_ engine.
     redeem_each K [1, 2, 3] engine (\<lambda>engine.
     let ready = passing_readiness 4 (NOW_S + 4);
         failed = ready\<lparr>re_checks := (re_checks ready)(''latches_ready'' \<mapsto> False)\<rparr>
     in unwrap_op (request_transition K 4 (NOW_S + 4) failed) engine (\<lambda>outcome _.
          \<not> out_approved outcome \<and> out_reason outcome = ''DENY_AUTHORIZATION_POLICY''
          \<and> out_resulting_state outcome = 3))))"

section \<open>The evidence\<close>

definition test_finish :: i64 where
  "test_finish = NOW_S + 10"

lemma passing_age:
  assumes "0 \<le> sint observed" "sint observed \<le> sint now" "sint now \<le> sint test_finish"
  shows "sint (evidence_age_ms now (re_observed_at_ms (passing_readiness q observed))) = 1000 * (sint now - sint observed)"
proof -
  have le: "sint now \<le> 1787900110" using assms(3) by (simp add: test_finish_def NOW_S_def)
  have "observed * 1000 = word_of_int (sint observed * 1000)" by simp
  then have "sint (observed * 1000) = sint observed * 1000"
    using assms le sint_word_of_int_i64 [of "sint observed * 1000"] by simp
  then show ?thesis using assms le by (simp add: passing_readiness_def evidence_age_ms_def i64_simps)
qed

lemma passing_current:
  "0 \<le> sint now \<Longrightarrow> sint now \<le> sint test_finish \<Longrightarrow> evidence_current now (passing_readiness q now)"
  using passing_age [of now now q] by (simp add: evidence_current_def)

lemma passing_measurements:
  "range_mm (Some (passing_readiness 1 now)) = 3320" "range_mm (Some (passing_readiness 2 now)) = 1120"
  "range_mm (Some (passing_readiness 3 now)) = 320" "range_mm (Some (passing_readiness 4 now)) = 40"
  "closing_rate_mmps (Some (passing_readiness q now)) = 10"
  "name \<in> set readiness_checks \<Longrightarrow> check_flag (Some (passing_readiness q now)) name"
  by (auto simp: range_mm_def closing_rate_mmps_def passing_readiness_def f64_milli_ceil_def f64_times_1000_def
      f64_round_def Let_def round_half_even_def f64_ceil_def f64_as_i64_def clamp_i64_def check_flag_def readiness_checks_def)

lemma passing_opens:
  assumes "0 \<le> sint now" "sint now \<le> sint test_finish"
  shows "stage_evidence Hold now (passing_readiness 1 now)" "stage_evidence Approach now (passing_readiness 2 now)"
    "stage_evidence FinalApproach now (passing_readiness 3 now)" "stage_evidence SoftCapture now (passing_readiness 4 now)"
  using passing_current [OF assms]
  by (simp_all add: stage_evidence_def commercial_conditions_def passing_measurements readiness_checks_def
      nominal_evidence_def has_profile_def)

text \<open>With one check failed the evidence is as current, but the policy's permit does not apply.\<close>

lemma failed_check:
  assumes "0 \<le> sint now" "sint now \<le> sint test_finish"
    and "failed = (passing_readiness q now)\<lparr>re_checks := (re_checks (passing_readiness q now))(name \<mapsto> False)\<rparr>"
  shows "evidence_current now failed" "check_flag (Some failed) name = False"
  using passing_current [OF assms(1,2), of q] by (simp_all add: assms(3) evidence_current_def check_flag_def)

section \<open>The engine of the tests\<close>

text \<open>The operating system delivers its first 25 blocks of 32 bytes, all different.\<close>

definition random_delivers :: "'p crates \<Rightarrow> nat \<Rightarrow> bool" where
  "random_delivers K n \<longleftrightarrow> (\<forall>i < n. \<exists>bs. os_random K i = Inr bs \<and> length bs = 32) \<and> inj_on (os_random K) {..< n}"

lemma delivered_fresh:
  assumes "random_delivers K n" "ae_random_source s = os_random_source K"
  shows "fresh_source n s"
proof -
  have drawn: "os_random K i = Inr (drawn s i)" if "i < n" for i
    using assms that by (auto simp: random_delivers_def drawn_def os_random_source_def)
  have "inj_on (drawn s) {..< n}"
    using assms(1) drawn unfolding random_delivers_def inj_on_def by (metis lessThan_iff)
  then show ?thesis using drawn by (auto simp: fresh_source_def assms(2) os_random_source_def)
qed

lemma seed_works:
  assumes "ed25519_ok K" "is_utf8 name"
  shows "working_signer K (from_seed K name (replicate 32 b))"
  using test_seed_identity [OF assms] by (simp add: working_signer_def local_payload_signer_def)

definition engine_crates :: "'p crates \<Rightarrow> string \<Rightarrow> bool" where
  "engine_crates K source \<longleftrightarrow>
     documented_crates K \<and> reads_policy K source commercial_docking \<and> random_delivers K 25"

lemma test_engine:
  assumes "engine_crates K source"
  obtains engine :: "('p, unit) access_engine" where
    "\<forall>rest. with_engine K (Inr repository_profile) source rest = rest engine"
    "honest_parties K engine" "fresh_source 25 engine" "fresh_caches K 25 (reset engine)" "ae_random_calls engine = 0"
    "repository_engine K engine" "docking_period engine NOW_S test_finish"
proof -
  have laws: "hex_ok K" "cbor_ok K" "cose_ok K" "ed25519_ok K" "cedar_ok K"
      "parse_rfc3339 K ''2026-01-01T00:00:00Z'' = Some 1767225600" "parse_rfc3339 K ''2027-01-01T00:00:00Z'' = Some 1798761600"
    and policy: "reads_policy K source commercial_docking" and random: "random_delivers K 25"
    using assms by (simp_all add: engine_crates_def documented_crates_def)
  obtain policy_engine where engine: "from_source K ''waystation-1-commercial-authorization'' 1 source = Inr policy_engine"
    and means: "policy_means K (pe_policies policy_engine) commercial_docking"
    by (rule reads_policy_engine [OF policy])
  have names: "is_utf8 ''odyssey-7''" by (simp add: is_utf8_code)
  let ?identity = "\<lambda>name b. from_seed K name (replicate 32 b)"
  let ?trust = "\<lambda>name b. trust_store_insert name (ed25519_public K (replicate 32 b)) trust_store_default"
  define e :: "('p, unit) access_engine" where "e = new_engine K (?identity ''odyssey-7'' 1) (?identity ''waystation-1'' 2)
      (?identity ''orbital-registry'' 3) (?trust ''odyssey-7'' 1) (?trust ''waystation-1'' 2) (?trust ''orbital-registry'' 3)
      (?trust ''waystation-1'' 2) \<lparr>ec_protocol_profile = repository_profile, ec_policy_engine = policy_engine,
        ec_trust_bundle_id = ''waystation-1-trust'', ec_trust_bundle_version = 42, ec_trust_bundle_issued_at_s = NOW_S - 60\<rparr>"
  note keys = test_seed_identity [OF laws(4) names] test_seed_identity [OF laws(4) test_names(2)]
    test_seed_identity [OF laws(4) test_names(3)]
  have "with_engine K (Inr repository_profile) source rest = rest e" for rest
    by (simp add: with_engine_def Let_def engine keys e_def)
  moreover have "honest_parties K e"
    using laws(1-3) seed_works [OF laws(4) names] seed_works [OF laws(4) test_names(2)] seed_works [OF laws(4) test_names(3)]
    by (simp add: honest_parties_def e_def new_engine_def trusts_def keys)
  moreover have "fresh_source 25 e" by (rule delivered_fresh [OF random]) (simp add: e_def new_engine_def)
  moreover have "fresh_caches K 25 (reset e)"
    by (simp add: fresh_caches_def unused_def reliable_def e_def new_engine_def replay_default_def reset_def reset_ephemeral_def)
  moreover have "repository_engine K e"
    using laws(5-7) means
    by (simp add: repository_engine_def repository_policy_def commercial_setting_def e_def new_engine_def keys)
  moreover have "docking_period e NOW_S test_finish"
    by (simp add: docking_period_def e_def new_engine_def NOW_S_def test_finish_def)
  moreover have "ae_random_calls e = 0" by (simp add: e_def new_engine_def)
  ultimately show thesis by (intro that [of e]) simp_all
qed

lemma credentials_verified_event:
  "establish_session K now_s scenario s = (Inr out, t) \<Longrightarrow>
     list_ex (\<lambda>e. ev_code e = ''CREDENTIALS_VERIFIED'') (so_events out)"
  by (auto simp: establish_session_def op_simps Let_def split_beta session_events_def event_def)

text \<open>The session the tests open, and the states it goes through.\<close>

lemma test_session:
  assumes "engine_crates K source"
  obtains engine out and s :: "('p, unit) access_engine" where
    "\<forall>rest. with_engine K (Inr repository_profile) source rest = rest engine"
    "establish_session K NOW_S Nominal engine = (Inr out, s)"
    "list_ex (\<lambda>e. ev_code e = ''CREDENTIALS_VERIFIED'') (so_events out)"
    "docking_at K NOW_S test_finish 25 s" "ae_state s = Hold" "ae_random_calls s = 5"
proof -
  obtain engine :: "('p, unit) access_engine" where e: "\<forall>rest. with_engine K (Inr repository_profile) source rest = rest engine"
    and ready: "honest_parties K engine" "fresh_source 25 engine" "fresh_caches K 25 (reset engine)" "ae_random_calls engine = 0"
      "repository_engine K engine" "docking_period engine NOW_S test_finish"
    by (rule test_engine [OF assms])
  have "ae_random_calls engine + 5 \<le> 25" using ready(4) by simp
  from docking_start [OF ready(1-3) this ready(5,6)] obtain out s where
      step: "engine_step K (EstablishSession NOW_S Nominal) engine = (Inr (SessionReply out), s)"
      and s: "docking_at K NOW_S test_finish 25 s" "ae_state s = Hold" "ae_random_calls s = 5"
    using ready(4) by auto
  have run: "establish_session K NOW_S Nominal engine = (Inr out, s)" using step by (auto simp: op_simps)
  show thesis by (rule that [OF e run credentials_verified_event [OF run] s])
qed

section \<open>The tests' steps\<close>

text \<open>The time and the evidence at which the tests ask for a stage.\<close>

lemma test_time:
  assumes "stage_index state < 4" "q = state_number state + 1" "now = NOW_S + ucast q"
  shows "during NOW_S test_finish now" "0 \<le> sint now" "stage_evidence state now (passing_readiness q now)"
proof -
  show times: "during NOW_S test_finish now" "0 \<le> sint now"
    using assms by (cases state; simp add: NOW_S_def test_finish_def)+
  then have "0 \<le> sint now" "sint now \<le> sint test_finish" by simp_all
  note opens = passing_opens [OF this]
  show "stage_evidence state now (passing_readiness q now)"
    using assms(1,2) opens by (cases state) simp_all
qed

lemma redeemed_fields:
  "redeem_transition K g q now r s = (Inr out, t) \<Longrightarrow> out_approved out \<and> out_resulting_state out = state_number (ae_state t)"
  by (auto simp: redeem_Inr redeemed_outcome_def)

lemma test_stage:
  assumes "docking_at K NOW_S test_finish 25 s" "stage_index (ae_state s) < 4" "ae_random_calls s + 5 \<le> 25"
    and "q = state_number (ae_state s) + 1" "now = NOW_S + ucast q"
  obtains out u g out' t where
    "request_transition K q now (passing_readiness q now) s = (Inr out, u)"
    "out_approved out" "out_previous_state out = out_resulting_state out" "out_signed_grant_hex out = Some g"
    "redeem_transition K g q now (passing_readiness q now) u = (Inr out', t)"
    "out_approved out'" "out_resulting_state out' = q" "docking_at K NOW_S test_finish 25 t"
    "stage_index (ae_state t) = Suc (stage_index (ae_state s))" "state_number (ae_state t) = q"
    "ae_random_calls t = ae_random_calls s + 5"
proof -
  note time = test_time [OF assms(2,4,5)]
  have now: "evidence_current now (passing_readiness q now)" "sint now \<le> sint now + 10" "during now test_finish now"
    using time by (simp_all add: stage_evidence_def)
  obtain out u g out' t where
      run: "request_transition K q now (passing_readiness q now) s = (Inr out, u)"
        "redeem_transition K g q now (passing_readiness q now) u = (Inr out', t)"
    and t: "docking_at K NOW_S test_finish 25 t" "stage_index (ae_state t) = Suc (stage_index (ae_state s))"
      "state_number (ae_state t) = q" "ae_random_calls t = ae_random_calls s + 5"
    and g: "out_signed_grant_hex out = Some g"
    by (rule docking_redeem [OF assms(1-4) time(1,3) now(3,2,1)])
  obtain stage session_id rule decision out'' u' where
      "request_transition K q now (passing_readiness q now) s = (Inr out'', u')"
      "issued K s stage session_id q now rule decision out'' u'"
    by (rule docking_request [OF assms(1-4) time(1,3)])
  then have "out_approved out" "out_previous_state out = out_resulting_state out"
    using run(1) by (auto elim: issued_fields)
  with t redeemed_fields [OF run(2)] show thesis by (intro that [OF run(1) _ _ g run(2)]) simp_all
qed

lemma drive_transition:
  assumes "docking_at K NOW_S test_finish 25 s" "stage_index (ae_state s) < 4" "ae_random_calls s + 5 \<le> 25"
    and "q = state_number (ae_state s) + 1"
  obtains t where "drive_transitions K (q # others) s = drive_transitions K others t"
    "redeem_each K (q # others) s rest = redeem_each K others t rest" "docking_at K NOW_S test_finish 25 t"
    "stage_index (ae_state t) = Suc (stage_index (ae_state s))" "state_number (ae_state t) = q"
    "ae_random_calls t = ae_random_calls s + 5"
proof -
  obtain issued u g redeemed t where
      run: "request_transition K q (NOW_S + ucast q) (passing_readiness q (NOW_S + ucast q)) s = (Inr issued, u)"
    "out_approved issued" "out_previous_state issued = out_resulting_state issued" "out_signed_grant_hex issued = Some g"
    "redeem_transition K g q (NOW_S + ucast q) (passing_readiness q (NOW_S + ucast q)) u = (Inr redeemed, t)"
    "out_approved redeemed" "out_resulting_state redeemed = q"
    and t: "docking_at K NOW_S test_finish 25 t" "stage_index (ae_state t) = Suc (stage_index (ae_state s))"
      "state_number (ae_state t) = q" "ae_random_calls t = ae_random_calls s + 5"
    by (rule test_stage [OF assms refl])
  have "drive_transitions K (q # others) s = drive_transitions K others t"
    by (simp add: unwrap_op_def run Let_def)
  moreover have "redeem_each K (q # others) s rest = redeem_each K others t rest"
    by (simp add: authorize_and_redeem_def unwrap_op_def run Let_def)
  ultimately show thesis using that t by blast
qed

text \<open>A refused request, with evidence that fails a check the stage needs.\<close>

lemma test_refused:
  assumes "docking_at K NOW_S test_finish 25 s" "stage_index (ae_state s) < 4" "ae_random_calls s + 5 \<le> 25"
    and "q = state_number (ae_state s) + 1" "now = NOW_S + ucast q"
    and "evidence_current now evidence" "\<not> stage_evidence (ae_state s) now evidence"
  obtains out u where "request_transition K q now evidence s = (Inr out, u)" "\<not> out_approved out"
    "out_reason out = ''DENY_AUTHORIZATION_POLICY''" "out_resulting_state out = state_number (ae_state s)"
proof -
  obtain event_kind stage session_id from_stage to_stage rule_id action ttl rule where
      tr: "transition_for (ae_state s) q = Some (event_kind, stage)" "ae_session_id s = Some session_id"
        "transition_names (ae_state s) q = Some (from_stage, to_stage)"
    and eval: "evaluate_profile K (s\<lparr>ae_holder_proof_at_s := Some now\<rparr>) from_stage to_stage now evidence = Inr rule"
    and refused: "if stage_evidence (ae_state s) now evidence
     then \<exists>decision. authorize_rule K (s\<lparr>ae_holder_proof_at_s := Some now\<rparr>) (rd_rule_id rule) now evidence = Inr decision
     else authorize_rule K (s\<lparr>ae_holder_proof_at_s := Some now\<rparr>) (rd_rule_id rule) now evidence
            = Inl (Denied ''stage_transition'')"
    by (rule docking_asked [OF assms(1,2,4) test_time(1) [OF assms(2,4,5)] assms(6)])
  have rdy: "ready K 25 s" "ae_random_calls s + 3 \<le> 25" using assms(1,3) by (simp_all add: docking_at_def)
  from refused assms(7) have denied: "authorize_rule K (s\<lparr>ae_holder_proof_at_s := Some now\<rparr>) (rd_rule_id rule) now evidence
            = Inl (Denied ''stage_transition'')" by simp
  obtain w where "request_transition K q now evidence s =
      (Inr (policy_denial w (state_number (ae_state s)) session_id rule (Denied ''stage_transition'')), w)"
    using request_refused [OF rdy tr(2,1,3) eval denied] by blast
  then show thesis by (rule that) (simp_all add: policy_denial_def denied_def Let_def)
qed

section \<open>The engine's tests pass\<close>

lemma drives_all:
  assumes "engine_crates K source"
  shows "cryptographic_session_drives_all_protected_transitions K (Inr repository_profile) source"
proof -
  obtain engine out and s :: "('a, unit) access_engine" where run:
    "\<forall>rest. with_engine K (Inr repository_profile) source rest = rest engine"
    "establish_session K NOW_S Nominal engine = (Inr out, s)" "list_ex (\<lambda>e. ev_code e = ''CREDENTIALS_VERIFIED'') (so_events out)"
    and s: "docking_at K NOW_S test_finish 25 s" "ae_state s = Hold" "ae_random_calls s = 5"
    by (rule test_session [OF assms])
  obtain t1 where t1: "drive_transitions K [1, 2, 3, 4] s = drive_transitions K [2, 3, 4] t1" "docking_at K NOW_S test_finish 25 t1"
      "stage_index (ae_state t1) = 1" "state_number (ae_state t1) = 1" "ae_random_calls t1 = 10"
    by (rule drive_transition [OF s(1), of 1 "[2, 3, 4]"]) (simp_all add: s)
  obtain t2 where t2: "drive_transitions K [2, 3, 4] t1 = drive_transitions K [3, 4] t2" "docking_at K NOW_S test_finish 25 t2"
      "stage_index (ae_state t2) = 2" "state_number (ae_state t2) = 2" "ae_random_calls t2 = 15"
    by (rule drive_transition [OF t1(2), of 2 "[3, 4]"]) (simp_all add: t1)
  obtain t3 where t3: "drive_transitions K [3, 4] t2 = drive_transitions K [4] t3" "docking_at K NOW_S test_finish 25 t3"
      "stage_index (ae_state t3) = 3" "state_number (ae_state t3) = 3" "ae_random_calls t3 = 20"
    by (rule drive_transition [OF t2(2), of 3 "[4]"]) (simp_all add: t2)
  obtain t4 where t4: "drive_transitions K [4] t3 = drive_transitions K [] t4"
    by (rule drive_transition [OF t3(2), of 4 "[]"]) (simp_all add: t3)
  have "drive_transitions K [1, 2, 3, 4] s" unfolding t1(1) t2(1) t3(1) t4 by simp
  then show ?thesis
    by (simp add: cryptographic_session_drives_all_protected_transitions_def run unwrap_op_def del: drive_transitions.simps)
qed

lemma expired_refused:
  assumes "engine_crates K source"
  shows "expired_credential_prevents_session_authorization K (Inr repository_profile) source"
proof -
  obtain engine :: "('a, unit) access_engine" where e: "\<forall>rest. with_engine K (Inr repository_profile) source rest = rest engine"
    and ready: "honest_parties K engine" "fresh_source 25 engine" "fresh_caches K 25 (reset engine)" "ae_random_calls engine = 0"
    by (rule test_engine [OF assms])
  have "ae_random_calls engine + 5 \<le> 25" "clock_in_range NOW_S" using ready(4) by (simp_all add: clock_in_range_def NOW_S_def)
  then show ?thesis
    using expired_scenario_refused [OF ready(1-3)] by (simp add: expired_credential_prevents_session_authorization_def e)
qed

lemma failing_source_refused:
  assumes "engine_crates K source"
  shows "random_source_failure_prevents_session_authorization K (Inr repository_profile) source"
proof -
  obtain engine :: "('a, unit) access_engine" where e: "\<forall>rest. with_engine K (Inr repository_profile) source rest = rest engine"
    by (rule test_engine [OF assms])
  have "fst (establish_session K NOW_S Nominal (with_random_source failing_random_source engine)) = Inl RandomSourceErr"
    by (simp add: establish_session_def and_then_def update_state_def random_nonce_def with_random_source_def
        failing_random_source_def reset_def)
  then show ?thesis by (simp add: random_source_failure_prevents_session_authorization_def e)
qed

text \<open>Evidence that fails the check a stage needs.\<close>

lemma failed_evidence:
  assumes "0 \<le> sint now" "sint now \<le> sint test_finish"
    and "failed = (passing_readiness q now)\<lparr>re_checks := (re_checks (passing_readiness q now))(name \<mapsto> False)\<rparr>"
    and "(state, name) \<in> {(Approach, ''approach_corridor_clear''), (SoftCapture, ''latches_ready'')}"
  shows "evidence_current now failed" "\<not> stage_evidence state now failed"
  using failed_check [OF assms(1-3)] assms(4) by (auto simp: stage_evidence_def commercial_conditions_def Let_def)

lemma corridor_withheld:
  assumes "engine_crates K source"
  shows "corridor_violation_withholds_final_approach_grant K (Inr repository_profile) source"
proof -
  obtain engine out and s :: "('a, unit) access_engine" where run:
    "\<forall>rest. with_engine K (Inr repository_profile) source rest = rest engine"
    "establish_session K NOW_S Nominal engine = (Inr out, s)"
    and s: "docking_at K NOW_S test_finish 25 s" "ae_state s = Hold" "ae_random_calls s = 5"
    by (rule test_session [OF assms])
  obtain out1 u g out2 t where step:
    "request_transition K 1 (NOW_S + 1) (passing_readiness 1 (NOW_S + 1)) s = (Inr out1, u)" "out_signed_grant_hex out1 = Some g"
    "redeem_transition K g 1 (NOW_S + 1) (passing_readiness 1 (NOW_S + 1)) u = (Inr out2, t)" "out_approved out2"
    and t: "docking_at K NOW_S test_finish 25 t" "stage_index (ae_state t) = 1" "ae_random_calls t = 10"
    by (rule test_stage [OF s(1), of 1 "NOW_S + 1"]) (simp_all add: s)
  have approach: "ae_state t = Approach" using t(2) stage_index_inj [of _ Approach] by simp
  let ?failed = "(passing_readiness 2 (NOW_S + 2))\<lparr>re_checks := (re_checks (passing_readiness 2 (NOW_S + 2)))(''approach_corridor_clear'' \<mapsto> False)\<rparr>"
  have failed: "evidence_current (NOW_S + 2) ?failed" "\<not> stage_evidence (ae_state t) (NOW_S + 2) ?failed"
    by (rule failed_evidence [OF _ _ refl]; simp add: NOW_S_def test_finish_def approach)+
  obtain out3 v where "request_transition K 2 (NOW_S + 2) ?failed t = (Inr out3, v)" "\<not> out_approved out3"
      "out_reason out3 = ''DENY_AUTHORIZATION_POLICY''" "out_resulting_state out3 = state_number (ae_state t)"
    by (rule test_refused [OF t(1) _ _ _ _ failed, of 2]) (simp_all add: t approach)
  then show ?thesis
    by (simp add: corridor_violation_withholds_final_approach_grant_def run unwrap_op_def authorize_and_redeem_def step
        approach Let_def)
qed

lemma latches_withheld:
  assumes "engine_crates K source"
  shows "incomplete_latches_withhold_hard_dock_grant K (Inr repository_profile) source"
proof -
  obtain engine out and s :: "('a, unit) access_engine" where run:
    "\<forall>rest. with_engine K (Inr repository_profile) source rest = rest engine"
    "establish_session K NOW_S Nominal engine = (Inr out, s)"
    and s: "docking_at K NOW_S test_finish 25 s" "ae_state s = Hold" "ae_random_calls s = 5"
    by (rule test_session [OF assms])
  let ?failed = "(passing_readiness 4 (NOW_S + 4))\<lparr>re_checks := (re_checks (passing_readiness 4 (NOW_S + 4)))(''latches_ready'' \<mapsto> False)\<rparr>"
  let ?rest = "\<lambda>engine. unwrap_op (request_transition K 4 (NOW_S + 4) ?failed) engine (\<lambda>outcome _.
          \<not> out_approved outcome \<and> out_reason outcome = ''DENY_AUTHORIZATION_POLICY'' \<and> out_resulting_state outcome = 3)"
  obtain t1 where t1: "redeem_each K [1, 2, 3] s ?rest = redeem_each K [2, 3] t1 ?rest" "docking_at K NOW_S test_finish 25 t1"
      "stage_index (ae_state t1) = 1" "state_number (ae_state t1) = 1" "ae_random_calls t1 = 10"
    by (rule drive_transition [OF s(1), of 1 "[2, 3]" ?rest]) (simp_all add: s)
  obtain t2 where t2: "redeem_each K [2, 3] t1 ?rest = redeem_each K [3] t2 ?rest" "docking_at K NOW_S test_finish 25 t2"
      "stage_index (ae_state t2) = 2" "state_number (ae_state t2) = 2" "ae_random_calls t2 = 15"
    by (rule drive_transition [OF t1(2), of 2 "[3]" ?rest]) (simp_all add: t1)
  obtain t3 where t3: "redeem_each K [3] t2 ?rest = redeem_each K [] t3 ?rest" "docking_at K NOW_S test_finish 25 t3"
      "stage_index (ae_state t3) = 3" "ae_random_calls t3 = 20"
    by (rule drive_transition [OF t2(2), of 3 "[]" ?rest]) (simp_all add: t2)
  have capture: "ae_state t3 = SoftCapture" using t3(3) stage_index_inj [of _ SoftCapture] by simp
  have failed: "evidence_current (NOW_S + 4) ?failed" "\<not> stage_evidence (ae_state t3) (NOW_S + 4) ?failed"
    by (rule failed_evidence [OF _ _ refl]; simp add: NOW_S_def test_finish_def capture)+
  obtain out3 v where "request_transition K 4 (NOW_S + 4) ?failed t3 = (Inr out3, v)" "\<not> out_approved out3"
      "out_reason out3 = ''DENY_AUTHORIZATION_POLICY''" "out_resulting_state out3 = state_number (ae_state t3)"
    by (rule test_refused [OF t3(2) _ _ _ _ failed, of 4]) (simp_all add: t3 capture)
  then have "redeem_each K [1, 2, 3] s ?rest"
    unfolding t1(1) t2(1) t3(1) by (simp add: unwrap_op_def capture)
  then show ?thesis
    by (simp add: incomplete_latches_withhold_hard_dock_grant_def run unwrap_op_def Let_def del: redeem_each.simps)
qed

text \<open>Two seconds after the evidence was observed, the rule of the approach refuses it.\<close>

lemma stale_evaluation:
  assumes "repository_engine K u" "docking_period u NOW_S test_finish" "ae_verified_credentials u = nominal_evidence NOW_S"
    and "session_authorized (ae_authorization u)" "ae_holder_proof_at_s u = Some (NOW_S + 1)"
  shows "evaluate_profile K u ''hold'' ''approach'' (NOW_S + 3) (passing_readiness 1 (NOW_S + 1)) = Inl ReadinessStale"
proof -
  have now: "during NOW_S test_finish (NOW_S + 3)" by (simp add: NOW_S_def test_finish_def)
  have conf: "ec_protocol_profile (ae_config u) = repository_profile"
    using assms(1) by (simp add: repository_engine_def repository_policy_def)
  have rule: "matching_rule repository_profile ''hold'' ''approach''
      = Some (stage_rule ''enter-approach'' ''enter_approach'' ''hold'' ''approach'' ''pending'' 60 1000 60)"
    by (simp add: matching_rule_def repository_profile_def stage_rule_def)
  have "sint (evidence_age_ms (NOW_S + 3) (re_observed_at_ms (passing_readiness 1 (NOW_S + 1)))) = 2000"
    by (subst passing_age) (simp_all add: NOW_S_def test_finish_def)
  then have "check_rule (stage_rule ''enter-approach'' ''enter_approach'' ''hold'' ''approach'' ''pending'' 60 1000 60)
      (NOW_S + 3) (Some (NOW_S + 1)) True (passing_readiness 1 (NOW_S + 1)) = Inl ReadinessStale"
    by (simp add: check_rule_def stage_rule_def NOW_S_def i64_simps)
  then show ?thesis
    using nominal_foundation_valid [OF assms(1,2) now] nominal_credentials_valid [OF assms(2) now]
    by (simp add: evaluate_profile_def evaluate_def conf assms(3-5) rule)
qed

lemma docking_at_update:
  assumes "docking_at K start finish N s" "ready K N t" "engine_ok t" "setup_of t = setup_of s"
    "ae_session_id t = ae_session_id s" "ae_verified_credentials t = ae_verified_credentials s"
  shows "docking_at K start finish N t"
  using assms repository_engine_same [OF assms(4)] docking_period_same [OF assms(4)] by (simp add: docking_at_def)

lemma stale_blocked:
  assumes "engine_crates K source"
  shows "stale_readiness_blocks_entitlement_redemption K (Inr repository_profile) source"
proof -
  let ?r = "passing_readiness 1 (NOW_S + 1)"
  obtain engine out and s :: "('a, unit) access_engine" where run:
    "\<forall>rest. with_engine K (Inr repository_profile) source rest = rest engine"
    "establish_session K NOW_S Nominal engine = (Inr out, s)"
    and s: "docking_at K NOW_S test_finish 25 s" "ae_state s = Hold" "ae_random_calls s = 5"
    by (rule test_session [OF assms])
  have hold: "stage_index (ae_state s) < 4" "ae_random_calls s + 5 \<le> 25" "1 = state_number (ae_state s) + 1"
      "NOW_S + 1 = NOW_S + ucast (1 :: u8)" using s by simp_all
  note time = test_time [OF hold(1,3,4)]
  obtain event_kind stage session_id from_stage to_stage rule decision out1 u g where
      tr: "transition_for (ae_state s) 1 = Some (event_kind, stage)" "ae_session_id s = Some session_id"
        "transition_names (ae_state s) 1 = Some (from_stage, to_stage)"
    and req: "request_transition K 1 (NOW_S + 1) ?r s = (Inr out1, u)"
    and iss: "issued K s stage session_id 1 (NOW_S + 1) rule decision out1 u" and u: "ready K 25 u" "engine_ok u"
      "ae_random_calls u = ae_random_calls s + 5"
    and ttl: "10 \<le> sint (rd_entitlement_ttl_s rule)" "sint (rd_entitlement_ttl_s rule) \<le> 60"
    and g: "out_signed_grant_hex out1 = Some g"
    by (rule docking_request [OF s(1) hold(1-3) time(1,3)])
  have fields: "ae_state u = Hold" "ae_session_id u = ae_session_id s" "setup_of u = setup_of s"
      "ae_verified_credentials u = ae_verified_credentials s" "ae_holder_proof_at_s u = Some (NOW_S + 1)"
    using iss s(2) by (auto elim: issued_fields)
  have at_u: "docking_at K NOW_S test_finish 25 u" by (rule docking_at_update [OF s(1) u(1,2) fields(3,2,4)])
  have "session_authorized (ae_authorization u)" using u(2) tr(2) fields(2) by (auto simp: engine_ok_def)
  moreover have "from_stage = ''hold''" "to_stage = ''approach''" using tr(3) s(2) by (simp_all add: transition_names_def)
  ultimately have stale: "evaluate_profile K u from_stage to_stage (NOW_S + 3) ?r = Inl ReadinessStale"
    using stale_evaluation [of K u] at_u fields(5) by (simp add: docking_at_def)
  have times: "\<bar>sint (NOW_S + 3) - sint (NOW_S + 1)\<bar> \<le> 30"
      "sint (NOW_S + 3) \<le> sint (saturating_add (NOW_S + 1) (rd_entitlement_ttl_s rule))"
    using ttl by (simp_all add: NOW_S_def i64_simps)
  have rdy: "ready K 25 s" "ae_random_calls u \<le> 25" using s u(3) by (simp_all add: docking_at_def)
  obtain gate pending where red: "redeem_transition K g 1 (NOW_S + 3) ?r u =
      (Inl (ProtocolProfileErr ReadinessStale), u\<lparr>ae_gate_replay := gate, ae_pending_entitlements := pending\<rparr>)"
    and after: "ready K 25 (u\<lparr>ae_gate_replay := gate, ae_pending_entitlements := pending\<rparr>)"
    by (rule redeem_refused [OF rdy(1) iss rdy(2) u(1) tr(2,1,3) stale times g])
  let ?w = "u\<lparr>ae_gate_replay := gate, ae_pending_entitlements := pending\<rparr>"
  have "engine_ok ?w"
    using engine_step_ok [OF u(2), of K "RedeemTransition g 1 (NOW_S + 3) ?r"] red by (simp add: and_then_def)
  then have at_w: "docking_at K NOW_S test_finish 25 ?w"
    by (intro docking_at_update [OF at_u after]) (simp_all add: setup_of_def)
  obtain out2 w where "request_transition K 1 (NOW_S + 4) (passing_readiness 1 (NOW_S + 4)) ?w = (Inr out2, w)"
      "out_previous_state out2 = 0"
  proof -
    have "during NOW_S test_finish (NOW_S + 4)" "0 \<le> sint (NOW_S + 4)" "sint (NOW_S + 4) \<le> sint test_finish"
      by (simp_all add: NOW_S_def test_finish_def)
    then have again: "stage_index (ae_state ?w) < 4" "ae_random_calls ?w + 5 \<le> 25" "1 = state_number (ae_state ?w) + 1"
        "during NOW_S test_finish (NOW_S + 4)" "stage_evidence (ae_state ?w) (NOW_S + 4) (passing_readiness 1 (NOW_S + 4))"
      using fields(1) u(3) s(3) passing_opens by simp_all
    obtain stage' session_id' rule' decision' out2 w where
        req: "request_transition K 1 (NOW_S + 4) (passing_readiness 1 (NOW_S + 4)) ?w = (Inr out2, w)"
      and "issued K ?w stage' session_id' 1 (NOW_S + 4) rule' decision' out2 w"
      by (rule docking_request [OF at_w again])
    then have "out_previous_state out2 = 0" using fields(1) by (auto elim: issued_fields)
    with req show thesis by (rule that)
  qed
  then show ?thesis
    by (simp add: stale_readiness_blocks_entitlement_redemption_def run unwrap_op_def req g red)
qed

text \<open>C21. The unit tests of the session engine pass with every implementation of the crates that has the
  documented behaviour, reads the commercial policy as the permits it writes, and delivers random bytes that do not
  repeat: the session drives all four transitions to hard dock; an expired credential or a failing
  random source prevents the session; a violated corridor or incomplete latches withhold the grant of the
  stage; and stale evidence blocks the redemption, after which the stage can be requested again.\<close>

theorem engine_tests_pass:
  assumes "engine_crates K source"
  shows "cryptographic_session_drives_all_protected_transitions K (Inr repository_profile) source
     \<and> expired_credential_prevents_session_authorization K (Inr repository_profile) source
     \<and> random_source_failure_prevents_session_authorization K (Inr repository_profile) source
     \<and> corridor_violation_withholds_final_approach_grant K (Inr repository_profile) source
     \<and> stale_readiness_blocks_entitlement_redemption K (Inr repository_profile) source
     \<and> incomplete_latches_withhold_hard_dock_grant K (Inr repository_profile) source"
  by (intro conjI drives_all expired_refused failing_source_refused corridor_withheld stale_blocked latches_withheld assms)

theorem engine_tests_pass_witness:
  "cryptographic_session_drives_all_protected_transitions conforming (Inr repository_profile) ''commercial-docking.cedar''
   \<and> stale_readiness_blocks_entitlement_redemption conforming (Inr repository_profile) ''commercial-docking.cedar''"
proof -
  have "reads_policy conforming ''commercial-docking.cedar'' commercial_docking"
  proof -
    have "policy_set_from_str conforming ''commercial-docking.cedar'' = Inr commercial_docking"
      "\<not> policy_set_is_empty conforming commercial_docking"
      by (simp_all add: conforming_def commercial_docking_def)
    then show ?thesis using conforming_policy unfolding reads_policy_def by blast
  qed
  moreover have "x = y" if "(of_nat x :: u8) = of_nat y" "x < 25" "y < 25" for x y
  proof -
    have "unat (of_nat x :: u8) = x" "unat (of_nat y :: u8) = y"
      by (rule unat_of_nat_byte, use that in linarith)+
    with that(1) show ?thesis by metis
  qed
  then have "random_delivers conforming 25"
    unfolding random_delivers_def inj_on_def by simp
  ultimately have "engine_crates conforming ''commercial-docking.cedar''"
    by (simp add: engine_crates_def conforming_documented)
  from engine_tests_pass [OF this] show ?thesis by blast
qed

end
