(* ===== verification/Spec2Isabelle.thy ===== *)
theory Spec2Isabelle
  imports Docking Journal Envelope Profile DebugStr Gate Agreement Deployment Tests Engine_Tests
begin

text \<open>
  \<^bold>\<open>ACCESS, the authorization core of an autonomous docking system\<close>

  The crate \<open>rust/access_core\<close> decides whether a vehicle (the chaser) may go through the stages of a
  docking with a station: Hold, Approach, Final Approach, Soft Capture, Hard Dock. Chaser and
  station exchange signed messages, the chaser presents credentials and proves that it holds its
  key, a profile and a Cedar policy are evaluated, and each stage is granted as a signed
  entitlement that is redeemed once. This development models the crate's library and its three
  programs and proves what they guarantee.

  \<^bold>\<open>The parts and how they interact\<close>

  The engine (\<open>session.rs\<close>, \<open>AccessEngine\<close>) owns the docking state, the replay caches, the current
  session and the pending entitlements. \<open>establish_session\<close> runs the three-message exchange through
  the envelopes of \<open>protocol.rs\<close>, has the credentials issued and verified, and asks the profile
  (\<open>protocol_profile.rs\<close>) and the policy (\<open>cedar.rs\<close>) for a session. \<open>request_transition\<close> refreshes the
  proof, asks both about the stage, and issues a signed grant. \<open>redeem_transition\<close> verifies the
  grant, uses it up, evaluates the profile again and lets the reducer of \<open>state_machine.rs\<close> move the
  state. The program \<open>access_authority\<close> reads its configuration, builds the engine and serves it line
  by line; it signs through the program \<open>access_signer\<close>; \<open>access_entitlement_verifier\<close> verifies grants for
  a client.

  \<^bold>\<open>Which theory models what\<close>

  \<^item> \<open>Prelude\<close>: \<open>i64\<close>, \<open>u64\<close>, \<open>u8\<close> as words with the saturating operations of the code, strings as byte
    lists, operations \<open>'s \<Rightarrow> ('e + 'a) \<times> 's\<close> (\<open>and_then\<close>, \<open>try_with\<close>: the \<open>?\<close> of Rust on mutable state), runs of
    operations, and the interfaces \<open>machine\<close> (kept invariants), \<open>one_time\<close> and \<open>single_use\<close> (tokens).
  \<^item> \<open>Docking\<close>: \<open>state_machine.rs\<close>. \<open>Claims\<close>, \<open>Envelope\<close>: the messages and credentials of \<open>protocol.rs\<close>.
    \<open>Replay\<close>, \<open>Journal\<close>: \<open>ReplayCache\<close> and the file behind it, with the interface \<open>replay_store\<close>.
  \<^item> \<open>Profile\<close>: \<open>protocol_profile.rs\<close>. \<open>Float64\<close>, \<open>DebugStr\<close>, \<open>Cedar\<close>: \<open>cedar.rs\<close>, with its conversion of \<open>f64\<close>
    measurements to thousandths and its quoting of identifiers; \<open>Permits\<close>: the shipped policy file and the tests' policy.
  \<^item> \<open>Session\<close>: the engine's data, construction and reset; \<open>Commands\<close>: \<open>establish_session\<close>; \<open>Transitions\<close>:
    \<open>request_transition\<close>, \<open>redeem_transition\<close> and \<open>engine_step\<close>, one command as one step.
  \<^item> \<open>Engine\<close>, \<open>Safety\<close>, \<open>Traces\<close>: frames, the invariant and runs of the engine. \<open>Honest\<close>, \<open>Nominal\<close>, \<open>Complete\<close>:
    runs with working keys, up to a complete docking. \<open>Guarantees\<close>: the contract of each command.
    \<open>Gate\<close>: the abstract gate and the refinement.
  \<^item> \<open>Host\<close>, \<open>Signer\<close>, \<open>Authority\<close>, \<open>Verifier\<close>: the three programs under \<open>src/bin\<close>. \<open>Deployment\<close>: the
    authority as it is deployed, from start-up to a complete docking over its line protocol.
    \<open>Agreement\<close>: grants on their way from the engine to the client.
  \<^item> \<open>Tests\<close>, \<open>Engine_Tests\<close>: the crate's nineteen unit tests (the \<open>tests\<close> modules of the library and of
    \<open>access_entitlement_verifier\<close>), a definition per test that is true when the test passes.
  \<^item> \<open>Crates\<close>: the third-party crates as one record of functions, an argument of every definition that
    calls them, and their documented laws as named predicates (\<open>hex_ok\<close>, \<open>cbor_ok\<close>, \<open>cose_ok\<close>,
    \<open>ed25519_ok\<close>, \<open>cedar_ok\<close>; for torn writes also \<open>hex_strict\<close> and \<open>hex_bytewise\<close>, for the tests
    \<open>hex_strict\<close>, \<open>cose_signature_last\<close>, \<open>ed25519_keys\<close>, \<open>ed25519_strict\<close>). \<open>Conforming\<close>: an instance that has all of them, on which the witnesses run.

  Structs are records whose fields carry a short prefix (\<open>ae_\<close> for \<open>AccessEngine\<close>, \<open>pc_\<close> for
  \<open>ProtocolClaims\<close>, and so on), enums are datatypes, errors are datatypes in the left part of a sum, and
  \<open>&mut self\<close> is the state passed and returned. Clocks and other inputs of the host (files, environment,
  random bytes, results of processes and of file operations) are arguments.

  \<^bold>\<open>What the lemmas show\<close>

  \<^item> The gate: the engine refines an abstract gate with one-use tickets (\<open>engine_refines_gate\<close>);
    a successful redemption was authentic, unexpired, unused and bound to its session, stage, rule and policy
    (\<open>redeem_sound\<close>,
    \<open>redeemed_grant_is_current\<close>, \<open>redemptions_need_grants\<close>); the state is what the redemptions lead to; and with the
    repository's profile and policy hard dock implies an allowed request within the measured
    limits (\<open>hard_dock_was_authorized\<close>), for the program as well
    (\<open>authority_hard_dock_was_requested\<close>).
  \<^item> From the station to the client: what the engine grants the client verifies
    (\<open>issued_grant_verifies\<close>), and without forged grants what it verifies was granted, each grant once
    (\<open>client_agrees_with_engine\<close>); the verdict identifies the authority's profile and policy files
    (\<open>verdict_names_the_deployment\<close>).
  \<^item> Failing closed: sessions (\<open>establish_fails_closed\<close>), requests (\<open>request_decides\<close>), the policy
    (\<open>authorize_fails_closed\<close>), clocks at the ends of \<open>i64\<close> (\<open>clock_overflow_gives_no_session\<close>).
  \<^item> It works: nominal sessions, request and redemption, and a complete docking
    (\<open>docking_completes\<close>), for caches in memory or on a disk that commits, and a random source that
    does not repeat itself, and for any current evidence that the policy accepts.
  \<^item> The repository's own expectations: its unit tests pass for every implementation of the crates with
    the documented behaviour (\<open>library_tests_pass\<close>, \<open>engine_tests_pass\<close>): what they assert of the code
    holds of the model.
  \<^item> Cryptographic messages: exact acceptance conditions and round trips, assuming of the
    signature scheme only that honest signatures verify; the agreement of client and engine takes
    unforgeability as a hypothesis on the lines presented (\<open>unforged\<close>).
  \<^item> Replay: at most once in memory, on disk and over restarts; the journal loads what was appended
    (\<open>journal_roundtrip\<close>), and what a restart knows after a write torn at any byte
    (\<open>torn_write_forgets_next\<close>).
  \<^item> Numbers: true ages behind saturating arithmetic, limits on rounded measurements in both directions, and NaN.
  \<^item> The programs: start-up, the refinement of the line protocol to the engine, a complete docking
    of the deployed authority (\<open>authority_docks\<close>), the equivalence
    of the external signer with a local one, the termination of its argument loop, and the
    client's verification.

  \<^bold>\<open>Bounds and termination\<close>

  There is no fuel: every loop of the code is structural recursion or has a measure, except the
  signer's argument loop, a \<open>partial_function\<close> whose termination is \<open>arguments_terminate\<close>. Theorems on
  honest runs bound the calls of the random source: five calls for a session and five for a
  request, hence 25 for a complete docking.

  \<^bold>\<open>Not modelled\<close>

  JSON decoding and printing by \<open>serde\<close> (the parsers are arguments and replies are values), \<open>lib.rs\<close> (only
  re-exports), the operating system beyond the results of its calls, the concurrent access of several
  processes to one journal, a signer that exits before it has read its input, the escapes of \<open>{:?}\<close>
  for characters beyond ASCII (the properties about identifiers are for ASCII ones), path separators
  other than a slash, and the Python nodes, interfaces, web pages, schemas and packaging around the crate. A panic of the program is modelled where the code can
  overflow (\<open>OverflowPanic\<close>); it ends the authority's loop.
\<close>

section \<open>From an input line to hard dock\<close>

text \<open>C19. No hard dock of the program without an allowed request on its input: when an authority that started
  with the repository's profile and policy has come to hard dock, whatever lines it was given and however its
  output went, one of the lines asked for hard dock while the engine was in soft capture, with evidence at
  most 100 ms old, a docking certification among the session's credentials, the three hard-dock
  checks passed, and a range of at most 40 mm and a closing rate of at most 50 mm/s as the policy
  reads them.\<close>

theorem authority_hard_dock_was_requested:
  assumes "start_engine K H files run default_command directory started_at = Inr s" "repository_policy K s"
    and "serve (handle_command K json) output n lines s = (replies, ending, t)" "ae_state t = HardDock"
  shows "\<exists>earlier reading input now_s readiness later. lines = earlier @ Inr (reading, input) # later
     \<and> json input = Inr (Transition 4 now_s readiness)
     \<and> (let u = snd (run_all (engine_step K) (engine_commands json earlier) s)
        in ae_state u = SoftCapture \<and> has_profile (ae_verified_credentials u) ''idss-compatible-v1'')
     \<and> sint (evidence_age_ms (or_clock now_s (unix_time reading)) (re_observed_at_ms readiness)) \<le> 100
     \<and> check_flag (Some readiness) ''soft_capture_confirmed'' \<and> check_flag (Some readiness) ''latches_ready''
     \<and> check_flag (Some readiness) ''relative_motion_stable''
     \<and> sint (closing_rate_mmps (Some readiness)) \<le> 50 \<and> sint (range_mm (Some readiness)) \<le> 40"
proof -
  let ?lines = "take (if ending = EndOfInput then length replies else Suc (length replies)) lines"
  let ?cmds = "engine_commands json ?lines"
  have t: "t = snd (run_all (engine_step K) ?cmds s)"
    using serve_runs_engine [of lines K json s "output" n] by (simp add: assms(3))
  have "all_decided K s ?cmds" using start_engine_hold [OF assms(1)] by (rule all_decided_run)
  then have "decided K s ?cmds 4" using assms(4) unfolding t by (simp add: all_decided_def Let_def)
  from hard_dock_decided [OF assms(2) this] obtain before at_s readiness after where
      split: "?cmds = before @ RequestTransition 4 at_s readiness # after"
    and facts: "ae_state (snd (run_all (engine_step K) before s)) = SoftCapture"
      "has_profile (ae_verified_credentials (snd (run_all (engine_step K) before s))) ''idss-compatible-v1''"
      "sint (evidence_age_ms at_s (re_observed_at_ms readiness)) \<le> 100"
      "check_flag (Some readiness) ''soft_capture_confirmed''" "check_flag (Some readiness) ''latches_ready''"
      "check_flag (Some readiness) ''relative_motion_stable''"
      "sint (closing_rate_mmps (Some readiness)) \<le> 50" "sint (range_mm (Some readiness)) \<le> 40" by blast
  obtain earlier reading input now_s later where line: "?lines = earlier @ Inr (reading, input) # later"
      "json input = Inr (Transition 4 now_s readiness)" "at_s = or_clock now_s (unix_time reading)"
      "engine_commands json earlier = before"
    using split by (rule request_line)
  have "lines = earlier @ Inr (reading, input) # later
      @ drop (if ending = EndOfInput then length replies else Suc (length replies)) lines"
    using append_take_drop_id [of "if ending = EndOfInput then length replies else Suc (length replies)" lines] line(1) by simp
  then show ?thesis using line(2) facts [unfolded line(3)] unfolding line(4) [symmetric] Let_def by blast
qed

theorem authority_hard_dock_was_requested_witness:
  "\<exists>s lines replies ending t earlier reading input now_s readiness later.
     start_engine conforming configured_host demo_parsers demo_signers ''access-signer'' fresh_directory docking_time = Inr s
     \<and> serve (handle_command conforming demo_json) (\<lambda>_. None) 0 lines s = (replies, ending, t) \<and> ae_state t = HardDock
     \<and> lines = earlier @ Inr (reading, input) # later \<and> demo_json input = Inr (Transition 4 now_s readiness)
     \<and> sint (range_mm (Some readiness)) \<le> 40"
proof -
  obtain s where s: "start_engine conforming configured_host demo_parsers demo_signers ''access-signer'' fresh_directory docking_time
      = Inr s" using demo_starts by blast
  have "repository_policy conforming s" using demo_deployed(4) [OF s] by (simp add: repository_engine_def)
  moreover obtain gs replies t where
    run: "serve (handle_command conforming demo_json) (\<lambda>_. None) 0
         (map (\<lambda>c. Inr (None, demo_render c)) (docking_lines docking_time demo_evidence demo_asked demo_used gs)) s = (replies, EndOfInput, t)"
      "ae_state t = HardDock"
    using demo_docks [OF s] by blast
  ultimately show ?thesis using authority_hard_dock_was_requested [OF s _ run] s run by blast
qed

section \<open>From the authority to the client\<close>

text \<open>C14. What the engine grants, the client verifies: after an approved request, a client whose bundle
  names the station as an authority with a key of the station's identifier, whose trust store holds that
  key and whose cache is empty and reliable accepts the signed grant that was handed out, within the clock
  skew and before the expiry the outcome announced; it reports the grant, the session, the
  rule, the expiry and the policy digest of the engine's decision.\<close>

theorem issued_grant_verifies:
  assumes "hex_ok K" "cbor_ok K" "cose_ok K" "honest_signer K (ae_station s)"
    and "request_transition K q now_s readiness s = (Inr out, t)" "out_approved out"
    and "out_signed_grant_hex out = Some grant_hex" "out_grant_expires_at_s out = Some expires_at_s"
    and "transition_for (ae_state s) q = Some (event_kind, stage)"
    and "json input = Inr (expecting grant_hex (ik_key_id (ae_station s)) (ae_session_id s) stage now_s')"
    and "trust (ik_key_id (ae_station s)) = Some (ik_verifying_key (ae_station s))"
    and "trusts_authority client (ik_key_id (ae_station s)) (ik_key_id (ae_station s))"
    and "cb_client_id client = ik_key_id (ae_chaser s)" "reliable c" "rc_consumed c = {}"
    and "\<bar>sint now_s' - sint now_s\<bar> \<le> 30" "sint now_s' \<le> sint expires_at_s"
  shows "\<exists>v d. verify_command K json client trust clock input c = (Inr v, d)
     \<and> out_grant_id out = Some (vd_grant_id v) \<and> out_session_id out = Some (vd_session_id v)
     \<and> out_rule_id out = Some (vd_rule_id v) \<and> vd_expires_at_s v = expires_at_s
     \<and> vd_authorized_stage v = stage_serde_name stage
     \<and> map_option (\<lambda>d. am_policy_sha256 (ad_policy d)) (out_authorization_decision out)
         = Some (vd_authorization_policy_sha256 v)"
proof -
  have "request_result K s q now_s readiness out t"
    using tripleD_Inr [OF request_triple _ assms(5)] by simp
  then show ?thesis
  proof (cases rule: request_resultE)
    case denied
    with assms(6) show ?thesis by simp
  next
    case (granted event_kind' stage' session_id from_stage to_stage rule decision)
    have "stage' = stage" using granted(1) assms(9) by simp
    with granted(6) have iss: "issued K s stage session_id q now_s rule decision out t" by simp
    show ?thesis
      by (rule issued_accepted [where json = json and trust = trust, OF assms(1-4) iss granted(3) assms(7,8,10-)])
  qed
qed

text \<open>C3. And what the client verifies, the engine granted, each grant once: when no line presented to the
  client carries a forged grant of the station, every entitlement it accepts from the station is the
  answer of an approved request for that stage in that session, made in a state in which profile
  and policy granted it, with the same identifier, expiry, profile, rule and policy; and different
  acceptances belong to different requests, over any commands and lines.\<close>

theorem client_agrees_with_engine:
  assumes "hex_ok K" "cbor_ok K" "cose_ok K"
    and "run_all (engine_step K) cmds start = (results, t)"
    and "run_all (\<lambda>(clock, input). verify_command K json client trust clock input) lines c = (verdicts, d)"
    and "unforged K json trust authority (tokens_of cmds results) lines"
  shows "\<exists>f. inj_on f (accepted_from authority verdicts)
     \<and> (\<forall>i \<in> accepted_from authority verdicts. f i < length cmds
          \<and> agrees K (snd (run_all (engine_step K) (take (f i) cmds) start)) (cmds ! f i) (results ! f i) (projr (verdicts ! i)))"
  using assms by (rule injective_agreement)

section \<open>What a verdict says of the deployment\<close>

text \<open>C18. A verdict identifies the configuration the authority decided by: whatever an authority that started
  from its files was asked, every entitlement of it that a client accepts, no forged grant being
  presented, names the protocol profile of the authority's profile file, and the policy bundle with
  the SHA-256 digest of the policy source that it loaded.\<close>

theorem verdict_names_the_deployment:
  assumes "hex_ok K" "cbor_ok K" "cose_ok K"
    and "start_engine K H files run default_command directory started_at = Inr s"
    and "run_all (engine_step K) cmds s = (results, t)"
    and "run_all (\<lambda>(clock, input). verify_command K json client trust clock input) lines c = (verdicts, d)"
    and "unforged K json trust authority (tokens_of cmds results) lines"
    and "i < length verdicts" "verdicts ! i = Inr v" "vd_authority_id v = authority"
  shows "\<exists>profile policy_bundle source.
     bind_result (fs_read H (env_path H ''ACCESS_PROTOCOL_PROFILE_FILE'' ''config/access/access-protocol-profile.json''))
       (cj_profile files) = Inr profile
     \<and> load_policy_bundle K H (cj_policy files) (env_path H ''ACCESS_AUTHORIZATION_POLICY_BUNDLE_FILE''
         ''config/access/access-authorization-policy-bundle.json'') started_at = Inr (policy_bundle, source)
     \<and> vd_protocol_profile_id v = pp_profile_id profile \<and> vd_protocol_profile_version v = pp_profile_version profile
     \<and> vd_authorization_policy_bundle_id v = ab_bundle_id policy_bundle
     \<and> vd_authorization_policy_bundle_version v = ab_bundle_version policy_bundle
     \<and> vd_authorization_policy_sha256 v = ''sha-256:'' @ hex_encode K (sha256 K (as_bytes source))"
proof -
  have "i \<in> accepted_from authority verdicts" using assms(8-10) by (simp add: accepted_from_def)
  with injective_agreement [OF assms(1-3,5-7)] obtain j where j: "j < length cmds"
      "agrees K (snd (run_all (engine_step K) (take j cmds) s)) (cmds ! j) (results ! j) v"
    using assms(9) by force
  let ?u = "snd (run_all (engine_step K) (take j cmds) s)"
  obtain q now_s readiness out where c: "cmds ! j = RequestTransition q now_s readiness"
      "results ! j = Inr (TransitionReply out)" "out_approved out"
    and names: "out_protocol_profile_id out = Some (vd_protocol_profile_id v)"
      "out_protocol_profile_version out = Some (vd_protocol_profile_version v)"
      "map_option ad_policy (out_authorization_decision out)
        = Some \<lparr>am_bundle_id = vd_authorization_policy_bundle_id v, am_bundle_version = vd_authorization_policy_bundle_version v,
                am_policy_sha256 = vd_authorization_policy_sha256 v\<rparr>"
    using j(2) unfolding agrees_def by blast
  have "engine_step K (cmds ! j) ?u = (results ! j, snd (engine_step K (cmds ! j) ?u))"
    using run_all_nth [OF j(1), of "engine_step K" s] assms(5) by (simp add: prod_eq_iff)
  note decided = approved_outcome_names [OF this [unfolded c(1,2)] c(3)]
  have "ae_config ?u = ae_config s" using configuration.inv_run [of s "setup_of s" K] by (simp add: setup_of_def)
  moreover obtain policy_bundle source where files:
      "bind_result (fs_read H (env_path H ''ACCESS_PROTOCOL_PROFILE_FILE'' ''config/access/access-protocol-profile.json''))
         (cj_profile files) = Inr (ec_protocol_profile (ae_config s))"
      "load_policy_bundle K H (cj_policy files) (env_path H ''ACCESS_AUTHORIZATION_POLICY_BUNDLE_FILE''
         ''config/access/access-authorization-policy-bundle.json'') started_at = Inr (policy_bundle, source)"
      "from_source K (ab_bundle_id policy_bundle) (ab_bundle_version policy_bundle) source = Inr (ec_policy_engine (ae_config s))"
    by (rule start_engine_configuration [OF assms(4)])
  moreover have "pe_metadata (ec_policy_engine (ae_config s)) = \<lparr>am_bundle_id = ab_bundle_id policy_bundle,
      am_bundle_version = ab_bundle_version policy_bundle,
      am_policy_sha256 = ''sha-256:'' @ hex_encode K (sha256 K (as_bytes source))\<rparr>"
    using files(3) by (rule from_source_metadata)
  ultimately show ?thesis using decided names by (intro exI [of _ "ec_protocol_profile (ae_config s)"] exI [of _ policy_bundle] exI [of _ source]) simp
qed

section \<open>A demonstration delivery\<close>

definition demo_client :: client_trust_bundle where
  "demo_client =
     \<lparr>cb_bundle_id = ''odyssey-7-client-trust'', cb_version = 1, cb_client_id = ''odyssey-7'',
      cb_valid_from = ''2026-01-01T00:00:00Z'', cb_valid_until = ''2027-01-01T00:00:00Z'',
      cb_trusted_authorities = [\<lparr>ta_authority_id = ''waystation-1'', ta_signing_keys =
        [\<lparr>sk_key_id = ''waystation-1'', sk_algorithm = ''Ed25519'',
          sk_public_key_hex = hex_enc (replicate 32 2)\<rparr>]\<rparr>]\<rparr>"

lemma demo_parties:
  "ik_key_id (ae_station demo_engine) = ''waystation-1''" "ik_key_id (ae_chaser demo_engine) = ''odyssey-7''"
  "ae_station demo_engine = demo_identity ''waystation-1'' 2"
  by (simp_all add: demo_engine_def new_engine_def demo_works)

text \<open>The demonstration client asks for the grant at the time it was issued, and accepts it.\<close>

abbreviation demo_asking :: "string \<Rightarrow> string option \<Rightarrow> string \<Rightarrow> string + verify_request" where
  "demo_asking token session_id \<equiv> \<lambda>_. Inr (expecting token ''waystation-1'' session_id StageApproach docking_time)"

abbreviation demo_verify ::
  "string \<Rightarrow> string option \<Rightarrow> i64 \<times> string \<Rightarrow> (journal_file replay_cache, string, verified_entitlement) op" where
  "demo_verify token session_id \<equiv>
     \<lambda>(clock, input). verify_command conforming (demo_asking token session_id) demo_client (demo_trust ''waystation-1'' 2) clock input"

definition demo_station :: "('p, 'b) access_engine \<Rightarrow> bool" where
  "demo_station s \<longleftrightarrow> honest_signer conforming (ae_station s) \<and> ik_key_id (ae_station s) = ''waystation-1''
     \<and> ik_verifying_key (ae_station s) = ed25519_public conforming (replicate 32 2) \<and> ik_key_id (ae_chaser s) = ''odyssey-7''"

lemma demo_station_engine: "demo_station demo_engine"
  using demo_works(4,5,6) demo_works(1-3)
  by (simp add: demo_station_def demo_engine_def new_engine_def working_signer_def demo_identity_def from_seed_def)

lemma demo_client_trusts:
  "trusts_authority demo_client ''waystation-1'' ''waystation-1''" "cb_client_id demo_client = ''odyssey-7''"
  "reliable replay_default" "rc_consumed replay_default = {}"
  "demo_trust ''waystation-1'' 2 ''waystation-1'' = Some (ed25519_public conforming (replicate 32 2))"
  using demo_works(5) unfolding trusts_def
  by (simp_all add: demo_client_def trusts_authority_def replay_default_def reliable_def demo_identity_def from_seed_def
      demo_trust_def trust_store_insert_def)

lemma demo_delivery:
  assumes "demo_station s" "issued conforming s StageApproach session_id 1 docking_time rule decision out t"
    and "ae_session_id s = Some session_id" "out_approved out"
    and "out_signed_grant_hex out = Some token" "out_grant_expires_at_s out = Some expires_at_s" "sint docking_time \<le> sint expires_at_s"
  obtains v d where "run_all (demo_verify token (ae_session_id s)) [(0, [])] replay_default = ([Inr v], d)"
    "vd_authority_id v = ''waystation-1''"
    "unforged conforming (demo_asking token (ae_session_id s)) (demo_trust ''waystation-1'' 2) ''waystation-1''
       (tokens_of [c0, RequestTransition 1 docking_time demo_readiness] [r0, Inr (TransitionReply out)]) [(0, [])]"
proof -
  let ?json = "demo_asking token (ae_session_id s)"
  have "\<exists>v d. verify_command conforming ?json demo_client (demo_trust ''waystation-1'' 2) 0 [] (replay_default :: journal_file replay_cache)
      = (Inr v, d)"
    using issued_accepted [where json = ?json and trust = "demo_trust ''waystation-1'' 2" and client = demo_client
        and input = "[]" and clock = 0 and c = "replay_default :: journal_file replay_cache",
        OF conforming_hex conforming_cbor conforming_cose _ assms(2,3,5,6), where now_s' = docking_time]
      assms(1,7) by (auto simp: demo_station_def demo_client_trusts)
  then obtain v and d :: "journal_file replay_cache" where
      v: "verify_command conforming ?json demo_client (demo_trust ''waystation-1'' 2) 0 [] replay_default = (Inr v, d)" by blast
  have "vd_authority_id v = ''waystation-1''"
    using v unfolding verify_command_Inr check_grant_Inr by (auto simp: presented_entitlement_def expecting_def)
  moreover have "unforged conforming ?json (demo_trust ''waystation-1'' 2) ''waystation-1''
      (tokens_of [c0, RequestTransition 1 docking_time demo_readiness] [r0, Inr (TransitionReply out)]) [(0, [])]"
    using assms(4,5)
    by (auto simp: unforged_def tokens_of_def map_filter_def presented_entitlement_def expecting_def token_payload_def
        verify_signed_payload_Inr split: sum.splits option.splits)
  ultimately show thesis using that v by simp
qed

theorem issued_grant_verifies_witness:
  "\<exists>s out t grant_hex v d.
     snd (engine_step conforming (EstablishSession docking_time Nominal) demo_engine) = s
     \<and> request_transition conforming 1 docking_time demo_readiness s = (Inr out, t)
     \<and> out_signed_grant_hex out = Some grant_hex
     \<and> verify_command conforming (demo_asking grant_hex (ae_session_id s))
         demo_client (demo_trust ''waystation-1'' 2) 0 [] replay_default = (Inr v, (d :: journal_file replay_cache))
     \<and> out_grant_id out = Some (vd_grant_id v) \<and> vd_verified v"
proof -
  have "ae_random_calls demo_engine + 10 \<le> 256" by (simp add: demo_calls)
  from first_grant [OF demo_honest demo_fresh demo_fresh_caches this demo_repository demo_period]
  obtain out0 s out t token expires_at_s event_kind where
      s: "engine_step conforming (EstablishSession docking_time Nominal) demo_engine = (Inr (SessionReply out0), s)"
    and req: "request_transition conforming 1 docking_time demo_readiness s = (Inr out, t)" "out_approved out"
    and token: "out_signed_grant_hex out = Some token" "out_grant_expires_at_s out = Some expires_at_s"
      "sint docking_time \<le> sint expires_at_s"
    and tr: "transition_for (ae_state s) 1 = Some (event_kind, StageApproach)"
    and parties: "ae_station s = ae_station demo_engine" "ae_chaser s = ae_chaser demo_engine" .
  obtain v and d :: "journal_file replay_cache" where
    v: "verify_command conforming (demo_asking token (ae_session_id s)) demo_client (demo_trust ''waystation-1'' 2) 0 [] replay_default
        = (Inr v, d)" "out_grant_id out = Some (vd_grant_id v)"
    using issued_grant_verifies [where json = "demo_asking token (ae_session_id s)" and trust = "demo_trust ''waystation-1'' 2"
        and client = demo_client and input = "[]" and clock = 0 and c = replay_default,
        OF conforming_hex conforming_cbor conforming_cose _ req token(1,2) tr, where now_s' = docking_time]
      token(3) demo_station_engine by (auto simp: parties demo_station_def demo_client_trusts)
  moreover have "vd_verified v" using v(1) unfolding verify_command_Inr check_grant_Inr by auto
  ultimately show ?thesis using s req(1) token(1) by (metis snd_conv)
qed

theorem client_agrees_with_engine_witness:
  "\<exists>cmds results t token session_id verdicts d j.
     run_all (engine_step conforming) cmds demo_engine = (results, t)
     \<and> run_all (demo_verify token session_id) [(0, [])] replay_default = (verdicts, d)
     \<and> accepted_from ''waystation-1'' verdicts = {0} \<and> j < length cmds
     \<and> agrees conforming (snd (run_all (engine_step conforming) (take j cmds) demo_engine)) (cmds ! j) (results ! j)
         (projr (verdicts ! 0))"
proof -
  have "ae_random_calls demo_engine + 10 \<le> 256" by (simp add: demo_calls)
  from first_grant [OF demo_honest demo_fresh demo_fresh_caches this demo_repository demo_period]
  obtain out0 s out t token expires_at_s session_id rule decision where
      s: "engine_step conforming (EstablishSession docking_time Nominal) demo_engine = (Inr (SessionReply out0), s)"
    and req: "request_transition conforming 1 docking_time demo_readiness s = (Inr out, t)" "out_approved out"
    and iss: "issued conforming s StageApproach session_id 1 docking_time rule decision out t" "ae_session_id s = Some session_id"
    and token: "out_signed_grant_hex out = Some token" "out_grant_expires_at_s out = Some expires_at_s"
      "sint docking_time \<le> sint expires_at_s"
    and parties: "ae_station s = ae_station demo_engine" "ae_chaser s = ae_chaser demo_engine" .
  let ?cmds = "[EstablishSession docking_time Nominal, RequestTransition 1 docking_time demo_readiness]"
  let ?results = "[Inr (SessionReply out0), Inr (TransitionReply out)] :: (session_error + engine_reply) list"
  have run: "run_all (engine_step conforming) ?cmds demo_engine = (?results, t)"
    using s req(1) by (simp add: and_then_def ret_def)
  have "demo_station s" using demo_station_engine by (simp add: demo_station_def parties)
  from demo_delivery [OF this iss req(2) token] obtain v d where
      client: "run_all (demo_verify token (ae_session_id s)) [(0, [])] replay_default = ([Inr v], d)"
    and authority: "vd_authority_id v = ''waystation-1''"
    and unforged: "unforged conforming (demo_asking token (ae_session_id s)) (demo_trust ''waystation-1'' 2) ''waystation-1''
        (tokens_of ?cmds ?results) [(0, [])]" by metis
  have accepted: "accepted_from ''waystation-1'' [Inr v] = {0}" using authority by (auto simp: accepted_from_def)
  from client_agrees_with_engine [OF conforming_hex conforming_cbor conforming_cose run client unforged] accepted
  obtain f where "f 0 < length ?cmds" "agrees conforming (snd (run_all (engine_step conforming) (take (f 0) ?cmds) demo_engine))
      (?cmds ! f 0) (?results ! f 0) v" by auto
  then show ?thesis
    by (intro exI [of _ ?cmds] exI [of _ ?results] exI [of _ t] exI [of _ token] exI [of _ "ae_session_id s"]
          exI [of _ "[Inr v]"] exI [of _ d] exI [of _ "f 0"])
       (simp only: run client accepted, simp)
qed

theorem verdict_names_the_deployment_witness:
  "\<exists>s cmds results t token session_id v d.
     start_engine conforming configured_host demo_parsers demo_signers ''access-signer'' fresh_directory docking_time = Inr s
     \<and> run_all (engine_step conforming) cmds s = (results, t)
     \<and> run_all (demo_verify token session_id) [(0, [])] replay_default = ([Inr v], d)
     \<and> vd_protocol_profile_id v = ''access-docking-protocol-v1''
     \<and> vd_authorization_policy_sha256 v = ''sha-256:'' @ hex_enc (sha256 conforming (as_bytes ''commercial-docking.cedar''))"
proof -
  obtain s0 where s0: "start_engine conforming configured_host demo_parsers demo_signers ''access-signer'' fresh_directory docking_time
      = Inr s0" using demo_starts by blast
  note deployed = demo_deployed [OF s0]
  have "ae_random_calls s0 + 10 \<le> 25" by (simp add: deployed)
  from first_grant [OF deployed(1,6,2) this deployed(4,5)]
  obtain out0 s out t token expires_at_s session_id rule decision where
      s: "engine_step conforming (EstablishSession docking_time Nominal) s0 = (Inr (SessionReply out0), s)"
    and req: "request_transition conforming 1 docking_time demo_readiness s = (Inr out, t)" "out_approved out"
    and iss: "issued conforming s StageApproach session_id 1 docking_time rule decision out t" "ae_session_id s = Some session_id"
    and token: "out_signed_grant_hex out = Some token" "out_grant_expires_at_s out = Some expires_at_s"
      "sint docking_time \<le> sint expires_at_s"
    and parties: "ae_station s = ae_station s0" "ae_chaser s = ae_chaser s0" .
  let ?cmds = "[EstablishSession docking_time Nominal, RequestTransition 1 docking_time demo_readiness]"
  let ?results = "[Inr (SessionReply out0), Inr (TransitionReply out)] :: (session_error + engine_reply) list"
  have run: "run_all (engine_step conforming) ?cmds s0 = (?results, t)"
    using s req(1) by (simp add: and_then_def ret_def)
  have "demo_station s" using deployed by (simp add: demo_station_def parties honest_parties_def working_signer_def)
  from demo_delivery [OF this iss req(2) token] obtain v d where
      client: "run_all (demo_verify token (ae_session_id s)) [(0, [])] replay_default = ([Inr v], d)"
    and authority: "vd_authority_id v = ''waystation-1''"
    and unforged: "unforged conforming (demo_asking token (ae_session_id s)) (demo_trust ''waystation-1'' 2) ''waystation-1''
        (tokens_of ?cmds ?results) [(0, [])]" by metis
  from verdict_names_the_deployment [OF conforming_hex conforming_cbor conforming_cose s0 run client unforged, of 0 v] authority
  have "vd_protocol_profile_id v = ''access-docking-protocol-v1''
     \<and> vd_authorization_policy_sha256 v = ''sha-256:'' @ hex_enc (sha256 conforming (as_bytes ''commercial-docking.cedar''))"
    by (auto simp: configured_host_def demo_parsers_def repository_profile_def load_policy_bundle_def split: if_splits)
  then show ?thesis using s0 run client by blast
qed

end
